(* ===== verification/Prelude.thy ===== *)
theory Prelude
  imports Complex_Main "HOL-Library.AList" "HOL-Library.Word" "HOL-Library.Multiset"
begin

section \<open>Shared vocabulary of the development\<close>

text \<open>
  What the component theories share: names for the Go types, the sequencing of state
  updates, Go's maps as association lists, decimal formatting, the Fisher-Yates shuffle of
  \<open>math/rand\<close>, and the collections of simplification rules the component proofs use.

  A Go statement that mutates the engine is a function from states to states, and a block
  \<open>s1; s2; s3\<close> is \<open>block [s1, s2, s3]\<close>, which runs its statements from left to right. A
  conditional statement without an else branch is \<open>cond\<close>; a \<open>for range\<close> loop over a
  slice is \<open>fold\<close>.
\<close>

type_synonym connID = string
type_synonym playerID = string
type_synonym u64 = "64 word"

named_theorems inv_intros \<open>closure rules of an invariant under the operations\<close>

subsection \<open>Sequencing\<close>

definition block :: "('s \<Rightarrow> 's) list \<Rightarrow> 's \<Rightarrow> 's" where
  "block fs s = fold (\<lambda>f. f) fs s"

lemma block_Nil [simp]: "block [] s = s"
  by (simp add: block_def)

lemma block_Cons [simp]: "block (f # fs) s = block fs (f s)"
  by (simp add: block_def)

definition cond :: "('s \<Rightarrow> bool) \<Rightarrow> ('s \<Rightarrow> 's) \<Rightarrow> 's \<Rightarrow> 's" where
  "cond b f s = (if b s then f s else s)"

lemma cond_True [simp]: "b s \<Longrightarrow> cond b f s = f s"
  by (simp add: cond_def)

lemma cond_False [simp]: "\<not> b s \<Longrightarrow> cond b f s = s"
  by (simp add: cond_def)

lemma fold_invariant_gen:
  assumes "\<And>x s. x \<in> set xs \<Longrightarrow> P s \<Longrightarrow> P (f x s)" and "P s"
  shows "P (fold f xs s)"
  using assms by (induction xs arbitrary: s) auto

lemma fold_frame:
  assumes "\<And>x s. x \<in> set xs \<Longrightarrow> g (f x s) = g s"
  shows "g (fold f xs s) = g s"
  using assms by (induction xs arbitrary: s) auto

subsection \<open>Go maps as association lists\<close>

text \<open>
  A Go map is an association list with distinct keys. The list order stands for one
  iteration order; Go leaves that order open. A read of an absent key gives the zero
  value, as Go's does. A \<open>map[string]bool\<close> used as a set is the list of its members.
\<close>

definition get_or :: "'v \<Rightarrow> ('k \<times> 'v) list \<Rightarrow> 'k \<Rightarrow> 'v" where
  "get_or z m k = (case map_of m k of None \<Rightarrow> z | Some v \<Rightarrow> v)"

definition set_add :: "'a \<Rightarrow> 'a list \<Rightarrow> 'a list" where
  "set_add x xs = (if x \<in> set xs then xs else xs @ [x])"

lemma set_set_add [simp]: "set (set_add x xs) = insert x (set xs)"
  by (auto simp: set_add_def)

lemma distinct_set_add [simp]: "distinct (set_add x xs) = distinct xs"
  by (auto simp: set_add_def)

lemma map_of_update [simp]: "map_of (AList.update k v m) = (map_of m)(k \<mapsto> v)"
  by (rule update_conv')

lemma map_of_delete [simp]: "map_of (AList.delete k m) = (map_of m)(k := None)"
  by (rule delete_conv')

lemma get_or_update [simp]:
  "get_or z (AList.update k v m) k' = (if k' = k then v else get_or z m k')"
  by (simp add: get_or_def)

lemma get_or_Nil [simp]: "get_or z [] k = z"
  by (simp add: get_or_def)

lemma mem_update: "x \<in> set (AList.update k v m) \<Longrightarrow> x = (k, v) \<or> x \<in> set m"
  by (induction m) (auto split: if_splits)

lemma mem_delete: "x \<in> set (AList.delete k m) \<Longrightarrow> x \<in> set m"
  by (auto simp: AList.delete_eq)

lemma get_or_delete [simp]: "get_or z (AList.delete k m) k' = (if k' = k then z else get_or z m k')"
  by (simp add: get_or_def)

subsection \<open>Decimal formatting (the \<open>%d\<close> of fmt.Sprintf)\<close>

fun digits :: "nat \<Rightarrow> string" where
  "digits n = (if n < 10 then [char_of (48 + n)] else digits (n div 10) @ [char_of (48 + n mod 10)])"

declare digits.simps [simp del]

definition itoa :: "int \<Rightarrow> string" where
  "itoa i = (if i < 0 then ''-'' @ digits (nat (- i)) else digits (nat i))"

subsection \<open>Clamping\<close>

definition clampInt :: "int \<Rightarrow> int \<Rightarrow> int \<Rightarrow> int" where
  "clampInt v lo hi = (if v < lo then lo else if hi < v then hi else v)"

lemma clampInt_bounds: "lo \<le> hi \<Longrightarrow> lo \<le> clampInt v lo hi \<and> clampInt v lo hi \<le> hi"
  by (simp add: clampInt_def)

lemma clampInt_id: "lo \<le> v \<Longrightarrow> v \<le> hi \<Longrightarrow> clampInt v lo hi = v"
  by (simp add: clampInt_def)

subsection \<open>The shuffle of math/rand\<close>

text \<open>
  \<open>rand.Shuffle(n, swap)\<close> runs \<open>for i := n-1; i > 0; i--\<close>, draws \<open>j\<close> in \<open>[0, i]\<close> and swaps
  the two positions. \<open>draw k\<close> is the k-th raw value of the source; \<open>Intn(m)\<close> is
  any value below \<open>m\<close>, here the raw value modulo \<open>m\<close>.
\<close>

definition swap_at :: "nat \<Rightarrow> nat \<Rightarrow> 'a list \<Rightarrow> 'a list" where
  "swap_at i j xs = xs[i := xs ! j, j := xs ! i]"

fun shuffle_from :: "(nat \<Rightarrow> nat) \<Rightarrow> nat \<Rightarrow> nat \<Rightarrow> 'a list \<Rightarrow> 'a list" where
  "shuffle_from draw k 0 xs = xs"
| "shuffle_from draw k (Suc i) xs =
     shuffle_from draw (Suc k) i (swap_at (Suc i) (draw k mod Suc (Suc i)) xs)"

definition shuffle :: "(nat \<Rightarrow> nat) \<Rightarrow> nat \<Rightarrow> 'a list \<Rightarrow> 'a list" where
  "shuffle draw k xs = shuffle_from draw k (length xs - 1) xs"

lemma mset_swap_at: "i < length xs \<Longrightarrow> j < length xs \<Longrightarrow> mset (swap_at i j xs) = mset xs"
  by (simp add: swap_at_def mset_swap)

lemma length_swap_at [simp]: "length (swap_at i j xs) = length xs"
  by (simp add: swap_at_def)

lemma mset_shuffle_from:
  "i < length xs \<or> xs = [] \<and> i = 0 \<Longrightarrow> mset (shuffle_from draw k i xs) = mset xs"
proof (induction draw k i xs rule: shuffle_from.induct)
  case (1 draw k xs)
  then show ?case by simp
next
  case (2 draw k i xs)
  have j: "draw k mod Suc (Suc i) < length xs"
    using "2.prems" mod_less_divisor [of "Suc (Suc i)" "draw k"] by (auto simp del: mod_less_divisor)
  with "2" show ?case by (auto simp: mset_swap_at)
qed

lemma mset_shuffle [simp]: "mset (shuffle draw k xs) = mset xs"
  unfolding shuffle_def by (rule mset_shuffle_from) (cases xs, auto)

lemma set_shuffle [simp]: "set (shuffle draw k xs) = set xs"
  by (metis mset_shuffle set_mset_mset)

lemma length_shuffle [simp]: "length (shuffle draw k xs) = length xs"
  by (metis mset_shuffle size_mset)

lemma distinct_shuffle [simp]: "distinct (shuffle draw k xs) = distinct xs"
  by (metis mset_shuffle mset_eq_imp_distinct_iff)

lemma shuffle_Nil [simp]: "shuffle draw k [] = []"
  by (simp add: shuffle_def)

end
