(* ===== verification/Float64.thy ===== *)
theory Float64
  imports Prelude "HOL-Library.Log_Nat"
begin

section \<open>Go's float64 as correctly rounded rationals\<close>

text \<open>
  The scoring code computes in \<open>float64\<close>. A float64 value is modelled by the rational it
  denotes, and each floating-point operation by the exact operation followed by \<open>f64\<close>, the
  rounding to 53 significant bits, ties to even, that IEEE 754 and the Go specification
  prescribe. Overflow, subnormals, NaN and signed zero are not modelled: the scoring values
  lie between \<open>2 ^ -60\<close> and \<open>2 ^ 63\<close>. A fused multiply-add, which the Go specification
  permits on some targets, is not modelled either.

  The client lemmas use two laws only, stated as the locale \<open>float_rounding\<close>: rounding is
  monotone, and integers of at most 53 bits are representable. \<open>f64\<close> interprets it.
\<close>

definition expo :: "rat \<Rightarrow> int" where
  "expo x = (case quotient_of x of (p, q) \<Rightarrow>
     (let e = bitlen p - bitlen q in if (2::rat) powi e \<le> x then e else e - 1))"

definition rhe :: "rat \<Rightarrow> int" where
  "rhe y = (let f = \<lfloor>y\<rfloor>; d = y - of_int f in
     if d < 1/2 then f else if 1/2 < d then f + 1 else if even f then f else f + 1)"

definition rnd_pos :: "rat \<Rightarrow> rat" where
  "rnd_pos x = (let u = 2 powi (expo x - 52) in u * of_int (rhe (x / u)))"

definition f64 :: "rat \<Rightarrow> rat" where
  "f64 x = (if x = 0 then 0 else if 0 < x then rnd_pos x else - rnd_pos (- x))"

subsection \<open>The exponent\<close>

lemma powi_pos [simp]: "(0::rat) < 2 powi e"
  by (simp add: zero_less_power_int)

lemma bitlen_powi:
  assumes "0 < p"
  shows "(2::rat) powi (bitlen p - 1) \<le> of_int p" and "of_int p < (2::rat) powi bitlen p"
proof -
  have b: "1 \<le> bitlen p" using assms by (simp add: bitlen_alt_def)
  have "2 ^ nat (bitlen p - 1) \<le> p \<and> p < 2 ^ nat (bitlen p)"
    using bitlen_bounds [OF assms] by simp
  then have "of_int (2 ^ nat (bitlen p - 1)) \<le> (of_int p :: rat)"
    and "(of_int p :: rat) < of_int (2 ^ nat (bitlen p))"
    by (simp_all only: of_int_le_iff of_int_less_iff)
  with b show "(2::rat) powi (bitlen p - 1) \<le> of_int p" and "of_int p < (2::rat) powi bitlen p"
    by (simp_all add: power_int_def)
qed

lemma expo_bounds:
  assumes "0 < x"
  shows "2 powi expo x \<le> x" and "x < 2 powi (expo x + 1)"
proof -
  obtain p q where pq: "quotient_of x = (p, q)" by force
  have q: "0 < q" using pq by (rule quotient_of_denom_pos)
  have x: "x = of_int p / of_int q" using pq by (rule quotient_of_div)
  have p: "0 < p" using assms q by (simp add: x zero_less_divide_iff)
  have "x * 2 powi (bitlen q - 1) \<le> x * of_int q" and "x * of_int q < x * 2 powi bitlen q"
    using assms bitlen_powi [OF q] by simp_all
  moreover have "x * of_int q = of_int p" using q by (simp add: x)
  ultimately have hi: "x * 2 powi (bitlen q - 1) < 2 powi bitlen p"
    and lo: "2 powi (bitlen p - 1) < x * 2 powi bitlen q"
    using bitlen_powi [OF p] by linarith+
  have "2 powi (bitlen p - bitlen q + 1) = 2 powi bitlen p / (2 powi (bitlen q - 1) :: rat)"
    and "2 powi (bitlen p - bitlen q - 1) = 2 powi (bitlen p - 1) / (2 powi bitlen q :: rat)"
    by (simp_all flip: power_int_diff add: algebra_simps)
  with hi lo have "x < 2 powi (bitlen p - bitlen q + 1)"
    and "2 powi (bitlen p - bitlen q - 1) < x"
    by (simp_all add: pos_less_divide_eq pos_divide_less_eq)
  then show "2 powi expo x \<le> x" and "x < 2 powi (expo x + 1)"
    by (auto simp: expo_def pq Let_def)
qed

lemma powi_mono_iff: "(2::rat) powi a \<le> 2 powi b \<longleftrightarrow> a \<le> b"
  using power_int_strict_increasing [of a b "2::rat"] power_int_strict_increasing [of b a "2::rat"]
  by (cases a b rule: linorder_cases) auto

lemma expo_mono:
  assumes "0 < x" and "x \<le> y"
  shows "expo x \<le> expo y"
proof -
  have "(2::rat) powi expo x < 2 powi (expo y + 1)"
    using expo_bounds(1) [of x] expo_bounds(2) [of y] assms by linarith
  then have "expo x < expo y + 1"
    by (meson powi_mono_iff linorder_not_le)
  then show ?thesis by simp
qed

subsection \<open>Rounding to integers, ties to even\<close>

lemma rhe_mono: "y \<le> z \<Longrightarrow> rhe y \<le> rhe z"
proof -
  assume yz: "y \<le> z"
  then have f: "\<lfloor>y\<rfloor> \<le> \<lfloor>z\<rfloor>" by (rule floor_mono)
  show ?thesis
  proof (cases "\<lfloor>y\<rfloor> = \<lfloor>z\<rfloor>")
    case True
    with yz show ?thesis by (auto simp: rhe_def Let_def)
  next
    case False
    with f show ?thesis by (auto simp: rhe_def Let_def)
  qed
qed

lemma rhe_of_int [simp]: "rhe (of_int n) = n"
  by (simp add: rhe_def)

lemma rhe_range: "of_int a \<le> y \<Longrightarrow> y \<le> of_int b \<Longrightarrow> a \<le> rhe y \<and> rhe y \<le> b"
  using rhe_mono [of "of_int a" y] rhe_mono [of y "of_int b"] by simp

subsection \<open>Rounding to 53 bits\<close>

lemma mantissa_range:
  assumes "0 < x"
  shows "2 ^ 52 \<le> rhe (x / 2 powi (expo x - 52)) \<and> rhe (x / 2 powi (expo x - 52)) \<le> 2 ^ 53"
proof (rule rhe_range)
  have c: "2 powi expo x = 2 powi (expo x - 52) * (2 ^ 52 :: rat)"
    by (simp add: power_int_diff)
  have d: "2 powi (expo x + 1) = 2 powi (expo x - 52) * (2 ^ 53 :: rat)"
    by (simp add: power_int_diff power_int_add)
  show "of_int (2 ^ 52) \<le> x / 2 powi (expo x - 52)"
    using expo_bounds(1) [OF assms] unfolding c by (simp add: field_simps)
  show "x / 2 powi (expo x - 52) \<le> of_int (2 ^ 53)"
    using expo_bounds(2) [OF assms] unfolding d by (simp add: field_simps)
qed

lemma rnd_pos_range:
  assumes "0 < x"
  shows "2 powi expo x \<le> rnd_pos x" and "rnd_pos x \<le> 2 powi (expo x + 1)"
proof -
  let ?u = "2 powi (expo x - 52) :: rat" and ?m = "rhe (x / 2 powi (expo x - 52))"
  have "of_int (2 ^ 52) \<le> (of_int ?m :: rat)" and "(of_int ?m :: rat) \<le> of_int (2 ^ 53)"
    using mantissa_range [OF assms] by (simp_all only: of_int_le_iff)
  then have "(2 ^ 52 :: rat) \<le> of_int ?m" and "of_int ?m \<le> (2 ^ 53 :: rat)"
    by (simp_all only: of_int_power of_int_numeral)
  then have "?u * 2 ^ 52 \<le> ?u * of_int ?m" and "?u * of_int ?m \<le> ?u * 2 ^ 53"
    by (auto intro!: mult_left_mono simp: less_imp_le)
  moreover have "?u * 2 ^ 52 = 2 powi expo x" and "?u * 2 ^ 53 = 2 powi (expo x + 1)"
    by (simp_all add: power_int_diff power_int_add)
  ultimately show "2 powi expo x \<le> rnd_pos x" and "rnd_pos x \<le> 2 powi (expo x + 1)"
    by (simp_all only: rnd_pos_def Let_def)
qed

lemma rnd_pos_mono:
  assumes "0 < x" and "x \<le> y"
  shows "rnd_pos x \<le> rnd_pos y"
proof (cases "expo x = expo y")
  case True
  have "x / 2 powi (expo x - 52) \<le> y / 2 powi (expo x - 52)"
    using assms by (simp add: divide_right_mono)
  then have "rhe (x / 2 powi (expo x - 52)) \<le> rhe (y / 2 powi (expo x - 52))"
    by (rule rhe_mono)
  with True show ?thesis
    by (simp add: rnd_pos_def Let_def mult_left_mono)
next
  case False
  with expo_mono [OF assms] have "expo x + 1 \<le> expo y" by simp
  then have "(2::rat) powi (expo x + 1) \<le> 2 powi expo y" by (simp only: powi_mono_iff)
  moreover have "rnd_pos x \<le> 2 powi (expo x + 1)" "2 powi expo y \<le> rnd_pos y"
    using assms by (auto intro: rnd_pos_range)
  ultimately show ?thesis by linarith
qed

lemma rnd_pos_ge_0: "0 < x \<Longrightarrow> 0 \<le> rnd_pos x"
  using rnd_pos_range(1) [of x] powi_pos [of "expo x"] by linarith

lemma f64_mono: "x \<le> y \<Longrightarrow> f64 x \<le> f64 y"
  using rnd_pos_mono [of x y] rnd_pos_mono [of "- y" "- x"] rnd_pos_ge_0 [of y] rnd_pos_ge_0 [of "- x"]
  by (auto simp: f64_def)

lemma rnd_pos_of_int:
  assumes "0 < n" and "n \<le> 2 ^ 53"
  shows "rnd_pos (of_int n) = of_int n"
proof -
  let ?x = "of_int n :: rat"
  have x: "0 < ?x" using assms by simp
  have "n < 2 ^ 54" using assms by (simp add: order_le_less_trans [of n "2 ^ 53"])
  then have "?x < of_int (2 ^ 54)" by (simp only: of_int_less_iff)
  then have "?x < 2 powi 54" by (simp add: power_int_def)
  then have "\<not> (2::rat) powi 54 \<le> 2 powi expo ?x" using expo_bounds(1) [OF x] by linarith
  then have e: "expo ?x \<le> 53" by (simp only: powi_mono_iff)
  show ?thesis
  proof (cases "expo ?x = 53")
    case True
    then have "of_int (2 ^ 53) \<le> ?x" using expo_bounds(1) [OF x] by (simp add: power_int_def)
    then have n: "n = 2 ^ 53" using assms by (simp only: of_int_le_iff)
    have "?x / 2 = of_int (2 ^ 52)" by (simp add: n)
    then have "rhe (?x / 2) = 2 ^ 52" by (simp only: rhe_of_int)
    with True show ?thesis by (simp add: rnd_pos_def n)
  next
    case False
    with e have "0 \<le> 52 - expo ?x" by simp
    then obtain k where "52 - expo ?x = int k" by (rule nonneg_int_cases)
    then have k: "expo ?x - 52 = - int k" by simp
    have "?x / 2 powi (- int k) = of_int (n * 2 ^ k)"
      by (simp add: power_int_minus field_simps)
    then have "rhe (?x / 2 powi (- int k)) = n * 2 ^ k" by (simp only: rhe_of_int)
    then show ?thesis by (simp add: rnd_pos_def k power_int_minus field_simps)
  qed
qed

lemma f64_of_int: "\<bar>n\<bar> \<le> 2 ^ 53 \<Longrightarrow> f64 (of_int n) = of_int n"
  using rnd_pos_of_int [of n] rnd_pos_of_int [of "- n"] by (auto simp: f64_def)

subsection \<open>The interface the scoring lemmas rest on\<close>

locale float_rounding =
  fixes rnd :: "rat \<Rightarrow> rat"
  assumes rnd_mono: "x \<le> y \<Longrightarrow> rnd x \<le> rnd y"
    and rnd_of_int: "\<bar>n\<bar> \<le> 2 ^ 53 \<Longrightarrow> rnd (of_int n) = of_int n"
begin

lemma rnd_between:
  assumes "\<bar>a\<bar> \<le> 2 ^ 53" and "\<bar>b\<bar> \<le> 2 ^ 53" and "of_int a \<le> x" and "x \<le> of_int b"
  shows "of_int a \<le> rnd x" and "rnd x \<le> of_int b"
  using rnd_mono [OF assms(3)] rnd_mono [OF assms(4)] rnd_of_int [OF assms(1)] rnd_of_int [OF assms(2)]
  by simp_all

lemma rnd_unit: "0 \<le> x \<Longrightarrow> x \<le> 1 \<Longrightarrow> 0 \<le> rnd x \<and> rnd x \<le> 1"
  using rnd_between [of 0 1 x] by simp

end

interpretation f64: float_rounding f64
  by unfold_locales (simp_all add: f64_mono f64_of_int)

end
