(* ===== verification/Scoring.thy ===== *)
theory Scoring
  imports Float64
begin

section \<open>Scoring: server/internal/game/scoring.go and the pool curve of engine.go\<close>

text \<open>
  The point curve of a round: the row's ceiling for five seconds, then a linear decay to
  the base value at sixty seconds, computed in float64 and floored. Go's \<open>int\<close> values are
  \<open>int\<close>; the float operations are those of \<open>Float64\<close>, one rounding per operation.

  The engine holds a second copy of the curve (\<open>currentPointsFromPool\<close>) with an explicit
  ceiling and floor. \<open>decay_curve\<close> is the curve over any rounding; its bounds and its
  monotonicity are proved once in the locale \<open>float_rounding\<close> and both copies inherit them.
\<close>

definition BaseValue :: int where "BaseValue = 100"
definition DecayHoldSeconds :: rat where "DecayHoldSeconds = 5"
definition DecayEndSeconds :: rat where "DecayEndSeconds = 60"
definition PartialPoints :: int where "PartialPoints = 50"

definition RowMultiplier :: "int \<Rightarrow> rat" where
  "RowMultiplier row =
     (if row \<le> 1 then 1 else if row = 2 then 5/4 else if row = 3 then 3/2
      else if row = 4 then 7/4 else 2)"

definition MaxPointsForRow :: "int \<Rightarrow> int" where
  "MaxPointsForRow row = \<lfloor>f64 (of_int BaseValue * RowMultiplier row)\<rfloor>"

definition BonusCeiling :: "int \<Rightarrow> int" where
  "BonusCeiling row = MaxPointsForRow row - BaseValue"

definition CurrentPoints :: "int \<Rightarrow> int \<Rightarrow> int" where
  "CurrentPoints row elapsedMs =
     (let t = f64 (f64 (of_int elapsedMs) / 1000);
          bonus = f64 (of_int (BonusCeiling row))
      in if t \<le> DecayHoldSeconds then MaxPointsForRow row
         else if DecayEndSeconds \<le> t then BaseValue
         else let span = DecayEndSeconds - DecayHoldSeconds;
                  frac = f64 (1 - f64 (f64 (t - DecayHoldSeconds) / span))
              in \<lfloor>f64 (of_int BaseValue + f64 (bonus * frac))\<rfloor>)"

definition PartialAward :: "int \<Rightarrow> int \<Rightarrow> int \<times> int" where
  "PartialAward row elapsedMs =
     (let current = CurrentPoints row elapsedMs;
          awarded = PartialPoints;
          remaining = current - PartialPoints
      in (awarded, if remaining < 0 then 0 else remaining))"

definition DailyDoubleMultiplier :: "rat \<Rightarrow> rat" where
  "DailyDoubleMultiplier avgStars =
     (if 9/2 \<le> avgStars then 2 else if 7/2 \<le> avgStars then 7/4
      else if 5/2 \<le> avgStars then 3/2 else if 3/2 \<le> avgStars then 5/4 else 1)"

definition currentPointsFromPool :: "int \<Rightarrow> int \<Rightarrow> int \<Rightarrow> int" where
  "currentPointsFromPool maxP baseP elapsedMs =
     (let t = f64 (f64 (of_int elapsedMs) / 1000);
          bonus = f64 (of_int (maxP - baseP))
      in if t \<le> DecayHoldSeconds then maxP
         else if DecayEndSeconds \<le> t then baseP
         else let span = DecayEndSeconds - DecayHoldSeconds;
                  frac = f64 (1 - f64 (f64 (t - DecayHoldSeconds) / span))
              in \<lfloor>f64 (f64 (of_int baseP) + f64 (bonus * frac))\<rfloor>)"

subsection \<open>The curve over any rounding\<close>

definition curve_time :: "(rat \<Rightarrow> rat) \<Rightarrow> int \<Rightarrow> rat" where
  "curve_time rnd ms = rnd (rnd (of_int ms) / 1000)"

definition curve_frac :: "(rat \<Rightarrow> rat) \<Rightarrow> rat \<Rightarrow> rat" where
  "curve_frac rnd t = rnd (1 - rnd (rnd (t - 5) / 55))"

definition decay_curve :: "(rat \<Rightarrow> rat) \<Rightarrow> int \<Rightarrow> int \<Rightarrow> int \<Rightarrow> int" where
  "decay_curve rnd maxP baseP ms =
     (let t = curve_time rnd ms
      in if t \<le> 5 then maxP else if 60 \<le> t then baseP
         else \<lfloor>rnd (rnd (of_int baseP) + rnd (rnd (of_int (maxP - baseP)) * curve_frac rnd t))\<rfloor>)"

definition pool_ok :: "int \<Rightarrow> int \<Rightarrow> bool" where
  "pool_ok maxP baseP \<longleftrightarrow> 0 \<le> baseP \<and> baseP \<le> maxP \<and> maxP \<le> 2 ^ 53"

context float_rounding begin

lemma curve_time_mono: "a \<le> b \<Longrightarrow> curve_time rnd a \<le> curve_time rnd b"
  by (simp add: curve_time_def rnd_mono)

lemma curve_frac_unit:
  assumes "5 \<le> t" and "t \<le> 60"
  shows "0 \<le> curve_frac rnd t \<and> curve_frac rnd t \<le> 1"
proof -
  have "0 \<le> rnd (t - 5) \<and> rnd (t - 5) \<le> 55"
    using rnd_between [of 0 55 "t - 5"] assms by simp
  then have "0 \<le> rnd (rnd (t - 5) / 55) \<and> rnd (rnd (t - 5) / 55) \<le> 1"
    by (intro rnd_unit) auto
  then show ?thesis unfolding curve_frac_def by (intro rnd_unit) auto
qed

lemma curve_frac_antimono: "s \<le> t \<Longrightarrow> curve_frac rnd t \<le> curve_frac rnd s"
  by (simp add: curve_frac_def rnd_mono divide_right_mono)

lemma decay_value_bounds:
  assumes ok: "pool_ok maxP baseP" and f: "0 \<le> f \<and> f \<le> 1"
  shows "of_int baseP \<le> rnd (rnd (of_int baseP) + rnd (rnd (of_int (maxP - baseP)) * f))"
    and "rnd (rnd (of_int baseP) + rnd (rnd (of_int (maxP - baseP)) * f)) \<le> of_int maxP"
proof -
  let ?d = "maxP - baseP"
  have d: "0 \<le> ?d" "?d \<le> 2 ^ 53" and b: "rnd (of_int baseP) = of_int baseP"
    and dd: "rnd (of_int ?d) = of_int ?d"
    using ok by (auto simp: pool_ok_def simp del: of_int_diff intro!: rnd_of_int)
  have "0 \<le> of_int ?d * f \<and> of_int ?d * f \<le> of_int ?d"
    using d f by (auto intro: mult_nonneg_nonneg mult_left_le)
  then have "0 \<le> rnd (of_int ?d * f) \<and> rnd (of_int ?d * f) \<le> of_int ?d"
    using rnd_between [of 0 ?d "of_int ?d * f"] d by auto
  then show "of_int baseP \<le> rnd (rnd (of_int baseP) + rnd (rnd (of_int ?d) * f))"
    and "rnd (rnd (of_int baseP) + rnd (rnd (of_int ?d) * f)) \<le> of_int maxP"
    unfolding b dd using ok
    by (auto intro!: rnd_between [of baseP maxP] simp: pool_ok_def)
qed

lemma decay_value_mono:
  assumes ok: "pool_ok maxP baseP" and "f \<le> g"
  shows "rnd (rnd (of_int baseP) + rnd (rnd (of_int (maxP - baseP)) * f)) \<le>
    rnd (rnd (of_int baseP) + rnd (rnd (of_int (maxP - baseP)) * g))"
proof -
  have "0 \<le> rnd (of_int (maxP - baseP))"
    using ok rnd_of_int [of "maxP - baseP"] by (auto simp: pool_ok_def simp del: of_int_diff)
  with assms(2) show ?thesis
    by (intro rnd_mono add_left_mono mult_left_mono) auto
qed

lemma decay_curve_bounds:
  assumes ok: "pool_ok maxP baseP"
  shows "baseP \<le> decay_curve rnd maxP baseP ms \<and> decay_curve rnd maxP baseP ms \<le> maxP"
proof (cases "curve_time rnd ms \<le> 5 \<or> 60 \<le> curve_time rnd ms")
  case True
  with ok show ?thesis by (auto simp: decay_curve_def pool_ok_def)
next
  case False
  then have f: "0 \<le> curve_frac rnd (curve_time rnd ms) \<and> curve_frac rnd (curve_time rnd ms) \<le> 1"
    by (intro curve_frac_unit) auto
  from decay_value_bounds [OF ok f] False show ?thesis
    by (simp add: decay_curve_def le_floor_iff floor_le_iff)
qed

lemma decay_curve_antimono:
  assumes ok: "pool_ok maxP baseP" and "a \<le> b"
  shows "decay_curve rnd maxP baseP b \<le> decay_curve rnd maxP baseP a"
proof (cases "curve_time rnd a \<le> 5 \<or> 60 \<le> curve_time rnd b")
  case True
  then show ?thesis
  proof
    assume "curve_time rnd a \<le> 5"
    then have "decay_curve rnd maxP baseP a = maxP" by (simp add: decay_curve_def)
    with decay_curve_bounds [OF ok, of b] show ?thesis by simp
  next
    assume "60 \<le> curve_time rnd b"
    then have "decay_curve rnd maxP baseP b = baseP" by (simp add: decay_curve_def)
    with decay_curve_bounds [OF ok, of a] show ?thesis by simp
  qed
next
  case False
  moreover have t: "curve_time rnd a \<le> curve_time rnd b"
    using assms(2) by (rule curve_time_mono)
  ultimately show ?thesis
    using decay_value_mono [OF ok curve_frac_antimono [OF t]]
    by (auto simp: decay_curve_def Let_def intro!: floor_mono)
qed

lemma decay_curve_hold:
  assumes "ms \<le> 5000" shows "decay_curve rnd maxP baseP ms = maxP"
proof -
  have "rnd (of_int ms) \<le> 5000"
    using rnd_mono [of "of_int ms" "of_int 5000"] rnd_of_int [of 5000] assms by simp
  then have "rnd (of_int ms) / 1000 \<le> of_int 5" by simp
  then have "curve_time rnd ms \<le> 5"
    unfolding curve_time_def using rnd_mono rnd_of_int [of 5] by fastforce
  then show ?thesis by (simp add: decay_curve_def)
qed

lemma decay_curve_end:
  assumes "60000 \<le> ms" shows "decay_curve rnd maxP baseP ms = baseP"
proof -
  have "60000 \<le> rnd (of_int ms)"
    using rnd_mono [of "of_int 60000" "of_int ms"] rnd_of_int [of 60000] assms by simp
  then have "of_int 60 \<le> rnd (of_int ms) / 1000" by simp
  then have "60 \<le> curve_time rnd ms"
    unfolding curve_time_def using rnd_mono rnd_of_int [of 60] by fastforce
  then show ?thesis by (simp add: decay_curve_def)
qed

end

subsection \<open>Both copies of the curve are that curve\<close>

lemma currentPointsFromPool_curve: "currentPointsFromPool = decay_curve f64"
  by (intro ext) (simp add: currentPointsFromPool_def decay_curve_def curve_time_def curve_frac_def
      DecayHoldSeconds_def DecayEndSeconds_def Let_def)

lemma f64_100 [simp]: "f64 100 = 100"
  using f64_of_int [of 100] by simp

lemma CurrentPoints_curve: "CurrentPoints row = decay_curve f64 (MaxPointsForRow row) BaseValue"
  by (intro ext) (simp add: CurrentPoints_def decay_curve_def curve_time_def curve_frac_def
      DecayHoldSeconds_def DecayEndSeconds_def BonusCeiling_def BaseValue_def Let_def)

lemma MaxPointsForRow_eq:
  "MaxPointsForRow row = (if row \<le> 1 then 100 else if row = 2 then 125 else if row = 3 then 150
     else if row = 4 then 175 else 200)"
  using f64_of_int [of 125] f64_of_int [of 150] f64_of_int [of 175] f64_of_int [of 200]
  by (simp add: MaxPointsForRow_def RowMultiplier_def BaseValue_def)

lemma MaxPointsForRow_bounds: "100 \<le> MaxPointsForRow row \<and> MaxPointsForRow row \<le> 200"
  by (simp add: MaxPointsForRow_eq)

lemma row_pool_ok: "pool_ok (MaxPointsForRow row) BaseValue"
  using MaxPointsForRow_bounds [of row] by (simp add: pool_ok_def BaseValue_def)

lemma CurrentPoints_bounds: "100 \<le> CurrentPoints row ms \<and> CurrentPoints row ms \<le> MaxPointsForRow row"
  using f64.decay_curve_bounds [OF row_pool_ok, of row ms]
  by (simp add: CurrentPoints_curve BaseValue_def)

lemma pool_points_bounds:
  "pool_ok maxP baseP \<Longrightarrow>
   baseP \<le> currentPointsFromPool maxP baseP ms \<and> currentPointsFromPool maxP baseP ms \<le> maxP"
  by (simp add: currentPointsFromPool_curve f64.decay_curve_bounds)

lemma PartialAward_eq: "PartialAward row ms = (50, CurrentPoints row ms - 50)"
  using CurrentPoints_bounds [of row ms] by (simp add: PartialAward_def PartialPoints_def Let_def)

lemma DailyDoubleMultiplier_bounds: "1 \<le> DailyDoubleMultiplier a \<and> DailyDoubleMultiplier a \<le> 2"
  by (simp add: DailyDoubleMultiplier_def)

lemma DailyDoubleMultiplier_mono: "a \<le> b \<Longrightarrow> DailyDoubleMultiplier a \<le> DailyDoubleMultiplier b"
  by (simp add: DailyDoubleMultiplier_def)

subsection \<open>Properties\<close>

text \<open>
  The value of a track never grows while it plays. At every clock reading it lies
  between the base value 100 and the row's ceiling, and a later reading never pays
  more than an earlier one, whatever the rounding of the float computation does.
\<close>

theorem CurrentPoints_decays:
  assumes "a \<le> b"
  shows "100 \<le> CurrentPoints row b \<and> CurrentPoints row b \<le> CurrentPoints row a \<and>
    CurrentPoints row a \<le> MaxPointsForRow row"
  using f64.decay_curve_antimono [OF row_pool_ok assms, of row] CurrentPoints_bounds [of row]
  by (auto simp: CurrentPoints_curve)

theorem CurrentPoints_decays_witness:
  "100 \<le> CurrentPoints 5 60000 \<and> CurrentPoints 5 60000 \<le> CurrentPoints 5 5550 \<and>
    CurrentPoints 5 5550 \<le> MaxPointsForRow 5"
  using CurrentPoints_decays [of 5550 60000 5] by simp

text \<open>
  C19: The award path and the admin view compute the same number. The copy of the decay
  curve that works on a pool of points agrees with the per-row curve when the pool is
  the row's own, for every clock reading.
\<close>

theorem curve_copies_agree:
  "currentPointsFromPool (MaxPointsForRow row) BaseValue ms = CurrentPoints row ms"
  by (simp add: currentPointsFromPool_curve CurrentPoints_curve)

end
