(* ===== verification/Board.thy ===== *)
theory Board
  imports Scoring
begin

section \<open>Tracks, cells and boards: server/internal/game/model.go and board.go\<close>

text \<open>
  Go reaches tracks and cells through pointers and mutates them in place: consuming a
  track sets \<open>Played\<close> on the object every holder of the pointer sees. The model keeps an
  explicit store: \<open>hTrack\<close> and \<open>hCell\<close> map addresses to the objects, a board holds
  addresses, and a mutation updates the store. \<open>nextT\<close> and \<open>nextC\<close> are the next fresh
  addresses. Go's \<open>int\<close> and \<open>int64\<close> fields are \<open>int\<close>.
\<close>

type_synonym taddr = nat
type_synonym caddr = nat

record track =
  tID :: string
  tSpotifyURI :: string
  tArtist :: string
  tSong :: string
  tAlbumArt :: string
  tDurationMs :: int
  tPlayed :: bool
  tPlayable :: bool
  tYear :: int
  tGenre :: string

record cell =
  cRow :: int
  cCol :: int
  cCategory :: string
  cTracks :: "taddr list"
  cDailyDouble :: bool
  cDDTriggerVisit :: int

record board =
  bRows :: int
  bCols :: int
  bCells :: "caddr option list list"
  bDailyDoubleCount :: int
  bDDBucket :: "taddr list"

record heap =
  hTrack :: "taddr \<Rightarrow> track"
  hCell :: "caddr \<Rightarrow> cell"
  nextT :: taddr
  nextC :: caddr

subsection \<open>Mutation through pointers\<close>

definition updTrack :: "taddr \<Rightarrow> (track \<Rightarrow> track) \<Rightarrow> heap \<Rightarrow> heap" where
  "updTrack t f h = h\<lparr>hTrack := (hTrack h)(t := f (hTrack h t))\<rparr>"

definition updCell :: "caddr \<Rightarrow> (cell \<Rightarrow> cell) \<Rightarrow> heap \<Rightarrow> heap" where
  "updCell c f h = h\<lparr>hCell := (hCell h)(c := f (hCell h c))\<rparr>"

subsection \<open>Cell pools\<close>

definition trackAvailable :: "heap \<Rightarrow> taddr \<Rightarrow> bool" where
  "trackAvailable h t \<longleftrightarrow> \<not> tPlayed (hTrack h t) \<and> tPlayable (hTrack h t)"

definition TracksLeft :: "heap \<Rightarrow> caddr \<Rightarrow> int" where
  "TracksLeft h c = int (length (filter (trackAvailable h) (cTracks (hCell h c))))"

definition Exhausted :: "heap \<Rightarrow> caddr \<Rightarrow> bool" where
  "Exhausted h c \<longleftrightarrow> TracksLeft h c = 0"

text \<open>The cells of a board in row-major order, nil entries skipped.\<close>

definition cellsOf :: "board \<Rightarrow> caddr list" where
  "cellsOf b = concat (map (\<lambda>row. concat (map (\<lambda>c. case c of None \<Rightarrow> [] | Some a \<Rightarrow> [a]) row)) (bCells b))"

definition cellAt :: "heap \<Rightarrow> board option \<Rightarrow> int \<Rightarrow> int \<Rightarrow> caddr option" where
  "cellAt h bo row col =
     (case bo of None \<Rightarrow> None
      | Some b \<Rightarrow> find (\<lambda>c. cRow (hCell h c) = row \<and> cCol (hCell h c) = col) (cellsOf b))"

definition trackPool :: "heap \<Rightarrow> caddr \<Rightarrow> taddr list" where
  "trackPool h c = filter (trackAvailable h) (cTracks (hCell h c))"

text \<open>\<open>rng\<close> is None for a nil source; otherwise the raw value that \<open>Intn\<close> reduces.\<close>

definition pickTrack :: "heap \<Rightarrow> caddr option \<Rightarrow> nat option \<Rightarrow> taddr option" where
  "pickTrack h co rng =
     (case co of None \<Rightarrow> None
      | Some c \<Rightarrow>
        (let pool = trackPool h c
         in if pool = [] then None
            else case rng of None \<Rightarrow> Some (pool ! 0)
                 | Some r \<Rightarrow> Some (pool ! (r mod length pool))))"

subsection \<open>The board view\<close>

record boardCell =
  bcRow :: int
  bcCol :: int
  bcCategory :: string
  bcPoints :: int
  bcExhausted :: bool
  bcTracksLeft :: int

record boardView =
  bvRows :: int
  bvCols :: int
  bvCells :: "boardCell list"

definition boardData :: "heap \<Rightarrow> board option \<Rightarrow> boardView" where
  "boardData h bo =
     (case bo of None \<Rightarrow> \<lparr>bvRows = 0, bvCols = 0, bvCells = []\<rparr>
      | Some b \<Rightarrow>
        \<lparr>bvRows = bRows b, bvCols = bCols b,
         bvCells = map (\<lambda>c. \<lparr>bcRow = cRow (hCell h c), bcCol = cCol (hCell h c),
            bcCategory = cCategory (hCell h c), bcPoints = MaxPointsForRow (cRow (hCell h c)),
            bcExhausted = Exhausted h c, bcTracksLeft = TracksLeft h c\<rparr>) (cellsOf b)\<rparr>)"

subsection \<open>Lemmas\<close>

lemma Exhausted_pool: "Exhausted h c \<longleftrightarrow> trackPool h c = []"
  by (simp add: Exhausted_def TracksLeft_def trackPool_def)

lemma cellAt_Some:
  "cellAt h bo row col = Some c \<Longrightarrow>
   (\<exists>b. bo = Some b \<and> c \<in> set (cellsOf b)) \<and> cRow (hCell h c) = row \<and> cCol (hCell h c) = col"
  by (auto simp: cellAt_def find_Some_iff in_set_conv_nth split: option.splits)

lemma pickTrack_Some:
  assumes "pickTrack h (Some c) rng = Some t"
  shows "t \<in> set (cTracks (hCell h c)) \<and> \<not> tPlayed (hTrack h t) \<and> tPlayable (hTrack h t)"
proof -
  have "t \<in> set (trackPool h c)"
    using assms by (auto simp: pickTrack_def Let_def split: if_splits option.splits intro!: nth_mem)
  then show ?thesis by (auto simp: trackPool_def trackAvailable_def)
qed

lemma pickTrack_None_iff: "pickTrack h (Some c) rng = None \<longleftrightarrow> Exhausted h c"
  by (auto simp: pickTrack_def Exhausted_pool Let_def split: option.splits)

text \<open>Consuming an available track of a pool takes one from the count of its cell.\<close>

lemma TracksLeft_consume:
  assumes "t \<in> set (cTracks (hCell h c))" and "distinct (cTracks (hCell h c))"
    and "trackAvailable h t"
  shows "TracksLeft (updTrack t (tPlayed_update (\<lambda>_. True)) h) c = TracksLeft h c - 1"
proof -
  let ?h = "updTrack t (tPlayed_update (\<lambda>_. True)) h" and ?ts = "cTracks (hCell h c)"
  have "filter (trackAvailable ?h) ?ts = filter (\<lambda>u. trackAvailable h u \<and> u \<noteq> t) ?ts"
    by (rule filter_cong) (auto simp: trackAvailable_def updTrack_def)
  also have "\<dots> = remove1 t (filter (trackAvailable h) ?ts)"
    using assms by (auto simp: distinct_remove1_removeAll removeAll_filter_not_eq intro!: filter_cong)
  finally have "length (filter (trackAvailable ?h) ?ts) = length (filter (trackAvailable h) ?ts) - 1"
    using assms by (simp add: length_remove1)
  moreover have "0 < length (filter (trackAvailable h) ?ts)"
    using assms by (auto simp: filter_empty_conv)
  moreover have "cTracks (hCell ?h c) = ?ts" by (simp add: updTrack_def)
  ultimately show ?thesis by (simp add: TracksLeft_def of_nat_diff Suc_leI del: length_greater_0_conv)
qed

lemma TracksLeft_other:
  "t \<notin> set (cTracks (hCell h c)) \<Longrightarrow> TracksLeft (updTrack t f h) c = TracksLeft h c"
  by (auto simp: TracksLeft_def updTrack_def trackAvailable_def
      intro!: arg_cong [where f = length] filter_cong split: if_splits)

end
