(* ===== verification/Utf8.thy ===== *)
theory Utf8
  imports Prelude
begin

section \<open>Go strings: bytes, runes and the Unicode tables\<close>

text \<open>
  A Go string is a sequence of bytes, here a \<open>string\<close> whose characters are the bytes.
  \<open>for i, r := range s\<close> decodes UTF-8: \<open>runes\<close> lists the pairs (byte index, rune). An
  invalid byte decodes to U+FFFD and one byte is skipped. \<open>encodeRune\<close> is the conversion
  \<open>string(r)\<close>. What the code asks of the package \<open>unicode\<close> (case mapping beyond ASCII,
  the categories Cc, Cf, Cs, Co and M, what is printable) are tables: the record \<open>unicode\<close>, a parameter.
\<close>

record unicode =
  u_upper :: "nat \<Rightarrow> nat"
  u_control :: "nat \<Rightarrow> bool"
  u_Cf :: "nat \<Rightarrow> bool"
  u_Cs :: "nat \<Rightarrow> bool"
  u_Co :: "nat \<Rightarrow> bool"
  u_M :: "nat \<Rightarrow> bool"
  u_Print :: "nat \<Rightarrow> bool"

definition byte :: "char \<Rightarrow> nat" where
  "byte c = of_char c"

definition isCont :: "nat \<Rightarrow> bool" where
  "isCont b \<longleftrightarrow> 0x80 \<le> b \<and> b \<le> 0xBF"

definition runeError :: nat where "runeError = 0xFFFD"

fun decodeRune :: "nat list \<Rightarrow> nat \<times> nat" where
  "decodeRune [] = (runeError, 0)"
| "decodeRune (b0 # bs) =
     (if b0 < 0x80 then (b0, 1)
      else if 0xC2 \<le> b0 \<and> b0 \<le> 0xDF then
        (case bs of
           b1 # _ \<Rightarrow> if isCont b1 then ((b0 - 0xC0) * 64 + (b1 - 0x80), 2) else (runeError, 1)
         | [] \<Rightarrow> (runeError, 1))
      else if 0xE0 \<le> b0 \<and> b0 \<le> 0xEF then
        (case bs of
           b1 # b2 # _ \<Rightarrow>
             if (if b0 = 0xE0 then 0xA0 else 0x80) \<le> b1 \<and> b1 \<le> (if b0 = 0xED then 0x9F else 0xBF)
               \<and> isCont b2
             then ((b0 - 0xE0) * 4096 + (b1 - 0x80) * 64 + (b2 - 0x80), 3) else (runeError, 1)
         | _ \<Rightarrow> (runeError, 1))
      else if 0xF0 \<le> b0 \<and> b0 \<le> 0xF4 then
        (case bs of
           b1 # b2 # b3 # _ \<Rightarrow>
             if (if b0 = 0xF0 then 0x90 else 0x80) \<le> b1 \<and> b1 \<le> (if b0 = 0xF4 then 0x8F else 0xBF)
               \<and> isCont b2 \<and> isCont b3
             then ((b0 - 0xF0) * 262144 + (b1 - 0x80) * 4096 + (b2 - 0x80) * 64 + (b3 - 0x80), 4)
             else (runeError, 1)
         | _ \<Rightarrow> (runeError, 1))
      else (runeError, 1))"

lemma decodeRune_size_pos: "bs \<noteq> [] \<Longrightarrow> 0 < snd (decodeRune bs)"
  by (cases bs) (auto split: list.splits if_splits)

lemma decodeRune_size_le: "snd (decodeRune bs) \<le> length bs"
  by (cases bs) (auto split: list.splits if_splits)

function runes_from :: "nat \<Rightarrow> nat list \<Rightarrow> (nat \<times> nat) list" where
  "runes_from i bs =
     (if bs = [] then []
      else (i, fst (decodeRune bs)) #
           runes_from (i + snd (decodeRune bs)) (drop (snd (decodeRune bs)) bs))"
  by pat_completeness auto
termination
  by (relation "measure (\<lambda>(i, bs). length bs)") (auto simp: decodeRune_size_pos)

declare runes_from.simps [simp del]

definition runes :: "string \<Rightarrow> (nat \<times> nat) list" where
  "runes s = runes_from 0 (map byte s)"

definition encodeRune :: "nat \<Rightarrow> string" where
  "encodeRune r =
     (if r < 0x80 then [char_of r]
      else if r < 0x800 then [char_of (0xC0 + r div 64), char_of (0x80 + r mod 64)]
      else if 0x10FFFF < r \<or> 0xD800 \<le> r \<and> r \<le> 0xDFFF then
        [char_of (0xEF::nat), char_of (0xBF::nat), char_of (0xBD::nat)]
      else if r < 0x10000 then
        [char_of (0xE0 + r div 4096), char_of (0x80 + r div 64 mod 64), char_of (0x80 + r mod 64)]
      else [char_of (0xF0 + r div 262144), char_of (0x80 + r div 4096 mod 64),
            char_of (0x80 + r div 64 mod 64), char_of (0x80 + r mod 64)])"

definition runesToString :: "nat list \<Rightarrow> string" where
  "runesToString rs = concat (map encodeRune rs)"

subsection \<open>strings.ToUpper\<close>

definition runeUpper :: "unicode \<Rightarrow> nat \<Rightarrow> nat" where
  "runeUpper U r =
     (if 97 \<le> r \<and> r \<le> 122 then r - 32 else if r < 0x80 then r else u_upper U r)"

definition upper :: "unicode \<Rightarrow> string \<Rightarrow> string" where
  "upper U s = runesToString (map (runeUpper U \<circ> snd) (runes s))"

subsection \<open>The %q verb of fmt\<close>

definition hexDigit :: "nat \<Rightarrow> char" where
  "hexDigit d = char_of (if d < 10 then 48 + d else 87 + d)"

fun hexDigits :: "nat \<Rightarrow> nat \<Rightarrow> string" where
  "hexDigits 0 n = []"
| "hexDigits (Suc k) n = hexDigits k (n div 16) @ [hexDigit (n mod 16)]"

text \<open>One rune of a quoted string; \<open>w\<close> is the number of bytes it came from.\<close>

definition quoteRune :: "unicode \<Rightarrow> nat \<Rightarrow> nat \<Rightarrow> nat \<Rightarrow> string" where
  "quoteRune U b r w =
     (let bs = CHR 0x5C
      in if w = 1 \<and> r = runeError then [bs, CHR ''x''] @ hexDigits 2 b
         else if r = 0x22 \<or> r = 0x5C then [bs, char_of r]
         else if (if r < 0x80 then 0x20 \<le> r \<and> r < 0x7F else u_Print U r) then encodeRune r
         else if r = 7 then [bs, CHR ''a''] else if r = 8 then [bs, CHR ''b'']
         else if r = 12 then [bs, CHR ''f''] else if r = 10 then [bs, CHR ''n'']
         else if r = 13 then [bs, CHR ''r''] else if r = 9 then [bs, CHR ''t'']
         else if r = 11 then [bs, CHR ''v'']
         else if r < 0x20 \<or> r = 0x7F then [bs, CHR ''x''] @ hexDigits 2 r
         else if r < 0x10000 then [bs, CHR ''u''] @ hexDigits 4 r
         else [bs, CHR ''U''] @ hexDigits 8 r)"

function quoteBytes :: "unicode \<Rightarrow> nat list \<Rightarrow> string" where
  "quoteBytes U bs =
     (if bs = [] then []
      else case decodeRune bs of (r, w) \<Rightarrow> quoteRune U (hd bs) r w @ quoteBytes U (drop w bs))"
  by pat_completeness auto
termination
proof (relation "measure (\<lambda>(U, bs). length bs)", goal_cases)
  case (2 U bs x y)
  then show ?case using decodeRune_size_pos [of bs] by (cases "decodeRune bs") auto
qed simp

declare quoteBytes.simps [simp del]

definition goQuote :: "unicode \<Rightarrow> string \<Rightarrow> string" where
  "goQuote U s = [CHR 0x22] @ quoteBytes U (map byte s) @ [CHR 0x22]"

subsection \<open>Rune positions\<close>

lemma runes_from_index:
  "(j, r) \<in> set (runes_from i bs) \<Longrightarrow> i \<le> j \<and> j < i + length bs"
proof (induction i bs rule: runes_from.induct)
  case (1 i bs)
  show ?case
  proof (cases "bs = []")
    case True
    with "1.prems" show ?thesis by (simp add: runes_from.simps)
  next
    case False
    note le = decodeRune_size_le [of bs]
    from "1.prems" False
    consider "j = i" | "(j, r) \<in> set (runes_from (i + snd (decodeRune bs)) (drop (snd (decodeRune bs)) bs))"
      by (auto simp: runes_from.simps [of i bs])
    then show ?thesis
    proof cases
      case 1
      with False show ?thesis by simp
    next
      case 2
      from "1.IH" [OF False 2] le show ?thesis by auto
    qed
  qed
qed

lemma distinct_runes_from: "distinct (map fst (runes_from i bs))"
proof (induction i bs rule: runes_from.induct)
  case (1 i bs)
  show ?case
  proof (cases "bs = []")
    case True
    then show ?thesis by (simp add: runes_from.simps)
  next
    case False
    then have "i \<notin> set (map fst (runes_from (i + snd (decodeRune bs)) (drop (snd (decodeRune bs)) bs)))"
      using decodeRune_size_pos [OF False] runes_from_index by fastforce
    with False "1.IH" show ?thesis by (simp add: runes_from.simps [of i bs])
  qed
qed

lemma runes_index: "(j, r) \<in> set (runes s) \<Longrightarrow> j < length s"
  using runes_from_index [of j r 0 "map byte s"] by (simp add: runes_def)

lemma distinct_runes: "distinct (map fst (runes s))"
  by (simp add: runes_def distinct_runes_from)

definition isASCII :: "string \<Rightarrow> bool" where
  "isASCII s \<longleftrightarrow> (\<forall>c \<in> set s. byte c < 0x80)"

lemma runes_from_ASCII:
  "\<forall>b \<in> set bs. b < 0x80 \<Longrightarrow> runes_from i bs = zip [i..<i + length bs] bs"
proof (induction bs arbitrary: i)
  case Nil
  then show ?case by (simp add: runes_from.simps)
next
  case (Cons b bs)
  have "[i..<i + length (b # bs)] = i # [Suc i..<Suc i + length bs]"
    by (simp add: upt_conv_Cons del: upt_Suc)
  with Cons show ?case by (simp add: runes_from.simps [of i "b # bs"] del: upt_Suc)
qed

lemma runes_ASCII: "isASCII s \<Longrightarrow> runes s = zip [0..<length s] (map byte s)"
  using runes_from_ASCII [of "map byte s" 0] by (simp add: runes_def isASCII_def)

end
