(* ===== verification/Registry.thy ===== *)
theory Registry
  imports Utf8
begin

section \<open>Connections and players: server/internal/game/player.go\<close>

text \<open>
  The registry of live connections and attendees. Go's four maps are association lists;
  a player object is reached through its key in \<open>r_players\<close>, which is the only place a
  pointer to it is kept. A player whose device fingerprint is known resumes the same
  entry. Roles are the strings of protocol.go; any other string a client sends is
  \<open>RoleOther\<close>.
\<close>

datatype role = RoleStage | RoleMobile | RoleAdmin | RoleOther string

record player =
  pID :: playerID
  pHandle :: string
  pDeviceFP :: string
  pScore :: int
  pRTTMs :: int
  pActive :: bool
  pBanned :: bool
  pIdleRounds :: int
  pGuessedThisTrack :: bool

record conn =
  cn_id :: connID
  cn_role :: role
  cn_playerID :: playerID

record registry =
  r_conns :: "(connID \<times> conn) list"
  r_players :: "(playerID \<times> player) list"
  r_byFP :: "(string \<times> playerID) list"
  r_connByPl :: "(playerID \<times> connID list) list"

record helloData =
  hd_Role :: role
  hd_Handle :: string
  hd_DeviceFP :: string
  hd_JoinToken :: string
  hd_AdminSecret :: string

definition newRegistry :: registry where
  "newRegistry = \<lparr>r_conns = [], r_players = [], r_byFP = [], r_connByPl = []\<rparr>"

definition newConn :: "connID \<Rightarrow> conn" where
  "newConn connID = \<lparr>cn_id = connID, cn_role = RoleOther '''', cn_playerID = ''''\<rparr>"

definition newPlayer :: "playerID \<Rightarrow> string \<Rightarrow> player" where
  "newPlayer pid fp = \<lparr>pID = pid, pHandle = '''', pDeviceFP = fp, pScore = 0, pRTTMs = 0,
     pActive = True, pBanned = False, pIdleRounds = 0, pGuessedThisTrack = False\<rparr>"

definition getPlayer :: "registry \<Rightarrow> playerID \<Rightarrow> player option" where
  "getPlayer r pid = map_of (r_players r) pid"

definition updPlayer :: "playerID \<Rightarrow> (player \<Rightarrow> player) \<Rightarrow> registry \<Rightarrow> registry" where
  "updPlayer pid f r = r\<lparr>r_players := map (\<lambda>(k, p). (k, if k = pid then f p else p)) (r_players r)\<rparr>"

definition mapPlayers :: "(player \<Rightarrow> player) \<Rightarrow> registry \<Rightarrow> registry" where
  "mapPlayers f r = r\<lparr>r_players := map (\<lambda>(k, p). (k, f p)) (r_players r)\<rparr>"

definition addConn :: "connID \<Rightarrow> registry \<Rightarrow> registry" where
  "addConn connID r =
     (case map_of (r_conns r) connID of Some _ \<Rightarrow> r
      | None \<Rightarrow> r\<lparr>r_conns := AList.update connID (newConn connID) (r_conns r)\<rparr>)"

definition removeConn :: "connID \<Rightarrow> registry \<Rightarrow> registry \<times> playerID \<times> bool" where
  "removeConn connID r =
     (case map_of (r_conns r) connID of None \<Rightarrow> (r, '''', False)
      | Some c \<Rightarrow>
        (let r1 = r\<lparr>r_conns := AList.delete connID (r_conns r)\<rparr>
         in if cn_playerID c = '''' then (r1, '''', False)
            else
              let s = removeAll connID (get_or [] (r_connByPl r1) (cn_playerID c))
              in if s = []
                 then (r1\<lparr>r_connByPl := AList.delete (cn_playerID c) (r_connByPl r1)\<rparr>, cn_playerID c, True)
                 else (r1\<lparr>r_connByPl := AList.update (cn_playerID c) s (r_connByPl r1)\<rparr>, cn_playerID c, False)))"

subsection \<open>Handles\<close>

definition handleRuneDropped :: "unicode \<Rightarrow> nat \<Rightarrow> bool" where
  "handleRuneDropped U r \<longleftrightarrow> r \<noteq> 0x200d \<and> (u_control U r \<or> u_Cf U r \<or> u_Cs U r \<or> u_Co U r)"

text \<open>The loop of \<open>sanitizeHandle\<close>: \<open>out\<close> is the rune slice built so far.\<close>

fun sanitizeRunes :: "unicode \<Rightarrow> nat list \<Rightarrow> nat list \<Rightarrow> nat list" where
  "sanitizeRunes U out [] = out"
| "sanitizeRunes U out (r # rs) =
     (if handleRuneDropped U r then sanitizeRunes U out rs
      else if out = [] \<and> u_M U r then sanitizeRunes U out rs
      else if length (out @ [r]) = 24 then out @ [r]
      else sanitizeRunes U (out @ [r]) rs)"

definition sanitizeHandle :: "unicode \<Rightarrow> string \<Rightarrow> string" where
  "sanitizeHandle U s = runesToString (sanitizeRunes U [] (map snd (runes s)))"

subsection \<open>Binding a Hello to a player\<close>

definition resolvePlayer :: "unicode \<Rightarrow> connID \<Rightarrow> helloData \<Rightarrow> registry \<Rightarrow> registry \<times> playerID \<times> bool" where
  "resolvePlayer U connID h r =
     (let c = (case map_of (r_conns r) connID of None \<Rightarrow> newConn connID | Some c \<Rightarrow> c);
          c = c\<lparr>cn_role := hd_Role h\<rparr>;
          found = (if hd_DeviceFP h = '''' then None
                   else case map_of (r_byFP r) (hd_DeviceFP h) of None \<Rightarrow> None
                        | Some pid \<Rightarrow> getPlayer r pid);
          pid = (case found of Some p \<Rightarrow> pID p
                 | None \<Rightarrow> (if hd_DeviceFP h = '''' then connID else hd_DeviceFP h));
          r1 = (case found of Some _ \<Rightarrow> r
                | None \<Rightarrow> r\<lparr>r_players := AList.update pid (newPlayer pid (hd_DeviceFP h)) (r_players r),
                     r_byFP := (if hd_DeviceFP h = '''' then r_byFP r
                                else AList.update (hd_DeviceFP h) pid (r_byFP r))\<rparr>);
          sanitized = sanitizeHandle U (hd_Handle h);
          r2 = (if hd_Handle h \<noteq> '''' \<and> sanitized \<noteq> ''''
                then updPlayer pid (\<lambda>p. p\<lparr>pHandle := sanitized\<rparr>) r1 else r1);
          r3 = r2\<lparr>r_conns := AList.update connID (c\<lparr>cn_playerID := pid\<rparr>) (r_conns r2),
                  r_connByPl := AList.update pid (set_add connID (get_or [] (r_connByPl r2) pid)) (r_connByPl r2)\<rparr>
      in (r3, pid, found = None))"

subsection \<open>Queries\<close>

definition playerForConn :: "registry \<Rightarrow> connID \<Rightarrow> player option" where
  "playerForConn r connID =
     (case map_of (r_conns r) connID of None \<Rightarrow> None
      | Some c \<Rightarrow> if cn_playerID c = '''' then None else getPlayer r (cn_playerID c))"

definition connIDs :: "registry \<Rightarrow> playerID \<Rightarrow> connID list" where
  "connIDs r pid = get_or [] (r_connByPl r) pid"

definition online :: "registry \<Rightarrow> playerID \<Rightarrow> bool" where
  "online r pid \<longleftrightarrow> 0 < length (get_or [] (r_connByPl r) pid)"

definition isMobile :: "registry \<Rightarrow> playerID \<Rightarrow> bool" where
  "isMobile r pid \<longleftrightarrow>
     (\<exists>cid \<in> set (get_or [] (r_connByPl r) pid).
        case map_of (r_conns r) cid of None \<Rightarrow> False | Some c \<Rightarrow> cn_role c = RoleMobile)"

definition playersOf :: "registry \<Rightarrow> player list" where
  "playersOf r = map snd (r_players r)"

definition mobilePlayers :: "registry \<Rightarrow> player list" where
  "mobilePlayers r = filter (\<lambda>p. isMobile r (pID p)) (playersOf r)"

subsection \<open>Well-formed registries\<close>

definition keys_ok :: "registry \<Rightarrow> bool" where
  "keys_ok r \<longleftrightarrow> (\<forall>(k, p) \<in> set (r_players r). pID p = k) \<and> distinct (map fst (r_players r)) \<and>
     (\<forall>(fp, pid) \<in> set (r_byFP r). pid \<in> fst ` set (r_players r)) \<and>
     distinct (map fst (r_connByPl r)) \<and> distinct (map fst (r_conns r)) \<and> distinct (map fst (r_byFP r))"

lemma getPlayer_updPlayer:
  "getPlayer (updPlayer pid f r) q = (if q = pid then map_option f (getPlayer r q) else getPlayer r q)"
proof -
  have "map_of (map (\<lambda>(k, p). (k, if k = pid then f p else p)) xs) q =
      (if q = pid then map_option f (map_of xs q) else map_of xs q)" for xs :: "(playerID \<times> player) list"
    by (induction xs) auto
  then show ?thesis by (simp add: getPlayer_def updPlayer_def)
qed

lemma getPlayer_mapPlayers [simp]: "getPlayer (mapPlayers f r) q = map_option f (getPlayer r q)"
proof -
  have "map_of (map (\<lambda>(k, p). (k, f p)) xs) q = map_option f (map_of xs q)" for xs :: "(playerID \<times> player) list"
    by (induction xs) auto
  then show ?thesis by (simp add: getPlayer_def mapPlayers_def)
qed

lemma updPlayer_frame [simp]:
  "r_conns (updPlayer pid f r) = r_conns r" "r_byFP (updPlayer pid f r) = r_byFP r"
  "r_connByPl (updPlayer pid f r) = r_connByPl r"
  "fst ` set (r_players (updPlayer pid f r)) = fst ` set (r_players r)"
  "map fst (r_players (updPlayer pid f r)) = map fst (r_players r)"
  by (auto simp: updPlayer_def image_image case_prod_beta comp_def)

lemma mapPlayers_frame [simp]:
  "r_conns (mapPlayers f r) = r_conns r" "r_byFP (mapPlayers f r) = r_byFP r"
  "r_connByPl (mapPlayers f r) = r_connByPl r"
  "fst ` set (r_players (mapPlayers f r)) = fst ` set (r_players r)"
  "map fst (r_players (mapPlayers f r)) = map fst (r_players r)"
  by (auto simp: mapPlayers_def image_image case_prod_beta comp_def)

lemma online_frame [simp]:
  "online (updPlayer pid f r) q = online r q" "online (mapPlayers g r) q = online r q"
  "isMobile (updPlayer pid f r) q = isMobile r q" "isMobile (mapPlayers g r) q = isMobile r q"
  "connIDs (updPlayer pid f r) q = connIDs r q" "connIDs (mapPlayers g r) q = connIDs r q"
  by (simp_all add: online_def isMobile_def connIDs_def)

lemma keys_ok_new: "keys_ok newRegistry"
  by (simp add: keys_ok_def newRegistry_def)

lemma keys_ok_updPlayer: "keys_ok r \<Longrightarrow> (\<And>p. pID (f p) = pID p) \<Longrightarrow> keys_ok (updPlayer pid f r)"
  by (auto simp: keys_ok_def updPlayer_def case_prod_beta image_image comp_def)

lemma keys_ok_mapPlayers: "keys_ok r \<Longrightarrow> (\<And>p. pID (f p) = pID p) \<Longrightarrow> keys_ok (mapPlayers f r)"
  by (auto simp: keys_ok_def mapPlayers_def case_prod_beta image_image comp_def)

lemma getPlayer_pID: "keys_ok r \<Longrightarrow> getPlayer r pid = Some p \<Longrightarrow> pID p = pid"
  by (auto simp: keys_ok_def getPlayer_def dest: map_of_SomeD)

lemma keys_ok_addConn: "keys_ok r \<Longrightarrow> keys_ok (addConn c r)"
  by (auto simp: keys_ok_def addConn_def distinct_update split: option.splits)

lemma keys_ok_removeConn: "keys_ok r \<Longrightarrow> keys_ok (fst (removeConn c r))"
  by (auto simp: keys_ok_def removeConn_def Let_def distinct_update distinct_delete split: option.splits)

subsection \<open>resolvePlayer keeps the registry well formed\<close>

lemma getPlayer_update:
  "getPlayer (r\<lparr>r_players := AList.update pid p (r_players r), r_byFP := m\<rparr>) q =
    (if q = pid then Some p else getPlayer r q)"
  by (simp add: getPlayer_def)

lemma keys_ok_addPlayer:
  assumes "keys_ok r"
  shows "keys_ok (r\<lparr>r_players := AList.update pid (newPlayer pid fp) (r_players r),
    r_byFP := (if fp = '''' then r_byFP r else AList.update fp pid (r_byFP r))\<rparr>)"
  using assms by (auto simp: keys_ok_def newPlayer_def distinct_update dom_update dest!: mem_update)

lemma keys_ok_bind:
  "keys_ok r \<Longrightarrow> keys_ok (r\<lparr>r_conns := AList.update c x (r_conns r), r_connByPl := AList.update pid y (r_connByPl r)\<rparr>)"
  by (simp add: keys_ok_def distinct_update)

lemma getPlayer_bind [simp]:
  "getPlayer (r\<lparr>r_conns := cs, r_connByPl := m\<rparr>) q = getPlayer r q"
  by (simp add: getPlayer_def)

text \<open>The player a Hello binds to, before its handle and its connection are recorded.\<close>

lemma resolvePlayer_player:
  assumes ok: "keys_ok r"
    and found: "found = (if fp = '''' then None
       else case map_of (r_byFP r) fp of None \<Rightarrow> None | Some pid \<Rightarrow> getPlayer r pid)"
    and pid: "pid = (case found of Some p \<Rightarrow> pID p | None \<Rightarrow> (if fp = '''' then c else fp))"
    and r1: "r1 = (case found of Some _ \<Rightarrow> r
       | None \<Rightarrow> r\<lparr>r_players := AList.update pid (newPlayer pid fp) (r_players r),
            r_byFP := (if fp = '''' then r_byFP r else AList.update fp pid (r_byFP r))\<rparr>)"
  shows "keys_ok r1 \<and> getPlayer r1 pid \<noteq> None \<and>
    (\<forall>x \<in> set (r_players r1). x \<in> set (r_players r) \<or> pScore (snd x) = 0)"
proof (cases found)
  case None
  have "keys_ok r1" using keys_ok_addPlayer [OF ok, where pid = pid and fp = fp] None by (simp add: r1)
  moreover have "getPlayer r1 pid \<noteq> None" using None by (simp add: r1 getPlayer_def)
  moreover have "x \<in> set (r_players r) \<or> pScore (snd x) = 0" if "x \<in> set (r_players r1)" for x
    using that None mem_update [of x pid "newPlayer pid fp" "r_players r"] by (auto simp: r1 newPlayer_def)
  ultimately show ?thesis by blast
next
  case (Some p)
  then obtain k where "getPlayer r k = Some p" using found by (auto split: if_splits option.splits)
  with getPlayer_pID [OF ok this] ok Some pid r1 show ?thesis by simp
qed

lemma keys_ok_handle: "keys_ok r \<Longrightarrow> keys_ok (updPlayer pid (\<lambda>p. p\<lparr>pHandle := x\<rparr>) r)"
  by (rule keys_ok_updPlayer) simp_all

lemma resolvePlayer_ok:
  assumes "keys_ok r" and "resolvePlayer U c h r = (r', pid, created)"
  shows "keys_ok r' \<and> getPlayer r' pid \<noteq> None \<and>
    (\<forall>(k, p) \<in> set (r_players r'). pScore p = 0 \<or> (\<exists>q. (k, q) \<in> set (r_players r) \<and> pScore p = pScore q))"
proof -
  define fp where "fp = hd_DeviceFP h"
  define found where "found = (if fp = '''' then None
    else case map_of (r_byFP r) fp of None \<Rightarrow> None | Some pid \<Rightarrow> getPlayer r pid)"
  define pid0 where "pid0 = (case found of Some p \<Rightarrow> pID p | None \<Rightarrow> (if fp = '''' then c else fp))"
  define r1 where "r1 = (case found of Some _ \<Rightarrow> r
    | None \<Rightarrow> r\<lparr>r_players := AList.update pid0 (newPlayer pid0 fp) (r_players r),
         r_byFP := (if fp = '''' then r_byFP r else AList.update fp pid0 (r_byFP r))\<rparr>)"
  define r2 where "r2 = (if hd_Handle h \<noteq> '''' \<and> sanitizeHandle U (hd_Handle h) \<noteq> ''''
    then updPlayer pid0 (\<lambda>p. p\<lparr>pHandle := sanitizeHandle U (hd_Handle h)\<rparr>) r1 else r1)"
  have r1: "keys_ok r1 \<and> getPlayer r1 pid0 \<noteq> None \<and>
    (\<forall>x \<in> set (r_players r1). x \<in> set (r_players r) \<or> pScore (snd x) = 0)"
    by (rule resolvePlayer_player [OF assms(1) found_def pid0_def r1_def])
  then have r2: "keys_ok r2 \<and> getPlayer r2 pid0 \<noteq> None"
    by (auto simp: r2_def getPlayer_updPlayer intro: keys_ok_handle)
  have "\<exists>q. (k, q) \<in> set (r_players r1) \<and> pScore p = pScore q" if "(k, p) \<in> set (r_players r2)" for k p
    using that by (auto simp: r2_def updPlayer_def split: if_splits)
  then have "pScore p = 0 \<or> (\<exists>q. (k, q) \<in> set (r_players r) \<and> pScore p = pScore q)"
    if "(k, p) \<in> set (r_players r2)" for k p
    using r1 that by fastforce
  moreover have "\<exists>cs m. r' = r2\<lparr>r_conns := AList.update c cs (r_conns r2),
      r_connByPl := AList.update pid0 m (r_connByPl r2)\<rparr> \<and> pid = pid0"
    using assms(2) unfolding resolvePlayer_def Let_def fp_def [symmetric] found_def [symmetric]
      pid0_def [symmetric] r1_def [symmetric] r2_def [symmetric] prod.inject by blast
  ultimately show ?thesis using r2 keys_ok_bind [of r2] by fastforce
qed

end
