(* ===== verification/Reveal.thy ===== *)
theory Reveal
  imports Utf8
begin

unbundle bit_operations_syntax

section \<open>The letter reveal: server/internal/game/reveal.go\<close>

text \<open>
  The server owns the reveal clock of a round and sends masked frames: a frame shows the
  letters revealed so far, the spaces, and nothing else. During the block phase it shows a
  fixed-width block with no information about the answer. This theory holds the knobs with
  their clamp, the clock, the reveal order, the mask and the single-letter step, with the
  lemmas on bounds, progress and secrecy. The timers that drive the clock are in the
  engine theories. The generator behind \<open>rand.New(rand.NewSource(seed))\<close> is a
  parameter: \<open>prng seed k\<close> is its k-th raw value.
\<close>

subsection \<open>Knobs\<close>

record revealConfig =
  rv_IntervalMs :: int
  rv_Phase1Ms :: int
  rv_BlockMs :: int
  rv_EaseMs :: int
  rv_LockoutChars :: int
  rv_AutoKaraokeMs :: int
  rv_YearDelayMs :: int
  rv_Alternate :: bool
  rv_TransitionDelayMs :: int

definition zeroRevealConfig :: revealConfig where
  "zeroRevealConfig = \<lparr>rv_IntervalMs = 0, rv_Phase1Ms = 0, rv_BlockMs = 0, rv_EaseMs = 0,
     rv_LockoutChars = 0, rv_AutoKaraokeMs = 0, rv_YearDelayMs = 0, rv_Alternate = False,
     rv_TransitionDelayMs = 0\<rparr>"

definition defaultRevealConfig :: revealConfig where
  "defaultRevealConfig = \<lparr>rv_IntervalMs = 3000, rv_Phase1Ms = 10000, rv_BlockMs = 15000,
     rv_EaseMs = 3000, rv_LockoutChars = 2, rv_AutoKaraokeMs = 3000, rv_YearDelayMs = 5000,
     rv_Alternate = True, rv_TransitionDelayMs = 3000\<rparr>"

definition revealClamp :: "revealConfig \<Rightarrow> revealConfig" where
  "revealClamp c = c\<lparr>
     rv_IntervalMs := clampInt (rv_IntervalMs c) 250 10000,
     rv_Phase1Ms := clampInt (rv_Phase1Ms c) 0 20000,
     rv_BlockMs := clampInt (rv_BlockMs c) 0 20000,
     rv_EaseMs := clampInt (rv_EaseMs c) 0 10000,
     rv_LockoutChars := clampInt (rv_LockoutChars c) 0 20,
     rv_AutoKaraokeMs := clampInt (rv_AutoKaraokeMs c) 0 15000,
     rv_YearDelayMs := clampInt (rv_YearDelayMs c) 0 20000,
     rv_TransitionDelayMs := clampInt (rv_TransitionDelayMs c) 1000 10000\<rparr>"

definition letterStartMs :: "revealConfig \<Rightarrow> int" where
  "letterStartMs c = (if rv_Phase1Ms c < rv_BlockMs c then rv_BlockMs c else rv_Phase1Ms c)"

definition cfg_ok :: "revealConfig \<Rightarrow> bool" where
  "cfg_ok c \<longleftrightarrow> 250 \<le> rv_IntervalMs c \<and> rv_IntervalMs c \<le> 10000 \<and>
     0 \<le> rv_Phase1Ms c \<and> rv_Phase1Ms c \<le> 20000 \<and> 0 \<le> rv_BlockMs c \<and> rv_BlockMs c \<le> 20000 \<and>
     0 \<le> rv_EaseMs c \<and> rv_EaseMs c \<le> 10000 \<and>
     0 \<le> rv_LockoutChars c \<and> rv_LockoutChars c \<le> 20 \<and>
     0 \<le> rv_AutoKaraokeMs c \<and> rv_AutoKaraokeMs c \<le> 15000 \<and>
     0 \<le> rv_YearDelayMs c \<and> rv_YearDelayMs c \<le> 20000 \<and>
     1000 \<le> rv_TransitionDelayMs c \<and> rv_TransitionDelayMs c \<le> 10000"

lemma cfg_ok_clamp [simp]: "cfg_ok (revealClamp c)"
  by (simp add: cfg_ok_def revealClamp_def clampInt_bounds)

lemma clamp_id: "cfg_ok c \<Longrightarrow> revealClamp c = c"
  by (simp add: cfg_ok_def revealClamp_def clampInt_id)

lemma clamp_idem [simp]: "revealClamp (revealClamp c) = revealClamp c"
  by (simp add: clamp_id)

lemma cfg_ok_default: "cfg_ok defaultRevealConfig"
  by (simp add: cfg_ok_def defaultRevealConfig_def)

subsection \<open>The clock\<close>

definition revealPhaseNoise :: int where "revealPhaseNoise = 1"
definition revealPhaseSkeleton :: int where "revealPhaseSkeleton = 2"
definition revealPhaseStream :: int where "revealPhaseStream = 3"
definition revealPhaseDone :: int where "revealPhaseDone = 4"

lemmas phase_defs = revealPhaseNoise_def revealPhaseSkeleton_def revealPhaseStream_def
  revealPhaseDone_def

record revealClock =
  rc_active :: bool
  rc_roundKey :: string
  rc_artist :: string
  rc_song :: string
  rc_artistOrder :: "nat list"
  rc_songOrder :: "nat list"
  rc_artistRevealed :: nat
  rc_songRevealed :: nat
  rc_phase :: int
  rc_phase1Done :: bool
  rc_finalizing :: bool
  rc_nextField :: int
  rc_lockedOut :: bool
  rc_year :: int
  rc_showYear :: bool
  rc_cfg :: revealConfig

definition zeroClock :: revealClock where
  "zeroClock = \<lparr>rc_active = False, rc_roundKey = '''', rc_artist = '''', rc_song = '''',
     rc_artistOrder = [], rc_songOrder = [], rc_artistRevealed = 0, rc_songRevealed = 0,
     rc_phase = 0, rc_phase1Done = False, rc_finalizing = False, rc_nextField = 0,
     rc_lockedOut = False, rc_year = 0, rc_showYear = False, rc_cfg = zeroRevealConfig\<rparr>"

definition letterPositions :: "string \<Rightarrow> nat list" where
  "letterPositions s = map fst (filter (\<lambda>(i, r). r \<noteq> 32) (runes s))"

definition buildRevealOrder :: "(u64 \<Rightarrow> nat \<Rightarrow> nat) \<Rightarrow> string \<Rightarrow> u64 \<Rightarrow> nat list" where
  "buildRevealOrder prng s seed = shuffle (prng seed) 0 (letterPositions s)"

text \<open>The 64-bit FNV-1a hash of the round key, mixed with a salt.\<close>

definition fnv64a :: "string \<Rightarrow> u64" where
  "fnv64a s = fold (\<lambda>c h. (h XOR of_nat (byte c)) * 1099511628211) s 14695981039346656037"

definition seedFromRoundKey :: "string \<Rightarrow> u64 \<Rightarrow> u64" where
  "seedFromRoundKey roundKey salt = fnv64a roundKey XOR salt"

text \<open>\<open>string(field[idx])\<close> converts one byte to the rune of that number.\<close>

definition byteString :: "char \<Rightarrow> string" where
  "byteString c = encodeRune (byte c)"

definition buildFieldMask :: "string \<Rightarrow> nat list \<Rightarrow> nat \<Rightarrow> string list" where
  "buildFieldMask field order revealed =
     (let mask = map (\<lambda>c. if c = CHR '' '' then '' '' else '''') field;
          revealed = (if length order < revealed then length order else revealed)
      in fold (\<lambda>idx mask. mask[idx := byteString (field ! idx)]) (take revealed order) mask)"

record maskedReveal =
  mr_Phase :: int
  mr_ArtistLen :: int
  mr_SongLen :: int
  mr_Artist :: "string list"
  mr_Song :: "string list"
  mr_Final :: bool
  mr_EaseMs :: int
  mr_Year :: int

definition revealBlockWidth :: nat where "revealBlockWidth = 16"

definition currentMask :: "revealClock \<Rightarrow> maskedReveal" where
  "currentMask rc =
     (let phase = rc_phase rc;
          final = (rc_finalizing rc \<or> phase = revealPhaseDone);
          year = (if rc_showYear rc then rc_year rc else 0)
      in if phase = revealPhaseNoise then
           \<lparr>mr_Phase = revealPhaseNoise, mr_ArtistLen = int revealBlockWidth,
            mr_SongLen = int revealBlockWidth, mr_Artist = replicate revealBlockWidth '''',
            mr_Song = replicate revealBlockWidth '''', mr_Final = False,
            mr_EaseMs = rv_EaseMs (rc_cfg rc), mr_Year = year\<rparr>
         else
           \<lparr>mr_Phase = phase, mr_ArtistLen = int (length (rc_artist rc)),
            mr_SongLen = int (length (rc_song rc)),
            mr_Artist = buildFieldMask (rc_artist rc) (rc_artistOrder rc) (rc_artistRevealed rc),
            mr_Song = buildFieldMask (rc_song rc) (rc_songOrder rc) (rc_songRevealed rc),
            mr_Final = final, mr_EaseMs = rv_EaseMs (rc_cfg rc), mr_Year = year\<rparr>)"

definition artistDone :: "revealClock \<Rightarrow> bool" where
  "artistDone rc \<longleftrightarrow> length (rc_artistOrder rc) \<le> rc_artistRevealed rc"

definition songDone :: "revealClock \<Rightarrow> bool" where
  "songDone rc \<longleftrightarrow> length (rc_songOrder rc) \<le> rc_songRevealed rc"

definition allDone :: "revealClock \<Rightarrow> bool" where
  "allDone rc \<longleftrightarrow> artistDone rc \<and> songDone rc"

definition remainingHidden :: "revealClock \<Rightarrow> int" where
  "remainingHidden rc =
     (let rem = (int (length (rc_artistOrder rc)) - int (rc_artistRevealed rc))
              + (int (length (rc_songOrder rc)) - int (rc_songRevealed rc))
      in if rem < 0 then 0 else rem)"

text \<open>
  The alternating branch of \<open>revealOneLetter\<close> is a loop of two tries. The random branch
  asks the source for \<open>Intn(2)\<close> only when both fields still have letters; \<open>draw\<close> is that
  raw value, or None for a nil source.
\<close>

fun revealAlternating :: "nat \<Rightarrow> revealClock \<Rightarrow> bool \<times> revealClock" where
  "revealAlternating 0 rc = (False, rc)"
| "revealAlternating (Suc tries) rc =
     (if rc_nextField rc = 0 then
        (if \<not> artistDone rc
         then (True, rc\<lparr>rc_nextField := 1, rc_artistRevealed := rc_artistRevealed rc + 1\<rparr>)
         else revealAlternating tries (rc\<lparr>rc_nextField := 1\<rparr>))
      else
        (if \<not> songDone rc
         then (True, rc\<lparr>rc_nextField := 0, rc_songRevealed := rc_songRevealed rc + 1\<rparr>)
         else revealAlternating tries (rc\<lparr>rc_nextField := 0\<rparr>)))"

definition revealOneLetter :: "nat option \<Rightarrow> revealClock \<Rightarrow> bool \<times> revealClock" where
  "revealOneLetter draw rc =
     (if allDone rc then (False, rc)
      else if \<not> rv_Alternate (rc_cfg rc) then
        (True,
         if artistDone rc then rc\<lparr>rc_songRevealed := rc_songRevealed rc + 1\<rparr>
         else if songDone rc then rc\<lparr>rc_artistRevealed := rc_artistRevealed rc + 1\<rparr>
         else if (case draw of None \<Rightarrow> True | Some d \<Rightarrow> d mod 2 = 0)
         then rc\<lparr>rc_artistRevealed := rc_artistRevealed rc + 1\<rparr>
         else rc\<lparr>rc_songRevealed := rc_songRevealed rc + 1\<rparr>)
      else revealAlternating 2 rc)"

definition revealDraws :: "revealClock \<Rightarrow> bool" where
  "revealDraws rc \<longleftrightarrow> \<not> rv_Alternate (rc_cfg rc) \<and> \<not> artistDone rc \<and> \<not> songDone rc"

definition completeAll :: "revealClock \<Rightarrow> revealClock" where
  "completeAll rc = rc\<lparr>rc_artistRevealed := length (rc_artistOrder rc),
     rc_songRevealed := length (rc_songOrder rc), rc_phase := revealPhaseDone\<rparr>"

subsection \<open>The reveal order\<close>

lemma mset_buildRevealOrder: "mset (buildRevealOrder prng s seed) = mset (letterPositions s)"
  by (simp add: buildRevealOrder_def)

lemma set_buildRevealOrder: "set (buildRevealOrder prng s seed) = set (letterPositions s)"
  by (simp add: buildRevealOrder_def)

lemma distinct_buildRevealOrder: "distinct (buildRevealOrder prng s seed)"
  by (simp add: buildRevealOrder_def letterPositions_def distinct_runes distinct_map_filter)

lemma letterPositions_bound: "i \<in> set (letterPositions s) \<Longrightarrow> i < length s"
  by (auto simp: letterPositions_def dest: runes_index)

lemma buildRevealOrder_bound: "i \<in> set (buildRevealOrder prng s seed) \<Longrightarrow> i < length s"
  by (simp add: set_buildRevealOrder letterPositions_bound)

subsection \<open>The mask\<close>

lemma length_mask_fold:
  "length (fold (\<lambda>idx m. m[idx := f idx]) is m) = length m"
  by (induction "is" arbitrary: m) auto

lemma nth_mask_fold:
  "j < length m \<Longrightarrow>
   fold (\<lambda>idx m. m[idx := f idx]) is m ! j = (if j \<in> set is then f j else m ! j)"
  by (induction "is" arbitrary: m) (auto simp: nth_list_update)

lemma take_min_order:
  "take (if length xs < n then length xs else n) xs = take n xs"
  by simp

lemma length_buildFieldMask [simp]: "length (buildFieldMask field order revealed) = length field"
  by (simp add: buildFieldMask_def Let_def length_mask_fold)

lemma nth_buildFieldMask:
  assumes "j < length field"
  shows "buildFieldMask field order revealed ! j =
    (if j \<in> set (take revealed order) then byteString (field ! j)
     else if field ! j = CHR '' '' then '' '' else '''')"
  using assms by (simp add: buildFieldMask_def Let_def take_min_order nth_mask_fold)

text \<open>Two answers that agree on spaces and on the revealed letters have the same mask.\<close>

lemma buildFieldMask_secret:
  assumes "length s = length t"
    and "\<And>j. j < length s \<Longrightarrow> s ! j = CHR '' '' \<longleftrightarrow> t ! j = CHR '' ''"
    and "\<And>j. j \<in> set (take n order) \<Longrightarrow> j < length s \<Longrightarrow> s ! j = t ! j"
  shows "buildFieldMask s order n = buildFieldMask t order n"
  using assms by (intro nth_equalityI) (auto simp: nth_buildFieldMask)

lemma currentMask_block:
  "rc_phase rc = revealPhaseNoise \<Longrightarrow> currentMask rc =
     \<lparr>mr_Phase = 1, mr_ArtistLen = 16, mr_SongLen = 16, mr_Artist = replicate 16 '''',
      mr_Song = replicate 16 '''', mr_Final = False, mr_EaseMs = rv_EaseMs (rc_cfg rc),
      mr_Year = (if rc_showYear rc then rc_year rc else 0)\<rparr>"
  by (simp add: currentMask_def phase_defs revealBlockWidth_def Let_def)

subsection \<open>One letter at a time\<close>

definition clock_ok :: "revealClock \<Rightarrow> bool" where
  "clock_ok rc \<longleftrightarrow> rc_artistRevealed rc \<le> length (rc_artistOrder rc) \<and>
     rc_songRevealed rc \<le> length (rc_songOrder rc)"

definition lettersShown :: "revealClock \<Rightarrow> nat" where
  "lettersShown rc = rc_artistRevealed rc + rc_songRevealed rc"

lemma remainingHidden_ok:
  "clock_ok rc \<Longrightarrow> remainingHidden rc =
     int (length (rc_artistOrder rc) + length (rc_songOrder rc) - lettersShown rc)"
  by (auto simp: remainingHidden_def clock_ok_def lettersShown_def Let_def)

lemma allDone_remaining: "clock_ok rc \<Longrightarrow> allDone rc \<longleftrightarrow> remainingHidden rc = 0"
  by (auto simp: remainingHidden_def clock_ok_def allDone_def artistDone_def songDone_def Let_def)

lemma revealOneLetter_disj:
  "allDone rc \<and> revealOneLetter d rc = (False, rc) \<or>
   \<not> artistDone rc \<and> (\<exists>n. revealOneLetter d rc =
     (True, rc\<lparr>rc_nextField := n, rc_artistRevealed := rc_artistRevealed rc + 1\<rparr>)) \<or>
   \<not> songDone rc \<and> (\<exists>n. revealOneLetter d rc =
     (True, rc\<lparr>rc_nextField := n, rc_songRevealed := rc_songRevealed rc + 1\<rparr>))"
  by (cases rc)
    (simp add: revealOneLetter_def numeral_2_eq_2 allDone_def artistDone_def songDone_def split: option.split)

lemma revealOneLetter_cases:
  obtains (none) "allDone rc" "revealOneLetter d rc = (False, rc)"
  | (artist) n where "\<not> artistDone rc"
      "revealOneLetter d rc =
        (True, rc\<lparr>rc_nextField := n, rc_artistRevealed := rc_artistRevealed rc + 1\<rparr>)"
  | (song) n where "\<not> songDone rc"
      "revealOneLetter d rc =
        (True, rc\<lparr>rc_nextField := n, rc_songRevealed := rc_songRevealed rc + 1\<rparr>)"
  using revealOneLetter_disj [of rc d] by blast

lemma revealOneLetter_progress:
  assumes "\<not> allDone rc"
  shows "fst (revealOneLetter d rc) \<and>
    lettersShown (snd (revealOneLetter d rc)) = lettersShown rc + 1"
  using assms by (cases rule: revealOneLetter_cases [where rc = rc and d = d]) (auto simp: lettersShown_def)

lemma revealOneLetter_ok:
  assumes "clock_ok rc" shows "clock_ok (snd (revealOneLetter d rc))"
  using assms
  by (cases rule: revealOneLetter_cases [where rc = rc and d = d]) (auto simp: clock_ok_def artistDone_def songDone_def)

lemma revealOneLetter_frame:
  "rc_artistOrder (snd (revealOneLetter d rc)) = rc_artistOrder rc \<and>
   rc_songOrder (snd (revealOneLetter d rc)) = rc_songOrder rc \<and>
   rc_artist (snd (revealOneLetter d rc)) = rc_artist rc \<and>
   rc_song (snd (revealOneLetter d rc)) = rc_song rc \<and>
   rc_cfg (snd (revealOneLetter d rc)) = rc_cfg rc \<and>
   rc_phase (snd (revealOneLetter d rc)) = rc_phase rc \<and>
   rc_active (snd (revealOneLetter d rc)) = rc_active rc \<and>
   rc_finalizing (snd (revealOneLetter d rc)) = rc_finalizing rc \<and>
   rc_roundKey (snd (revealOneLetter d rc)) = rc_roundKey rc"
  by (cases rule: revealOneLetter_cases [where rc = rc and d = d]) auto

lemma revealOneLetter_remaining:
  assumes "clock_ok rc"
  shows "remainingHidden (snd (revealOneLetter d rc)) =
    (if allDone rc then 0 else remainingHidden rc - 1)"
proof (cases "allDone rc")
  case True
  with assms show ?thesis by (simp add: revealOneLetter_def allDone_remaining)
next
  case False
  with assms have "0 < remainingHidden rc"
    by (auto simp: allDone_remaining remainingHidden_def Let_def split: if_splits)
  with False show ?thesis
    using revealOneLetter_progress [OF False, of d] revealOneLetter_frame [of d rc]
      remainingHidden_ok [OF assms] remainingHidden_ok [OF revealOneLetter_ok [OF assms], of d]
    by auto
qed

text \<open>Letting the clock tick: \<open>ds\<close> are the raw draws of the successive ticks.\<close>

definition revealMany :: "nat option list \<Rightarrow> revealClock \<Rightarrow> revealClock" where
  "revealMany ds rc = fold (\<lambda>d rc. snd (revealOneLetter d rc)) ds rc"

lemma revealMany_ok: "clock_ok rc \<Longrightarrow> clock_ok (revealMany ds rc)"
  unfolding revealMany_def by (rule fold_invariant_gen) (simp_all add: revealOneLetter_ok)

lemma revealMany_remaining:
  "clock_ok rc \<Longrightarrow> remainingHidden (revealMany ds rc) = max 0 (remainingHidden rc - int (length ds))"
proof (induction ds arbitrary: rc)
  case Nil
  then show ?case by (simp add: revealMany_def remainingHidden_def Let_def)
next
  case (Cons d ds)
  have "0 \<le> remainingHidden rc" by (simp add: remainingHidden_def Let_def)
  with Cons show ?case
    using Cons.IH [OF revealOneLetter_ok [OF Cons.prems, of d]]
      revealOneLetter_remaining [OF Cons.prems, of d] allDone_remaining [OF Cons.prems]
    by (auto simp: revealMany_def)
qed

lemma completeAll_done: "allDone (completeAll rc) \<and> clock_ok (completeAll rc)"
  by (simp add: completeAll_def allDone_def artistDone_def songDone_def clock_ok_def)

end
