(* ===== verification/Protocol.thy ===== *)
theory Protocol
  imports Board Registry Reveal
begin

section \<open>The wire protocol: server/internal/protocol and the messages local to the engine\<close>

text \<open>
  Game states, client messages and server messages. A client frame carries a type string
  and a JSON blob which each handler decodes for itself; the model's \<open>client_body\<close> has one
  constructor per type, with the decoded payload, or \<open>Inl\<close> of the decoder's error text.
  Two handlers ignore the decoding error (heartbeat, Solo Karaoke play); their payload is
  what decoding left in the zeroed struct. \<open>clientMsgType\<close> and \<open>serverMsgType\<close> give the type
  strings of the wire.
\<close>

subsection \<open>Game states\<close>

datatype game_state = StateLobby | StateBoard | StateRoundActive | StateLocked | StateAdjudicate
  | StateKaraoke | StateDailyDouble | StateTransition | StateGameOver

fun stateString :: "game_state \<Rightarrow> string" where
  "stateString StateLobby = ''LOBBY''"
| "stateString StateBoard = ''BOARD''"
| "stateString StateRoundActive = ''ROUND_ACTIVE''"
| "stateString StateLocked = ''LOCKED_OUT''"
| "stateString StateAdjudicate = ''ADJUDICATE''"
| "stateString StateKaraoke = ''KARAOKE''"
| "stateString StateDailyDouble = ''DAILY_DOUBLE''"
| "stateString StateTransition = ''TRANSITION''"
| "stateString StateGameOver = ''GAME_OVER''"

definition TrustedReveal :: "role \<Rightarrow> bool" where
  "TrustedReveal r \<longleftrightarrow> r = RoleStage \<or> r = RoleAdmin"

subsection \<open>Client messages\<close>

type_synonym 'a json = "string + 'a"

record stagePlayerState =
  sp_PositionMs :: int
  sp_Paused :: bool
  sp_TrackEnded :: bool

text \<open>The partial knob update: a nil pointer field is None.\<close>

record revealPatch =
  rp_IntervalMs :: "int option"
  rp_Phase1Ms :: "int option"
  rp_BlockMs :: "int option"
  rp_EaseMs :: "int option"
  rp_LockoutChars :: "int option"
  rp_AutoKaraokeMs :: "int option"
  rp_YearDelayMs :: "int option"
  rp_Alternate :: "bool option"
  rp_TransitionDelayMs :: "int option"

datatype client_body =
    CMsgHello "helloData json"
  | CMsgHeartbeat int
  | CMsgResync
  | CMsgBuzz
  | CMsgVote
  | CMsgRate "int json"
  | CMsgDailyDoubleDecision "bool json"
  | CMsgDailyDoubleChoose "string json"
  | CMsgPlayerSelectCell "(int \<times> int) json"
  | CMsgAdminGrade "(string \<times> string) json"
  | CMsgAdminSelect "(int \<times> int) json"
  | CMsgAdminPlayback "string json"
  | CMsgAdminAward "(playerID \<times> int) json"
  | CMsgAdminKick "(playerID \<times> bool) json"
  | CMsgAdminReveal
  | CMsgAdminEndRound
  | CMsgAdminSetThresh "int json"
  | CMsgAdminEndGame
  | CMsgAdminSetRevealCfg "revealPatch json"
  | CMsgAdminSkipDailyDouble
  | CMsgAdminSeek "int json"
  | CMsgAdminSetDropPoint "int json"
  | CMsgAdminJumpToDropPoint
  | CMsgAdminSetVolume "int json"
  | CMsgAdminEndDailyDouble
  | CMsgSoloPlay string
  | CMsgSoloPause
  | CMsgSoloResume
  | CMsgSoloStop
  | CMsgSoloNext
  | CMsgSoloPrev
  | CMsgSoloSeek "int json"
  | CMsgSoloSetShuffle "bool json"
  | CMsgSoloSetRepeat "string json"
  | CMsgStagePlayerState "stagePlayerState json"
  | CMsgStageDeviceReady "string json"
  | CMsgUnknown string

record clientEnvelope =
  ce_body :: client_body
  ce_Nonce :: u64

fun clientMsgType :: "client_body \<Rightarrow> string" where
  "clientMsgType (CMsgHello _) = ''hello''"
| "clientMsgType (CMsgHeartbeat _) = ''heartbeat''"
| "clientMsgType CMsgResync = ''resync''"
| "clientMsgType CMsgBuzz = ''buzz''"
| "clientMsgType CMsgVote = ''vote''"
| "clientMsgType (CMsgRate _) = ''rate''"
| "clientMsgType (CMsgDailyDoubleDecision _) = ''dailyDouble.decision''"
| "clientMsgType (CMsgDailyDoubleChoose _) = ''dailyDouble.choose''"
| "clientMsgType (CMsgPlayerSelectCell _) = ''player.selectCell''"
| "clientMsgType (CMsgAdminGrade _) = ''admin.grade''"
| "clientMsgType (CMsgAdminSelect _) = ''admin.select''"
| "clientMsgType (CMsgAdminPlayback _) = ''admin.playback''"
| "clientMsgType (CMsgAdminAward _) = ''admin.award''"
| "clientMsgType (CMsgAdminKick _) = ''admin.kick''"
| "clientMsgType CMsgAdminReveal = ''admin.reveal''"
| "clientMsgType CMsgAdminEndRound = ''admin.endRound''"
| "clientMsgType (CMsgAdminSetThresh _) = ''admin.setThresh''"
| "clientMsgType CMsgAdminEndGame = ''admin.endGame''"
| "clientMsgType (CMsgAdminSetRevealCfg _) = ''admin.setRevealCfg''"
| "clientMsgType CMsgAdminSkipDailyDouble = ''admin.skipDailyDouble''"
| "clientMsgType (CMsgAdminSeek _) = ''admin.seek''"
| "clientMsgType (CMsgAdminSetDropPoint _) = ''admin.setDropPoint''"
| "clientMsgType CMsgAdminJumpToDropPoint = ''admin.jumpToDropPoint''"
| "clientMsgType (CMsgAdminSetVolume _) = ''admin.setVolume''"
| "clientMsgType CMsgAdminEndDailyDouble = ''admin.endDailyDouble''"
| "clientMsgType (CMsgSoloPlay _) = ''admin.soloKaraoke.play''"
| "clientMsgType CMsgSoloPause = ''admin.soloKaraoke.pause''"
| "clientMsgType CMsgSoloResume = ''admin.soloKaraoke.resume''"
| "clientMsgType CMsgSoloStop = ''admin.soloKaraoke.stop''"
| "clientMsgType CMsgSoloNext = ''admin.soloKaraoke.next''"
| "clientMsgType CMsgSoloPrev = ''admin.soloKaraoke.prev''"
| "clientMsgType (CMsgSoloSeek _) = ''admin.soloKaraoke.seek''"
| "clientMsgType (CMsgSoloSetShuffle _) = ''admin.soloKaraoke.setShuffle''"
| "clientMsgType (CMsgSoloSetRepeat _) = ''admin.soloKaraoke.setRepeat''"
| "clientMsgType (CMsgStagePlayerState _) = ''stage.playerState''"
| "clientMsgType (CMsgStageDeviceReady _) = ''stage.deviceReady''"
| "clientMsgType (CMsgUnknown t) = t"

subsection \<open>Server messages\<close>

record scoreEntry =
  se_ID :: playerID
  se_Handle :: string
  se_Score :: int

record telemetryConn =
  tc_ID :: playerID
  tc_Handle :: string
  tc_RTTMs :: int
  tc_Score :: int
  tc_Active :: bool

record cheatEntry =
  che_PlayerID :: playerID
  che_Handle :: string
  che_IP :: string
  che_Conns :: int
  che_Flags :: "string list"

record playbackPosition =
  pp_PositionMs :: int
  pp_DurationMs :: int
  pp_Paused :: bool
  pp_HasDropPoint :: bool
  pp_DropPointMs :: int

record soloNowPlaying =
  np_TrackID :: string
  np_SpotifyURI :: string
  np_Artist :: string
  np_Song :: string
  np_AlbumArt :: string
  np_DurationMs :: int
  np_Index :: int
  np_QueueLen :: int
  np_Shuffle :: bool
  np_Repeat :: string
  np_Paused :: bool

record adminView =
  av_BuzzedPlayerID :: playerID
  av_BuzzedHandle :: string
  av_CorrectArtist :: string
  av_CorrectSong :: string
  av_CurrentPoints :: int

record trackStart =
  ts_MaxPoints :: int
  ts_BasePoints :: int
  ts_StartTime :: int
  ts_ArtistLen :: int
  ts_SongLen :: int

record lyricLine =
  ll_TimeMs :: int
  ll_Text :: string

datatype audio_action = AudioPlay | AudioPause | AudioResume

datatype server_msg =
    SMsgWelcome playerID role u64
  | SMsgError string string
  | SMsgState game_state
  | SMsgHeartbeat int
  | SMsgLockout string
  | SMsgBuzzResult bool
  | SMsgVoteState int int bool
  | SMsgTrackStart trackStart
  | SMsgReveal string string string
  | SMsgLyrics "lyricLine list"
  | SMsgScoreboard "scoreEntry list"
  | SMsgBoard boardView
  | SMsgAudio audio_action string int
  | SMsgTelemetry "telemetryConn list"
  | SMsgAdminView adminView
  | SMsgSpotifyToken string
  | SMsgPartialReveal string
  | SMsgGradeResult string
  | SMsgDailyDoublePerformer playerID string bool
  | SMsgDailyDoubleResult rat int
  | SMsgDailyDoubleOffer "(string \<times> string \<times> string) list"
  | SMsgPickerStatus playerID string bool
  | SMsgPickableBoard boardView
  | SMsgPendingPick int int
  | SMsgStageVoteProgress int int int
  | SMsgMaskedReveal maskedReveal
  | SMsgAdminRevealCfg revealConfig
  | SMsgLyricsStatus string
  | SMsgRoundWinner string
  | SMsgCheatReport "cheatEntry list"
  | SMsgPlaybackPosition playbackPosition
  | SMsgVolumeStatus int
  | SMsgSoloNowPlaying soloNowPlaying
  | SMsgModeLock string
  | SMsgSoloActive bool
  | SMsgSoloLyricsStatus string
  | SMsgSoloError string

fun serverMsgType :: "server_msg \<Rightarrow> string" where
  "serverMsgType (SMsgWelcome _ _ _) = ''welcome''"
| "serverMsgType (SMsgError _ _) = ''error''"
| "serverMsgType (SMsgState _) = ''state''"
| "serverMsgType (SMsgHeartbeat _) = ''heartbeat''"
| "serverMsgType (SMsgLockout _) = ''lockout''"
| "serverMsgType (SMsgBuzzResult _) = ''buzzResult''"
| "serverMsgType (SMsgVoteState _ _ _) = ''voteState''"
| "serverMsgType (SMsgTrackStart _) = ''trackStart''"
| "serverMsgType (SMsgReveal _ _ _) = ''reveal''"
| "serverMsgType (SMsgLyrics _) = ''lyrics''"
| "serverMsgType (SMsgScoreboard _) = ''scoreboard''"
| "serverMsgType (SMsgBoard _) = ''board''"
| "serverMsgType (SMsgAudio _ _ _) = ''audio''"
| "serverMsgType (SMsgTelemetry _) = ''telemetry''"
| "serverMsgType (SMsgAdminView _) = ''adminView''"
| "serverMsgType (SMsgSpotifyToken _) = ''spotifyToken''"
| "serverMsgType (SMsgPartialReveal _) = ''partialReveal''"
| "serverMsgType (SMsgGradeResult _) = ''gradeResult''"
| "serverMsgType (SMsgDailyDoublePerformer _ _ _) = ''dailyDouble.performer''"
| "serverMsgType (SMsgDailyDoubleResult _ _) = ''dailyDouble.result''"
| "serverMsgType (SMsgDailyDoubleOffer _) = ''dailyDouble.offer''"
| "serverMsgType (SMsgPickerStatus _ _ _) = ''pickerStatus''"
| "serverMsgType (SMsgPickableBoard _) = ''pickableBoard''"
| "serverMsgType (SMsgPendingPick _ _) = ''pendingPick''"
| "serverMsgType (SMsgStageVoteProgress _ _ _) = ''stageVoteProgress''"
| "serverMsgType (SMsgMaskedReveal _) = ''maskedReveal''"
| "serverMsgType (SMsgAdminRevealCfg _) = ''adminRevealCfg''"
| "serverMsgType (SMsgLyricsStatus _) = ''lyricsStatus''"
| "serverMsgType (SMsgRoundWinner _) = ''roundWinner''"
| "serverMsgType (SMsgCheatReport _) = ''cheatReport''"
| "serverMsgType (SMsgPlaybackPosition _) = ''playbackPosition''"
| "serverMsgType (SMsgVolumeStatus _) = ''volumeStatus''"
| "serverMsgType (SMsgSoloNowPlaying _) = ''soloKaraokeNowPlaying''"
| "serverMsgType (SMsgModeLock _) = ''modeLock''"
| "serverMsgType (SMsgSoloActive _) = ''soloKaraokeActive''"
| "serverMsgType (SMsgSoloLyricsStatus _) = ''soloKaraokeLyricsStatus''"
| "serverMsgType (SMsgSoloError _) = ''soloKaraokeError''"

record serverEnvelope =
  ev_msg :: server_msg
  ev_Nonce :: u64
  ev_Seq :: u64

text \<open>
  The client-side sanitization rule of the design (section 4A): which messages a mobile
  connection may receive. Track titles, artists, URIs, album art, lyrics and the
  evaluation context are not among them; the Daily Double offer is the one documented
  exception and is treated separately.
\<close>

fun mobileSafe :: "server_msg \<Rightarrow> bool" where
  "mobileSafe (SMsgReveal _ _ _) = False"
| "mobileSafe (SMsgLyrics _) = False"
| "mobileSafe (SMsgAudio _ _ _) = False"
| "mobileSafe (SMsgAdminView _) = False"
| "mobileSafe (SMsgSoloNowPlaying _) = False"
| "mobileSafe (SMsgDailyDoubleOffer _) = False"
| "mobileSafe (SMsgTrackStart _) = False"
| "mobileSafe (SMsgBoard _) = False"
| "mobileSafe (SMsgTelemetry _) = False"
| "mobileSafe (SMsgCheatReport _) = False"
| "mobileSafe (SMsgSpotifyToken _) = False"
| "mobileSafe (SMsgPlaybackPosition _) = False"
| "mobileSafe (SMsgPartialReveal _) = False"
| "mobileSafe _ = True"

end
