(* ===== verification/Lyrics.thy ===== *)
theory Lyrics
  imports Protocol
begin

section \<open>Synced lyrics: ParseLRC of server/internal/lyrics/lyrics.go\<close>

text \<open>
  The LRC parser. A document is split into lines; the timestamp tags at the head of a line
  are consumed one by one, and the trimmed remainder is emitted once per tag; the result is
  sorted stably by time. The regular expression of a tag,
  \<open>[ digits : 1-2 digits , optionally . or : and 1-3 digits , ]\<close>, is the function \<open>matchTag\<close>,
  which matches at the head of the text only: each of its runs of digits is delimited by a
  non-digit, so there is one way to match.

  \<open>strconv.Atoi\<close> saturates at the int64 range and reports an error; the code drops the
  error. The products are int64 and wrap (\<open>wrap64\<close>).
\<close>

definition wrap64 :: "int \<Rightarrow> int" where
  "wrap64 i = (i + 2 ^ 63) mod 2 ^ 64 - 2 ^ 63"

definition isDigit :: "char \<Rightarrow> bool" where
  "isDigit c \<longleftrightarrow> 48 \<le> byte c \<and> byte c \<le> 57"

definition digitsVal :: "string \<Rightarrow> int" where
  "digitsVal s = fold (\<lambda>c n. 10 * n + int (byte c - 48)) s 0"

text \<open>Atoi on a nonempty run of digits: the value it returns with or without an error.\<close>

definition atoi :: "string \<Rightarrow> int" where
  "atoi s = (if digitsVal s < 2 ^ 63 then digitsVal s else 2 ^ 63 - 1)"

definition lrcTimeMs :: "string \<Rightarrow> string \<Rightarrow> string \<Rightarrow> int" where
  "lrcTimeMs minStr secStr fr =
     (let mins = atoi minStr; sec = atoi secStr;
          ms = (if length fr = 1 then atoi fr * 100
                else if length fr = 2 then atoi fr * 10
                else if length fr = 3 then atoi fr else 0)
      in wrap64 (wrap64 (wrap64 (mins * 60000) + wrap64 (sec * 1000)) + ms))"

text \<open>A tag at the head: minutes, seconds, fraction and the rest of the text.\<close>

definition matchTag :: "string \<Rightarrow> (string \<times> string \<times> string \<times> string) option" where
  "matchTag s =
     (case s of
        c # s1 \<Rightarrow>
          if c \<noteq> CHR ''['' then None
          else
            let m = takeWhile isDigit s1; r1 = dropWhile isDigit s1
            in if m = [] then None
               else case r1 of
                 c1 # s2 \<Rightarrow>
                   if c1 \<noteq> CHR '':'' then None
                   else
                     let sec = takeWhile isDigit s2; r2 = dropWhile isDigit s2
                     in if length sec = 0 \<or> 2 < length sec then None
                        else case r2 of
                          c2 # s3 \<Rightarrow>
                            if c2 = CHR '']'' then Some (m, sec, '''', s3)
                            else if c2 = CHR ''.'' \<or> c2 = CHR '':'' then
                              let f = takeWhile isDigit s3; r3 = dropWhile isDigit s3
                              in if length f = 0 \<or> 3 < length f then None
                                 else (case r3 of
                                    c3 # s4 \<Rightarrow> if c3 = CHR '']'' then Some (m, sec, f, s4) else None
                                  | [] \<Rightarrow> None)
                            else None
                        | [] \<Rightarrow> None
               | [] \<Rightarrow> None
      | [] \<Rightarrow> None)"

lemma dropWhile_Cons_length: "dropWhile P xs = y # ys \<Longrightarrow> length ys < length xs"
  by (metis length_dropWhile_le length_Cons Suc_le_lessD)

lemma matchTag_shorter: "matchTag s = Some (m, sec, f, rest) \<Longrightarrow> length rest < length s"
  by (auto simp: matchTag_def Let_def split: list.splits if_splits dest!: dropWhile_Cons_length)

function takeTags :: "string \<Rightarrow> int list \<times> string" where
  "takeTags s = (case matchTag s of None \<Rightarrow> ([], s)
     | Some (m, sec, f, rest) \<Rightarrow> (case takeTags rest of (ts, r) \<Rightarrow> (lrcTimeMs m sec f # ts, r)))"
  by pat_completeness auto
termination
  by (relation "measure length") (auto simp: matchTag_shorter)

declare takeTags.simps [simp del]

fun splitLines :: "string \<Rightarrow> string list" where
  "splitLines [] = [[]]"
| "splitLines (c # cs) =
     (if byte c = 10 then [] # splitLines cs
      else (case splitLines cs of l # ls \<Rightarrow> (c # l) # ls | [] \<Rightarrow> [[c]]))"

definition trimRightCR :: "string \<Rightarrow> string" where
  "trimRightCR s = rev (dropWhile (\<lambda>c. byte c = 13) (rev s))"

text \<open>\<open>unicode.IsSpace\<close>.\<close>

definition isSpaceRune :: "nat \<Rightarrow> bool" where
  "isSpaceRune r \<longleftrightarrow> 9 \<le> r \<and> r \<le> 13 \<or> r \<in> {0x20, 0x85, 0xA0, 0x1680, 0x2028, 0x2029, 0x202f, 0x205f, 0x3000}
     \<or> 0x2000 \<le> r \<and> r \<le> 0x200a"

text \<open>
  \<open>strings.TrimSpace\<close>: the text from the first rune that is no space to the end of the
  last such rune, by byte positions.
\<close>

definition trimSpace :: "string \<Rightarrow> string" where
  "trimSpace s =
     (let rs = runes s;
          ends = map fst (tl rs) @ [length s];
          ns = filter (\<lambda>((i, r), j). \<not> isSpaceRune r) (zip rs ends)
      in if ns = [] then [] else take (snd (last ns) - fst (fst (hd ns))) (drop (fst (fst (hd ns))) s))"

definition parseLine :: "string \<Rightarrow> lyricLine list" where
  "parseLine raw =
     (case takeTags (trimRightCR raw) of (tms, rest) \<Rightarrow>
        if tms = [] then []
        else map (\<lambda>t. \<lparr>ll_TimeMs = t, ll_Text = trimSpace rest\<rparr>) tms)"

definition ParseLRC :: "string \<Rightarrow> lyricLine list" where
  "ParseLRC doc = sort_key ll_TimeMs (concat (map parseLine (splitLines doc)))"

lemma ParseLRC_sorted: "sorted (map ll_TimeMs (ParseLRC doc))"
  by (simp add: ParseLRC_def)

lemma ParseLRC_mset: "mset (ParseLRC doc) = mset (concat (map parseLine (splitLines doc)))"
  by (simp add: ParseLRC_def)

end
