(* ===== verification/Anticheat.thy ===== *)
theory Anticheat
  imports Prelude
begin

section \<open>Anti-cheat controls: server/internal/anticheat and server/internal/store/lock\_mem.go\<close>

subsection \<open>The latency formula (latency.go)\<close>

text \<open>Go's integer division truncates towards zero; \<open>quot\<close> is that division.\<close>

definition quot :: "int \<Rightarrow> int \<Rightarrow> int" where
  "quot a b = sgn a * sgn b * (\<bar>a\<bar> div \<bar>b\<bar>)"

definition MaxHalfDeductMs :: int where "MaxHalfDeductMs = 50"

definition EffectiveBuzzTime :: "int \<Rightarrow> int \<Rightarrow> int" where
  "EffectiveBuzzTime arrivalMs rttMs =
     (let half = quot rttMs 2;
          half = (if half > MaxHalfDeductMs then MaxHalfDeductMs else half);
          half = (if half < 0 then 0 else half)
      in arrivalMs - half)"

lemma EffectiveBuzzTime_bounds:
  "arrivalMs - 50 \<le> EffectiveBuzzTime arrivalMs rttMs \<and> EffectiveBuzzTime arrivalMs rttMs \<le> arrivalMs"
  by (simp add: EffectiveBuzzTime_def MaxHalfDeductMs_def Let_def)

subsection \<open>The nonce gate (nonce.go)\<close>

record nonce_gate =
  ng_counter :: u64

definition NewNonceGate :: nonce_gate where
  "NewNonceGate = \<lparr>ng_counter = 0\<rparr>"

definition gate_Current :: "nonce_gate \<Rightarrow> u64" where
  "gate_Current g = ng_counter g"

definition gate_Bump :: "nonce_gate \<Rightarrow> nonce_gate" where
  "gate_Bump g = g\<lparr>ng_counter := ng_counter g + 1\<rparr>"

definition gate_Validate :: "nonce_gate \<Rightarrow> u64 \<Rightarrow> bool" where
  "gate_Validate g n \<longleftrightarrow> n = ng_counter g"

lemma gate_Validate_Current: "gate_Validate g (gate_Current g)"
  by (simp add: gate_Validate_def gate_Current_def)

lemma counter_Bump_funpow: "ng_counter ((gate_Bump ^^ k) g) = ng_counter g + of_nat k"
  by (induction k) (simp_all add: gate_Bump_def)

lemma gate_stale:
  assumes "0 < k" and "k < 2 ^ 64"
  shows "\<not> gate_Validate ((gate_Bump ^^ k) g) (gate_Current g)"
proof -
  have "unat (of_nat k :: u64) = k" using assms by (simp add: unat_of_nat)
  with assms(1) have "(of_nat k :: u64) \<noteq> 0" by force
  then show ?thesis
    by (simp add: gate_Validate_def gate_Current_def counter_Bump_funpow)
qed

subsection \<open>The buzz lock: the interface of ports.go\<close>

text \<open>
  \<open>game.BuzzLock\<close> is the single-winner primitive of a buzz round. \<open>holder l k\<close> is
  the player holding key \<open>k\<close>. The laws are what ports.go promises of every backend: an
  acquire wins exactly when the key is free and then records its winner, a release frees
  its own key and no other.
\<close>

locale buzz_lock =
  fixes tryAcquire :: "'l \<Rightarrow> 'k \<Rightarrow> 'p \<Rightarrow> bool \<times> 'l"
    and release :: "'l \<Rightarrow> 'k \<Rightarrow> 'l"
    and holder :: "'l \<Rightarrow> 'k \<Rightarrow> 'p option"
  assumes acquire_won: "fst (tryAcquire l k p) \<longleftrightarrow> holder l k = None"
    and acquire_holder: "holder (snd (tryAcquire l k p)) k' =
      (if k' = k \<and> holder l k = None then Some p else holder l k')"
    and release_holder: "holder (release l k) k' = (if k' = k then None else holder l k')"
begin

lemma second_acquire_loses: "\<not> fst (tryAcquire (snd (tryAcquire l k p)) k q)"
  by (cases "holder l k") (simp_all add: acquire_won acquire_holder)

lemma reacquire_after_release: "fst (tryAcquire (release l k) k p)"
  by (simp add: acquire_won release_holder)

lemma acquire_other_key: "k' \<noteq> k \<Longrightarrow> holder (snd (tryAcquire l k p)) k' = holder l k'"
  by (simp add: acquire_holder)

end

text \<open>A sequence of acquires with no release in between has at most one winner.\<close>

fun acquire_all :: "('l \<Rightarrow> 'k \<Rightarrow> 'p \<Rightarrow> bool \<times> 'l) \<Rightarrow> 'k \<Rightarrow> 'l \<Rightarrow> 'p list \<Rightarrow> bool list" where
  "acquire_all acq k l [] = []"
| "acquire_all acq k l (p # ps) = fst (acq l k p) # acquire_all acq k (snd (acq l k p)) ps"

context buzz_lock begin

lemma acquire_all_taken: "holder l k \<noteq> None \<Longrightarrow> count_list (acquire_all tryAcquire k l ps) True = 0"
  by (induction ps arbitrary: l) (auto simp: acquire_won acquire_holder)

lemma acquire_all_one_winner: "count_list (acquire_all tryAcquire k l ps) True \<le> 1"
proof (induction ps arbitrary: l)
  case Nil
  then show ?case by simp
next
  case (Cons p ps)
  show ?case
  proof (cases "holder l k")
    case None
    then have "count_list (acquire_all tryAcquire k (snd (tryAcquire l k p)) ps) True = 0"
      by (intro acquire_all_taken) (simp add: acquire_holder)
    then show ?thesis by simp
  next
    case (Some q)
    then show ?thesis using Cons [of "snd (tryAcquire l k p)"] by (simp add: acquire_won)
  qed
qed

end

subsection \<open>The in-memory lock (lock\_mem.go)\<close>

record mem_lock =
  ml_holders :: "(string \<times> playerID) list"

definition NewMemLock :: mem_lock where
  "NewMemLock = \<lparr>ml_holders = []\<rparr>"

definition ml_TryAcquire :: "mem_lock \<Rightarrow> string \<Rightarrow> playerID \<Rightarrow> bool \<times> mem_lock" where
  "ml_TryAcquire l roundKey pid =
     (case map_of (ml_holders l) roundKey of
        Some _ \<Rightarrow> (False, l)
      | None \<Rightarrow> (True, l\<lparr>ml_holders := AList.update roundKey pid (ml_holders l)\<rparr>))"

definition ml_Release :: "mem_lock \<Rightarrow> string \<Rightarrow> mem_lock" where
  "ml_Release l roundKey = l\<lparr>ml_holders := AList.delete roundKey (ml_holders l)\<rparr>"

definition ml_Holder :: "mem_lock \<Rightarrow> string \<Rightarrow> playerID" where
  "ml_Holder l roundKey = get_or '''' (ml_holders l) roundKey"

definition ml_lookup :: "mem_lock \<Rightarrow> string \<Rightarrow> playerID option" where
  "ml_lookup l roundKey = map_of (ml_holders l) roundKey"

interpretation ml: buzz_lock ml_TryAcquire ml_Release ml_lookup
  by unfold_locales
    (auto simp: ml_TryAcquire_def ml_Release_def ml_lookup_def split: option.splits)

lemma ml_Holder_lookup: "ml_Holder l k = (case ml_lookup l k of None \<Rightarrow> '''' | Some p \<Rightarrow> p)"
  by (simp add: ml_Holder_def ml_lookup_def get_or_def)

end
