(* ===== verification/Engine_State.thy ===== *)
theory Engine_State
  imports Lyrics Anticheat
begin

section \<open>The engine's state and its frames: server/internal/game/engine.go\<close>

text \<open>
  \<open>engine\<close> is the struct \<open>Engine\<close> with the source's fields in the source's order, and in
  front of them what the Go runtime and the injected dependencies hold:
  \<^item> \<open>e_cfg\<close>: the configuration and which optional dependencies are wired; the Unicode
    tables and the seeded generator of the standard library are parameters in it;
  \<^item> \<open>e_now\<close>: the wall clock that the running command reads (every command reads it at
    most once); \<open>e_rng\<close>, \<open>e_rpos\<close>: the raw values of the injected \<open>rand.Rand\<close> and how
    many have been used; \<open>e_audioErr\<close>, \<open>e_lockErr\<close>: whether the audio device and the lock
    backend fail in the running command;
  \<^item> \<open>e_heap\<close>: the tracks and cells behind Go's pointers;
  \<^item> \<open>e_out\<close>: everything the engine has done to the outside so far, in order;
  \<^item> \<open>e_tasks\<close>: timers and goroutines started and not yet finished. A Go timer re-enters
    the loop through \<open>submit\<close>, so a pending task is a command that may run at any later
    point; the delay is recorded with it.
  Each Go method that mutates the engine is a function \<open>engine \<Rightarrow> engine\<close>.
\<close>

subsection \<open>Configuration\<close>

record config =
  cf_SessionID :: string
  cf_AdminSecret :: string
  cf_SkipThresholdPct :: int
  cf_RevealIntervalMs :: int
  cf_RevealPhase1Ms :: int
  cf_RevealBlockMs :: int
  cf_RevealEaseMs :: int
  cf_RevealEaseSet :: bool
  cf_RevealAlternate :: bool
  cf_RevealAlternateSet :: bool
  cf_BuzzWindowMs :: int
  cf_hasLyrics :: bool
  cf_hasLyricsStore :: bool
  cf_hasDropPointStore :: bool
  cf_hasRoleSetter :: bool
  cf_unicode :: unicode
  cf_prng :: "u64 \<Rightarrow> nat \<Rightarrow> nat"

subsection \<open>Effects and pending work\<close>

datatype target = ToConn connID | ToRole role | ToAll

datatype outp =
    Frame target serverEnvelope
  | DevPlay string int
  | DevPause
  | DevResume
  | DevSetDevice string
  | DevSetVolume int
  | RepoSaveScore playerID string int
  | RepoLogBuzz playerID string int
  | RepoLogDailyDouble playerID rat int
  | RepoMarkTrackPlayed string
  | RepoClearPlayed
  | RepoCreateSession string
  | RoleSet connID role
  | Panicked
  | Hung

datatype job =
    JBuzzWindow string
  | JTransition
  | JYear string
  | JBlock string
  | JLetterStart string
  | JRevealTick string
  | JAutoKaraoke string
  | JFade string int nat
  | JFadeDone string
  | JLyricFetch nat string string string string int
  | JLyricWait string nat bool
  | JSoloLyricWait string nat bool
  | JDropLookup string string
  | JDropSave connID string int string

record task =
  tk_delayMs :: int
  tk_job :: job

record lyricEntry =
  le_done :: bool
  le_lines :: "lyricLine list"
  le_err :: bool

record pendingPartial =
  pt_active :: bool
  pt_remaining :: int

record buzzContender =
  bc_playerID :: playerID
  bc_connID :: connID
  bc_arrivalMs :: int

record dailyDoubleOffer =
  dd_cellRow :: int
  dd_cellCol :: int
  dd_contestantID :: playerID
  dd_candidates :: "taddr list"

record session =
  ss_ID :: string
  ss_SkipThresholdPct :: int
  ss_State :: string

record soloKaraokeState =
  sk_active :: bool
  sk_currentTrack :: "taddr option"
  sk_queue :: "taddr list"
  sk_index :: int
  sk_shuffle :: bool
  sk_repeat :: string
  sk_playToken :: string
  sk_paused :: bool
  sk_pausedAtMs :: int
  sk_trackStartMs :: int

record engine =
  e_cfg :: config
  e_now :: int
  e_rng :: "nat \<Rightarrow> nat"
  e_rpos :: nat
  e_audioErr :: "string option"
  e_lockErr :: bool
  e_heap :: heap
  e_out :: "outp list"
  e_tasks :: "task list"
  e_lock :: mem_lock
  e_gate :: nonce_gate
  e_seq :: u64
  e_state :: game_state
  e_board :: "board option"
  e_reg :: registry
  e_session :: session
  e_curCell :: "caddr option"
  e_curTrack :: "taddr option"
  e_curDropPointMs :: "int option"
  e_lastPlayback :: "playbackPosition option"
  e_curRow :: int
  e_roundKey :: string
  e_trackStartMs :: int
  e_pausedAtMs :: int
  e_buzzWinner :: playerID
  e_partial :: pendingPartial
  e_buzzWindowMs :: int
  e_buzzWindowOpen :: bool
  e_buzzContenders :: "buzzContender list"
  e_cellPicker :: playerID
  e_pendingPick :: "(int \<times> int) option"
  e_karaokeReady :: bool
  e_votingPool :: "playerID list"
  e_votes :: "playerID list"
  e_ratingPool :: "playerID list"
  e_ratings :: "(playerID \<times> int) list"
  e_lastScorer :: playerID
  e_cellVisits :: "(string \<times> int) list"
  e_ddOffer :: "dailyDoubleOffer option"
  e_ddBucketOriginal :: "taddr list"
  e_volumePct :: int
  e_volumeCmds :: "int list"
  e_ddFadingRoundKey :: string
  e_spotifyAuthed :: bool
  e_revealCfg :: revealConfig
  e_rc :: revealClock
  e_revealTimer :: bool
  e_revealLocked :: bool
  e_roundWinner :: string
  e_connIP :: "(connID \<times> string) list"
  e_telemetryDirty :: bool
  e_scoreboardDirty :: bool
  e_boardDirty :: bool
  e_lyricEnts :: "lyricEntry list"
  e_lyricCache :: "(string \<times> nat) list"
  e_solo :: soloKaraokeState

definition noPartial :: pendingPartial where
  "noPartial = \<lparr>pt_active = False, pt_remaining = 0\<rparr>"

definition curTrackData :: "engine \<Rightarrow> track option" where
  "curTrackData e = map_option (hTrack (e_heap e)) (e_curTrack e)"

subsection \<open>NewEngine\<close>

definition defaultBuzzWindowMs :: int where "defaultBuzzWindowMs = 40"

definition zeroSolo :: soloKaraokeState where
  "zeroSolo = \<lparr>sk_active = False, sk_currentTrack = None, sk_queue = [], sk_index = -1,
     sk_shuffle = False, sk_repeat = '''', sk_playToken = '''', sk_paused = False,
     sk_pausedAtMs = 0, sk_trackStartMs = 0\<rparr>"

definition NewEngine :: "config \<Rightarrow> (nat \<Rightarrow> nat) \<Rightarrow> heap \<Rightarrow> engine" where
  "NewEngine cfg0 rng h =
     (let cfg1 = (if cf_SkipThresholdPct cfg0 = 0 then cfg0\<lparr>cf_SkipThresholdPct := 50\<rparr> else cfg0);
          cfg = (if cf_SessionID cfg1 = '''' then cfg1\<lparr>cf_SessionID := ''session''\<rparr> else cfg1);
          buzzWindowMs = (if cf_BuzzWindowMs cfg = 0 then defaultBuzzWindowMs else cf_BuzzWindowMs cfg);
          r0 = defaultRevealConfig;
          r1 = (if cf_RevealIntervalMs cfg > 0 then r0\<lparr>rv_IntervalMs := cf_RevealIntervalMs cfg\<rparr> else r0);
          r2 = (if cf_RevealPhase1Ms cfg > 0 then r1\<lparr>rv_Phase1Ms := cf_RevealPhase1Ms cfg\<rparr> else r1);
          r3 = (if cf_RevealBlockMs cfg > 0 then r2\<lparr>rv_BlockMs := cf_RevealBlockMs cfg\<rparr> else r2);
          r4 = (if cf_RevealEaseSet cfg then r3\<lparr>rv_EaseMs := cf_RevealEaseMs cfg\<rparr> else r3);
          r5 = (if cf_RevealAlternateSet cfg then r4\<lparr>rv_Alternate := cf_RevealAlternate cfg\<rparr> else r4)
      in \<lparr>e_cfg = cfg, e_now = 0, e_rng = rng, e_rpos = 0, e_audioErr = None, e_lockErr = False,
          e_heap = h, e_out = [], e_tasks = [], e_lock = NewMemLock, e_gate = NewNonceGate, e_seq = 0,
          e_state = StateLobby, e_board = None, e_reg = newRegistry,
          e_session = \<lparr>ss_ID = cf_SessionID cfg, ss_SkipThresholdPct = cf_SkipThresholdPct cfg,
            ss_State = stateString StateLobby\<rparr>,
          e_curCell = None, e_curTrack = None, e_curDropPointMs = None, e_lastPlayback = None,
          e_curRow = 0, e_roundKey = '''', e_trackStartMs = 0, e_pausedAtMs = 0, e_buzzWinner = '''',
          e_partial = noPartial, e_buzzWindowMs = buzzWindowMs, e_buzzWindowOpen = False,
          e_buzzContenders = [], e_cellPicker = '''', e_pendingPick = None, e_karaokeReady = False,
          e_votingPool = [], e_votes = [], e_ratingPool = [], e_ratings = [], e_lastScorer = '''',
          e_cellVisits = [], e_ddOffer = None, e_ddBucketOriginal = [], e_volumePct = 100,
          e_volumeCmds = [], e_ddFadingRoundKey = '''', e_spotifyAuthed = False,
          e_revealCfg = revealClamp r5, e_rc = zeroClock, e_revealTimer = False,
          e_revealLocked = False, e_roundWinner = '''', e_connIP = [], e_telemetryDirty = False,
          e_scoreboardDirty = False, e_boardDirty = False, e_lyricEnts = [], e_lyricCache = [],
          e_solo = zeroSolo\<rparr>)"

subsection \<open>Envelopes, sends and broadcasts\<close>

text \<open>
  \<open>emit ts m\<close> builds one envelope with the current nonce and the next sequence number and
  hands it to each target in turn: \<open>bcast.SendTo\<close>, \<open>Broadcast\<close> and \<open>BroadcastAll\<close>.
\<close>

definition envelope :: "engine \<Rightarrow> server_msg \<Rightarrow> serverEnvelope" where
  "envelope e m = \<lparr>ev_msg = m, ev_Nonce = gate_Current (e_gate e), ev_Seq = e_seq e + 1\<rparr>"

definition emit :: "target list \<Rightarrow> server_msg \<Rightarrow> engine \<Rightarrow> engine" where
  "emit ts m e = e\<lparr>e_seq := e_seq e + 1, e_out := e_out e @ map (\<lambda>t. Frame t (envelope e m)) ts\<rparr>"

definition effect :: "outp \<Rightarrow> engine \<Rightarrow> engine" where
  "effect x e = e\<lparr>e_out := e_out e @ [x]\<rparr>"

definition spawn :: "int \<Rightarrow> job \<Rightarrow> engine \<Rightarrow> engine" where
  "spawn delay j e = e\<lparr>e_tasks := e_tasks e @ [\<lparr>tk_delayMs = delay, tk_job = j\<rparr>]\<rparr>"

definition sendTo :: "connID \<Rightarrow> server_msg \<Rightarrow> engine \<Rightarrow> engine" where
  "sendTo cid m = emit [ToConn cid] m"

definition broadcast :: "role \<Rightarrow> server_msg \<Rightarrow> engine \<Rightarrow> engine" where
  "broadcast r m = emit [ToRole r] m"

definition broadcastAll :: "server_msg \<Rightarrow> engine \<Rightarrow> engine" where
  "broadcastAll m = emit [ToAll] m"

definition sendEach :: "connID list \<Rightarrow> server_msg \<Rightarrow> engine \<Rightarrow> engine" where
  "sendEach cids m = fold (\<lambda>cid. sendTo cid m) cids"

definition sendError :: "connID \<Rightarrow> string \<Rightarrow> string \<Rightarrow> engine \<Rightarrow> engine" where
  "sendError cid code msg = sendTo cid (SMsgError code msg)"

definition sendErrorAll :: "string \<Rightarrow> string \<Rightarrow> engine \<Rightarrow> engine" where
  "sendErrorAll code msg = broadcast RoleAdmin (SMsgError code msg)"

definition transitionTo :: "game_state \<Rightarrow> engine \<Rightarrow> engine" where
  "transitionTo s e =
     broadcastAll (SMsgState s)
       (e\<lparr>e_state := s, e_session := (e_session e)\<lparr>ss_State := stateString s\<rparr>,
          e_gate := gate_Bump (e_gate e)\<rparr>)"

text \<open>The random source: \<open>Intn(n)\<close> and \<open>Shuffle\<close> advance it.\<close>

definition intn :: "nat \<Rightarrow> engine \<Rightarrow> nat \<times> engine" where
  "intn n e = (e_rng e (e_rpos e) mod n, e\<lparr>e_rpos := e_rpos e + 1\<rparr>)"

definition rngShuffle :: "'a list \<Rightarrow> engine \<Rightarrow> 'a list \<times> engine" where
  "rngShuffle xs e = (shuffle (e_rng e) (e_rpos e) xs, e\<lparr>e_rpos := e_rpos e + (length xs - 1)\<rparr>)"

subsection \<open>Payloads computed from the state\<close>

definition roundPool :: "engine \<Rightarrow> int \<times> int" where
  "roundPool e =
     (let (maxP, baseP) = (if pt_active (e_partial e)
             then (pt_remaining (e_partial e), BaseValue - PartialPoints)
             else (MaxPointsForRow (e_curRow e), BaseValue))
      in (maxP, if baseP > maxP then maxP else baseP))"

definition trackStartMsg :: "engine \<Rightarrow> server_msg" where
  "trackStartMsg e =
     (let (artistLen, songLen) = (case curTrackData e of None \<Rightarrow> (0, 0)
             | Some t \<Rightarrow> (int (length (tArtist t)), int (length (tSong t))));
          (maxP, baseP) = roundPool e
      in SMsgTrackStart \<lparr>ts_MaxPoints = maxP, ts_BasePoints = baseP, ts_StartTime = e_trackStartMs e,
           ts_ArtistLen = artistLen, ts_SongLen = songLen\<rparr>)"

definition adminViewMsg :: "engine \<Rightarrow> server_msg" where
  "adminViewMsg e =
     (let av0 = \<lparr>av_BuzzedPlayerID = '''', av_BuzzedHandle = '''', av_CorrectArtist = '''',
            av_CorrectSong = '''', av_CurrentPoints = 0\<rparr>;
          av1 = (case curTrackData e of None \<Rightarrow> av0
             | Some t \<Rightarrow> if e_state e \<noteq> StateDailyDouble
                 then av0\<lparr>av_CorrectArtist := tArtist t, av_CorrectSong := tSong t,
                   av_CurrentPoints :=
                     (case roundPool e of (maxP, baseP) \<Rightarrow> currentPointsFromPool maxP baseP (e_pausedAtMs e))\<rparr>
                 else av0);
          av2 = (case getPlayer (e_reg e) (e_buzzWinner e) of None \<Rightarrow> av1
             | Some w \<Rightarrow> av1\<lparr>av_BuzzedPlayerID := pID w, av_BuzzedHandle := pHandle w\<rparr>)
      in SMsgAdminView av2)"

definition scoreboardMsg :: "engine \<Rightarrow> server_msg" where
  "scoreboardMsg e = SMsgScoreboard
     (map (\<lambda>p. \<lparr>se_ID = pID p, se_Handle = pHandle p, se_Score = pScore p\<rparr>) (mobilePlayers (e_reg e)))"

definition MobilePlayerCount :: "engine \<Rightarrow> int" where
  "MobilePlayerCount e = int (length (mobilePlayers (e_reg e)))"

definition telemetryMsg :: "engine \<Rightarrow> server_msg" where
  "telemetryMsg e = SMsgTelemetry
     (map (\<lambda>p. \<lparr>tc_ID = pID p, tc_Handle = pHandle p, tc_RTTMs = pRTTMs p, tc_Score = pScore p,
         tc_Active = (pActive p \<and> online (e_reg e) (pID p))\<rparr>) (mobilePlayers (e_reg e)))"

definition playerIP :: "engine \<Rightarrow> playerID \<Rightarrow> string" where
  "playerIP e pid =
     (case filter (\<lambda>ip. ip \<noteq> '''') (map (get_or '''' (e_connIP e)) (connIDs (e_reg e) pid)) of
        [] \<Rightarrow> '''' | ip # _ \<Rightarrow> ip)"

definition cheatReportMsg :: "engine \<Rightarrow> server_msg" where
  "cheatReportMsg e =
     (let ps = mobilePlayers (e_reg e);
          ips = filter (\<lambda>ip. ip \<noteq> '''') (map (\<lambda>p. playerIP e (pID p)) ps)
      in SMsgCheatReport (map (\<lambda>p.
           let ip = playerIP e (pID p); conns = int (length (connIDs (e_reg e) (pID p)))
           in \<lparr>che_PlayerID = pID p, che_Handle = pHandle p, che_IP = ip, che_Conns = conns,
               che_Flags = (if ip \<noteq> '''' \<and> count_list ips ip > 1 then [''shared-ip''] else [])
                 @ (if conns > 1 then [''multi-conn''] else [])\<rparr>) ps))"

definition boardMsg :: "engine \<Rightarrow> server_msg" where
  "boardMsg e = SMsgBoard (boardData (e_heap e) (e_board e))"

definition pickerStatusMsg :: "engine \<Rightarrow> server_msg" where
  "pickerStatusMsg e =
     (case getPlayer (e_reg e) (e_cellPicker e) of
        None \<Rightarrow> SMsgPickerStatus '''' '''' (e_pendingPick e \<noteq> None)
      | Some p \<Rightarrow> SMsgPickerStatus (pID p) (pHandle p) (e_pendingPick e \<noteq> None))"

definition modeLockOwner :: "engine \<Rightarrow> string" where
  "modeLockOwner e =
     (if sk_active (e_solo e) then ''solo_karaoke''
      else if e_state e \<noteq> StateLobby \<and> e_state e \<noteq> StateGameOver then ''trivia''
      else ''none'')"

subsection \<open>Broadcast helpers\<close>

definition broadcastScoreboard :: "engine \<Rightarrow> engine" where
  "broadcastScoreboard e = emit [ToRole RoleStage, ToRole RoleAdmin, ToRole RoleMobile] (scoreboardMsg e) e"

definition broadcastBoard :: "engine \<Rightarrow> engine" where
  "broadcastBoard e = emit [ToRole RoleStage, ToRole RoleAdmin] (boardMsg e) e"

definition broadcastTelemetry :: "engine \<Rightarrow> engine" where
  "broadcastTelemetry = block [
         \<lambda>e. broadcast RoleAdmin (telemetryMsg e) e,
         \<lambda>e. broadcast RoleAdmin (cheatReportMsg e) e]"

definition broadcastPickerStatus :: "engine \<Rightarrow> engine" where
  "broadcastPickerStatus e = broadcastAll (pickerStatusMsg e) e"

definition broadcastPendingPick :: "int \<Rightarrow> int \<Rightarrow> engine \<Rightarrow> engine" where
  "broadcastPendingPick row col = emit [ToRole RoleStage, ToRole RoleAdmin] (SMsgPendingPick row col)"

definition sendPickableBoard :: "engine \<Rightarrow> engine" where
  "sendPickableBoard e =
     (if e_cellPicker e = '''' then e
      else emit (map ToConn (connIDs (e_reg e) (e_cellPicker e)))
             (SMsgPickableBoard (boardData (e_heap e) (e_board e))) e)"

definition broadcastModeLock :: "engine \<Rightarrow> engine" where
  "broadcastModeLock e = broadcast RoleAdmin (SMsgModeLock (modeLockOwner e)) e"

definition broadcastVolumeStatus :: "engine \<Rightarrow> engine" where
  "broadcastVolumeStatus e = broadcast RoleAdmin (SMsgVolumeStatus (e_volumePct e)) e"

definition revealTo :: "role \<Rightarrow> engine \<Rightarrow> engine" where
  "revealTo r e =
     (case curTrackData e of None \<Rightarrow> e
      | Some t \<Rightarrow> if \<not> TrustedReveal r then e
                  else broadcast r (SMsgReveal (tArtist t) (tSong t) (tAlbumArt t)) e)"

definition broadcastMask :: "engine \<Rightarrow> engine" where
  "broadcastMask e =
     (if \<not> rc_active (e_rc e) \<and> \<not> rc_finalizing (e_rc e) then e
      else emit [ToRole RoleStage, ToRole RoleMobile, ToRole RoleAdmin]
             (SMsgMaskedReveal (currentMask (e_rc e))) e)"

definition persistScores :: "engine \<Rightarrow> engine" where
  "persistScores e =
     fold (\<lambda>p. effect (RepoSaveScore (pID p) (pHandle p) (pScore p))) (mobilePlayers (e_reg e)) e"

definition saveScore :: "playerID \<Rightarrow> engine \<Rightarrow> engine" where
  "saveScore pid e =
     (case getPlayer (e_reg e) pid of None \<Rightarrow> e
      | Some p \<Rightarrow> effect (RepoSaveScore (pID p) (pHandle p) (pScore p)) e)"

definition lockRelease :: "engine \<Rightarrow> engine" where
  "lockRelease e = e\<lparr>e_lock := ml_Release (e_lock e) (e_roundKey e)\<rparr>"

definition updPl :: "playerID \<Rightarrow> (player \<Rightarrow> player) \<Rightarrow> engine \<Rightarrow> engine" where
  "updPl pid f e = e\<lparr>e_reg := updPlayer pid f (e_reg e)\<rparr>"

definition audioFrame :: "audio_action \<Rightarrow> string \<Rightarrow> int \<Rightarrow> engine \<Rightarrow> engine" where
  "audioFrame a uri pos = broadcast RoleStage (SMsgAudio a uri pos)"

end
