(* ===== verification/Engine_Reveal.thy ===== *)
theory Engine_Reveal
  imports Engine_State
begin

section \<open>Playback, lyrics, drop points and the reveal timers of engine.go\<close>

text \<open>
  The parts of the engine that every round shares. Work that Go starts off the loop (a
  timer, a goroutine) is a \<open>spawn\<close>; the function that the task runs when it fires is
  defined next to it and takes what it captured (the round key) as arguments.
\<close>

subsection \<open>Playback\<close>

definition resumeAudio :: "engine \<Rightarrow> engine" where
  "resumeAudio = block [
     effect DevResume,
         \<lambda>e. audioFrame AudioResume '''' (e_pausedAtMs e) e,
         \<lambda>e. e\<lparr>e_trackStartMs := e_now e - e_pausedAtMs e\<rparr>,
         \<lambda>e. broadcast RoleStage (trackStartMsg e) e]"

text \<open>\<open>loadAndPlayTrack\<close> returns the audio device's error.\<close>

definition loadAndPlayTrack :: "taddr \<Rightarrow> int \<Rightarrow> engine \<Rightarrow> string option \<times> engine" where
  "loadAndPlayTrack t positionMs e =
     (let uri = tSpotifyURI (hTrack (e_heap e) t)
      in (e_audioErr e, block [
     effect (DevPlay uri positionMs),
         audioFrame AudioPlay uri positionMs] e))"

definition seekTo :: "int \<Rightarrow> engine \<Rightarrow> engine" where
  "seekTo positionMs e =
     (case curTrackData e of None \<Rightarrow> e
      | Some t \<Rightarrow>
        (let p0 = (if positionMs < 0 then 0 else positionMs);
             p = (if tDurationMs t > 0 \<and> p0 > tDurationMs t then tDurationMs t else p0)
         in block [
     effect (DevPlay (tSpotifyURI t) p),
         audioFrame AudioPlay (tSpotifyURI t) p] e))"

definition consumeTrack :: "engine \<Rightarrow> engine" where
  "consumeTrack e =
     (case e_curTrack e of None \<Rightarrow> e
      | Some t \<Rightarrow> effect (RepoMarkTrackPlayed (tID (hTrack (e_heap e) t)))
          (e\<lparr>e_heap := updTrack t (\<lambda>x. x\<lparr>tPlayed := True\<rparr>) (e_heap e)\<rparr>))"

text \<open>
  The volume queue: \<open>sendVolume\<close> enqueues or drops when the 64-slot buffer is full; the
  writer goroutine drains it in order.
\<close>

definition sendVolume :: "int \<Rightarrow> engine \<Rightarrow> engine" where
  "sendVolume pct e =
     (if length (e_volumeCmds e) < 64 then e\<lparr>e_volumeCmds := e_volumeCmds e @ [pct]\<rparr> else e)"

definition runVolumeWriter :: "engine \<Rightarrow> engine" where
  "runVolumeWriter e =
     (case e_volumeCmds e of [] \<Rightarrow> e
      | pct # rest \<Rightarrow> effect (DevSetVolume pct) (e\<lparr>e_volumeCmds := rest\<rparr>))"

subsection \<open>Drop points\<close>

definition dropPointSeekBufferMs :: int where "dropPointSeekBufferMs = 4000"

definition refreshCurDropPoint :: "engine \<Rightarrow> engine" where
  "refreshCurDropPoint e =
     (let e1 = e\<lparr>e_curDropPointMs := None\<rparr>
      in if \<not> cf_hasDropPointStore (e_cfg e) then e1
         else case curTrackData e1 of None \<Rightarrow> e1
           | Some t \<Rightarrow> spawn 0 (JDropLookup (e_roundKey e) (tSpotifyURI t)) e1)"

text \<open>The lookup's continuation; \<open>res\<close> is the position the store returned, if any.\<close>

definition dropLookupDone :: "string \<Rightarrow> int option \<Rightarrow> engine \<Rightarrow> engine" where
  "dropLookupDone rk res e =
     (case res of None \<Rightarrow> e
      | Some ms \<Rightarrow> if e_roundKey e \<noteq> rk then e else e\<lparr>e_curDropPointMs := Some ms\<rparr>)"

definition dropSaveDone :: "connID \<Rightarrow> string \<Rightarrow> bool \<Rightarrow> engine \<Rightarrow> engine" where
  "dropSaveDone cid rk err e =
     (if \<not> err \<or> e_roundKey e \<noteq> rk then e
      else sendError cid ''dropPointSaveFailed'' ''failed to save drop point'' e)"

subsection \<open>Lyrics: one shared fetch per track\<close>

definition lyricKey :: "string \<Rightarrow> string \<Rightarrow> string \<Rightarrow> int \<Rightarrow> string" where
  "lyricKey spotifyURI artist song durSec =
     (if spotifyURI \<noteq> '''' then spotifyURI
      else artist @ ''|'' @ song @ ''|'' @ itoa durSec)"

definition lyricFetch :: "string \<Rightarrow> string \<Rightarrow> string \<Rightarrow> int \<Rightarrow> engine \<Rightarrow> nat \<times> engine" where
  "lyricFetch spotifyURI artist song durSec e =
     (let key = lyricKey spotifyURI artist song durSec
      in case map_of (e_lyricCache e) key of
           Some ent \<Rightarrow> (ent, e)
         | None \<Rightarrow>
             (let ent = length (e_lyricEnts e)
              in (ent, spawn 0 (JLyricFetch ent key spotifyURI artist song durSec)
                   (e\<lparr>e_lyricEnts := e_lyricEnts e @ [\<lparr>le_done = False, le_lines = [], le_err = False\<rparr>],
                      e_lyricCache := AList.update key ent (e_lyricCache e)\<rparr>))))"

text \<open>
  The fetch goroutine finishes: the store's resolved text wins, otherwise the result of
  the live fetch; an error evicts the cache entry.
\<close>

definition lyricFetchDone ::
  "nat \<Rightarrow> string \<Rightarrow> string \<Rightarrow> string option \<Rightarrow> lyricLine list \<Rightarrow> bool \<Rightarrow> engine \<Rightarrow> engine" where
  "lyricFetchDone ent key spotifyURI storeText lines err e =
     (case (if cf_hasLyricsStore (e_cfg e) \<and> spotifyURI \<noteq> '''' then storeText else None) of
        Some txt \<Rightarrow> e\<lparr>e_lyricEnts := (e_lyricEnts e)[ent := \<lparr>le_done = True, le_lines = ParseLRC txt, le_err = False\<rparr>]\<rparr>
      | None \<Rightarrow>
          (let e1 = e\<lparr>e_lyricEnts := (e_lyricEnts e)[ent := \<lparr>le_done = True, le_lines = lines, le_err = err\<rparr>]\<rparr>
           in if err then e1\<lparr>e_lyricCache := AList.delete key (e_lyricCache e1)\<rparr> else e1))"

definition prefetchLyrics :: "string \<Rightarrow> string \<Rightarrow> string \<Rightarrow> int \<Rightarrow> engine \<Rightarrow> engine" where
  "prefetchLyrics spotifyURI artist song durSec e =
     (if \<not> cf_hasLyrics (e_cfg e) then e else snd (lyricFetch spotifyURI artist song durSec e))"

definition sendLyrics :: "string \<Rightarrow> nat \<Rightarrow> engine \<Rightarrow> engine" where
  "sendLyrics rk ent e =
     (if e_roundKey e \<noteq> rk then e
      else if le_err (e_lyricEnts e ! ent) \<or> le_lines (e_lyricEnts e ! ent) = []
      then broadcast RoleStage (SMsgLyricsStatus ''none'') e
      else block [
         broadcast RoleStage (SMsgLyricsStatus ''ready''),
         broadcast RoleStage (SMsgLyrics (le_lines (e_lyricEnts e ! ent)))] e)"

definition fetchAndSendLyrics :: "engine \<Rightarrow> engine" where
  "fetchAndSendLyrics e =
     (if \<not> cf_hasLyrics (e_cfg e) then e
      else case curTrackData e of None \<Rightarrow> e
      | Some t \<Rightarrow>
        (case lyricFetch (tSpotifyURI t) (tArtist t) (tSong t) (quot (tDurationMs t) 1000) e of
           (ent, e1) \<Rightarrow>
             if le_done (e_lyricEnts e1 ! ent) then sendLyrics (e_roundKey e) ent e1
             else spawn 400 (JLyricWait (e_roundKey e) ent False) e1))"

text \<open>The waiting goroutine: a spinner once after the grace period, then the lines.\<close>

definition lyricWait :: "string \<Rightarrow> nat \<Rightarrow> bool \<Rightarrow> engine \<Rightarrow> engine" where
  "lyricWait rk ent graced e =
     (if le_done (e_lyricEnts e ! ent) then sendLyrics rk ent e
      else spawn 0 (JLyricWait rk ent True)
             (if graced \<or> e_roundKey e \<noteq> rk then e
              else broadcast RoleStage (SMsgLyricsStatus ''loading'') e))"

subsection \<open>The reveal clock in the engine\<close>

definition stopRevealTimer :: "engine \<Rightarrow> engine" where
  "stopRevealTimer e = e\<lparr>e_revealTimer := False\<rparr>"

definition clearReveal :: "engine \<Rightarrow> engine" where
  "clearReveal = block [
         stopRevealTimer,
         \<lambda>e. e\<lparr>e_rc := zeroClock\<rparr>]"

definition artistSalt :: u64 where "artistSalt = 0x9e3779b97f4a7c15"
definition songSalt :: u64 where "songSalt = 0xc2b2ae3d27d4eb4f"

text \<open>The fields a fresh clock gets from the current track.\<close>

definition clockFor :: "engine \<Rightarrow> track \<Rightarrow> revealClock" where
  "clockFor e t =
     (let U = cf_unicode (e_cfg e); prng = cf_prng (e_cfg e);
          artist = upper U (tArtist t); song = upper U (tSong t)
      in zeroClock\<lparr>rc_roundKey := e_roundKey e, rc_artist := artist, rc_song := song,
           rc_artistOrder := buildRevealOrder prng artist (seedFromRoundKey (e_roundKey e) artistSalt),
           rc_songOrder := buildRevealOrder prng song (seedFromRoundKey (e_roundKey e) songSalt),
           rc_cfg := revealClamp (e_revealCfg e)\<rparr>)"

definition startReveal :: "engine \<Rightarrow> engine" where
  "startReveal e =
     (case curTrackData e of None \<Rightarrow> e
      | Some t \<Rightarrow>
        (let cfg = revealClamp (e_revealCfg e);
             startPhase = (if rv_BlockMs cfg > 0 then revealPhaseNoise else revealPhaseSkeleton);
             rk = e_roundKey e
         in block [
         stopRevealTimer,
         \<lambda>e. e\<lparr>e_revealLocked := False,
                    e_rc := (clockFor e t)\<lparr>rc_active := True, rc_phase := startPhase, rc_year := tYear t\<rparr>\<rparr>,
         broadcastMask,
         if tYear t > 0 then spawn (rv_YearDelayMs cfg) (JYear rk) else (\<lambda>e. e),
         if rv_BlockMs cfg > 0 then spawn (rv_BlockMs cfg) (JBlock rk) else (\<lambda>e. e),
         spawn (letterStartMs cfg) (JLetterStart rk)] e))"

definition revealLive :: "string \<Rightarrow> engine \<Rightarrow> bool" where
  "revealLive rk e \<longleftrightarrow> rc_roundKey (e_rc e) = rk \<and> rc_active (e_rc e)"

definition yearFired :: "string \<Rightarrow> engine \<Rightarrow> engine" where
  "yearFired rk e =
     (if \<not> revealLive rk e then e
      else broadcastMask (e\<lparr>e_rc := (e_rc e)\<lparr>rc_showYear := True\<rparr>\<rparr>))"

definition blockFired :: "string \<Rightarrow> engine \<Rightarrow> engine" where
  "blockFired rk e =
     (if \<not> revealLive rk e then e
      else if rc_phase (e_rc e) = revealPhaseNoise
      then broadcastMask (e\<lparr>e_rc := (e_rc e)\<lparr>rc_phase := revealPhaseSkeleton\<rparr>\<rparr>) else e)"

definition startRevealTicker :: "string \<Rightarrow> engine \<Rightarrow> engine" where
  "startRevealTicker rk e =
     (if allDone (e_rc e) then e\<lparr>e_rc := (e_rc e)\<lparr>rc_active := False\<rparr>\<rparr>
      else spawn (rv_IntervalMs (rc_cfg (e_rc e))) (JRevealTick rk) (e\<lparr>e_revealTimer := True\<rparr>))"

definition letterStartFired :: "string \<Rightarrow> engine \<Rightarrow> engine" where
  "letterStartFired rk e =
     (if \<not> revealLive rk e then e
      else block [
         \<lambda>e. e\<lparr>e_rc := (e_rc e)\<lparr>rc_phase1Done := True,
               rc_phase := (if rc_phase (e_rc e) < revealPhaseStream then revealPhaseStream
                            else rc_phase (e_rc e))\<rparr>\<rparr>,
         broadcastMask,
         startRevealTicker rk] e)"

definition lockOutReveal :: "engine \<Rightarrow> engine" where
  "lockOutReveal = block [
     \<lambda>e. e\<lparr>e_revealLocked := True\<rparr>,
     \<lambda>e. fold (\<lambda>p. updPl (pID p) (\<lambda>p. p\<lparr>pGuessedThisTrack := True\<rparr>)) (mobilePlayers (e_reg e)) e,
     \<lambda>e. broadcast RoleStage (SMsgTrackStart
            (case curTrackData e of
               None \<Rightarrow> \<lparr>ts_MaxPoints = 0, ts_BasePoints = 0, ts_StartTime = e_trackStartMs e,
                        ts_ArtistLen = 0, ts_SongLen = 0\<rparr>
             | Some t \<Rightarrow> \<lparr>ts_MaxPoints = 0, ts_BasePoints = 0, ts_StartTime = e_trackStartMs e,
                        ts_ArtistLen = int (length (tArtist t)), ts_SongLen = int (length (tSong t))\<rparr>)) e,
     \<lambda>e. fold (\<lambda>p. sendEach (connIDs (e_reg e) (pID p)) (SMsgBuzzResult False)) (mobilePlayers (e_reg e)) e]"

definition scheduleAutoKaraoke :: "string \<Rightarrow> engine \<Rightarrow> engine" where
  "scheduleAutoKaraoke rk e =
     (if rv_AutoKaraokeMs (rc_cfg (e_rc e)) \<le> 0 then e
      else spawn (rv_AutoKaraokeMs (rc_cfg (e_rc e))) (JAutoKaraoke rk) e)"

text \<open>One letter; the random source moves only in the branch that asks it.\<close>

definition revealStep :: "engine \<Rightarrow> bool \<times> engine" where
  "revealStep e =
     (case revealOneLetter (Some (e_rng e (e_rpos e))) (e_rc e) of
        (progressed, rc) \<Rightarrow>
          (progressed, e\<lparr>e_rc := rc, e_rpos := (if revealDraws (e_rc e) then e_rpos e + 1 else e_rpos e)\<rparr>))"

definition revealTick :: "string \<Rightarrow> engine \<Rightarrow> engine" where
  "revealTick rk e =
     (if \<not> revealLive rk e then e
      else if e_state e \<noteq> StateRoundActive then startRevealTicker rk e
      else
        block [
         \<lambda>e. case revealStep e of (progressed, e1) \<Rightarrow>
             if \<not> progressed then e1
             else broadcastMask (if allDone (e_rc e1)
               then e1\<lparr>e_rc := (e_rc e1)\<lparr>rc_phase := revealPhaseDone\<rparr>\<rparr> else e1),
         cond (\<lambda>e. \<not> rc_lockedOut (e_rc e) \<and> remainingHidden (e_rc e) \<le> rv_LockoutChars (rc_cfg (e_rc e)))
              (block [
         \<lambda>e. e\<lparr>e_rc := (e_rc e)\<lparr>rc_lockedOut := True\<rparr>\<rparr>,
         lockOutReveal]),
         \<lambda>e. if allDone (e_rc e)
                 then scheduleAutoKaraoke rk (e\<lparr>e_rc := (e_rc e)\<lparr>rc_active := False\<rparr>\<rparr>)
                 else startRevealTicker rk e] e)"

definition finalizeReveal :: "engine \<Rightarrow> engine" where
  "finalizeReveal e =
     (case curTrackData e of None \<Rightarrow> e
      | Some t \<Rightarrow>
        block [
         stopRevealTimer,
         cond (\<lambda>e. rc_roundKey (e_rc e) \<noteq> e_roundKey e \<or> \<not> rc_active (e_rc e) \<and> \<not> rc_finalizing (e_rc e))
              (\<lambda>e. e\<lparr>e_rc := clockFor e t\<rparr>),
         \<lambda>e. e\<lparr>e_rc := completeAll ((e_rc e)\<lparr>rc_finalizing := True\<rparr>)\<rparr>,
         broadcastMask,
         \<lambda>e. e\<lparr>e_rc := (e_rc e)\<lparr>rc_active := False\<rparr>\<rparr>] e)"

definition revealFieldFully :: "string \<Rightarrow> engine \<Rightarrow> engine" where
  "revealFieldFully field e =
     (if \<not> rc_active (e_rc e) then e
      else if field \<noteq> ''artist'' \<and> field \<noteq> ''song'' then e
      else
        (let rc1 = (if field = ''artist''
                    then (e_rc e)\<lparr>rc_artistRevealed := length (rc_artistOrder (e_rc e))\<rparr>
                    else (e_rc e)\<lparr>rc_songRevealed := length (rc_songOrder (e_rc e))\<rparr>);
             rc2 = (if allDone rc1 then rc1\<lparr>rc_phase := revealPhaseDone\<rparr> else rc1)
         in broadcastMask (e\<lparr>e_rc := rc2\<rparr>)))"

end
