(* ===== verification/Engine_Solo.thy ===== *)
theory Engine_Solo
  imports Engine_Reveal
begin

section \<open>Solo Karaoke: server/internal/game/solo\_karaoke.go\<close>

text \<open>
  The second game mode, straight playback of a queue. Every handler of the file is a
  definition of the same name; a payload arrives decoded. The two places where the source
  could misbehave are explicit: an index outside the queue panics (\<open>Panicked\<close>), and the
  shuffle's rejection loop is a \<open>partial_function\<close> whose None means that it never
  returns (\<open>Hung\<close>). The lemmas show when neither happens.
\<close>

definition updSolo :: "(soloKaraokeState \<Rightarrow> soloKaraokeState) \<Rightarrow> engine \<Rightarrow> engine" where
  "updSolo f e = e\<lparr>e_solo := f (e_solo e)\<rparr>"

definition emDash :: string where
  "emDash = [CHR 0xE2, CHR 0x80, CHR 0x94]"

subsection \<open>Broadcasts\<close>

definition soloTrack :: "engine \<Rightarrow> track option" where
  "soloTrack e = map_option (hTrack (e_heap e)) (sk_currentTrack (e_solo e))"

definition soloKaraokeNowPlayingData :: "engine \<Rightarrow> soloNowPlaying" where
  "soloKaraokeNowPlayingData e =
     (let sk = e_solo e
      in case soloTrack e of
           None \<Rightarrow> \<lparr>np_TrackID = '''', np_SpotifyURI = '''', np_Artist = '''', np_Song = '''',
             np_AlbumArt = '''', np_DurationMs = 0, np_Index = -1, np_QueueLen = int (length (sk_queue sk)),
             np_Shuffle = sk_shuffle sk, np_Repeat = sk_repeat sk, np_Paused = False\<rparr>
         | Some t \<Rightarrow> \<lparr>np_TrackID = tID t, np_SpotifyURI = tSpotifyURI t, np_Artist = tArtist t,
             np_Song = tSong t, np_AlbumArt = tAlbumArt t, np_DurationMs = tDurationMs t,
             np_Index = sk_index sk, np_QueueLen = int (length (sk_queue sk)),
             np_Shuffle = sk_shuffle sk, np_Repeat = sk_repeat sk, np_Paused = sk_paused sk\<rparr>)"

definition broadcastSoloKaraokeNowPlaying :: "engine \<Rightarrow> engine" where
  "broadcastSoloKaraokeNowPlaying = block [
     \<lambda>e. broadcast RoleStage (SMsgSoloNowPlaying (soloKaraokeNowPlayingData e)) e,
     \<lambda>e. broadcast RoleAdmin (SMsgSoloNowPlaying (soloKaraokeNowPlayingData e)) e]"

definition broadcastSoloKaraokeActive :: "engine \<Rightarrow> engine" where
  "broadcastSoloKaraokeActive e = broadcastAll (SMsgSoloActive (sk_active (e_solo e))) e"

definition broadcastSoloKaraokeError :: "string \<Rightarrow> engine \<Rightarrow> engine" where
  "broadcastSoloKaraokeError message = broadcast RoleAdmin (SMsgSoloError message)"

subsection \<open>Lyrics\<close>

definition soloSendLyrics :: "string \<Rightarrow> nat \<Rightarrow> engine \<Rightarrow> engine" where
  "soloSendLyrics tok ent e =
     (if sk_playToken (e_solo e) \<noteq> tok then e
      else if le_err (e_lyricEnts e ! ent) \<or> le_lines (e_lyricEnts e ! ent) = []
      then broadcast RoleStage (SMsgSoloLyricsStatus ''none'') e
      else block [
        broadcast RoleStage (SMsgSoloLyricsStatus ''ready''),
        broadcast RoleStage (SMsgLyrics (le_lines (e_lyricEnts e ! ent)))] e)"

definition soloKaraokeFetchAndSendLyrics :: "engine \<Rightarrow> engine" where
  "soloKaraokeFetchAndSendLyrics e =
     (if \<not> cf_hasLyrics (e_cfg e) then e
      else case soloTrack e of None \<Rightarrow> e
      | Some t \<Rightarrow>
        (case lyricFetch (tSpotifyURI t) (tArtist t) (tSong t) (quot (tDurationMs t) 1000) e of
           (ent, e1) \<Rightarrow>
             if le_done (e_lyricEnts e1 ! ent) then soloSendLyrics (sk_playToken (e_solo e)) ent e1
             else spawn 400 (JSoloLyricWait (sk_playToken (e_solo e)) ent False) e1))"

definition soloLyricWait :: "string \<Rightarrow> nat \<Rightarrow> bool \<Rightarrow> engine \<Rightarrow> engine" where
  "soloLyricWait tok ent graced e =
     (if le_done (e_lyricEnts e ! ent) then soloSendLyrics tok ent e
      else spawn 0 (JSoloLyricWait tok ent True)
             (if graced \<or> sk_playToken (e_solo e) \<noteq> tok then e
              else broadcast RoleStage (SMsgSoloLyricsStatus ''loading'') e))"

subsection \<open>Playing a track of the queue\<close>

definition soloKaraokePlayAt :: "int \<Rightarrow> engine \<Rightarrow> engine" where
  "soloKaraokePlayAt idx e =
     (if idx < 0 \<or> int (length (sk_queue (e_solo e))) \<le> idx then effect Panicked e
      else
        (let t = sk_queue (e_solo e) ! nat idx;
             tok = ''sk:'' @ itoa idx @ '':'' @ tID (hTrack (e_heap e) t) @ '':'' @ itoa (e_now e)
         in block [
           updSolo (\<lambda>sk. sk\<lparr>sk_index := idx, sk_currentTrack := Some t, sk_paused := False,
             sk_pausedAtMs := 0, sk_trackStartMs := e_now e, sk_playToken := tok\<rparr>),
           \<lambda>e. case loadAndPlayTrack t 0 e of
                 (None, e1) \<Rightarrow> e1
               | (Some err, e1) \<Rightarrow> broadcastSoloKaraokeError (''playback failed to start: '' @ err) e1,
           broadcastSoloKaraokeNowPlaying,
           broadcast RoleStage (SMsgLyrics []),
           soloKaraokeFetchAndSendLyrics] e))"

definition soloKaraokeDeactivate :: "engine \<Rightarrow> engine" where
  "soloKaraokeDeactivate e =
     (if \<not> sk_active (e_solo e) then e
      else block [
        updSolo (\<lambda>sk. sk\<lparr>sk_active := False, sk_currentTrack := None, sk_paused := False,
          sk_playToken := ''''\<rparr>),
        effect DevPause,
        audioFrame AudioPause '''' 0,
        broadcastSoloKaraokeActive,
        broadcastModeLock] e)"

text \<open>\<open>for { nextIdx = rng.Intn(n); if nextIdx != index { break } }\<close>\<close>

partial_function (option) drawOther :: "nat \<Rightarrow> int \<Rightarrow> engine \<Rightarrow> (nat \<times> engine) option" where
  "drawOther n idx e =
     (case intn n e of (i, e1) \<Rightarrow> if int i \<noteq> idx then Some (i, e1) else drawOther n idx e1)"

declare drawOther.simps [code]

definition soloKaraokeStepForward :: "engine \<Rightarrow> engine" where
  "soloKaraokeStepForward e =
     (let sk = e_solo e; n = length (sk_queue sk)
      in if n = 0 then soloKaraokeDeactivate e
         else if sk_shuffle sk then
           (if n > 1
            then case drawOther n (sk_index sk) e of
                   None \<Rightarrow> effect Hung e
                 | Some (i, e1) \<Rightarrow> soloKaraokePlayAt (int i) e1
            else soloKaraokePlayAt 0 e)
         else if sk_index sk + 1 \<ge> int n then
           (if sk_repeat sk = ''all'' then soloKaraokePlayAt 0 e else soloKaraokeDeactivate e)
         else soloKaraokePlayAt (sk_index sk + 1) e)"

definition soloKaraokeAdvance :: "engine \<Rightarrow> engine" where
  "soloKaraokeAdvance e =
     (if sk_repeat (e_solo e) = ''one'' then
        (if 0 \<le> sk_index (e_solo e) \<and> sk_index (e_solo e) < int (length (sk_queue (e_solo e)))
         then soloKaraokePlayAt (sk_index (e_solo e)) e
         else soloKaraokeStepForward e)
      else soloKaraokeStepForward e)"

subsection \<open>Admin handlers\<close>

text \<open>The position of a track ID in the queue, the first one.\<close>

definition findIndex :: "('a \<Rightarrow> bool) \<Rightarrow> 'a list \<Rightarrow> int" where
  "findIndex P xs = (case find (\<lambda>i. P (xs ! i)) [0..<length xs] of None \<Rightarrow> -1 | Some i \<Rightarrow> int i)"

definition ReloadSoloKaraokeQueue :: "taddr list \<Rightarrow> engine \<Rightarrow> engine" where
  "ReloadSoloKaraokeQueue tracks e =
     (let e1 = updSolo (\<lambda>sk. sk\<lparr>sk_queue := tracks\<rparr>) e
      in case soloTrack e1 of None \<Rightarrow> e1
         | Some cur \<Rightarrow> updSolo (\<lambda>sk. sk\<lparr>sk_index :=
             findIndex (\<lambda>t. tID (hTrack (e_heap e1) t) = tID cur) tracks\<rparr>) e1)"

definition onAdminSoloKaraokePlay :: "connID \<Rightarrow> string \<Rightarrow> engine \<Rightarrow> engine" where
  "onAdminSoloKaraokePlay cid trackID e =
     (if e_state e \<noteq> StateLobby \<and> e_state e \<noteq> StateGameOver
      then sendError cid ''modeLocked''
             (''a trivia game is active '' @ emDash @ '' end it before starting Solo Karaoke'') e
      else if sk_queue (e_solo e) = []
      then sendError cid ''emptyQueue'' ''the Solo Karaoke playlist is empty'' e
      else
        (let sk = e_solo e;
             found = findIndex (\<lambda>t. tID (hTrack (e_heap e) t) = trackID) (sk_queue sk)
         in if trackID \<noteq> '''' \<and> found = -1
            then sendError cid ''trackNotFound'' ''track not in the Solo Karaoke playlist'' e
            else
              (let idx = (if trackID \<noteq> '''' then found
                          else if sk_index sk < 0 \<or> int (length (sk_queue sk)) \<le> sk_index sk then 0
                          else sk_index sk);
                   wasActive = sk_active sk
               in block [
                 updSolo (\<lambda>sk. sk\<lparr>sk_active := True\<rparr>),
                 soloKaraokePlayAt idx,
                 cond (\<lambda>_. \<not> wasActive) (block [broadcastSoloKaraokeActive, broadcastModeLock])] e)))"

definition onAdminSoloKaraokePause :: "engine \<Rightarrow> engine" where
  "onAdminSoloKaraokePause e =
     (if \<not> sk_active (e_solo e) \<or> sk_currentTrack (e_solo e) = None \<or> sk_paused (e_solo e) then e
      else block [
        updSolo (\<lambda>sk. sk\<lparr>sk_pausedAtMs := e_now e - sk_trackStartMs sk, sk_paused := True\<rparr>),
        effect DevPause,
        audioFrame AudioPause '''' 0] e)"

definition onAdminSoloKaraokeResume :: "engine \<Rightarrow> engine" where
  "onAdminSoloKaraokeResume e =
     (if \<not> sk_active (e_solo e) \<or> sk_currentTrack (e_solo e) = None \<or> \<not> sk_paused (e_solo e) then e
      else block [
        updSolo (\<lambda>sk. sk\<lparr>sk_paused := False\<rparr>),
        effect DevResume,
        audioFrame AudioResume '''' (sk_pausedAtMs (e_solo e)),
        updSolo (\<lambda>sk. sk\<lparr>sk_trackStartMs := e_now e - sk_pausedAtMs sk\<rparr>)] e)"

definition onAdminSoloKaraokeStop :: "engine \<Rightarrow> engine" where
  "onAdminSoloKaraokeStop = soloKaraokeDeactivate"

definition onAdminSoloKaraokeNext :: "engine \<Rightarrow> engine" where
  "onAdminSoloKaraokeNext e = (if \<not> sk_active (e_solo e) then e else soloKaraokeStepForward e)"

definition onAdminSoloKaraokePrev :: "engine \<Rightarrow> engine" where
  "onAdminSoloKaraokePrev e =
     (if \<not> sk_active (e_solo e) \<or> sk_queue (e_solo e) = [] then e
      else (let idx = sk_index (e_solo e) - 1
            in soloKaraokePlayAt (if idx < 0 then 0 else idx) e))"

definition onAdminSoloKaraokeSeek :: "connID \<Rightarrow> int json \<Rightarrow> engine \<Rightarrow> engine" where
  "onAdminSoloKaraokeSeek cid d e =
     (if \<not> sk_active (e_solo e) then e
      else case sk_currentTrack (e_solo e) of None \<Rightarrow> e
      | Some t \<Rightarrow>
        (case d of
           Inl err \<Rightarrow> sendError cid ''badSeek'' err e
         | Inr positionMs \<Rightarrow>
             (let pos0 = (if positionMs < 0 then 0 else positionMs);
                  dur = tDurationMs (hTrack (e_heap e) t);
                  pos = (if dur > 0 \<and> pos0 > dur then dur else pos0);
                  wasPaused = sk_paused (e_solo e)
              in block [
                \<lambda>e. case loadAndPlayTrack t pos e of
                      (None, e1) \<Rightarrow> e1
                    | (Some err, e1) \<Rightarrow> broadcastSoloKaraokeError (''seek failed: '' @ err) e1,
                updSolo (\<lambda>sk. sk\<lparr>sk_trackStartMs := e_now e - pos\<rparr>),
                cond (\<lambda>_. wasPaused) (block [
                  updSolo (\<lambda>sk. sk\<lparr>sk_pausedAtMs := pos\<rparr>),
                  effect DevPause,
                  audioFrame AudioPause '''' 0])] e)))"

definition onAdminSoloKaraokeSetShuffle :: "connID \<Rightarrow> bool json \<Rightarrow> engine \<Rightarrow> engine" where
  "onAdminSoloKaraokeSetShuffle cid d e =
     (case d of
        Inl err \<Rightarrow> sendError cid ''badSetShuffle'' err e
      | Inr s \<Rightarrow> broadcastSoloKaraokeNowPlaying (updSolo (\<lambda>sk. sk\<lparr>sk_shuffle := s\<rparr>) e))"

definition onAdminSoloKaraokeSetRepeat :: "connID \<Rightarrow> string json \<Rightarrow> engine \<Rightarrow> engine" where
  "onAdminSoloKaraokeSetRepeat cid d e =
     (case d of
        Inl err \<Rightarrow> sendError cid ''badSetRepeat'' err e
      | Inr r \<Rightarrow>
          if r \<noteq> '''' \<and> r \<noteq> ''one'' \<and> r \<noteq> ''all''
          then sendError cid ''badSetRepeat''
                 (''repeat must be '' @ [CHR 0x22, CHR 0x22] @ '', '' @ [CHR 0x22] @ ''one''
                  @ [CHR 0x22] @ '', or '' @ [CHR 0x22] @ ''all'' @ [CHR 0x22]) e
          else broadcastSoloKaraokeNowPlaying (updSolo (\<lambda>sk. sk\<lparr>sk_repeat := r\<rparr>) e))"

end
