(* ===== verification/Engine_Round.thy ===== *)
theory Engine_Round
  imports Engine_Solo
begin

section \<open>Rounds, karaoke and skip voting: server/internal/game/engine.go\<close>

text \<open>
  Attaching a board, starting a track, crediting points, the karaoke phase with its skip
  vote, and the countdown to the next track. A player is passed by its ID: the pointer of
  the source is always the registry's entry for that ID.
\<close>

subsection \<open>The board\<close>

definition snapshotDDBucket :: "engine \<Rightarrow> engine" where
  "snapshotDDBucket e =
     e\<lparr>e_ddBucketOriginal := (case e_board e of None \<Rightarrow> [] | Some b \<Rightarrow> bDDBucket b)\<rparr>"

definition SetBoard :: "board option \<Rightarrow> engine \<Rightarrow> engine" where
  "SetBoard b = block [\<lambda>e. e\<lparr>e_board := b\<rparr>, snapshotDDBucket]"

definition ReloadBoard :: "board option \<Rightarrow> engine \<Rightarrow> engine" where
  "ReloadBoard b = block [\<lambda>e. e\<lparr>e_board := b\<rparr>, snapshotDDBucket, broadcastBoard]"

definition setDDBucket :: "taddr list \<Rightarrow> engine \<Rightarrow> engine" where
  "setDDBucket ts e = e\<lparr>e_board := map_option (\<lambda>b. b\<lparr>bDDBucket := ts\<rparr>) (e_board e)\<rparr>"

definition ddBucket :: "engine \<Rightarrow> taddr list" where
  "ddBucket e = (case e_board e of None \<Rightarrow> [] | Some b \<Rightarrow> bDDBucket b)"

definition boardCells :: "engine \<Rightarrow> caddr list" where
  "boardCells e = (case e_board e of None \<Rightarrow> [] | Some b \<Rightarrow> cellsOf b)"

definition setDD :: "caddr \<Rightarrow> bool \<Rightarrow> int \<Rightarrow> engine \<Rightarrow> engine" where
  "setDD c flag visit e =
     e\<lparr>e_heap := updCell c (\<lambda>x. x\<lparr>cDailyDouble := flag, cDDTriggerVisit := visit\<rparr>) (e_heap e)\<rparr>"

definition cellKey :: "int \<Rightarrow> int \<Rightarrow> string" where
  "cellKey row col = itoa row @ '':'' @ itoa col"

subsection \<open>Points\<close>

definition award :: "playerID \<Rightarrow> int \<Rightarrow> engine \<Rightarrow> engine" where
  "award pid pts = block [
     updPl pid (\<lambda>p. p\<lparr>pScore := pScore p + pts\<rparr>),
     cond (\<lambda>_. pts > 0) (\<lambda>e. e\<lparr>e_lastScorer := pid\<rparr>),
     saveScore pid,
     broadcastScoreboard,
     broadcastTelemetry]"

subsection \<open>Starting a track\<close>

definition startTrack :: "caddr \<Rightarrow> taddr \<Rightarrow> engine \<Rightarrow> engine" where
  "startTrack c t e =
     (let cell = hCell (e_heap e) c; track = hTrack (e_heap e) t
      in block [
        \<lambda>e. e\<lparr>e_curCell := Some c, e_curTrack := Some t, e_curRow := cRow cell,
              e_trackStartMs := e_now e, e_pausedAtMs := 0, e_buzzWinner := '''',
              e_roundWinner := '''', e_partial := noPartial, e_lastPlayback := None,
              e_buzzWindowOpen := False, e_buzzContenders := [],
              e_roundKey := cf_SessionID (e_cfg e) @ '':r'' @ itoa (cRow cell) @ ''c'' @ itoa (cCol cell)
                @ '':'' @ tID track @ '':'' @ itoa (e_now e)\<rparr>,
        refreshCurDropPoint,
        \<lambda>e. e\<lparr>e_reg := mapPlayers (\<lambda>p. p\<lparr>pGuessedThisTrack := False\<rparr>) (e_reg e)\<rparr>,
        prefetchLyrics (tSpotifyURI track) (tArtist track) (tSong track) (quot (tDurationMs track) 1000),
        transitionTo StateRoundActive,
        \<lambda>e. broadcast RoleStage (trackStartMsg e) e,
        broadcast RoleStage (SMsgLyrics []),
        startReveal,
        \<lambda>e. broadcast RoleAdmin (adminViewMsg e) e,
        \<lambda>e. snd (loadAndPlayTrack t 0 e)] e)"

subsection \<open>Skip votes\<close>

definition activeVoters :: "engine \<Rightarrow> int" where
  "activeVoters e = int (length (filter (online (e_reg e)) (e_votingPool e)))"

definition needVotes :: "engine \<Rightarrow> int" where
  "needVotes e =
     (let active = activeVoters e; pct = ss_SkipThresholdPct (e_session e)
      in if pct \<ge> 100 then active
         else let need0 = quot (active * pct) 100 + 1;
                  need1 = (if need0 > active then active else need0)
              in if need1 < 1 \<and> active > 0 then 1 else need1)"

definition haveVotes :: "engine \<Rightarrow> int" where
  "haveVotes e = int (length (filter (\<lambda>i. i \<in> set (e_votingPool e) \<and> online (e_reg e) i) (e_votes e)))"

definition broadcastVoteState :: "engine \<Rightarrow> engine" where
  "broadcastVoteState e =
     (let have = haveVotes e; need = needVotes e
      in block [
        \<lambda>e. fold (\<lambda>p. sendEach (connIDs (e_reg e) (pID p))
               (SMsgVoteState have need (pID p \<in> set (e_votes e)))) (mobilePlayers (e_reg e)) e,
        \<lambda>e. broadcast RoleStage (SMsgStageVoteProgress have need (activeVoters e)) e] e)"

subsection \<open>The countdown and the AND-gate of the karaoke phase\<close>

definition beginTransition :: "engine \<Rightarrow> engine" where
  "beginTransition = block [
     effect DevPause,
     audioFrame AudioPause '''' 0,
     transitionTo StateTransition,
     \<lambda>e. spawn (rv_TransitionDelayMs (e_revealCfg e)) JTransition e]"

definition karaokeConditionMet :: "engine \<Rightarrow> engine" where
  "karaokeConditionMet e =
     (if e_cellPicker e = '''' then beginTransition e
      else if e_pendingPick e \<noteq> None then beginTransition e
      else e\<lparr>e_karaokeReady := True\<rparr>)"

definition evaluateSkipVotes :: "engine \<Rightarrow> engine" where
  "evaluateSkipVotes e =
     (if e_state e \<noteq> StateKaraoke then e
      else if activeVoters e = 0 then e
      else if haveVotes e \<ge> needVotes e then karaokeConditionMet e else e)"

definition onVote :: "connID \<Rightarrow> u64 \<Rightarrow> engine \<Rightarrow> engine" where
  "onVote cid nonce e =
     (if e_state e \<noteq> StateKaraoke then e
      else if \<not> gate_Validate (e_gate e) nonce then e
      else case playerForConn (e_reg e) cid of None \<Rightarrow> e
      | Some p \<Rightarrow>
          if pID p \<notin> set (e_votingPool e) then e
          else block [
            \<lambda>e. e\<lparr>e_votes := set_add (pID p) (e_votes e)\<rparr>,
            broadcastVoteState,
            evaluateSkipVotes] e)"

subsection \<open>Karaoke\<close>

definition enterKaraoke :: "engine \<Rightarrow> engine" where
  "enterKaraoke = block [
     resumeAudio,
     transitionTo StateKaraoke,
     finalizeReveal,
     revealTo RoleStage,
     revealTo RoleAdmin,
     \<lambda>e. broadcast RoleStage (SMsgRoundWinner (e_roundWinner e)) e,
     fetchAndSendLyrics,
     \<lambda>e. e\<lparr>e_votingPool := map pID (filter (\<lambda>p. pActive p \<and> \<not> pBanned p \<and> online (e_reg e) (pID p))
                             (mobilePlayers (e_reg e))),
           e_votes := []\<rparr>,
     broadcastVoteState,
     broadcastBoard,
     broadcastPickerStatus,
     sendPickableBoard]"

definition adminReveal :: "engine \<Rightarrow> engine" where
  "adminReveal = block [
     consumeTrack,
     \<lambda>e. e\<lparr>e_buzzWinner := ''''\<rparr>,
     lockRelease,
     enterKaraoke]"

text \<open>The continuation of \<open>scheduleAutoKaraoke\<close>.\<close>

definition autoKaraokeFired :: "string \<Rightarrow> engine \<Rightarrow> engine" where
  "autoKaraokeFired rk e =
     (if e_roundKey e \<noteq> rk then e
      else if e_state e = StateRoundActive \<or> e_state e = StateLocked
      then block [
        consumeTrack,
        \<lambda>e. e\<lparr>e_buzzWinner := ''''\<rparr>,
        lockRelease,
        enterKaraoke] e
      else e)"

end
