(* ===== verification/Engine_DailyDouble.thy ===== *)
theory Engine_DailyDouble
  imports Engine_Round
begin

section \<open>Daily Double, cell selection and the end of a round: server/internal/game/engine.go\<close>

text \<open>
  The Daily Double's offer, choice, performance and payout; the selection of a cell, by
  the admin or by the picking player; the assignment of the Daily Double cells at the
  start of a game; the forced end of a round. Go's slices of tracks are values here: the
  drawn candidates and the rest of the bucket share a backing array in the source, but
  nothing writes to the part of the other.
\<close>

subsection \<open>Who is up\<close>

definition dailyDoubleStatus :: "engine \<Rightarrow> playerID \<times> bool" where
  "dailyDoubleStatus e =
     (case e_ddOffer e of
        Some off \<Rightarrow> (dd_contestantID off, False)
      | None \<Rightarrow> if e_curTrack e \<noteq> None \<and> e_cellPicker e \<noteq> '''' then (e_cellPicker e, True) else ('''', False))"

definition broadcastDailyDoublePerformer :: "engine \<Rightarrow> engine" where
  "broadcastDailyDoublePerformer e =
     (case dailyDoubleStatus e of (pid, performing) \<Rightarrow>
        if pid = '''' then e
        else case getPlayer (e_reg e) pid of None \<Rightarrow> e
          | Some p \<Rightarrow> broadcastAll (SMsgDailyDoublePerformer (pID p) (pHandle p) performing) e)"

subsection \<open>The bucket and the ordinary round of a cell\<close>

definition returnUnusedDDCandidates :: "taddr list \<Rightarrow> taddr option \<Rightarrow> engine \<Rightarrow> engine" where
  "returnUnusedDDCandidates candidates except e =
     (case e_board e of None \<Rightarrow> e
      | Some b \<Rightarrow> setDDBucket (bDDBucket b @ filter (\<lambda>t. Some t \<noteq> except) candidates) e)"

text \<open>\<open>pickTrack(cell, e.rng)\<close>: the source moves only when the pool is not empty.\<close>

definition drawTrack :: "caddr \<Rightarrow> engine \<Rightarrow> taddr option \<times> engine" where
  "drawTrack c e =
     (pickTrack (e_heap e) (Some c) (Some (e_rng e (e_rpos e))),
      if trackPool (e_heap e) c = [] then e else e\<lparr>e_rpos := e_rpos e + 1\<rparr>)"

definition backToBoard :: "engine \<Rightarrow> engine" where
  "backToBoard = block [\<lambda>e. e\<lparr>e_curCell := None\<rparr>, transitionTo StateBoard, broadcastBoard]"

definition startCellNormally :: "caddr \<Rightarrow> engine \<Rightarrow> engine" where
  "startCellNormally c e =
     (case drawTrack c e of
        (None, e1) \<Rightarrow> backToBoard e1
      | (Some t, e1) \<Rightarrow> startTrack c t e1)"

subsection \<open>Offer and decline\<close>

definition declineDailyDouble :: "engine \<Rightarrow> engine" where
  "declineDailyDouble e =
     (if e_state e \<noteq> StateDailyDouble then e
      else case e_ddOffer e of None \<Rightarrow> e
      | Some off \<Rightarrow>
        (let declined = cellAt (e_heap e) (e_board e) (dd_cellRow off) (dd_cellCol off)
         in block [
           case declined of None \<Rightarrow> (\<lambda>e. e) | Some c \<Rightarrow> setDD c False 0,
           returnUnusedDDCandidates (dd_candidates off) None,
           \<lambda>e. e\<lparr>e_ddOffer := None\<rparr>,
           \<lambda>e. (let candidates = filter (\<lambda>c. Some c \<noteq> declined \<and> \<not> cDailyDouble (hCell (e_heap e) c)
                        \<and> TracksLeft (e_heap e) c \<ge> 1) (boardCells e)
                in if candidates = [] then e
                   else case intn (length candidates) e of (i, e1) \<Rightarrow>
                     (let nxt = candidates ! i; x = hCell (e_heap e1) nxt
                      in setDD nxt True (get_or 0 (e_cellVisits e1) (cellKey (cRow x) (cCol x)) + 1) e1)),
           case declined of None \<Rightarrow> backToBoard | Some c \<Rightarrow> startCellNormally c] e))"

definition beginDailyDoubleOffer :: "caddr \<Rightarrow> engine \<Rightarrow> engine" where
  "beginDailyDoubleOffer c e =
     (let last = e_lastScorer e;
          needFallback = (last = '''' \<or> (case getPlayer (e_reg e) last of None \<Rightarrow> True | Some p \<Rightarrow> pBanned p)
            \<or> \<not> online (e_reg e) last);
          candidates = filter (\<lambda>p. \<not> pBanned p \<and> online (e_reg e) (pID p)) (mobilePlayers (e_reg e));
          offer = (\<lambda>contestant. block [
            \<lambda>e. e\<lparr>e_curCell := Some c,
                  e_ddOffer := Some \<lparr>dd_cellRow = cRow (hCell (e_heap e) c), dd_cellCol = cCol (hCell (e_heap e) c),
                    dd_contestantID = contestant, dd_candidates = []\<rparr>\<rparr>,
            transitionTo StateDailyDouble,
            broadcastDailyDoublePerformer])
      in if \<not> needFallback then offer last e
         else if candidates = [] then block [
           setDD c False 0,
           sendErrorAll ''noDailyDoubleContestant'' ''no eligible player online; skipping this Daily Double'',
           startCellNormally c] e
         else case intn (length candidates) e of (i, e1) \<Rightarrow> offer (pID (candidates ! i)) e1)"

subsection \<open>Cell selection\<close>

definition selectCell :: "int \<Rightarrow> int \<Rightarrow> engine \<Rightarrow> engine" where
  "selectCell row col e =
     (if e_state e = StateRoundActive \<or> e_state e = StateLocked \<or> e_state e = StateAdjudicate
         \<or> e_state e = StateDailyDouble
      then sendErrorAll ''busy'' ''round in progress'' e
      else block [
        cond (\<lambda>e. e_cellPicker e \<noteq> '''' \<or> e_pendingPick e \<noteq> None) (block [
          \<lambda>e. e\<lparr>e_cellPicker := '''', e_pendingPick := None, e_karaokeReady := False\<rparr>,
          broadcastPickerStatus,
          broadcastPendingPick 0 0]),
        \<lambda>e. case cellAt (e_heap e) (e_board e) row col of
             None \<Rightarrow> sendErrorAll ''badCell'' ''no such cell'' e
           | Some c \<Rightarrow>
               if Exhausted (e_heap e) c then sendErrorAll ''exhausted'' ''cell pool exhausted'' e
               else
                 (let key = cellKey row col;
                      visits = get_or 0 (e_cellVisits e) key + 1;
                      e1 = e\<lparr>e_cellVisits := AList.update key visits (e_cellVisits e)\<rparr>;
                      x = hCell (e_heap e) c
                  in if cDailyDouble x \<and> cDDTriggerVisit x > 0 \<and> visits = cDDTriggerVisit x
                     then beginDailyDoubleOffer c e1
                     else case drawTrack c e1 of
                       (None, e2) \<Rightarrow> sendErrorAll ''exhausted'' ''cell pool exhausted'' e2
                     | (Some t, e2) \<Rightarrow> startTrack c t e2)] e)"

definition onAdminSelect :: "connID \<Rightarrow> (int \<times> int) json \<Rightarrow> engine \<Rightarrow> engine" where
  "onAdminSelect cid d e =
     (case d of Inl err \<Rightarrow> sendError cid ''badSelect'' err e | Inr (row, col) \<Rightarrow> selectCell row col e)"

definition onPlayerSelectCell :: "connID \<Rightarrow> u64 \<Rightarrow> (int \<times> int) json \<Rightarrow> engine \<Rightarrow> engine" where
  "onPlayerSelectCell cid nonce d e =
     (if e_state e \<noteq> StateKaraoke \<and> e_state e \<noteq> StateBoard then e
      else if \<not> gate_Validate (e_gate e) nonce then e
      else case playerForConn (e_reg e) cid of None \<Rightarrow> e
      | Some p \<Rightarrow>
        if pBanned p \<or> e_cellPicker e = '''' \<or> pID p \<noteq> e_cellPicker e then e
        else (case d of
            Inl err \<Rightarrow> sendError cid ''badSelect'' err e
          | Inr (row, col) \<Rightarrow>
              (case cellAt (e_heap e) (e_board e) row col of
                 None \<Rightarrow> sendError cid ''badCell'' ''no such cell or exhausted'' e
               | Some c \<Rightarrow>
                   if Exhausted (e_heap e) c then sendError cid ''badCell'' ''no such cell or exhausted'' e
                   else if e_state e = StateBoard then selectCell row col e
                   else if e_pendingPick e \<noteq> None then e
                   else block [
                     \<lambda>e. e\<lparr>e_pendingPick := Some (row, col)\<rparr>,
                     broadcastPickerStatus,
                     broadcastPendingPick row col,
                     cond e_karaokeReady beginTransition] e)))"

text \<open>The continuation of \<open>beginTransition\<close>.\<close>

definition transitionFired :: "engine \<Rightarrow> engine" where
  "transitionFired e =
     (if e_state e \<noteq> StateTransition then e
      else
        (let pending = e_pendingPick e
         in block [
           clearReveal,
           \<lambda>e. e\<lparr>e_curTrack := None, e_lastPlayback := None, e_curCell := None, e_pendingPick := None\<rparr>,
           broadcastPendingPick 0 0,
           transitionTo StateBoard,
           broadcastBoard,
           \<lambda>e. (let fallback = block [
                  \<lambda>e. e\<lparr>e_cellPicker := '''', e_karaokeReady := False\<rparr>, broadcastPickerStatus]
                in case pending of None \<Rightarrow> fallback e
                   | Some (row, col) \<Rightarrow>
                     (case cellAt (e_heap e) (e_board e) row col of
                        None \<Rightarrow> fallback e
                      | Some c \<Rightarrow> if Exhausted (e_heap e) c then fallback e else selectCell row col e))] e))"

subsection \<open>Assignment at the start of a game\<close>

text \<open>
  \<open>catCells\<close> maps a category to its eligible cells. \<open>ddPass\<close> is the inner loop over the
  shuffled categories; the state is the number placed, the progress flag and the engine.
\<close>

definition catCells :: "engine \<Rightarrow> (string \<times> caddr list) list" where
  "catCells e = fold (\<lambda>c m. let cat = cCategory (hCell (e_heap e) c)
       in AList.update cat (get_or [] m cat @ [c]) m)
     (filter (\<lambda>c. TracksLeft (e_heap e) c \<ge> 2) (boardCells e)) []"

fun ddPass :: "int \<Rightarrow> (string \<times> caddr list) list \<Rightarrow> string list \<Rightarrow> int \<times> bool \<times> engine \<Rightarrow> int \<times> bool \<times> engine" where
  "ddPass n cc [] s = s"
| "ddPass n cc (cat # cats) (placed, progressed, e) =
     (if placed \<ge> n then (placed, progressed, e)
      else
        (let elig = filter (\<lambda>c. \<not> cDailyDouble (hCell (e_heap e) c)) (get_or [] cc cat)
         in if elig = [] then ddPass n cc cats (placed, progressed, e)
            else case intn (length elig) e of (i, e1) \<Rightarrow>
              ddPass n cc cats (placed + 1, True, setDD (elig ! i) True 2 e1)))"

lemma ddPass_mono:
  "ddPass n cc cats (placed, progressed, e) = (placed', progressed', e') \<Longrightarrow>
   placed \<le> placed' \<and> (progressed' \<longrightarrow> progressed \<or> placed < placed')"
  by (induction n cc cats "(placed, progressed, e)" arbitrary: placed progressed e rule: ddPass.induct)
    (auto simp: Let_def split: if_splits prod.splits, force+)

function ddLoop :: "int \<Rightarrow> (string \<times> caddr list) list \<Rightarrow> string list \<Rightarrow> int \<Rightarrow> engine \<Rightarrow> engine" where
  "ddLoop n cc cats placed e =
     (if placed < n then
        (case rngShuffle cats e of (cats', e1) \<Rightarrow>
           (case ddPass n cc cats' (placed, False, e1) of (placed', progressed, e2) \<Rightarrow>
              if progressed then ddLoop n cc cats' placed' e2 else e2))
      else e)"
  by pat_completeness auto

termination
  by (relation "measure (\<lambda>(n, cc, cats, placed, e). nat (n - placed))")
    (auto dest: ddPass_mono ddPass_mono [OF sym])

definition assignDailyDoubles :: "engine \<Rightarrow> engine" where
  "assignDailyDoubles e =
     (let e0 = e\<lparr>e_cellVisits := []\<rparr>
      in case e_board e0 of None \<Rightarrow> e0
         | Some b \<Rightarrow>
           (let e1 = fold (\<lambda>c. setDD c False 0) (cellsOf b) e0;
                cc = catCells e1; n = bDailyDoubleCount b
            in if n \<le> 0 \<or> cc = [] then e1 else ddLoop n cc (map fst cc) 0 e1))"

subsection \<open>Accept, choose, perform\<close>

definition songChoices :: "heap \<Rightarrow> taddr list \<Rightarrow> (string \<times> string \<times> string) list" where
  "songChoices h ts = map (\<lambda>t. (tID (hTrack h t), tSong (hTrack h t), tArtist (hTrack h t))) ts"

definition onDailyDoubleDecision :: "connID \<Rightarrow> u64 \<Rightarrow> bool json \<Rightarrow> engine \<Rightarrow> engine" where
  "onDailyDoubleDecision cid nonce d e =
     (if e_state e \<noteq> StateDailyDouble then e
      else case e_ddOffer e of None \<Rightarrow> e
      | Some off \<Rightarrow>
        if \<not> gate_Validate (e_gate e) nonce then e
        else case playerForConn (e_reg e) cid of None \<Rightarrow> e
        | Some p \<Rightarrow>
          if pID p \<noteq> dd_contestantID off then e
          else (case d of Inl _ \<Rightarrow> e
            | Inr accept \<Rightarrow>
              if \<not> accept then declineDailyDouble e
              else if dd_candidates off \<noteq> []
              then sendEach (connIDs (e_reg e) (pID p))
                     (SMsgDailyDoubleOffer (songChoices (e_heap e) (dd_candidates off))) e
              else case e_board e of None \<Rightarrow> effect Panicked e
              | Some b \<Rightarrow>
                (let n = (if length (bDDBucket b) < 5 then length (bDDBucket b) else 5)
                 in if n = 0 then declineDailyDouble e
                    else case rngShuffle (bDDBucket b) e of (bucket, e1) \<Rightarrow>
                      block [
                        setDDBucket (drop n bucket),
                        \<lambda>e. e\<lparr>e_ddOffer := Some (off\<lparr>dd_candidates := take n bucket\<rparr>)\<rparr>,
                        \<lambda>e. sendEach (connIDs (e_reg e) (pID p))
                          (SMsgDailyDoubleOffer (songChoices (e_heap e) (take n bucket))) e] e1)))"

definition startDailyDoublePerformance :: "playerID \<Rightarrow> taddr \<Rightarrow> dailyDoubleOffer \<Rightarrow> engine \<Rightarrow> engine" where
  "startDailyDoublePerformance pid t off e =
     (case cellAt (e_heap e) (e_board e) (dd_cellRow off) (dd_cellCol off) of
        None \<Rightarrow> declineDailyDouble e
      | Some c \<Rightarrow> block [
          clearReveal,
          \<lambda>e. e\<lparr>e_curCell := Some c, e_curTrack := Some t, e_lastPlayback := None,
                e_curRow := cRow (hCell (e_heap e) c), e_trackStartMs := e_now e, e_cellPicker := pid,
                e_roundKey := cf_SessionID (e_cfg e) @ '':dd:r'' @ itoa (dd_cellRow off) @ ''c''
                  @ itoa (dd_cellCol off) @ '':'' @ tID (hTrack (e_heap e) t) @ '':'' @ itoa (e_now e)\<rparr>,
          refreshCurDropPoint,
          returnUnusedDDCandidates (dd_candidates off) (Some t),
          \<lambda>e. e\<lparr>e_ddOffer := None, e_partial := noPartial\<rparr>,
          revealTo RoleStage,
          revealTo RoleAdmin,
          \<lambda>e. broadcast RoleStage (trackStartMsg e) e,
          fetchAndSendLyrics,
          broadcastDailyDoublePerformer,
          \<lambda>e. e\<lparr>e_ratingPool := map pID (filter (\<lambda>p. \<not> (pID p = pid \<or> pBanned p \<or> \<not> online (e_reg e) (pID p)))
                                   (mobilePlayers (e_reg e))),
                e_ratings := []\<rparr>,
          \<lambda>e. effect (DevPlay (tSpotifyURI (hTrack (e_heap e) t)) 0) e,
          \<lambda>e. audioFrame AudioPlay (tSpotifyURI (hTrack (e_heap e) t)) 0 e] e)"

definition onDailyDoubleChoose :: "connID \<Rightarrow> u64 \<Rightarrow> string json \<Rightarrow> engine \<Rightarrow> engine" where
  "onDailyDoubleChoose cid nonce d e =
     (if e_state e \<noteq> StateDailyDouble then e
      else case e_ddOffer e of None \<Rightarrow> e
      | Some off \<Rightarrow>
        if \<not> gate_Validate (e_gate e) nonce then e
        else case playerForConn (e_reg e) cid of None \<Rightarrow> e
        | Some p \<Rightarrow>
          if pID p \<noteq> dd_contestantID off then e
          else (case d of Inl _ \<Rightarrow> e
            | Inr trackID \<Rightarrow>
              (case find (\<lambda>t. tID (hTrack (e_heap e) t) = trackID) (dd_candidates off) of
                 None \<Rightarrow> e
               | Some t \<Rightarrow> startDailyDoublePerformance (pID p) t off e)))"

subsection \<open>Ratings and payout\<close>

definition onRate :: "connID \<Rightarrow> u64 \<Rightarrow> int json \<Rightarrow> engine \<Rightarrow> engine" where
  "onRate cid nonce d e =
     (if e_state e \<noteq> StateDailyDouble then e
      else if \<not> gate_Validate (e_gate e) nonce then e
      else case playerForConn (e_reg e) cid of None \<Rightarrow> e
      | Some p \<Rightarrow>
        if pID p \<notin> set (e_ratingPool e) then e
        else (case d of Inl _ \<Rightarrow> e
          | Inr stars \<Rightarrow> if stars < 1 \<or> stars > 5 then e
              else e\<lparr>e_ratings := AList.update (pID p) stars (e_ratings e)\<rparr>))"

definition avgStars :: "engine \<Rightarrow> rat" where
  "avgStars e = (if e_ratings e = [] then 1
     else f64 (f64 (of_int (sum_list (map snd (e_ratings e)))) / f64 (of_nat (length (e_ratings e)))))"

definition ddPoints :: "engine \<Rightarrow> int" where
  "ddPoints e = \<lfloor>f64 (f64 (of_int (MaxPointsForRow (e_curRow e))) * DailyDoubleMultiplier (avgStars e))\<rfloor>"

definition finishDailyDouble :: "engine \<Rightarrow> engine" where
  "finishDailyDouble e =
     (let performer = getPlayer (e_reg e) (e_cellPicker e); avg = avgStars e; pts = ddPoints e
      in block [
        case performer of None \<Rightarrow> (\<lambda>e. e)
        | Some p \<Rightarrow> block [
            award (pID p) pts,
            effect (RepoLogDailyDouble (pID p) avg pts),
            broadcastAll (SMsgDailyDoubleResult avg pts)],
        effect DevPause,
        audioFrame AudioPause '''' 0,
        clearReveal,
        \<lambda>e. e\<lparr>e_curTrack := None, e_lastPlayback := None, e_curCell := None,
              e_ratingPool := [], e_ratings := []\<rparr>,
        transitionTo StateBoard,
        broadcastBoard,
        cond (\<lambda>_. performer = None) (\<lambda>e. e\<lparr>e_cellPicker := ''''\<rparr>),
        broadcastPickerStatus,
        sendPickableBoard] e)"

subsection \<open>The graceful fade-out\<close>

text \<open>
  \<open>JFade rk restoreTo i\<close> is the goroutine at the step that sends the level
  \<open>restoreTo * i / 6\<close>; after the last step the continuation \<open>fadeDone\<close> is submitted.
\<close>

definition dailyDoubleFadeSteps :: nat where "dailyDoubleFadeSteps = 6"

definition fadeStepMs :: int where "fadeStepMs = 500"

definition fadeOutAndFinishDailyDouble :: "engine \<Rightarrow> engine" where
  "fadeOutAndFinishDailyDouble e =
     (if e_state e \<noteq> StateDailyDouble \<or> e_curTrack e = None then e
      else if e_ddFadingRoundKey e \<noteq> '''' \<and> e_ddFadingRoundKey e = e_roundKey e then e
      else spawn 0 (JFade (e_roundKey e) (e_volumePct e) dailyDoubleFadeSteps)
             (e\<lparr>e_ddFadingRoundKey := e_roundKey e\<rparr>))"

definition fadeStep :: "string \<Rightarrow> int \<Rightarrow> nat \<Rightarrow> engine \<Rightarrow> engine" where
  "fadeStep rk restoreTo i = block [
     sendVolume (quot (restoreTo * int i) (int dailyDoubleFadeSteps)),
     spawn fadeStepMs (case i of 0 \<Rightarrow> JFadeDone rk | Suc j \<Rightarrow> JFade rk restoreTo j)]"

definition fadeDone :: "string \<Rightarrow> engine \<Rightarrow> engine" where
  "fadeDone rk = block [
     \<lambda>e. if e_roundKey e \<noteq> rk \<or> e_state e \<noteq> StateDailyDouble \<or> e_curTrack e = None then e
         else finishDailyDouble e,
     \<lambda>e. sendVolume (e_volumePct e) e,
     cond (\<lambda>e. e_ddFadingRoundKey e = rk) (\<lambda>e. e\<lparr>e_ddFadingRoundKey := ''''\<rparr>),
     broadcastVolumeStatus]"

definition checkDailyDoubleComplete :: "engine \<Rightarrow> engine" where
  "checkDailyDoubleComplete e =
     (if e_state e \<noteq> StateDailyDouble \<or> e_curTrack e = None then e
      else if length (e_ratingPool e) > 0 \<and> length (e_ratings e) \<ge> length (e_ratingPool e)
      then fadeOutAndFinishDailyDouble e else e)"

subsection \<open>Skipping and ending\<close>

definition skipDailyDouble :: "engine \<Rightarrow> engine" where
  "skipDailyDouble e =
     (if e_state e \<noteq> StateDailyDouble then e
      else if e_curTrack e \<noteq> None then finishDailyDouble e
      else if e_ddOffer e \<noteq> None then declineDailyDouble e
      else e)"

definition endRound :: "engine \<Rightarrow> engine" where
  "endRound e =
     (if e_state e = StateDailyDouble then skipDailyDouble e
      else block [
        consumeTrack,
        lockRelease,
        effect DevPause,
        audioFrame AudioPause '''' 0,
        clearReveal,
        \<lambda>e. e\<lparr>e_curTrack := None, e_lastPlayback := None, e_curCell := None, e_buzzWinner := '''',
              e_buzzWindowOpen := False, e_buzzContenders := [], e_partial := noPartial\<rparr>,
        transitionTo StateBoard,
        broadcastBoard] e)"

end
