(* ===== verification/Engine_Buzz.thy ===== *)
theory Engine_Buzz
  imports Engine_DailyDouble
begin

section \<open>Buzzing and grading: server/internal/game/engine.go\<close>

text \<open>
  A buzz passes the guards and joins the collection window; when the window resolves, the
  eligible contender with the earliest server arrival takes the buzz lock and the round
  goes to the admin, who grades it. Ties are broken by the shuffle that precedes the stable
  sort.
\<close>

subsection \<open>The collection window\<close>

fun addContenderTo :: "buzzContender \<Rightarrow> buzzContender list \<Rightarrow> buzzContender list" where
  "addContenderTo c [] = [c]"
| "addContenderTo c (x # xs) =
     (if bc_playerID x = bc_playerID c
      then (if bc_arrivalMs c < bc_arrivalMs x then c # xs else x # xs)
      else x # addContenderTo c xs)"

definition addContender :: "buzzContender \<Rightarrow> engine \<Rightarrow> engine" where
  "addContender c e = e\<lparr>e_buzzContenders := addContenderTo c (e_buzzContenders e)\<rparr>"

definition contenderEligible :: "registry \<Rightarrow> buzzContender \<Rightarrow> bool" where
  "contenderEligible r c =
     (case getPlayer r (bc_playerID c) of None \<Rightarrow> False
      | Some p \<Rightarrow> \<not> pBanned p \<and> \<not> pGuessedThisTrack p \<and> online r (pID p))"

definition closeWindow :: "engine \<Rightarrow> engine" where
  "closeWindow e = e\<lparr>e_buzzWindowOpen := False, e_buzzContenders := []\<rparr>"

definition sendLost :: "buzzContender list \<Rightarrow> engine \<Rightarrow> engine" where
  "sendLost cs = fold (\<lambda>c e. sendEach (connIDs (e_reg e) (bc_playerID c)) (SMsgBuzzResult False) e) cs"

definition tryAcquire :: "string \<Rightarrow> playerID \<Rightarrow> engine \<Rightarrow> bool \<times> engine" where
  "tryAcquire rk pid e =
     (if e_lockErr e then (False, e)
      else case ml_TryAcquire (e_lock e) rk pid of (won, l) \<Rightarrow> (won, e\<lparr>e_lock := l\<rparr>))"

definition awardBuzzWinner :: "playerID \<Rightarrow> string \<Rightarrow> int \<Rightarrow> engine \<Rightarrow> engine" where
  "awardBuzzWinner pid handle arrivalMs = block [
     \<lambda>e. e\<lparr>e_buzzWinner := pid, e_pausedAtMs := e_now e - e_trackStartMs e\<rparr>,
     \<lambda>e. audioFrame AudioPause '''' (e_pausedAtMs e) e,
     transitionTo StateLocked,
     \<lambda>e. sendEach (connIDs (e_reg e) pid) (SMsgBuzzResult True) e,
     broadcast RoleMobile (SMsgLockout handle),
     transitionTo StateAdjudicate,
     \<lambda>e. broadcast RoleAdmin (adminViewMsg e) e,
     effect (RepoLogBuzz pid handle arrivalMs)]"

text \<open>The contenders in the order of the decision: shuffled, then stably sorted by arrival.\<close>

definition buzzOrder :: "engine \<Rightarrow> buzzContender list \<times> engine" where
  "buzzOrder e = (case rngShuffle (e_buzzContenders e) e of (cs, e1) \<Rightarrow> (sort_key bc_arrivalMs cs, e1))"

definition resolveBuzzWindow :: "string \<Rightarrow> engine \<Rightarrow> engine" where
  "resolveBuzzWindow rk e =
     (if e_state e \<noteq> StateRoundActive \<or> e_roundKey e \<noteq> rk \<or> \<not> e_buzzWindowOpen e then e
      else case buzzOrder e of (order, e1) \<Rightarrow>
        (case find (\<lambda>i. contenderEligible (e_reg e1) (order ! i)) [0..<length order] of
           None \<Rightarrow> closeWindow e1
         | Some i \<Rightarrow>
           (let w = order ! i; pid = bc_playerID w;
                handle = (case getPlayer (e_reg e1) pid of None \<Rightarrow> '''' | Some p \<Rightarrow> pHandle p)
            in case tryAcquire (e_roundKey e1) pid e1 of
                 (False, e2) \<Rightarrow> closeWindow (sendLost order e2)
               | (True, e2) \<Rightarrow> block [
                   awardBuzzWinner pid handle (bc_arrivalMs w),
                   sendLost (take i order @ drop (Suc i) order),
                   closeWindow] e2)))"

definition onBuzz :: "connID \<Rightarrow> u64 \<Rightarrow> int \<Rightarrow> engine \<Rightarrow> engine" where
  "onBuzz cid nonce arrivalMs e =
     (let lost = sendTo cid (SMsgBuzzResult False)
      in if e_state e \<noteq> StateRoundActive then lost e
         else if e_revealLocked e then lost e
         else if \<not> gate_Validate (e_gate e) nonce then lost e
         else case playerForConn (e_reg e) cid of None \<Rightarrow> lost e
         | Some p \<Rightarrow>
           if pBanned p then lost e
           else if pGuessedThisTrack p then lost e
           else
             (let c = \<lparr>bc_playerID = pID p, bc_connID = cid, bc_arrivalMs = arrivalMs\<rparr>
              in if e_buzzWindowOpen e then addContender c e
                 else
                   (let e1 = e\<lparr>e_buzzWindowOpen := True, e_buzzContenders := [c]\<rparr>
                    in if e_buzzWindowMs e1 \<le> 0 then resolveBuzzWindow (e_roundKey e1) e1
                       else spawn (e_buzzWindowMs e1) (JBuzzWindow (e_roundKey e1)) e1)))"

subsection \<open>Grading\<close>

definition reenableEligible :: "engine \<Rightarrow> engine" where
  "reenableEligible e =
     fold (\<lambda>p. sendEach (connIDs (e_reg e) (pID p)) (SMsgBuzzResult False))
       (filter (\<lambda>p. \<not> (pGuessedThisTrack p \<or> pBanned p)) (mobilePlayers (e_reg e))) e"

text \<open>The common tail of a grade: the winner's slot and the lock are freed.\<close>

definition releaseBuzz :: "engine \<Rightarrow> engine" where
  "releaseBuzz = block [
     \<lambda>e. e\<lparr>e_buzzWinner := ''''\<rparr>,
     lockRelease,
     \<lambda>e. broadcast RoleAdmin (adminViewMsg e) e]"

definition gradeCorrect :: "player \<Rightarrow> int \<Rightarrow> engine \<Rightarrow> engine" where
  "gradeCorrect winner elapsed e =
     (case roundPool e of (maxP, baseP) \<Rightarrow> block [
        award (pID winner) (currentPointsFromPool maxP baseP elapsed),
        \<lambda>e. e\<lparr>e_cellPicker := pID winner, e_roundWinner := pHandle winner\<rparr>,
        releaseBuzz,
        consumeTrack,
        enterKaraoke] e)"

definition gradePartial :: "player \<Rightarrow> int \<Rightarrow> string \<Rightarrow> engine \<Rightarrow> engine" where
  "gradePartial winner elapsed kind e =
     (let second = pt_active (e_partial e);
          (awarded, remaining) = (if second
             then (PartialPoints, if pt_remaining (e_partial e) - PartialPoints < 0 then 0
                                  else pt_remaining (e_partial e) - PartialPoints)
             else PartialAward (e_curRow e) elapsed)
      in block [
        award (pID winner) awarded,
        \<lambda>e. e\<lparr>e_partial := \<lparr>pt_active = True, pt_remaining = remaining\<rparr>\<rparr>,
        \<lambda>e. sendEach (connIDs (e_reg e) (pID winner)) (SMsgGradeResult ''partial'') e,
        if second then block [
          \<lambda>e. e\<lparr>e_roundWinner := pHandle winner\<rparr>,
          releaseBuzz,
          consumeTrack,
          enterKaraoke]
        else block [
          effect DevResume,
          \<lambda>e. audioFrame AudioResume '''' (e_pausedAtMs e) e,
          \<lambda>e. e\<lparr>e_trackStartMs := e_now e - 5001\<rparr>,
          \<lambda>e. broadcast RoleStage (trackStartMsg e) e,
          cond (\<lambda>_. kind \<noteq> '''') (block [
            revealFieldFully kind,
            broadcast RoleStage (SMsgPartialReveal kind)]),
          releaseBuzz,
          transitionTo StateRoundActive,
          reenableEligible]] e)"

definition gradeIncorrect :: "player \<Rightarrow> engine \<Rightarrow> engine" where
  "gradeIncorrect winner = block [
     updPl (pID winner) (\<lambda>p. p\<lparr>pGuessedThisTrack := True\<rparr>),
     \<lambda>e. sendEach (connIDs (e_reg e) (pID winner)) (SMsgGradeResult ''incorrect'') e,
     resumeAudio,
     releaseBuzz,
     transitionTo StateRoundActive,
     reenableEligible]"

definition onGrade :: "connID \<Rightarrow> (string \<times> string) json \<Rightarrow> engine \<Rightarrow> engine" where
  "onGrade cid d e =
     (if e_state e \<noteq> StateAdjudicate then e
      else case d of Inl err \<Rightarrow> sendError cid ''badGrade'' err e
      | Inr (verdict, kind) \<Rightarrow>
        (case getPlayer (e_reg e) (e_buzzWinner e) of None \<Rightarrow> endRound e
         | Some winner \<Rightarrow> block [
             updPl (pID winner) (\<lambda>p. p\<lparr>pGuessedThisTrack := True\<rparr>),
             if verdict = ''correct'' then gradeCorrect winner (e_pausedAtMs e)
             else if verdict = ''partial'' then gradePartial winner (e_pausedAtMs e) kind
             else if verdict = ''incorrect'' then gradeIncorrect winner
             else sendError cid ''badVerdict'' verdict] e))"

end
