(* ===== verification/Engine_Admin.thy ===== *)
theory Engine_Admin
  imports Engine_Buzz
begin

section \<open>Admin handlers, connections, dispatch and the command loop: server/internal/game/engine.go\<close>

subsection \<open>Playback and drop points\<close>

definition onAdminPlayback :: "connID \<Rightarrow> string json \<Rightarrow> engine \<Rightarrow> engine" where
  "onAdminPlayback cid d e =
     (case d of Inl err \<Rightarrow> sendError cid ''badPlayback'' err e
      | Inr act \<Rightarrow>
          if e_curTrack e = None then e
          else if act = ''pause'' then block [
            \<lambda>e. e\<lparr>e_pausedAtMs := e_now e - e_trackStartMs e\<rparr>,
            effect DevPause,
            audioFrame AudioPause '''' 0] e
          else if act = ''resume'' \<or> act = ''play'' then resumeAudio e
          else e)"

definition onAdminSeek :: "connID \<Rightarrow> int json \<Rightarrow> engine \<Rightarrow> engine" where
  "onAdminSeek cid d e =
     (case d of Inl err \<Rightarrow> sendError cid ''badSeek'' err e | Inr positionMs \<Rightarrow> seekTo positionMs e)"

definition dropPointDisabledText :: string where
  "dropPointDisabledText = ''drop-point marking is not configured on this server''"

definition onAdminSetDropPoint :: "connID \<Rightarrow> int json \<Rightarrow> engine \<Rightarrow> engine" where
  "onAdminSetDropPoint cid d e =
     (case d of Inl err \<Rightarrow> sendError cid ''badSetDropPoint'' err e
      | Inr positionMs \<Rightarrow>
          if \<not> cf_hasDropPointStore (e_cfg e)
          then sendError cid ''dropPointDisabled'' dropPointDisabledText e
          else case curTrackData e of
            None \<Rightarrow> sendError cid ''dropPointNoTrack'' ''no track is currently playing'' e
          | Some t \<Rightarrow>
              if positionMs < 0 \<or> tDurationMs t > 0 \<and> positionMs > tDurationMs t
              then sendError cid ''dropPointOutOfRange''
                (''positionMs '' @ itoa positionMs @ '' outside track bounds [0,'' @ itoa (tDurationMs t) @ '']'') e
              else spawn 0 (JDropSave cid (e_roundKey e) positionMs (tSpotifyURI t))
                (e\<lparr>e_curDropPointMs := Some positionMs\<rparr>))"

definition onAdminJumpToDropPoint :: "connID \<Rightarrow> engine \<Rightarrow> engine" where
  "onAdminJumpToDropPoint cid e =
     (if \<not> cf_hasDropPointStore (e_cfg e)
      then sendError cid ''dropPointDisabled'' dropPointDisabledText e
      else if e_curTrack e = None
      then sendError cid ''dropPointNoTrack'' ''no track is currently playing'' e
      else case e_curDropPointMs e of
        None \<Rightarrow> sendError cid ''noDropPoint'' ''no drop point set for the current track'' e
      | Some ms \<Rightarrow>
          (let target = ms - dropPointSeekBufferMs in seekTo (if target < 0 then 0 else target) e))"

definition onAdminSetVolume :: "connID \<Rightarrow> int json \<Rightarrow> engine \<Rightarrow> engine" where
  "onAdminSetVolume cid d e =
     (case d of Inl err \<Rightarrow> sendError cid ''badSetVolume'' err e
      | Inr pct0 \<Rightarrow>
          (let pct = (if pct0 < 0 then 0 else if pct0 > 100 then 100 else pct0)
           in block [
             \<lambda>e. e\<lparr>e_volumePct := pct\<rparr>,
             broadcastVolumeStatus,
             sendVolume pct] e))"

subsection \<open>Players and knobs\<close>

definition onAdminEndDailyDouble :: "connID \<Rightarrow> engine \<Rightarrow> engine" where
  "onAdminEndDailyDouble cid e =
     (if e_state e \<noteq> StateDailyDouble \<or> e_curTrack e = None
      then sendError cid ''noDailyDoublePerformance''
             ''no Daily Double performance is currently in progress'' e
      else fadeOutAndFinishDailyDouble e)"

definition onAdminAward :: "connID \<Rightarrow> (playerID \<times> int) json \<Rightarrow> engine \<Rightarrow> engine" where
  "onAdminAward cid d e =
     (case d of Inl err \<Rightarrow> sendError cid ''badAward'' err e
      | Inr (pid, delta0) \<Rightarrow>
          (let delta1 = (if delta0 < -1000 then -1000 else delta0);
               delta = (if delta1 > 1000 then 1000 else delta1)
           in case getPlayer (e_reg e) pid of None \<Rightarrow> e
              | Some p \<Rightarrow> block [
                  updPl pid (\<lambda>p. p\<lparr>pScore := (if pScore p + delta < 0 then 0 else pScore p + delta)\<rparr>),
                  saveScore pid,
                  broadcastScoreboard] e))"

definition clearPicker :: "engine \<Rightarrow> engine" where
  "clearPicker = block [
     \<lambda>e. e\<lparr>e_cellPicker := '''', e_pendingPick := None, e_karaokeReady := False\<rparr>,
     broadcastPickerStatus,
     broadcastPendingPick 0 0]"

text \<open>What a lost player means for a Daily Double: shared by kick and disconnect.\<close>

definition ddPlayerGone :: "playerID \<Rightarrow> engine \<Rightarrow> engine" where
  "ddPlayerGone pid e =
     (if e_state e \<noteq> StateDailyDouble then e
      else case e_ddOffer e of
        Some off \<Rightarrow> if dd_contestantID off = pid then declineDailyDouble e else checkDailyDoubleComplete e
      | None \<Rightarrow> checkDailyDoubleComplete e)"

definition dropFromPools :: "playerID \<Rightarrow> engine \<Rightarrow> engine" where
  "dropFromPools pid e = e\<lparr>e_votingPool := removeAll pid (e_votingPool e),
     e_ratingPool := removeAll pid (e_ratingPool e), e_ratings := AList.delete pid (e_ratings e)\<rparr>"

definition onAdminKick :: "connID \<Rightarrow> (playerID \<times> bool) json \<Rightarrow> engine \<Rightarrow> engine" where
  "onAdminKick cid d e =
     (case d of Inl err \<Rightarrow> sendError cid ''badKick'' err e
      | Inr (target, ban) \<Rightarrow>
        (case getPlayer (e_reg e) target of None \<Rightarrow> e
         | Some p \<Rightarrow> block [
             updPl target (\<lambda>p. p\<lparr>pBanned := (ban \<or> pBanned p), pActive := False\<rparr>),
             dropFromPools (pID p),
             \<lambda>e. sendEach (connIDs (e_reg e) (pID p)) (SMsgError ''kicked'' ''removed by admin'') e,
             cond (\<lambda>e. e_state e = StateKaraoke) evaluateSkipVotes,
             ddPlayerGone (pID p),
             cond (\<lambda>e. e_cellPicker e = pID p) clearPicker] e))"

definition onAdminSetThresh :: "connID \<Rightarrow> int json \<Rightarrow> engine \<Rightarrow> engine" where
  "onAdminSetThresh cid d e =
     (case d of Inl err \<Rightarrow> sendError cid ''badThresh'' err e
      | Inr pct0 \<Rightarrow>
          (let pct1 = (if pct0 < 50 then 50 else pct0); pct = (if pct1 > 100 then 100 else pct1)
           in block [
             \<lambda>e. e\<lparr>e_session := (e_session e)\<lparr>ss_SkipThresholdPct := pct\<rparr>\<rparr>,
             cond (\<lambda>e. e_state e = StateKaraoke) (block [broadcastVoteState, evaluateSkipVotes])] e))"

definition patchCfg :: "revealPatch \<Rightarrow> revealConfig \<Rightarrow> revealConfig" where
  "patchCfg d c = \<lparr>
     rv_IntervalMs = (case rp_IntervalMs d of None \<Rightarrow> rv_IntervalMs c | Some v \<Rightarrow> v),
     rv_Phase1Ms = (case rp_Phase1Ms d of None \<Rightarrow> rv_Phase1Ms c | Some v \<Rightarrow> v),
     rv_BlockMs = (case rp_BlockMs d of None \<Rightarrow> rv_BlockMs c | Some v \<Rightarrow> v),
     rv_EaseMs = (case rp_EaseMs d of None \<Rightarrow> rv_EaseMs c | Some v \<Rightarrow> v),
     rv_LockoutChars = (case rp_LockoutChars d of None \<Rightarrow> rv_LockoutChars c | Some v \<Rightarrow> v),
     rv_AutoKaraokeMs = (case rp_AutoKaraokeMs d of None \<Rightarrow> rv_AutoKaraokeMs c | Some v \<Rightarrow> v),
     rv_YearDelayMs = (case rp_YearDelayMs d of None \<Rightarrow> rv_YearDelayMs c | Some v \<Rightarrow> v),
     rv_Alternate = (case rp_Alternate d of None \<Rightarrow> rv_Alternate c | Some v \<Rightarrow> v),
     rv_TransitionDelayMs = (case rp_TransitionDelayMs d of None \<Rightarrow> rv_TransitionDelayMs c | Some v \<Rightarrow> v)\<rparr>"

definition onAdminSetRevealCfg :: "connID \<Rightarrow> revealPatch json \<Rightarrow> engine \<Rightarrow> engine" where
  "onAdminSetRevealCfg cid d e =
     (case d of Inl err \<Rightarrow> sendError cid ''badRevealCfg'' err e
      | Inr patch \<Rightarrow> block [
          \<lambda>e. e\<lparr>e_revealCfg := revealClamp (patchCfg patch (e_revealCfg e))\<rparr>,
          \<lambda>e. broadcast RoleAdmin (SMsgAdminRevealCfg (e_revealCfg e)) e] e)"

subsection \<open>Stage callbacks\<close>

definition onStageDeviceReady :: "string json \<Rightarrow> engine \<Rightarrow> engine" where
  "onStageDeviceReady d e = (case d of Inl _ \<Rightarrow> e | Inr dev \<Rightarrow> effect (DevSetDevice dev) e)"

definition broadcastPlaybackPosition :: "stagePlayerState \<Rightarrow> engine \<Rightarrow> engine" where
  "broadcastPlaybackPosition d e =
     (if sk_active (e_solo e) then
        (case soloTrack e of None \<Rightarrow> e
         | Some t \<Rightarrow> broadcast RoleAdmin (SMsgPlaybackPosition
             \<lparr>pp_PositionMs = sp_PositionMs d, pp_DurationMs = tDurationMs t, pp_Paused = sp_Paused d,
              pp_HasDropPoint = False, pp_DropPointMs = 0\<rparr>) e)
      else case curTrackData e of None \<Rightarrow> e
      | Some t \<Rightarrow>
          (let pd = \<lparr>pp_PositionMs = sp_PositionMs d, pp_DurationMs = tDurationMs t, pp_Paused = sp_Paused d,
                 pp_HasDropPoint = (e_curDropPointMs e \<noteq> None),
                 pp_DropPointMs = (case e_curDropPointMs e of None \<Rightarrow> 0 | Some ms \<Rightarrow> ms)\<rparr>
           in broadcast RoleAdmin (SMsgPlaybackPosition pd) (e\<lparr>e_lastPlayback := Some pd\<rparr>)))"

definition onStagePlayerState :: "stagePlayerState json \<Rightarrow> engine \<Rightarrow> engine" where
  "onStagePlayerState d e =
     (case d of Inl _ \<Rightarrow> e
      | Inr st \<Rightarrow> block [
          broadcastPlaybackPosition st,
          \<lambda>e. if \<not> sp_TrackEnded st then e
               else if sk_active (e_solo e) then soloKaraokeAdvance e
               else if e_state e = StateKaraoke then karaokeConditionMet e
               else if e_state e = StateRoundActive then endRound e
               else if e_state e = StateDailyDouble \<and> e_curTrack e \<noteq> None then finishDailyDouble e
               else e] e)"

subsection \<open>Hello, heartbeat and the full sync\<close>

definition sendFullSync :: "connID \<Rightarrow> role \<Rightarrow> engine \<Rightarrow> engine" where
  "sendFullSync cid r = block [
     \<lambda>e. sendTo cid (SMsgState (e_state e)) e,
     \<lambda>e. sendTo cid (SMsgSoloActive (sk_active (e_solo e))) e,
     cond (\<lambda>_. r = RoleAdmin) (\<lambda>e. sendTo cid (SMsgModeLock (modeLockOwner e)) e),
     \<lambda>e. case soloTrack e of None \<Rightarrow> e
       | Some t \<Rightarrow> cond (\<lambda>e. sk_active (e_solo e)) (block [
           cond (\<lambda>_. r = RoleAdmin \<or> r = RoleStage)
             (\<lambda>e. sendTo cid (SMsgSoloNowPlaying (soloKaraokeNowPlayingData e)) e),
           cond (\<lambda>_. r = RoleStage) (block [
             \<lambda>e. sendTo cid (SMsgAudio AudioPlay (tSpotifyURI t)
                   (if sk_paused (e_solo e) then sk_pausedAtMs (e_solo e)
                    else e_now e - sk_trackStartMs (e_solo e))) e,
             cond (\<lambda>e. sk_paused (e_solo e)) (sendTo cid (SMsgAudio AudioPause '''' 0)),
             soloKaraokeFetchAndSendLyrics])]) e,
     cond (\<lambda>e. (rc_active (e_rc e) \<or> rc_finalizing (e_rc e)) \<and> e_curTrack e \<noteq> None)
       (\<lambda>e. sendTo cid (SMsgMaskedReveal (currentMask (e_rc e))) e),
     cond (\<lambda>_. r = RoleAdmin) (block [
       \<lambda>e. sendTo cid (SMsgAdminRevealCfg (e_revealCfg e)) e,
       \<lambda>e. sendTo cid (telemetryMsg e) e,
       \<lambda>e. sendTo cid (cheatReportMsg e) e,
       \<lambda>e. sendTo cid (SMsgVolumeStatus (e_volumePct e)) e,
       \<lambda>e. sendTo cid (adminViewMsg e) e,
       \<lambda>e. case e_lastPlayback e of None \<Rightarrow> e | Some pd \<Rightarrow> sendTo cid (SMsgPlaybackPosition pd) e]),
     \<lambda>e. case e_pendingPick e of None \<Rightarrow> e
       | Some (row, col) \<Rightarrow> cond (\<lambda>_. r = RoleStage \<or> r = RoleAdmin) (sendTo cid (SMsgPendingPick row col)) e,
     cond (\<lambda>e. r = RoleStage \<and> e_state e = StateKaraoke)
       (\<lambda>e. sendTo cid (SMsgStageVoteProgress (haveVotes e) (needVotes e) (activeVoters e)) e),
     \<lambda>e. sendTo cid (scoreboardMsg e) e,
     cond (\<lambda>e. e_state e = StateDailyDouble)
       (\<lambda>e. case dailyDoubleStatus e of (pid, performing) \<Rightarrow>
          if pid = '''' then e
          else case getPlayer (e_reg e) pid of None \<Rightarrow> e
            | Some p \<Rightarrow> sendTo cid (SMsgDailyDoublePerformer (pID p) (pHandle p) performing) e),
     cond (\<lambda>e. e_cellPicker e \<noteq> '''' \<and> (e_state e = StateKaraoke \<or> e_state e = StateBoard)) (block [
       \<lambda>e. sendTo cid (pickerStatusMsg e) e,
       \<lambda>e. case playerForConn (e_reg e) cid of None \<Rightarrow> e
         | Some p \<Rightarrow> if pID p = e_cellPicker e
             then sendTo cid (SMsgPickableBoard (boardData (e_heap e) (e_board e))) e else e]),
     cond (\<lambda>_. TrustedReveal r) (block [
       \<lambda>e. sendTo cid (boardMsg e) e,
       cond (\<lambda>e. e_curTrack e \<noteq> None) (\<lambda>e. sendTo cid (trackStartMsg e) e),
       cond (\<lambda>e. e_state e = StateKaraoke) (\<lambda>e. sendTo cid (SMsgRoundWinner (e_roundWinner e)) e)]),
     cond (\<lambda>e. r = RoleStage \<and> e_spotifyAuthed e) (sendTo cid (SMsgSpotifyToken ''''))]"

definition onHello :: "connID \<Rightarrow> helloData json \<Rightarrow> engine \<Rightarrow> engine" where
  "onHello cid d e =
     (case d of Inl err \<Rightarrow> sendError cid ''badHello'' err e
      | Inr h \<Rightarrow>
          if (hd_Role h = RoleAdmin \<or> hd_Role h = RoleStage) \<and> cf_AdminSecret (e_cfg e) \<noteq> ''''
             \<and> hd_AdminSecret h \<noteq> cf_AdminSecret (e_cfg e)
          then sendError cid ''forbidden'' ''bad admin secret'' e
          else case resolvePlayer (cf_unicode (e_cfg e)) cid h (e_reg e) of (reg, pid, _) \<Rightarrow>
            (let e1 = e\<lparr>e_reg := reg\<rparr>
             in case getPlayer reg pid of None \<Rightarrow> effect Panicked e1
                | Some p \<Rightarrow>
                  if pBanned p then sendError cid ''banned'' ''you are banned'' e1
                  else block [
                    cond (\<lambda>e. cf_hasRoleSetter (e_cfg e)) (effect (RoleSet cid (hd_Role h))),
                    cond (\<lambda>_. hd_Role h = RoleMobile) (updPl pid (\<lambda>p. p\<lparr>pActive := True, pIdleRounds := 0\<rparr>)),
                    \<lambda>e. sendTo cid (SMsgWelcome (pID p) (hd_Role h) (gate_Current (e_gate e))) e,
                    sendFullSync cid (hd_Role h),
                    \<lambda>e. e\<lparr>e_scoreboardDirty := True, e_boardDirty := True\<rparr>,
                    cond (\<lambda>_. hd_Role h = RoleAdmin \<or> hd_Role h = RoleMobile)
                      (\<lambda>e. e\<lparr>e_telemetryDirty := True\<rparr>)] e1))"

definition onHeartbeat :: "connID \<Rightarrow> int \<Rightarrow> engine \<Rightarrow> engine" where
  "onHeartbeat cid rtt = block [
     \<lambda>e. case playerForConn (e_reg e) cid of None \<Rightarrow> e
       | Some p \<Rightarrow> updPl (pID p) (\<lambda>q. q\<lparr>pIdleRounds := 0,
           pActive := (isMobile (e_reg e) (pID p) \<or> pActive q),
           pRTTMs := (if rtt > 0 then
               (if pRTTMs q = 0 then rtt else quot (wrap64 (wrap64 (pRTTMs q * 3) + rtt)) 4)
             else pRTTMs q)\<rparr>) e,
     \<lambda>e. sendTo cid (SMsgHeartbeat (e_now e)) e,
     \<lambda>e. e\<lparr>e_telemetryDirty := True\<rparr>]"

subsection \<open>Connections\<close>

definition OnConnect :: "connID \<Rightarrow> string \<Rightarrow> engine \<Rightarrow> engine" where
  "OnConnect cid remoteIP = block [
     \<lambda>e. e\<lparr>e_reg := addConn cid (e_reg e)\<rparr>,
     cond (\<lambda>_. remoteIP \<noteq> '''') (\<lambda>e. e\<lparr>e_connIP := AList.update cid remoteIP (e_connIP e)\<rparr>)]"

definition OnDisconnect :: "connID \<Rightarrow> engine \<Rightarrow> engine" where
  "OnDisconnect cid e =
     (case removeConn cid (e_reg e) of (reg, pid, fullyGone) \<Rightarrow>
        (let e1 = e\<lparr>e_connIP := AList.delete cid (e_connIP e), e_reg := reg\<rparr>
         in if \<not> (pid \<noteq> '''' \<and> fullyGone) then e1
            else block [
              dropFromPools pid,
              updPl pid (\<lambda>p. p\<lparr>pActive := False\<rparr>),
              cond (\<lambda>e. e_state e = StateKaraoke) (block [broadcastVoteState, evaluateSkipVotes]),
              ddPlayerGone pid,
              \<lambda>e. if pid \<noteq> e_cellPicker e then e
                   else (let wasReady = e_karaokeReady e
                         in block [
                           clearPicker,
                           cond (\<lambda>e. wasReady \<and> e_state e = StateKaraoke) beginTransition] e),
              broadcastTelemetry] e1))"

subsection \<open>Start and reset\<close>

definition StartGame :: "engine \<Rightarrow> string option \<times> engine" where
  "StartGame e =
     (if e_board e = None then (Some ''no board attached'', e)
      else if sk_active (e_solo e)
      then (Some (''solo karaoke is active '' @ emDash @ '' stop it before starting a trivia game''), e)
      else if e_state e \<noteq> StateLobby
      then (Some (''game already started (state: '' @ stateString (e_state e) @ '')''), e)
      else (None, block [
        assignDailyDoubles,
        transitionTo StateBoard,
        broadcastBoard,
        broadcastModeLock] e))"

text \<open>All tracks of all cells become unplayed; the board stays attached.\<close>

definition unplayAll :: "engine \<Rightarrow> engine" where
  "unplayAll e =
     e\<lparr>e_heap := fold (\<lambda>c h. fold (\<lambda>t. updTrack t (\<lambda>x. x\<lparr>tPlayed := False\<rparr>)) (cTracks (hCell h c)) h)
                   (boardCells e) (e_heap e)\<rparr>"

definition ResetToLobby :: "engine \<Rightarrow> string option \<times> engine" where
  "ResetToLobby e =
     (if e_state e \<noteq> StateGameOver
      then (Some (''can only reset from GAME_OVER (state: '' @ stateString (e_state e) @ '')''), e)
      else (None, block [
        clearReveal,
        \<lambda>e. e\<lparr>e_curCell := None, e_curTrack := None, e_lastPlayback := None, e_curRow := 0,
              e_roundKey := '''', e_trackStartMs := 0, e_pausedAtMs := 0, e_buzzWinner := '''',
              e_buzzWindowOpen := False, e_buzzContenders := [], e_cellPicker := '''',
              e_votingPool := [], e_votes := [], e_ratingPool := [], e_ratings := [],
              e_lastScorer := '''', e_cellVisits := [], e_ddOffer := None\<rparr>,
        \<lambda>e. e\<lparr>e_reg := mapPlayers (\<lambda>p. p\<lparr>pScore := 0, pGuessedThisTrack := False, pIdleRounds := 0\<rparr>) (e_reg e)\<rparr>,
        unplayAll,
        \<lambda>e. setDDBucket (e_ddBucketOriginal e) e,
        effect RepoClearPlayed,
        transitionTo StateLobby,
        broadcastScoreboard,
        broadcastBoard] e))"

definition PushSpotifyToken :: "string \<Rightarrow> engine \<Rightarrow> engine" where
  "PushSpotifyToken token = block [
     \<lambda>e. e\<lparr>e_spotifyAuthed := True\<rparr>,
     broadcast RoleStage (SMsgSpotifyToken token)]"

definition MarkSpotifyAuthed :: "engine \<Rightarrow> engine" where
  "MarkSpotifyAuthed e = e\<lparr>e_spotifyAuthed := True\<rparr>"

subsection \<open>Dispatch\<close>

definition endGame :: "engine \<Rightarrow> engine" where
  "endGame = block [
     cond (\<lambda>e. e_state e = StateDailyDouble \<and> e_curTrack e \<noteq> None) finishDailyDouble,
     cond (\<lambda>e. e_curTrack e \<noteq> None) (block [
       effect DevPause,
       audioFrame AudioPause '''' 0,
       \<lambda>e. e\<lparr>e_lastPlayback := None\<rparr>]),
     transitionTo StateGameOver,
     persistScores,
     broadcastModeLock]"

fun dispatchAdmin :: "connID \<Rightarrow> client_body \<Rightarrow> engine \<Rightarrow> engine" where
  "dispatchAdmin cid (CMsgAdminGrade d) = onGrade cid d"
| "dispatchAdmin cid (CMsgAdminSelect d) = onAdminSelect cid d"
| "dispatchAdmin cid (CMsgAdminPlayback d) = onAdminPlayback cid d"
| "dispatchAdmin cid (CMsgAdminAward d) = onAdminAward cid d"
| "dispatchAdmin cid (CMsgAdminKick d) = onAdminKick cid d"
| "dispatchAdmin cid CMsgAdminReveal = adminReveal"
| "dispatchAdmin cid CMsgAdminEndRound = endRound"
| "dispatchAdmin cid (CMsgAdminSetThresh d) = onAdminSetThresh cid d"
| "dispatchAdmin cid (CMsgAdminSetRevealCfg d) = onAdminSetRevealCfg cid d"
| "dispatchAdmin cid CMsgAdminSkipDailyDouble = skipDailyDouble"
| "dispatchAdmin cid (CMsgAdminSeek d) = onAdminSeek cid d"
| "dispatchAdmin cid (CMsgAdminSetDropPoint d) = onAdminSetDropPoint cid d"
| "dispatchAdmin cid CMsgAdminJumpToDropPoint = onAdminJumpToDropPoint cid"
| "dispatchAdmin cid (CMsgAdminSetVolume d) = onAdminSetVolume cid d"
| "dispatchAdmin cid CMsgAdminEndDailyDouble = onAdminEndDailyDouble cid"
| "dispatchAdmin cid (CMsgSoloPlay trackID) = onAdminSoloKaraokePlay cid trackID"
| "dispatchAdmin cid CMsgSoloPause = onAdminSoloKaraokePause"
| "dispatchAdmin cid CMsgSoloResume = onAdminSoloKaraokeResume"
| "dispatchAdmin cid CMsgSoloStop = onAdminSoloKaraokeStop"
| "dispatchAdmin cid CMsgSoloNext = onAdminSoloKaraokeNext"
| "dispatchAdmin cid CMsgSoloPrev = onAdminSoloKaraokePrev"
| "dispatchAdmin cid (CMsgSoloSeek d) = onAdminSoloKaraokeSeek cid d"
| "dispatchAdmin cid (CMsgSoloSetShuffle d) = onAdminSoloKaraokeSetShuffle cid d"
| "dispatchAdmin cid (CMsgSoloSetRepeat d) = onAdminSoloKaraokeSetRepeat cid d"
| "dispatchAdmin cid CMsgAdminEndGame = endGame"
| "dispatchAdmin cid _ = (\<lambda>e. e)"

text \<open>
  \<open>r\<close> is the role the transport holds for the connection. The admin messages are the ones
  that \<open>isAdminMsg\<close> lists; each is refused to any other role.
\<close>

fun isAdminMsg :: "client_body \<Rightarrow> bool" where
  "isAdminMsg (CMsgAdminGrade _) = True"
| "isAdminMsg (CMsgAdminSelect _) = True"
| "isAdminMsg (CMsgAdminPlayback _) = True"
| "isAdminMsg (CMsgAdminAward _) = True"
| "isAdminMsg (CMsgAdminKick _) = True"
| "isAdminMsg CMsgAdminReveal = True"
| "isAdminMsg CMsgAdminEndRound = True"
| "isAdminMsg (CMsgAdminSetThresh _) = True"
| "isAdminMsg CMsgAdminEndGame = True"
| "isAdminMsg (CMsgAdminSetRevealCfg _) = True"
| "isAdminMsg CMsgAdminSkipDailyDouble = True"
| "isAdminMsg (CMsgAdminSeek _) = True"
| "isAdminMsg (CMsgAdminSetDropPoint _) = True"
| "isAdminMsg CMsgAdminJumpToDropPoint = True"
| "isAdminMsg (CMsgAdminSetVolume _) = True"
| "isAdminMsg CMsgAdminEndDailyDouble = True"
| "isAdminMsg (CMsgSoloPlay _) = True"
| "isAdminMsg CMsgSoloPause = True"
| "isAdminMsg CMsgSoloResume = True"
| "isAdminMsg CMsgSoloStop = True"
| "isAdminMsg CMsgSoloNext = True"
| "isAdminMsg CMsgSoloPrev = True"
| "isAdminMsg (CMsgSoloSeek _) = True"
| "isAdminMsg (CMsgSoloSetShuffle _) = True"
| "isAdminMsg (CMsgSoloSetRepeat _) = True"
| "isAdminMsg _ = False"

definition dispatch :: "connID \<Rightarrow> role \<Rightarrow> clientEnvelope \<Rightarrow> int \<Rightarrow> engine \<Rightarrow> engine" where
  "dispatch cid r env arrivalMs e =
     (if isAdminMsg (ce_body env) then
        (if r \<noteq> RoleAdmin then sendError cid ''forbidden'' ''admin role required'' e
         else dispatchAdmin cid (ce_body env) e)
      else case ce_body env of
        CMsgHello d \<Rightarrow> onHello cid d e
      | CMsgHeartbeat rtt \<Rightarrow> onHeartbeat cid rtt e
      | CMsgResync \<Rightarrow> sendFullSync cid r e
      | CMsgBuzz \<Rightarrow> onBuzz cid (ce_Nonce env) arrivalMs e
      | CMsgVote \<Rightarrow> onVote cid (ce_Nonce env) e
      | CMsgRate d \<Rightarrow> onRate cid (ce_Nonce env) d e
      | CMsgDailyDoubleDecision d \<Rightarrow> onDailyDoubleDecision cid (ce_Nonce env) d e
      | CMsgDailyDoubleChoose d \<Rightarrow> onDailyDoubleChoose cid (ce_Nonce env) d e
      | CMsgPlayerSelectCell d \<Rightarrow> onPlayerSelectCell cid (ce_Nonce env) d e
      | CMsgStagePlayerState d \<Rightarrow>
          if r \<noteq> RoleStage \<and> r \<noteq> RoleAdmin then sendError cid ''forbidden'' ''stage role required'' e
          else onStagePlayerState d e
      | CMsgStageDeviceReady d \<Rightarrow>
          if r \<noteq> RoleStage \<and> r \<noteq> RoleAdmin then sendError cid ''forbidden'' ''stage role required'' e
          else onStageDeviceReady d e
      | _ \<Rightarrow> sendError cid ''unknown''
               (''unhandled type '' @ goQuote (cf_unicode (e_cfg e)) (clientMsgType (ce_body env))) e)"

subsection \<open>The command loop\<close>

text \<open>
  What a command meets outside the engine: the clock, whether the audio device and the
  lock backend fail, and the results of the off-loop calls whose task it finishes.
\<close>

record env =
  en_now :: int
  en_audioErr :: "string option"
  en_lockErr :: bool
  en_storeText :: "string option"
  en_lines :: "lyricLine list"
  en_fetchErr :: bool
  en_dropPoint :: "int option"
  en_saveErr :: bool

fun runJob :: "env \<Rightarrow> job \<Rightarrow> engine \<Rightarrow> engine" where
  "runJob v (JBuzzWindow rk) = resolveBuzzWindow rk"
| "runJob v JTransition = transitionFired"
| "runJob v (JYear rk) = yearFired rk"
| "runJob v (JBlock rk) = blockFired rk"
| "runJob v (JLetterStart rk) = letterStartFired rk"
| "runJob v (JRevealTick rk) = revealTick rk"
| "runJob v (JAutoKaraoke rk) = autoKaraokeFired rk"
| "runJob v (JFade rk restoreTo i) = fadeStep rk restoreTo i"
| "runJob v (JFadeDone rk) = fadeDone rk"
| "runJob v (JLyricFetch ent key uri artist song dur) =
     lyricFetchDone ent key uri (en_storeText v) (en_lines v) (en_fetchErr v)"
| "runJob v (JLyricWait rk ent graced) = lyricWait rk ent graced"
| "runJob v (JSoloLyricWait tok ent graced) = soloLyricWait tok ent graced"
| "runJob v (JDropLookup rk uri) = dropLookupDone rk (en_dropPoint v)"
| "runJob v (JDropSave cid rk ms uri) = dropSaveDone cid rk (en_saveErr v)"

datatype command =
    Connect connID string
  | Message connID role clientEnvelope int
  | Disconnect connID
  | CmdStartGame
  | CmdResetToLobby
  | CmdReloadBoard "board option"
  | CmdReloadQueue "taddr list"
  | CmdPushToken string
  | CmdMarkAuthed
  | FlushTick
  | TelemetryTick
  | VolumeWriter
  | FireTask nat
  | RemoteAcquire string playerID

definition flushTick :: "engine \<Rightarrow> engine" where
  "flushTick = block [
     cond e_telemetryDirty (block [\<lambda>e. e\<lparr>e_telemetryDirty := False\<rparr>, broadcastTelemetry]),
     cond e_scoreboardDirty (block [\<lambda>e. e\<lparr>e_scoreboardDirty := False\<rparr>, broadcastScoreboard]),
     cond e_boardDirty (block [\<lambda>e. e\<lparr>e_boardDirty := False\<rparr>, broadcastBoard])]"

text \<open>A pending task runs: it leaves the list and its continuation is executed.\<close>

definition fireTask :: "env \<Rightarrow> nat \<Rightarrow> engine \<Rightarrow> engine" where
  "fireTask v i e =
     (if i < length (e_tasks e)
      then runJob v (tk_job (e_tasks e ! i)) (e\<lparr>e_tasks := take i (e_tasks e) @ drop (Suc i) (e_tasks e)\<rparr>)
      else e)"

fun exec :: "env \<Rightarrow> command \<Rightarrow> engine \<Rightarrow> engine" where
  "exec v (Connect cid ip) = OnConnect cid ip"
| "exec v (Message cid r m arrivalMs) = dispatch cid r m arrivalMs"
| "exec v (Disconnect cid) = OnDisconnect cid"
| "exec v CmdStartGame = (\<lambda>e. snd (StartGame e))"
| "exec v CmdResetToLobby = (\<lambda>e. snd (ResetToLobby e))"
| "exec v (CmdReloadBoard b) = ReloadBoard b"
| "exec v (CmdReloadQueue ts) = ReloadSoloKaraokeQueue ts"
| "exec v (CmdPushToken token) = PushSpotifyToken token"
| "exec v CmdMarkAuthed = MarkSpotifyAuthed"
| "exec v FlushTick = flushTick"
| "exec v TelemetryTick = broadcastTelemetry"
| "exec v VolumeWriter = runVolumeWriter"
| "exec v (FireTask i) = fireTask v i"
| "exec v (RemoteAcquire rk pid) = (\<lambda>e. e\<lparr>e_lock := snd (ml_TryAcquire (e_lock e) rk pid)\<rparr>)"

definition runCommand :: "env \<Rightarrow> command \<Rightarrow> engine \<Rightarrow> engine" where
  "runCommand v c e =
     exec v c (e\<lparr>e_now := en_now v, e_audioErr := en_audioErr v, e_lockErr := en_lockErr v\<rparr>)"

text \<open>
  The start of \<open>Run\<close>, before the loop: \<open>loaded\<close> is what \<open>LoadBoard\<close> returned.
\<close>

definition boot :: "board option \<Rightarrow> engine \<Rightarrow> engine" where
  "boot loaded = block [
     \<lambda>e. if e_board e = None \<and> loaded \<noteq> None then snapshotDDBucket (e\<lparr>e_board := loaded\<rparr>) else e,
     \<lambda>e. effect (RepoCreateSession (ss_ID (e_session e))) e]"

definition Run :: "board option \<Rightarrow> (env \<times> command) list \<Rightarrow> engine \<Rightarrow> engine" where
  "Run loaded cs e = fold (\<lambda>(v, c). runCommand v c) cs (boot loaded e)"

end
