(* ===== verification/Engine_Inv.thy ===== *)
theory Engine_Inv
  imports Engine_Admin
begin

section \<open>What every command keeps\<close>

text \<open>
  \<open>engine_ok\<close> is the invariant of the engine's live state. The locale \<open>command_inv\<close> is
  the interface between a property of states and the operations of the engine: a property
  \<open>Q\<close> that survives a change keeping \<open>engine_ok\<close>, the frames of the sanitization rule, the
  quiet effects and a state transition survives every operation. It is proved once,
  operation by operation, and instantiated for each property.
\<close>

subsection \<open>The invariant\<close>

definition reg_ok :: "registry \<Rightarrow> bool" where
  "reg_ok r \<longleftrightarrow> keys_ok r \<and> (\<forall>(k, p) \<in> set (r_players r). 0 \<le> pScore p)"

definition partial_ok :: "pendingPartial \<Rightarrow> bool" where
  "partial_ok pt \<longleftrightarrow> (pt_active pt \<longrightarrow> 0 \<le> pt_remaining pt \<and> pt_remaining pt \<le> 150)"

definition solo_ok :: "soloKaraokeState \<Rightarrow> bool" where
  "solo_ok sk \<longleftrightarrow> -1 \<le> sk_index sk \<and> (sk_active sk \<longleftrightarrow> sk_currentTrack sk \<noteq> None) \<and>
     (sk_active sk \<longrightarrow> sk_index sk < int (length (sk_queue sk)))"

definition order_ok :: "string \<Rightarrow> nat list \<Rightarrow> bool" where
  "order_ok field order \<longleftrightarrow> distinct order \<and> set order = set (letterPositions field)"

definition reveal_ok :: "revealClock \<Rightarrow> bool" where
  "reveal_ok rc \<longleftrightarrow> clock_ok rc \<and> order_ok (rc_artist rc) (rc_artistOrder rc) \<and>
     order_ok (rc_song rc) (rc_songOrder rc)"

definition level_ok :: "int \<Rightarrow> bool" where
  "level_ok v \<longleftrightarrow> 0 \<le> v \<and> v \<le> 100"

text \<open>A pending task refers to a lyric entry that exists and to a volume in range.\<close>

fun job_ok :: "nat \<Rightarrow> job \<Rightarrow> bool" where
  "job_ok n (JFade rk restoreTo i) \<longleftrightarrow> level_ok restoreTo \<and> i \<le> dailyDoubleFadeSteps"
| "job_ok n (JLyricFetch ent key uri artist song dur) \<longleftrightarrow> ent < n"
| "job_ok n (JLyricWait rk ent graced) \<longleftrightarrow> ent < n"
| "job_ok n (JSoloLyricWait tok ent graced) \<longleftrightarrow> ent < n"
| "job_ok n _ \<longleftrightarrow> True"

definition engine_ok :: "engine \<Rightarrow> bool" where
  "engine_ok s \<longleftrightarrow> reg_ok (e_reg s) \<and> partial_ok (e_partial s) \<and> solo_ok (e_solo s) \<and>
     reveal_ok (e_rc s) \<and> cfg_ok (e_revealCfg s) \<and> (e_ddOffer s \<noteq> None \<longrightarrow> e_board s \<noteq> None) \<and>
     level_ok (e_volumePct s) \<and> (\<forall>v \<in> set (e_volumeCmds s). level_ok v) \<and> length (e_volumeCmds s) \<le> 64 \<and>
     (\<forall>t \<in> set (e_tasks s). job_ok (length (e_lyricEnts s)) (tk_job t)) \<and>
     (\<forall>(k, ent) \<in> set (e_lyricCache s). ent < length (e_lyricEnts s))"

subsection \<open>Which frames may go where\<close>

text \<open>
  \<open>target_ok trusted offer t m\<close>: message \<open>m\<close> may go to target \<open>t\<close>, where \<open>trusted\<close> are the
  connections that act as stage or admin in the running command and \<open>offer\<close> those of the
  Daily Double contestant. A state flag goes to all only in a transition.
\<close>

fun isOffer :: "server_msg \<Rightarrow> bool" where
  "isOffer (SMsgDailyDoubleOffer _) = True"
| "isOffer _ = False"

fun isState :: "server_msg \<Rightarrow> bool" where
  "isState (SMsgState _) = True"
| "isState _ = False"

fun target_ok :: "connID set \<Rightarrow> connID set \<Rightarrow> target \<Rightarrow> server_msg \<Rightarrow> bool" where
  "target_ok trusted offer ToAll m \<longleftrightarrow> mobileSafe m \<and> \<not> isState m"
| "target_ok trusted offer (ToRole r) m \<longleftrightarrow> TrustedReveal r \<or> mobileSafe m"
| "target_ok trusted offer (ToConn k) m \<longleftrightarrow> mobileSafe m \<or> k \<in> trusted \<or> isOffer m \<and> k \<in> offer"

text \<open>
  The effects that need no justification; a volume command carries a level in range, and a
  role that may see track data is given to a trusted connection only.
\<close>

fun quiet_out :: "connID set \<Rightarrow> outp \<Rightarrow> bool" where
  "quiet_out trusted (Frame t m) \<longleftrightarrow> False"
| "quiet_out trusted Panicked \<longleftrightarrow> False"
| "quiet_out trusted (DevSetVolume v) \<longleftrightarrow> level_ok v"
| "quiet_out trusted (RoleSet k r) \<longleftrightarrow> (TrustedReveal r \<longrightarrow> k \<in> trusted)"
| "quiet_out trusted _ \<longleftrightarrow> True"

subsection \<open>The closure locale\<close>

locale command_inv =
  fixes Q :: "engine \<Rightarrow> bool" and trusted :: "connID set" and offer :: "connID set"
  assumes Q_ok: "Q s \<Longrightarrow> engine_ok s"
    and Q_step: "Q s \<Longrightarrow> engine_ok s' \<Longrightarrow> e_out s' = e_out s \<Longrightarrow> e_seq s' = e_seq s \<Longrightarrow>
      e_gate s' = e_gate s \<Longrightarrow> e_cfg s' = e_cfg s \<Longrightarrow> Q s'"
    and Q_emit: "Q s \<Longrightarrow> (\<And>t. t \<in> set ts \<Longrightarrow> target_ok trusted offer t m) \<Longrightarrow> Q (emit ts m s)"
    and Q_effect [inv_intros]: "Q s \<Longrightarrow> quiet_out trusted x \<Longrightarrow> Q (effect x s)"
    and Q_transition [inv_intros]: "Q s \<Longrightarrow> Q (transitionTo st s)"
begin

text \<open>Statements\<close>

lemma Q_block_Nil [inv_intros]: "Q s \<Longrightarrow> Q (block [] s)"
  by simp

lemma Q_block_Cons [inv_intros]:
  "(\<And>t. Q t \<Longrightarrow> Q (f t)) \<Longrightarrow> (\<And>t. Q t \<Longrightarrow> Q (block fs t)) \<Longrightarrow> Q s \<Longrightarrow> Q (block (f # fs) s)"
  by simp

lemma Q_cond [inv_intros]: "(\<And>t. Q t \<Longrightarrow> b t \<Longrightarrow> Q (f t)) \<Longrightarrow> Q s \<Longrightarrow> Q (cond b f s)"
  by (simp add: cond_def)

lemma Q_fold [inv_intros]: "(\<And>x t. x \<in> set xs \<Longrightarrow> Q t \<Longrightarrow> Q (f x t)) \<Longrightarrow> Q s \<Longrightarrow> Q (fold f xs s)"
  by (rule fold_invariant_gen)

text \<open>Assignments to fields that the invariant does not look at\<close>

lemma Q_assign1 [inv_intros]:
  assumes "Q s"
  shows "Q (s\<lparr>e_now := i\<rparr>)" "Q (s\<lparr>e_rng := rng\<rparr>)" "Q (s\<lparr>e_rpos := n\<rparr>)"
    "Q (s\<lparr>e_audioErr := so\<rparr>)" "Q (s\<lparr>e_lockErr := b\<rparr>)" "Q (s\<lparr>e_heap := h\<rparr>)"
    "Q (s\<lparr>e_lock := l\<rparr>)" "Q (s\<lparr>e_session := ss\<rparr>)" "Q (s\<lparr>e_curCell := co\<rparr>)"
    "Q (s\<lparr>e_curTrack := co\<rparr>)"
  by (rule Q_step [OF assms], use Q_ok [OF assms] in \<open>simp_all add: engine_ok_def partial_ok_def noPartial_def\<close>)+

lemma Q_assign2 [inv_intros]:
  assumes "Q s"
  shows "Q (s\<lparr>e_curDropPointMs := io\<rparr>)" "Q (s\<lparr>e_lastPlayback := po\<rparr>)" "Q (s\<lparr>e_curRow := i\<rparr>)"
    "Q (s\<lparr>e_roundKey := str\<rparr>)" "Q (s\<lparr>e_trackStartMs := i\<rparr>)" "Q (s\<lparr>e_pausedAtMs := i\<rparr>)"
    "Q (s\<lparr>e_buzzWinner := str\<rparr>)" "Q (s\<lparr>e_buzzWindowOpen := b\<rparr>)" "Q (s\<lparr>e_buzzContenders := bc\<rparr>)"
    "Q (s\<lparr>e_cellPicker := str\<rparr>)"
  by (rule Q_step [OF assms], use Q_ok [OF assms] in \<open>simp_all add: engine_ok_def partial_ok_def noPartial_def\<close>)+

lemma Q_assign3 [inv_intros]:
  assumes "Q s"
  shows "Q (s\<lparr>e_pendingPick := pp\<rparr>)" "Q (s\<lparr>e_karaokeReady := b\<rparr>)" "Q (s\<lparr>e_votingPool := ps\<rparr>)"
    "Q (s\<lparr>e_votes := ps\<rparr>)" "Q (s\<lparr>e_ratingPool := ps\<rparr>)" "Q (s\<lparr>e_ratings := rs\<rparr>)"
    "Q (s\<lparr>e_lastScorer := str\<rparr>)" "Q (s\<lparr>e_cellVisits := rs\<rparr>)" "Q (s\<lparr>e_ddOffer := None\<rparr>)"
    "Q (s\<lparr>e_ddBucketOriginal := ts\<rparr>)"
  by (rule Q_step [OF assms], use Q_ok [OF assms] in \<open>simp_all add: engine_ok_def partial_ok_def noPartial_def\<close>)+

lemma Q_assign4 [inv_intros]:
  assumes "Q s"
  shows "Q (s\<lparr>e_ddFadingRoundKey := str\<rparr>)" "Q (s\<lparr>e_spotifyAuthed := b\<rparr>)" "Q (s\<lparr>e_revealTimer := b\<rparr>)"
    "Q (s\<lparr>e_revealLocked := b\<rparr>)" "Q (s\<lparr>e_roundWinner := str\<rparr>)" "Q (s\<lparr>e_connIP := ips\<rparr>)"
    "Q (s\<lparr>e_telemetryDirty := b\<rparr>)" "Q (s\<lparr>e_scoreboardDirty := b\<rparr>)" "Q (s\<lparr>e_boardDirty := b\<rparr>)"
    "Q (s\<lparr>e_partial := noPartial\<rparr>)"
  by (rule Q_step [OF assms], use Q_ok [OF assms] in \<open>simp_all add: engine_ok_def partial_ok_def noPartial_def\<close>)+

text \<open>Assignments to the fields of the invariant\<close>

lemma Q_reg [inv_intros]: "Q s \<Longrightarrow> (reg_ok (e_reg s) \<Longrightarrow> reg_ok r) \<Longrightarrow> Q (s\<lparr>e_reg := r\<rparr>)"
  by (rule Q_step) (auto dest!: Q_ok simp: engine_ok_def)

lemma Q_partial [inv_intros]: "Q s \<Longrightarrow> partial_ok p \<Longrightarrow> Q (s\<lparr>e_partial := p\<rparr>)"
  by (rule Q_step) (auto dest!: Q_ok simp: engine_ok_def)

lemma Q_rc [inv_intros]: "Q s \<Longrightarrow> (reveal_ok (e_rc s) \<Longrightarrow> reveal_ok rc) \<Longrightarrow> Q (s\<lparr>e_rc := rc\<rparr>)"
  by (rule Q_step) (auto dest!: Q_ok simp: engine_ok_def)

lemma Q_revealCfg [inv_intros]: "Q s \<Longrightarrow> cfg_ok c \<Longrightarrow> Q (s\<lparr>e_revealCfg := c\<rparr>)"
  by (rule Q_step) (auto dest!: Q_ok simp: engine_ok_def)

lemma Q_volumePct [inv_intros]: "Q s \<Longrightarrow> level_ok v \<Longrightarrow> Q (s\<lparr>e_volumePct := v\<rparr>)"
  by (rule Q_step) (auto dest!: Q_ok simp: engine_ok_def)

lemma Q_board [inv_intros]: "Q s \<Longrightarrow> b \<noteq> None \<Longrightarrow> Q (s\<lparr>e_board := b\<rparr>)"
  by (rule Q_step) (auto dest!: Q_ok simp: engine_ok_def)

lemma Q_ddOffer [inv_intros]: "Q s \<Longrightarrow> e_board s \<noteq> None \<Longrightarrow> Q (s\<lparr>e_ddOffer := off\<rparr>)"
  by (rule Q_step) (auto dest!: Q_ok simp: engine_ok_def)

lemma Q_updSolo [inv_intros]:
  "Q s \<Longrightarrow> (solo_ok (e_solo s) \<Longrightarrow> solo_ok (f (e_solo s))) \<Longrightarrow> Q (updSolo f s)"
  by (rule Q_step) (auto dest!: Q_ok simp: engine_ok_def updSolo_def)

lemma Q_spawn [inv_intros]: "Q s \<Longrightarrow> job_ok (length (e_lyricEnts s)) j \<Longrightarrow> Q (spawn d j s)"
  by (rule Q_step) (auto dest!: Q_ok simp: engine_ok_def spawn_def)

lemma Q_tasks [inv_intros]: "Q s \<Longrightarrow> set ts \<subseteq> set (e_tasks s) \<Longrightarrow> Q (s\<lparr>e_tasks := ts\<rparr>)"
  by (rule Q_step) (auto dest!: Q_ok simp: engine_ok_def)

lemma Q_sendVolume [inv_intros]: "Q s \<Longrightarrow> level_ok v \<Longrightarrow> Q (sendVolume v s)"
  by (cases "length (e_volumeCmds s) < 64")
    (auto simp: sendVolume_def engine_ok_def dest: Q_ok intro!: Q_step [where s = s])

end

subsection \<open>Facts the operations share\<close>

lemma safe_msgs [simp]:
  "mobileSafe (scoreboardMsg e)" "mobileSafe (pickerStatusMsg e)" "\<not> isState (scoreboardMsg e)"
  "\<not> isState (pickerStatusMsg e)"
  by (simp_all add: scoreboardMsg_def pickerStatusMsg_def split: option.split)

lemma trusted_roles [simp]: "TrustedReveal RoleStage" "TrustedReveal RoleAdmin" "\<not> TrustedReveal RoleMobile"
  by (simp_all add: TrustedReveal_def)

lemma reg_ok_updPlayer:
  "reg_ok r \<Longrightarrow> (\<And>p. pID (f p) = pID p) \<Longrightarrow> (\<And>p. 0 \<le> pScore p \<Longrightarrow> 0 \<le> pScore (f p)) \<Longrightarrow>
   reg_ok (updPlayer pid f r)"
  by (auto simp: reg_ok_def keys_ok_updPlayer) (auto simp: updPlayer_def)

lemma reg_ok_mapPlayers [inv_intros]:
  "reg_ok r \<Longrightarrow> (\<And>p. pID (f p) = pID p) \<Longrightarrow> (\<And>p. 0 \<le> pScore p \<Longrightarrow> 0 \<le> pScore (f p)) \<Longrightarrow>
   reg_ok (mapPlayers f r)"
  by (auto simp: reg_ok_def keys_ok_mapPlayers) (auto simp: mapPlayers_def)

lemma order_ok_build: "order_ok field (buildRevealOrder prng field seed)"
  by (simp add: order_ok_def distinct_buildRevealOrder set_buildRevealOrder)

lemma reveal_ok_zero: "reveal_ok zeroClock"
  by (simp add: reveal_ok_def zeroClock_def clock_ok_def order_ok_def letterPositions_def runes_def runes_from.simps)

lemma reveal_ok_clockFor: "reveal_ok (clockFor e t)"
  by (simp add: reveal_ok_def clockFor_def Let_def clock_ok_def order_ok_build zeroClock_def)

lemma reveal_ok_frame [simp]:
  "reveal_ok (rc\<lparr>rc_active := b\<rparr>) = reveal_ok rc" "reveal_ok (rc\<lparr>rc_phase := i\<rparr>) = reveal_ok rc"
  "reveal_ok (rc\<lparr>rc_year := i\<rparr>) = reveal_ok rc" "reveal_ok (rc\<lparr>rc_showYear := b\<rparr>) = reveal_ok rc"
  "reveal_ok (rc\<lparr>rc_phase1Done := b\<rparr>) = reveal_ok rc" "reveal_ok (rc\<lparr>rc_lockedOut := b\<rparr>) = reveal_ok rc"
  "reveal_ok (rc\<lparr>rc_finalizing := b\<rparr>) = reveal_ok rc"
  by (simp_all add: reveal_ok_def clock_ok_def)

lemma reveal_ok_step: "reveal_ok rc \<Longrightarrow> reveal_ok (snd (revealOneLetter d rc))"
  using revealOneLetter_ok [of rc d] revealOneLetter_frame [of d rc] by (simp add: reveal_ok_def)

lemma reveal_ok_completeAll: "reveal_ok rc \<Longrightarrow> reveal_ok (completeAll rc)"
  by (simp add: reveal_ok_def completeAll_def clock_ok_def)

lemma reveal_ok_full:
  "reveal_ok rc \<Longrightarrow> reveal_ok (rc\<lparr>rc_artistRevealed := length (rc_artistOrder rc)\<rparr>)"
  "reveal_ok rc \<Longrightarrow> reveal_ok (rc\<lparr>rc_songRevealed := length (rc_songOrder rc)\<rparr>)"
  by (simp_all add: reveal_ok_def clock_ok_def)

context command_inv begin

lemma Q_sendTo [inv_intros]: "Q s \<Longrightarrow> target_ok trusted offer (ToConn cid) m \<Longrightarrow> Q (sendTo cid m s)"
  by (auto simp: sendTo_def intro!: Q_emit)

lemma Q_broadcast [inv_intros]: "Q s \<Longrightarrow> target_ok trusted offer (ToRole r) m \<Longrightarrow> Q (broadcast r m s)"
  by (auto simp: broadcast_def intro!: Q_emit)

lemma Q_broadcastAll [inv_intros]: "Q s \<Longrightarrow> target_ok trusted offer ToAll m \<Longrightarrow> Q (broadcastAll m s)"
  by (auto simp: broadcastAll_def intro!: Q_emit)

lemma Q_sendEach [inv_intros]:
  "Q s \<Longrightarrow> (\<And>cid. cid \<in> set cids \<Longrightarrow> target_ok trusted offer (ToConn cid) m) \<Longrightarrow> Q (sendEach cids m s)"
  unfolding sendEach_def by (auto intro!: inv_intros)

lemma Q_audioFrame [inv_intros]: "Q s \<Longrightarrow> Q (audioFrame a uri pos s)"
  unfolding audioFrame_def by (auto intro!: inv_intros)

lemma Q_errors [inv_intros]: "Q s \<Longrightarrow> Q (sendError cid code msg s)" "Q s \<Longrightarrow> Q (sendErrorAll code msg s)"
  unfolding sendError_def sendErrorAll_def by (auto intro!: inv_intros)

lemma Q_updPl [inv_intros]:
  "Q s \<Longrightarrow> (\<And>p. pID (f p) = pID p) \<Longrightarrow> (\<And>p. 0 \<le> pScore p \<Longrightarrow> 0 \<le> pScore (f p)) \<Longrightarrow> Q (updPl pid f s)"
  unfolding updPl_def by (intro Q_reg reg_ok_updPlayer) (auto dest: Q_ok simp: engine_ok_def)

lemma Q_intn: "Q s \<Longrightarrow> intn n s = (i, s') \<Longrightarrow> Q s'"
  by (auto simp: intn_def intro!: inv_intros)

lemma Q_rngShuffle: "Q s \<Longrightarrow> rngShuffle xs s = (ys, s') \<Longrightarrow> Q s'"
  by (auto simp: rngShuffle_def intro!: inv_intros)

lemma Q_broadcasts [inv_intros]:
  assumes "Q s"
  shows "Q (broadcastScoreboard s)" "Q (broadcastBoard s)" "Q (broadcastTelemetry s)"
    "Q (broadcastPickerStatus s)" "Q (broadcastPendingPick row col s)" "Q (sendPickableBoard s)"
    "Q (broadcastModeLock s)" "Q (broadcastVolumeStatus s)" "Q (revealTo r s)" "Q (broadcastMask s)"
  using assms
  by (auto simp: broadcastScoreboard_def broadcastBoard_def broadcastTelemetry_def
      broadcastPickerStatus_def broadcastPendingPick_def sendPickableBoard_def broadcastModeLock_def
      broadcastVolumeStatus_def revealTo_def broadcastMask_def split: option.split intro!: inv_intros Q_emit)

lemma Q_persist [inv_intros]: "Q s \<Longrightarrow> Q (persistScores s)" "Q s \<Longrightarrow> Q (saveScore pid s)" "Q s \<Longrightarrow> Q (lockRelease s)"
  by (auto simp: persistScores_def saveScore_def lockRelease_def split: option.split intro!: inv_intros)

lemma Q_consumeTrack [inv_intros]: "Q s \<Longrightarrow> Q (consumeTrack s)"
  by (auto simp: consumeTrack_def split: option.split intro!: inv_intros)

lemma Q_playback [inv_intros]: "Q s \<Longrightarrow> Q (resumeAudio s)" "Q s \<Longrightarrow> Q (seekTo pos s)"
  by (auto simp: resumeAudio_def seekTo_def Let_def split: option.split intro!: inv_intros)

lemma Q_load: "Q s \<Longrightarrow> loadAndPlayTrack t pos s = (err, s') \<Longrightarrow> Q s'"
  by (auto simp: loadAndPlayTrack_def Let_def intro!: inv_intros)

lemma Q_load_snd [inv_intros]: "Q s \<Longrightarrow> Q (snd (loadAndPlayTrack t pos s))"
  by (rule Q_load [of s t pos "fst (loadAndPlayTrack t pos s)"]) simp_all

lemma Q_runVolumeWriter [inv_intros]: "Q s \<Longrightarrow> Q (runVolumeWriter s)"
proof -
  assume q: "Q s"
  show ?thesis
  proof (cases "e_volumeCmds s")
    case Nil
    with q show ?thesis by (simp add: runVolumeWriter_def)
  next
    case (Cons v rest)
    then have "Q (s\<lparr>e_volumeCmds := rest\<rparr>)" "level_ok v"
      using Q_ok [OF q] q by (auto simp: engine_ok_def intro!: Q_step [OF q])
    with Cons show ?thesis by (auto simp: runVolumeWriter_def intro!: inv_intros)
  qed
qed

end

end
