(* ===== verification/Engine_Closure.thy ===== *)
theory Engine_Closure
  imports Engine_Inv
begin

section \<open>Every operation keeps the invariant\<close>

text \<open>
  The operations of the engine theories, one by one, inside \<open>command_inv\<close>: each keeps the
  property \<open>Q\<close>. An operation that sends track data to a single connection carries the
  condition under which that connection may have it.
\<close>

subsection \<open>Lyrics, drop points and the reveal\<close>

context command_inv begin

lemma Q_entry:
  "Q s \<Longrightarrow> Q (s\<lparr>e_lyricEnts := (e_lyricEnts s)[ent := x]\<rparr>)"
  by (rule Q_step) (auto dest!: Q_ok simp: engine_ok_def)

lemma Q_evict: "Q s \<Longrightarrow> Q (s\<lparr>e_lyricCache := AList.delete key (e_lyricCache s)\<rparr>)"
  by (rule Q_step) (auto dest!: Q_ok mem_delete simp: engine_ok_def)

lemma Q_lyricFetchDone [inv_intros]: "Q s \<Longrightarrow> Q (lyricFetchDone ent key uri txt lines err s)"
  using Q_evict [OF Q_entry [of s ent "\<lparr>le_done = True, le_lines = lines, le_err = err\<rparr>"], of key]
  by (auto simp: lyricFetchDone_def Let_def split: option.split intro!: Q_entry)

lemma job_ok_mono: "job_ok n j \<Longrightarrow> n \<le> m \<Longrightarrow> job_ok m j"
  by (cases j) auto

lemma Q_lyricFetch:
  assumes "Q s" and "lyricFetch uri artist song dur s = (ent, s')"
  shows "Q s' \<and> ent < length (e_lyricEnts s')"
proof (cases "map_of (e_lyricCache s) (lyricKey uri artist song dur)")
  case (Some x)
  then show ?thesis
    using assms Q_ok [OF assms(1)] by (auto simp: lyricFetch_def engine_ok_def Let_def dest: map_of_SomeD)
next
  case None
  let ?key = "lyricKey uri artist song dur" and ?n = "length (e_lyricEnts s)"
  let ?s1 = "s\<lparr>e_lyricEnts := e_lyricEnts s @ [\<lparr>le_done = False, le_lines = [], le_err = False\<rparr>],
               e_lyricCache := AList.update ?key ?n (e_lyricCache s)\<rparr>"
  have "engine_ok ?s1"
    using Q_ok [OF assms(1)] by (auto simp: engine_ok_def dest!: mem_update intro: job_ok_mono)
  then have "Q ?s1" by (intro Q_step [OF assms(1)]) simp_all
  moreover have "s' = spawn 0 (JLyricFetch ?n ?key uri artist song dur) ?s1" "ent = ?n"
    using None assms(2) by (auto simp: lyricFetch_def Let_def)
  ultimately show ?thesis by (simp add: Q_spawn) (simp add: spawn_def)
qed

lemma Q_lyricFetch_snd: "Q s \<Longrightarrow> Q (snd (lyricFetch uri artist song dur s))"
  using Q_lyricFetch [of s uri artist song dur "fst (lyricFetch uri artist song dur s)"
      "snd (lyricFetch uri artist song dur s)"] by simp

lemma Q_lyrics [inv_intros]:
  assumes "Q s"
  shows "Q (prefetchLyrics uri artist song dur s)" "Q (sendLyrics rk ent s)" "Q (soloSendLyrics rk ent s)"
    "Q (dropLookupDone rk res s)" "Q (dropSaveDone cid rk err s)" "Q (refreshCurDropPoint s)"
  using assms
  by (auto simp: prefetchLyrics_def sendLyrics_def soloSendLyrics_def dropLookupDone_def dropSaveDone_def
      refreshCurDropPoint_def Let_def split: option.split intro!: inv_intros Q_lyricFetch_snd)

lemma Q_lyricFetch_case:
  "Q s \<Longrightarrow> (\<And>ent t. Q t \<Longrightarrow> ent < length (e_lyricEnts t) \<Longrightarrow> Q (f ent t)) \<Longrightarrow>
   Q (case lyricFetch uri artist song dur s of (ent, t) \<Rightarrow> f ent t)"
  using Q_lyricFetch by (cases "lyricFetch uri artist song dur s") auto

lemma Q_fetchAndSendLyrics [inv_intros]: "Q s \<Longrightarrow> Q (fetchAndSendLyrics s)"
  by (auto simp: fetchAndSendLyrics_def split: option.split intro!: inv_intros Q_lyricFetch_case)

lemma Q_soloFetchLyrics [inv_intros]: "Q s \<Longrightarrow> Q (soloKaraokeFetchAndSendLyrics s)"
  by (auto simp: soloKaraokeFetchAndSendLyrics_def split: option.split intro!: inv_intros Q_lyricFetch_case)

lemma length_lyricEnts_broadcast [simp]: "e_lyricEnts (broadcast r m s) = e_lyricEnts s"
  by (simp add: broadcast_def emit_def)

lemma Q_lyricWait [inv_intros]:
  "Q s \<Longrightarrow> ent < length (e_lyricEnts s) \<Longrightarrow> Q (lyricWait rk ent graced s)"
  "Q s \<Longrightarrow> ent < length (e_lyricEnts s) \<Longrightarrow> Q (soloLyricWait rk ent graced s)"
  by (auto simp: lyricWait_def soloLyricWait_def intro!: inv_intros)

lemma Q_clearReveal [inv_intros]: "Q s \<Longrightarrow> Q (clearReveal s)" "Q s \<Longrightarrow> Q (stopRevealTimer s)"
  by (auto simp: clearReveal_def stopRevealTimer_def reveal_ok_zero intro!: inv_intros)

lemma Q_startReveal [inv_intros]: "Q s \<Longrightarrow> Q (startReveal s)"
  by (auto simp: startReveal_def Let_def reveal_ok_clockFor simp del: block_Cons split: option.split intro!: inv_intros)

lemma Q_ticker [inv_intros]: "Q s \<Longrightarrow> Q (startRevealTicker rk s)"
  by (auto simp: startRevealTicker_def intro!: inv_intros)

lemma Q_timers [inv_intros]: "Q s \<Longrightarrow> Q (yearFired rk s)" "Q s \<Longrightarrow> Q (blockFired rk s)" "Q s \<Longrightarrow> Q (letterStartFired rk s)"
  by (auto simp: yearFired_def blockFired_def letterStartFired_def simp del: block_Cons intro!: inv_intros)

lemma Q_lockOutReveal [inv_intros]: "Q s \<Longrightarrow> Q (lockOutReveal s)"
  by (auto simp: lockOutReveal_def simp del: block_Cons intro!: inv_intros)

lemma Q_scheduleAutoKaraoke [inv_intros]: "Q s \<Longrightarrow> Q (scheduleAutoKaraoke rk s)"
  by (auto simp: scheduleAutoKaraoke_def intro!: inv_intros)

lemma Q_revealStep: "Q s \<Longrightarrow> revealStep s = (b, s') \<Longrightarrow> Q s'"
  using reveal_ok_step [of "e_rc s" "Some (e_rng s (e_rpos s))"]
  by (auto simp: revealStep_def split: prod.splits intro!: inv_intros)

lemma Q_revealTick [inv_intros]: "Q s \<Longrightarrow> Q (revealTick rk s)"
  by (auto simp: revealTick_def simp del: block_Cons split: prod.split intro!: inv_intros dest: Q_revealStep)

lemma Q_finalizeReveal [inv_intros]: "Q s \<Longrightarrow> Q (finalizeReveal s)"
  by (auto simp: finalizeReveal_def reveal_ok_clockFor reveal_ok_completeAll simp del: block_Cons
      split: option.split intro!: inv_intros)

lemma Q_revealFieldFully [inv_intros]: "Q s \<Longrightarrow> Q (revealFieldFully f s)"
  by (auto simp: revealFieldFully_def Let_def reveal_ok_full intro!: inv_intros)

end

subsection \<open>Solo Karaoke\<close>

lemma updSolo_sel [simp]:
  "e_solo (updSolo f s) = f (e_solo s)" "e_heap (updSolo f s) = e_heap s" "e_now (updSolo f s) = e_now s"
  by (simp_all add: updSolo_def)

lemma updSolo_updSolo: "updSolo g (updSolo f s) = updSolo (\<lambda>sk. g (f sk)) s"
  by (simp add: updSolo_def)

lemma findIndex_range: "findIndex P xs = -1 \<or> 0 \<le> findIndex P xs \<and> findIndex P xs < int (length xs)"
  by (auto simp: findIndex_def find_Some_iff split: option.split)

lemma drawOther_result:
  assumes "drawOther n idx e = Some r"
  shows "0 < n \<longrightarrow> fst r < n \<and> int (fst r) \<noteq> idx \<and> (\<exists>k. snd r = e\<lparr>e_rpos := k\<rparr>)"
proof (rule drawOther.raw_induct [OF _ assms, where P = "\<lambda>n idx e r. 0 < n \<longrightarrow> fst r < n \<and>
    int (fst r) \<noteq> idx \<and> (\<exists>k. snd r = e\<lparr>e_rpos := k\<rparr>)"], goal_cases)
  case (1 draw n idx e r)
  show ?case
  proof (cases "int (e_rng e (e_rpos e) mod n) = idx")
    case True
    then show ?thesis using 1(1) [of n idx "snd (intn n e)" r] 1(2) by (auto simp: intn_def)
  next
    case False
    then show ?thesis using 1(2) by (auto simp: intn_def)
  qed
qed

text \<open>The rejection loop returns as soon as the source yields another index.\<close>

lemma drawOther_returns:
  assumes "int (e_rng e (e_rpos e + k) mod n) \<noteq> idx"
  shows "drawOther n idx e \<noteq> None"
  using assms
proof (induction k arbitrary: e)
  case 0
  then show ?case by (subst drawOther.simps) (simp add: intn_def)
next
  case (Suc k)
  then show ?case
    using Suc.IH [of "snd (intn n e)"] by (subst drawOther.simps) (simp add: intn_def)
qed

context command_inv begin

lemma Q_soloBroadcasts [inv_intros]:
  "Q s \<Longrightarrow> Q (broadcastSoloKaraokeNowPlaying s)" "Q s \<Longrightarrow> Q (broadcastSoloKaraokeActive s)"
  "Q s \<Longrightarrow> Q (broadcastSoloKaraokeError m s)"
  by (auto simp: broadcastSoloKaraokeNowPlaying_def broadcastSoloKaraokeActive_def
      broadcastSoloKaraokeError_def simp del: block_Cons intro!: inv_intros)

lemma Q_solo_ok: "Q s \<Longrightarrow> solo_ok (e_solo s)"
  by (simp add: Q_ok [unfolded engine_ok_def])

lemma Q_load_case:
  "Q s \<Longrightarrow> (\<And>err s'. Q s' \<Longrightarrow> Q (f err s')) \<Longrightarrow>
   Q (case loadAndPlayTrack t pos s of (None, e1) \<Rightarrow> e1 | (Some err, e1) \<Rightarrow> f err e1)"
  using Q_load [of s t pos] by (auto split: prod.split option.split)

lemma Q_playAt_gen:
  assumes "Q s" and f: "sk_active (f (e_solo s))" "sk_queue (f (e_solo s)) = sk_queue (e_solo s)"
    and "0 \<le> idx" "idx < int (length (sk_queue (e_solo s)))"
  shows "Q (soloKaraokePlayAt idx (updSolo f s))"
proof -
  have "Q (updSolo g (updSolo f s))" if "sk_active (g (f (e_solo s)))"
    "sk_currentTrack (g (f (e_solo s))) \<noteq> None" "sk_queue (g (f (e_solo s))) = sk_queue (e_solo s)"
    "sk_index (g (f (e_solo s))) = idx" for g
    unfolding updSolo_updSolo using that assms by (intro Q_updSolo) (auto simp: solo_ok_def)
  moreover have "Q (block [\<lambda>e. case loadAndPlayTrack t 0 e of (None, e1) \<Rightarrow> e1
                 | (Some err, e1) \<Rightarrow> broadcastSoloKaraokeError (''playback failed to start: '' @ err) e1,
           broadcastSoloKaraokeNowPlaying, broadcast RoleStage (SMsgLyrics []),
           soloKaraokeFetchAndSendLyrics] s')" if "Q s'" for s' t
    using that by (auto simp del: block_Cons intro!: inv_intros Q_load_case)
  ultimately show ?thesis
    using assms by (simp add: soloKaraokePlayAt_def Let_def block_Cons [of "updSolo _"] del: block_Cons)
qed

lemma Q_playAt:
  assumes "Q s" and "sk_active (e_solo s)" and "0 \<le> idx" "idx < int (length (sk_queue (e_solo s)))"
  shows "Q (soloKaraokePlayAt idx s)"
proof -
  have "updSolo (\<lambda>x. x) s = s" by (simp add: updSolo_def)
  with Q_playAt_gen [of s "\<lambda>x. x" idx] assms show ?thesis by simp
qed

lemma Q_soloDeactivate [inv_intros]: "Q s \<Longrightarrow> Q (soloKaraokeDeactivate s)"
  by (auto simp: soloKaraokeDeactivate_def solo_ok_def simp del: block_Cons intro!: inv_intros)

lemma Q_stepForward [inv_intros]:
  assumes "Q s" and "sk_active (e_solo s)"
  shows "Q (soloKaraokeStepForward s)"
proof -
  let ?sk = "e_solo s"
  have ok: "-1 \<le> sk_index ?sk" using Q_solo_ok [OF assms(1)] by (simp add: solo_ok_def)
  have "Q (soloKaraokePlayAt (int i) e1)"
    if "drawOther (length (sk_queue ?sk)) (sk_index ?sk) s = Some (i, e1)" "sk_queue ?sk \<noteq> []" for i e1
    using drawOther_result [OF that(1)] that(2) assms by (auto intro!: Q_playAt inv_intros)
  then show ?thesis
    using assms ok unfolding soloKaraokeStepForward_def Let_def
    by (auto intro!: Q_playAt inv_intros split: option.split)
qed

lemma Q_advance [inv_intros]: "Q s \<Longrightarrow> sk_active (e_solo s) \<Longrightarrow> Q (soloKaraokeAdvance s)"
  by (auto simp: soloKaraokeAdvance_def intro!: Q_playAt inv_intros)

lemma Q_ReloadQueue [inv_intros]: "Q s \<Longrightarrow> Q (ReloadSoloKaraokeQueue ts s)"
proof -
  assume q: "Q s"
  have [simp]: "(sk_currentTrack (e_solo s) = None) = (soloTrack s = None)" by (simp add: soloTrack_def)
  have t: "soloTrack (updSolo (\<lambda>sk. sk\<lparr>sk_queue := ts\<rparr>) s) = soloTrack s" by (simp add: soloTrack_def)
  have "solo_ok ((e_solo s)\<lparr>sk_queue := ts, sk_index := findIndex P ts\<rparr>)" for P
    using findIndex_range [of P ts] Q_solo_ok [OF q] by (auto simp: solo_ok_def)
  then show ?thesis
    using q Q_solo_ok [OF q]
    by (auto simp: ReloadSoloKaraokeQueue_def Let_def t updSolo_updSolo solo_ok_def split: option.split
        intro!: inv_intros)
qed

lemma Q_onAdminSoloKaraokePlay [inv_intros]:
  assumes "Q s" shows "Q (onAdminSoloKaraokePlay cid trackID s)"
proof -
  let ?q = "sk_queue (e_solo s)"
  have tail: "Q (block [cond (\<lambda>_. \<not> w) (block [broadcastSoloKaraokeActive, broadcastModeLock])] t)" if "Q t" for w t
    using that by (auto simp del: block_Cons intro!: inv_intros)
  have play: "Q (block [updSolo (\<lambda>sk. sk\<lparr>sk_active := True\<rparr>), soloKaraokePlayAt idx,
      cond (\<lambda>_. \<not> w) (block [broadcastSoloKaraokeActive, broadcastModeLock])] s)"
    if "0 \<le> idx" "idx < int (length ?q)" for idx w
    using tail [OF Q_playAt_gen [OF assms, of "\<lambda>sk. sk\<lparr>sk_active := True\<rparr>" idx]] that by simp
  have "findIndex P ?q \<noteq> -1 \<Longrightarrow> 0 \<le> findIndex P ?q \<and> findIndex P ?q < int (length ?q)" for P
    using findIndex_range [of P ?q] by auto
  then show ?thesis
    using assms unfolding onAdminSoloKaraokePlay_def Let_def
    by (auto simp del: block_Cons intro!: inv_intros play)
qed

lemma Q_soloHandlers [inv_intros]:
  assumes "Q s"
  shows "Q (onAdminSoloKaraokePause s)" "Q (onAdminSoloKaraokeResume s)" "Q (onAdminSoloKaraokeStop s)"
    "Q (onAdminSoloKaraokeNext s)" "Q (onAdminSoloKaraokePrev s)" "Q (onAdminSoloKaraokeSeek cid d s)"
    "Q (onAdminSoloKaraokeSetShuffle cid b s)" "Q (onAdminSoloKaraokeSetRepeat cid r s)"
proof -
  note ok = Q_solo_ok [OF assms]
  show "Q (onAdminSoloKaraokePrev s)"
    using assms ok by (auto simp: onAdminSoloKaraokePrev_def Let_def solo_ok_def intro!: Q_playAt)
  show "Q (onAdminSoloKaraokePause s)" "Q (onAdminSoloKaraokeResume s)" "Q (onAdminSoloKaraokeStop s)"
    "Q (onAdminSoloKaraokeNext s)"
    using assms by (auto simp: onAdminSoloKaraokePause_def onAdminSoloKaraokeResume_def
        onAdminSoloKaraokeStop_def onAdminSoloKaraokeNext_def solo_ok_def simp del: block_Cons intro!: inv_intros)
  show "Q (onAdminSoloKaraokeSeek cid d s)"
    using assms by (auto simp: onAdminSoloKaraokeSeek_def Let_def solo_ok_def simp del: block_Cons
        split: option.split sum.split intro!: inv_intros Q_load_case)
  show "Q (onAdminSoloKaraokeSetShuffle cid b s)" "Q (onAdminSoloKaraokeSetRepeat cid r s)"
    using assms by (auto simp: onAdminSoloKaraokeSetShuffle_def onAdminSoloKaraokeSetRepeat_def
        solo_ok_def split: sum.split intro!: inv_intros)
qed

subsection \<open>Rounds, karaoke and votes\<close>

lemma Q_boards [inv_intros]:
  "Q s \<Longrightarrow> Q (snapshotDDBucket s)" "Q s \<Longrightarrow> Q (setDD c b v s)" "Q s \<Longrightarrow> Q (setDDBucket ts s)"
  "Q s \<Longrightarrow> b' \<noteq> None \<Longrightarrow> Q (ReloadBoard b' s)"
  subgoal by (simp add: snapshotDDBucket_def inv_intros)
  subgoal by (simp add: setDD_def inv_intros)
  subgoal by (rule Q_step) (auto dest!: Q_ok simp: engine_ok_def setDDBucket_def)
  subgoal by (auto simp: ReloadBoard_def snapshotDDBucket_def simp del: block_Cons intro!: inv_intros)
  done

lemma Q_award [inv_intros]: "Q s \<Longrightarrow> 0 \<le> pts \<Longrightarrow> Q (award pid pts s)"
  by (auto simp: award_def simp del: block_Cons intro!: inv_intros)

lemma Q_startTrack [inv_intros]: "Q s \<Longrightarrow> Q (startTrack c t s)"
  by (auto simp: startTrack_def Let_def trackStartMsg_def adminViewMsg_def simp del: block_Cons
      split: prod.split intro!: inv_intros)

lemma Q_votes [inv_intros]:
  assumes "Q s"
  shows "Q (broadcastVoteState s)" "Q (beginTransition s)" "Q (karaokeConditionMet s)"
    "Q (evaluateSkipVotes s)" "Q (onVote cid nonce s)"
  using assms
  by (auto simp: broadcastVoteState_def beginTransition_def karaokeConditionMet_def evaluateSkipVotes_def
      onVote_def Let_def simp del: block_Cons split: option.split intro!: inv_intros)

lemma Q_karaoke [inv_intros]:
  "Q s \<Longrightarrow> Q (enterKaraoke s)" "Q s \<Longrightarrow> Q (adminReveal s)" "Q s \<Longrightarrow> Q (autoKaraokeFired rk s)"
  by (auto simp: enterKaraoke_def adminReveal_def autoKaraokeFired_def simp del: block_Cons intro!: inv_intros)

end

subsection \<open>Daily Double, selection and the end of a round\<close>

lemma setDD_sel [simp]:
  "e_board (setDD c b v s) = e_board s" "e_reg (setDD c b v s) = e_reg s"
  by (simp_all add: setDD_def)

lemma setDDBucket_sel [simp]:
  "e_reg (setDDBucket ts s) = e_reg s" "(e_board (setDDBucket ts s) = None) = (e_board s = None)"
  "(\<exists>y. e_board (setDDBucket ts s) = Some y) = (\<exists>y. e_board s = Some y)"
  by (simp_all add: setDDBucket_def)

lemma intn_sel: "intn n s = (i, s') \<Longrightarrow> e_board s' = e_board s \<and> e_reg s' = e_reg s"
  by (auto simp: intn_def)

lemma rngShuffle_sel: "rngShuffle xs s = (ys, s') \<Longrightarrow> e_board s' = e_board s \<and> e_reg s' = e_reg s"
  by (auto simp: rngShuffle_def)

lemma cellAt_board: "cellAt h b row col = Some c \<Longrightarrow> \<exists>y. b = Some y"
  by (auto simp: cellAt_def split: option.splits)

lemma f64_0 [simp]: "f64 0 = 0"
  using f64_of_int [of 0] by simp

lemma ddPoints_nonneg: "0 \<le> ddPoints e"
proof -
  have "f64 (of_int (MaxPointsForRow (e_curRow e))) = of_int (MaxPointsForRow (e_curRow e))"
    using MaxPointsForRow_bounds [of "e_curRow e"] by (intro f64_of_int) simp
  then have "0 \<le> f64 (of_int (MaxPointsForRow (e_curRow e))) * DailyDoubleMultiplier (avgStars e)"
    using MaxPointsForRow_bounds [of "e_curRow e"] DailyDoubleMultiplier_bounds [of "avgStars e"] by simp
  then show ?thesis using f64_mono [of 0] by (fastforce simp: ddPoints_def)
qed

lemma fade_level: "level_ok v \<Longrightarrow> i \<le> dailyDoubleFadeSteps \<Longrightarrow> level_ok (quot (v * int i) (int dailyDoubleFadeSteps))"
proof -
  assume v: "level_ok v" and i: "i \<le> dailyDoubleFadeSteps"
  have "v * int i \<le> 100 * 6" "0 \<le> v * int i"
    using v i by (intro mult_mono, auto simp: level_ok_def dailyDoubleFadeSteps_def)
  then show ?thesis
    by (cases "v * int i = 0") (auto simp: level_ok_def quot_def dailyDoubleFadeSteps_def sgn_if)
qed

context command_inv begin

lemma Q_block_first: "Q (f s) \<Longrightarrow> (\<And>t. Q t \<Longrightarrow> Q (block fs t)) \<Longrightarrow> Q (block (f # fs) s)"
  by simp

lemma Q_performer [inv_intros]: "Q s \<Longrightarrow> Q (broadcastDailyDoublePerformer s)"
  by (auto simp: broadcastDailyDoublePerformer_def split: option.split prod.split intro!: inv_intros)

lemma Q_returnUnused [inv_intros]: "Q s \<Longrightarrow> Q (returnUnusedDDCandidates cs x s)"
  by (auto simp: returnUnusedDDCandidates_def split: option.split intro!: inv_intros)

lemma Q_drawTrack: "Q s \<Longrightarrow> drawTrack c s = (t, s') \<Longrightarrow> Q s'"
  by (auto simp: drawTrack_def split: if_splits intro!: inv_intros)

lemma Q_drawTrack_case:
  "Q s \<Longrightarrow> (\<And>s'. Q s' \<Longrightarrow> Q (f s')) \<Longrightarrow> (\<And>t s'. Q s' \<Longrightarrow> Q (g t s')) \<Longrightarrow>
   Q (case drawTrack c s of (None, s') \<Rightarrow> f s' | (Some t, s') \<Rightarrow> g t s')"
  using Q_drawTrack [of s c] by (auto split: prod.split option.split)

lemma Q_startCellNormally [inv_intros]: "Q s \<Longrightarrow> Q (startCellNormally c s)" "Q s \<Longrightarrow> Q (backToBoard s)"
proof -
  show bb: "Q s \<Longrightarrow> Q (backToBoard s)" for s
    by (auto simp: backToBoard_def simp del: block_Cons intro!: inv_intros)
  show "Q s \<Longrightarrow> Q (startCellNormally c s)"
    by (auto simp: startCellNormally_def intro!: inv_intros bb Q_drawTrack_case)
qed

lemma Q_decline [inv_intros]: "Q s \<Longrightarrow> Q (declineDailyDouble s)"
  by (auto simp: declineDailyDouble_def Let_def simp del: block_Cons split: option.split prod.split
      intro!: inv_intros dest: Q_intn)

lemma Q_offer:
  "Q s \<Longrightarrow> e_board s \<noteq> None \<Longrightarrow>
   Q (block [\<lambda>e. e\<lparr>e_curCell := co, e_ddOffer := off e\<rparr>, transitionTo StateDailyDouble,
       broadcastDailyDoublePerformer] s)"
  by (rule Q_block_first) (auto simp del: block_Cons intro!: inv_intros)

lemma Q_beginOffer:
  assumes "Q s" and "e_board s \<noteq> None"
  shows "Q (beginDailyDoubleOffer c s)"
proof -
  have "Q (block [\<lambda>e. e\<lparr>e_curCell := co, e_ddOffer := off e\<rparr>, transitionTo StateDailyDouble,
      broadcastDailyDoublePerformer] e1)" if "intn n s = (i, e1)" for n i e1 co off
    using Q_offer Q_intn [OF assms(1) that] intn_sel [OF that] assms(2) by simp
  moreover have mid: "Q (block [setDD c False 0, sendErrorAll code msg, startCellNormally c] s)" for code msg
    using assms(1) by (auto simp del: block_Cons intro!: inv_intros)
  ultimately show ?thesis
    using assms unfolding beginDailyDoubleOffer_def Let_def
    by (auto simp del: block_Cons split: prod.split intro!: Q_offer mid)
qed

lemma Q_selectCell [inv_intros]: "Q s \<Longrightarrow> Q (selectCell row col s)"
  by (auto simp: selectCell_def Let_def simp del: block_Cons split: option.split
      intro!: inv_intros Q_beginOffer Q_drawTrack_case)
    (blast dest: cellAt_board)+

lemma Q_selects [inv_intros]:
  "Q s \<Longrightarrow> Q (onAdminSelect cid d s)" "Q s \<Longrightarrow> Q (onPlayerSelectCell cid nonce d s)" "Q s \<Longrightarrow> Q (transitionFired s)"
  by (auto simp: onAdminSelect_def onPlayerSelectCell_def transitionFired_def Let_def simp del: block_Cons
      split: option.split prod.split sum.split intro!: inv_intros)

lemma Q_ddPass: "Q s \<Longrightarrow> ddPass n cc cats (placed, progressed, s) = (placed', progressed', s') \<Longrightarrow> Q s'"
  by (induction n cc cats "(placed, progressed, s)" arbitrary: placed progressed s rule: ddPass.induct)
    (auto simp: Let_def split: if_splits prod.splits intro!: inv_intros dest: Q_intn)

lemma Q_ddLoop: "Q s \<Longrightarrow> Q (ddLoop n cc cats placed s)"
proof (induction n cc cats placed s rule: ddLoop.induct)
  case (1 n cc cats placed s)
  obtain cats' e1 where sh: "rngShuffle cats s = (cats', e1)" by force
  obtain p b e2 where pa: "ddPass n cc cats' (placed, False, e1) = (p, b, e2)"
    by (cases "ddPass n cc cats' (placed, False, e1)") auto
  have "Q e2" using Q_ddPass [OF Q_rngShuffle [OF 1(2) sh] pa] .
  then show ?case
    using 1(2) by (subst ddLoop.simps) (auto simp: sh pa simp del: ddLoop.simps intro: 1(1))
qed

lemma Q_assign_dd [inv_intros]: "Q s \<Longrightarrow> Q (assignDailyDoubles s)"
  by (auto simp: assignDailyDoubles_def Let_def simp del: ddLoop.simps split: option.split
      intro!: inv_intros Q_ddLoop)

lemma Q_finish [inv_intros]: "Q s \<Longrightarrow> Q (finishDailyDouble s)"
  by (auto simp: finishDailyDouble_def Let_def ddPoints_nonneg simp del: block_Cons split: option.split
      intro!: inv_intros)

lemma Q_perform [inv_intros]: "Q s \<Longrightarrow> Q (startDailyDoublePerformance pid t off s)"
  by (auto simp: startDailyDoublePerformance_def trackStartMsg_def simp del: block_Cons
      split: option.split prod.split intro!: inv_intros)

lemma Q_choose [inv_intros]: "Q s \<Longrightarrow> Q (onDailyDoubleChoose cid nonce d s)" "Q s \<Longrightarrow> Q (onRate cid nonce r s)"
  by (auto simp: onDailyDoubleChoose_def onRate_def split: option.split sum.split intro!: inv_intros)

lemma Q_decision:
  assumes "Q s" and o: "\<And>off. e_ddOffer s = Some off \<Longrightarrow> set (connIDs (e_reg s) (dd_contestantID off)) \<subseteq> offer"
  shows "Q (onDailyDoubleDecision cid nonce d s)"
proof -
  have songs: "Q s1 \<Longrightarrow> e_reg s1 = e_reg s \<Longrightarrow> e_board s1 \<noteq> None \<Longrightarrow>
      Q (block [setDDBucket ts, \<lambda>e. e\<lparr>e_ddOffer := Some off'\<rparr>,
        \<lambda>e. sendEach (connIDs (e_reg e) (dd_contestantID off)) (SMsgDailyDoubleOffer (cs e)) e] s1)"
    if "e_ddOffer s = Some off" for s1 off off' cs ts
    using o [OF that] by (auto intro!: inv_intros)
  show ?thesis
    using assms Q_ok [OF assms(1)] unfolding onDailyDoubleDecision_def Let_def
    by (auto simp del: block_Cons simp: engine_ok_def split: option.split sum.split prod.split
        intro!: Q_sendEach Q_decline songs dest: Q_rngShuffle rngShuffle_sel)
qed

lemma Q_fadeOut [inv_intros]: "Q s \<Longrightarrow> Q (fadeOutAndFinishDailyDouble s)"
  by (auto simp: fadeOutAndFinishDailyDouble_def intro!: inv_intros dest: Q_ok simp: engine_ok_def)

lemma Q_fadeStep [inv_intros]:
  assumes "Q s" and "level_ok v" and "i \<le> dailyDoubleFadeSteps"
  shows "Q (fadeStep rk v i s)"
proof -
  have *: "Q (block [spawn fadeStepMs (case i of 0 \<Rightarrow> JFadeDone rk | Suc j \<Rightarrow> JFade rk v j)] t)" if "Q t" for t
    using that assms by (auto simp del: block_Cons split: nat.split intro!: inv_intros)
  show ?thesis
    unfolding fadeStep_def
    by (rule Q_block_first, rule Q_sendVolume [OF assms(1) fade_level [OF assms(2,3)]], rule *)
qed

lemma Q_volume_level: "Q s \<Longrightarrow> level_ok (e_volumePct s)"
  by (simp add: Q_ok [unfolded engine_ok_def])

lemma Q_fadeDone [inv_intros]: "Q s \<Longrightarrow> Q (fadeDone rk s)"
  by (auto simp: fadeDone_def simp del: block_Cons intro!: inv_intros Q_volume_level)

lemma Q_ends [inv_intros]:
  assumes "Q s"
  shows "Q (checkDailyDoubleComplete s)" "Q (skipDailyDouble s)" "Q (endRound s)"
  using assms
  by (auto simp: checkDailyDoubleComplete_def skipDailyDouble_def endRound_def simp del: block_Cons
      intro!: inv_intros)

end

subsection \<open>Buzzing and grading\<close>

lemma roundPool_ok:
  assumes "partial_ok (e_partial e)" and "roundPool e = (maxP, baseP)"
  shows "pool_ok maxP baseP \<and> 0 \<le> baseP \<and> maxP \<le> 200"
  using assms MaxPointsForRow_bounds [of "e_curRow e"]
  by (auto simp: roundPool_def partial_ok_def pool_ok_def BaseValue_def PartialPoints_def Let_def split: if_splits)

lemma pool_award_bounds:
  "partial_ok (e_partial e) \<Longrightarrow> roundPool e = (maxP, baseP) \<Longrightarrow>
   0 \<le> currentPointsFromPool maxP baseP ms \<and> currentPointsFromPool maxP baseP ms \<le> maxP"
  using roundPool_ok [of e maxP baseP] pool_points_bounds [of maxP baseP ms] by auto

context command_inv begin

lemma Q_closeWindow [inv_intros]: "Q s \<Longrightarrow> Q (closeWindow s)" "Q s \<Longrightarrow> Q (addContender c s)"
  by (auto simp: closeWindow_def addContender_def intro!: inv_intros)

lemma Q_sendLost [inv_intros]: "Q s \<Longrightarrow> Q (sendLost cs s)"
  by (auto simp: sendLost_def intro!: inv_intros)

lemma Q_awardBuzzWinner [inv_intros]: "Q s \<Longrightarrow> Q (awardBuzzWinner pid handle a s)"
  by (auto simp: awardBuzzWinner_def simp del: block_Cons intro!: inv_intros)

lemma Q_tryAcquire: "Q s \<Longrightarrow> tryAcquire rk pid s = (won, s') \<Longrightarrow> Q s'"
  by (auto simp: tryAcquire_def split: if_splits prod.splits intro!: inv_intros)

lemma Q_buzzOrder: "Q s \<Longrightarrow> buzzOrder s = (cs, s') \<Longrightarrow> Q s'"
  by (auto simp: buzzOrder_def split: prod.splits dest: Q_rngShuffle)

lemma Q_resolve [inv_intros]:
  assumes "Q s" shows "Q (resolveBuzzWindow rk s)"
proof -
  obtain order e1 where o: "buzzOrder s = (order, e1)" by force
  have "Q e2" if "tryAcquire rk' pid e1 = (w, e2)" for rk' pid w e2
    using Q_tryAcquire [OF Q_buzzOrder [OF assms o] that] .
  with Q_buzzOrder [OF assms o] assms show ?thesis
    unfolding resolveBuzzWindow_def o Let_def
    by (auto simp del: block_Cons split: option.split prod.split bool.split intro!: inv_intros)
qed

lemma Q_onBuzz [inv_intros]: "Q s \<Longrightarrow> Q (onBuzz cid nonce a s)"
  by (auto simp: onBuzz_def Let_def split: option.split intro!: inv_intros)

lemma Q_reenable [inv_intros]: "Q s \<Longrightarrow> Q (reenableEligible s)" "Q s \<Longrightarrow> Q (releaseBuzz s)"
  by (auto simp: reenableEligible_def releaseBuzz_def simp del: block_Cons intro!: inv_intros)

lemma Q_gradeCorrect:
  assumes "Q s" shows "Q (gradeCorrect w el s)"
proof -
  obtain m b where p: "roundPool s = (m, b)" by force
  have "0 \<le> currentPointsFromPool m b el"
    using pool_award_bounds [OF _ p] Q_ok [OF assms] by (simp add: engine_ok_def)
  with assms show ?thesis
    by (auto simp: gradeCorrect_def p simp del: block_Cons intro!: inv_intros)
qed

lemma Q_gradePartial:
  assumes "Q s" shows "Q (gradePartial w el kind s)"
proof -
  have "partial_ok (e_partial s)" using Q_ok [OF assms] by (simp add: engine_ok_def)
  then have "partial_ok \<lparr>pt_active = True, pt_remaining = (if pt_remaining (e_partial s) - PartialPoints < 0 then 0
      else pt_remaining (e_partial s) - PartialPoints)\<rparr>" if "pt_active (e_partial s)"
    using that by (auto simp: partial_ok_def PartialPoints_def)
  moreover have "partial_ok \<lparr>pt_active = True, pt_remaining = CurrentPoints (e_curRow s) el - 50\<rparr>"
    using CurrentPoints_bounds [of "e_curRow s" el] MaxPointsForRow_bounds [of "e_curRow s"]
    by (simp add: partial_ok_def)
  ultimately show ?thesis
    using assms unfolding gradePartial_def Let_def PartialAward_eq
    by (auto simp del: block_Cons simp: PartialPoints_def split: prod.split intro!: inv_intros)
qed

lemma Q_gradeIncorrect: "Q s \<Longrightarrow> Q (gradeIncorrect w s)"
  by (auto simp: gradeIncorrect_def simp del: block_Cons intro!: inv_intros)

lemma Q_onGrade [inv_intros]: "Q s \<Longrightarrow> Q (onGrade cid d s)"
  by (auto simp: onGrade_def simp del: block_Cons split: option.split sum.split
      intro!: inv_intros Q_gradeCorrect Q_gradePartial Q_gradeIncorrect)

end

subsection \<open>Admin handlers, connections and dispatch\<close>

lemma reg_ok_addConn [inv_intros]: "reg_ok r \<Longrightarrow> reg_ok (addConn c r)"
  by (auto simp: reg_ok_def keys_ok_addConn) (auto simp: addConn_def split: option.splits)

lemma reg_ok_removeConn: "reg_ok r \<Longrightarrow> removeConn c r = (r', pid, gone) \<Longrightarrow> reg_ok r'"
  using keys_ok_removeConn [of r c]
  by (auto simp: reg_ok_def) (auto simp: removeConn_def Let_def split: option.splits if_splits)

lemma reg_ok_resolvePlayer:
  "reg_ok r \<Longrightarrow> resolvePlayer U c h r = (r', pid, created) \<Longrightarrow> reg_ok r' \<and> getPlayer r' pid \<noteq> None"
  using resolvePlayer_ok [of r U c h r' pid created] by (fastforce simp: reg_ok_def)

definition helloTrusted :: "engine \<Rightarrow> client_body \<Rightarrow> bool" where
  "helloTrusted s m \<longleftrightarrow> (case m of CMsgHello (Inr h) \<Rightarrow> TrustedReveal (hd_Role h) \<and>
     (cf_AdminSecret (e_cfg s) = '''' \<or> hd_AdminSecret h = cf_AdminSecret (e_cfg s)) | _ \<Rightarrow> False)"

text \<open>The connections that may receive track data from a command.\<close>

definition trustedConns :: "command \<Rightarrow> engine \<Rightarrow> connID set" where
  "trustedConns c s = (case c of
     Message cid r m a \<Rightarrow> (if TrustedReveal r \<or> helloTrusted s (ce_body m) then {cid} else {})
   | _ \<Rightarrow> {})"

definition offerConns :: "engine \<Rightarrow> connID set" where
  "offerConns s = (case e_ddOffer s of None \<Rightarrow> {} | Some off \<Rightarrow> set (connIDs (e_reg s) (dd_contestantID off)))"

text \<open>The admin API attaches a board, never nil.\<close>

fun command_ok :: "command \<Rightarrow> bool" where
  "command_ok (CmdReloadBoard b) \<longleftrightarrow> b \<noteq> None"
| "command_ok _ \<longleftrightarrow> True"

context command_inv begin

lemma Q_adminHandlers [inv_intros]:
  assumes "Q s"
  shows "Q (onAdminPlayback cid d1 s)" "Q (onAdminSeek cid d2 s)" "Q (onAdminSetDropPoint cid d2 s)"
    "Q (onAdminJumpToDropPoint cid s)" "Q (onAdminSetVolume cid d2 s)" "Q (onAdminEndDailyDouble cid s)"
    "Q (onAdminAward cid d3 s)" "Q (onAdminSetThresh cid d2 s)" "Q (onAdminSetRevealCfg cid d4 s)"
  using assms
  by (auto simp: onAdminPlayback_def onAdminSeek_def onAdminSetDropPoint_def onAdminJumpToDropPoint_def
      onAdminSetVolume_def onAdminEndDailyDouble_def onAdminAward_def onAdminSetThresh_def
      onAdminSetRevealCfg_def Let_def level_ok_def simp del: block_Cons
      split: sum.split option.split intro!: inv_intros)

lemma Q_pools [inv_intros]: "Q s \<Longrightarrow> Q (dropFromPools pid s)" "Q s \<Longrightarrow> Q (clearPicker s)" "Q s \<Longrightarrow> Q (ddPlayerGone pid s)"
  by (auto simp: dropFromPools_def clearPicker_def ddPlayerGone_def simp del: block_Cons
      split: option.split intro!: inv_intros)

lemma Q_onAdminKick [inv_intros]: "Q s \<Longrightarrow> Q (onAdminKick cid d s)"
  by (auto simp: onAdminKick_def simp del: block_Cons split: sum.split option.split intro!: inv_intros)

lemma Q_stage [inv_intros]:
  "Q s \<Longrightarrow> Q (onStageDeviceReady d s)" "Q s \<Longrightarrow> Q (broadcastPlaybackPosition st s)"
  by (auto simp: onStageDeviceReady_def broadcastPlaybackPosition_def Let_def split: sum.split option.split
      intro!: inv_intros)

lemma Q_onStagePlayerState [inv_intros]: "Q s \<Longrightarrow> Q (onStagePlayerState d s)"
  by (auto simp: onStagePlayerState_def simp del: block_Cons split: sum.split intro!: inv_intros)

lemma Q_sendFullSync [inv_intros]:
  assumes "Q s" and t: "TrustedReveal r \<Longrightarrow> cid \<in> trusted"
  shows "Q (sendFullSync cid r s)"
proof -
  have "r = RoleStage \<Longrightarrow> cid \<in> trusted" "r = RoleAdmin \<Longrightarrow> cid \<in> trusted"
    using t by auto
  with assms show ?thesis
    by (auto simp: sendFullSync_def simp del: block_Cons split: option.split prod.split intro!: inv_intros)
qed

lemma Q_onHello [inv_intros]:
  assumes "Q s" and t: "helloTrusted s (CMsgHello d) \<Longrightarrow> cid \<in> trusted"
  shows "Q (onHello cid d s)"
proof -
  have reg: "reg_ok reg \<and> getPlayer reg pid \<noteq> None"
    if "resolvePlayer U cid h (e_reg s) = (reg, pid, created)" for U h reg pid created
    using reg_ok_resolvePlayer [OF _ that] Q_ok [OF assms(1)] by (simp add: engine_ok_def)
  show ?thesis
  proof (cases d)
    case (Inl err)
    with assms(1) show ?thesis by (auto simp: onHello_def intro!: inv_intros)
  next
    case (Inr h)
    show ?thesis
    proof (cases "(hd_Role h = RoleAdmin \<or> hd_Role h = RoleStage) \<and> cf_AdminSecret (e_cfg s) \<noteq> ''''
        \<and> hd_AdminSecret h \<noteq> cf_AdminSecret (e_cfg s)")
      case True
      with assms(1) Inr show ?thesis by (auto simp: onHello_def intro!: inv_intros)
    next
      case False
      then have "TrustedReveal (hd_Role h) \<Longrightarrow> cid \<in> trusted"
        using t Inr by (auto simp: helloTrusted_def TrustedReveal_def)
      with assms(1) False Inr show ?thesis
        by (auto simp: onHello_def Let_def simp del: block_Cons split: option.split prod.split
            intro!: inv_intros dest!: reg)
    qed
  qed
qed

lemma Q_onHeartbeat [inv_intros]: "Q s \<Longrightarrow> Q (onHeartbeat cid rtt s)"
  by (auto simp: onHeartbeat_def simp del: block_Cons split: option.split intro!: inv_intros)

lemma Q_connections [inv_intros]:
  assumes "Q s" shows "Q (OnConnect cid ip s)" "Q (OnDisconnect cid s)"
proof -
  show "Q (OnConnect cid ip s)"
    using assms by (auto simp: OnConnect_def simp del: block_Cons intro!: inv_intros)
  have "reg_ok r" if "removeConn cid (e_reg s) = (r, pid, gone)" for r pid gone
    using reg_ok_removeConn [OF _ that] Q_ok [OF assms] by (simp add: engine_ok_def)
  then show "Q (OnDisconnect cid s)"
    using assms unfolding OnDisconnect_def Let_def
    by (auto simp del: block_Cons split: prod.split intro!: inv_intros)
qed

lemma Q_games [inv_intros]:
  "Q s \<Longrightarrow> Q (snd (StartGame s))" "Q s \<Longrightarrow> Q (snd (ResetToLobby s))" "Q s \<Longrightarrow> Q (endGame s)"
  "Q s \<Longrightarrow> Q (PushSpotifyToken tok s)" "Q s \<Longrightarrow> Q (MarkSpotifyAuthed s)" "Q s \<Longrightarrow> Q (flushTick s)"
  by (auto simp: StartGame_def ResetToLobby_def endGame_def PushSpotifyToken_def MarkSpotifyAuthed_def
      flushTick_def unplayAll_def simp del: block_Cons intro!: inv_intros)

lemma Q_dispatchAdmin [inv_intros]: "Q s \<Longrightarrow> Q (dispatchAdmin cid m s)"
  by (cases m) (auto intro!: inv_intros)

lemma Q_dispatch:
  assumes "Q s" and t: "trustedConns (Message cid r m a) s \<subseteq> trusted" and o: "offerConns s \<subseteq> offer"
  shows "Q (dispatch cid r m a s)"
proof -
  have r: "TrustedReveal r \<Longrightarrow> cid \<in> trusted" and h: "helloTrusted s (ce_body m) \<Longrightarrow> cid \<in> trusted"
    using t by (auto simp: trustedConns_def split: if_splits)
  have d: "Q (onDailyDoubleDecision cid n d s)" for n d
    using assms(1) o by (intro Q_decision) (auto simp: offerConns_def)
  have e: "Q (sendError cid c x s)" for c x using assms(1) by (rule Q_errors)
  show ?thesis
    using assms(1) r h d e unfolding dispatch_def
    by (cases "ce_body m") (auto intro!: inv_intros)
qed

lemma Q_runJob:
  assumes "Q s" and "job_ok (length (e_lyricEnts s)) j"
  shows "Q (runJob v j s)"
  using assms by (cases j) (auto intro!: inv_intros)

lemma Q_exec:
  assumes "Q s" and "trustedConns c s \<subseteq> trusted" and "offerConns s \<subseteq> offer" and "command_ok c"
  shows "Q (exec v c s)"
proof (cases c)
  case (Message cid r m a)
  with assms Q_dispatch show ?thesis by simp
next
  case (FireTask i)
  have "Q (s\<lparr>e_tasks := take i (e_tasks s) @ drop (Suc i) (e_tasks s)\<rparr>)"
    using assms(1) by (auto intro!: inv_intros dest: in_set_takeD in_set_dropD)
  moreover have "job_ok (length (e_lyricEnts s)) (tk_job (e_tasks s ! i))" if "i < length (e_tasks s)"
    using Q_ok [OF assms(1)] that by (simp add: engine_ok_def)
  ultimately show ?thesis using assms(1) FireTask by (simp add: fireTask_def Q_runJob)
qed (use assms in \<open>auto intro!: inv_intros\<close>)

text \<open>The engine-wide result: one command keeps \<open>Q\<close>.\<close>

lemma Q_runCommand:
  assumes "Q s" and "trustedConns c s \<subseteq> trusted" and "offerConns s \<subseteq> offer" and "command_ok c"
  shows "Q (runCommand v c s)"
proof -
  let ?s = "s\<lparr>e_now := en_now v, e_audioErr := en_audioErr v, e_lockErr := en_lockErr v\<rparr>"
  have "Q ?s" using assms(1) by (intro inv_intros)
  moreover have "helloTrusted ?s m = helloTrusted s m" for m
    by (auto simp: helloTrusted_def split: client_body.split sum.split)
  then have "trustedConns c ?s = trustedConns c s"
    by (cases c) (simp_all add: trustedConns_def)
  moreover have "offerConns ?s = offerConns s" by (simp add: offerConns_def split: option.split)
  ultimately show ?thesis using Q_exec [of ?s c v] assms by (simp add: runCommand_def)
qed

end

end
