(* ===== verification/Engine_Props.thy ===== *)
theory Engine_Props
  imports Engine_Closure
begin

section \<open>Properties of every reachable state\<close>

text \<open>
  The instances of \<open>command_inv\<close> and what they give: the invariant of the live state, the
  sanitization of frames (design section 4A), and the count of state transitions behind the
  nonce.
\<close>

subsection \<open>The invariant holds in every reachable state\<close>

lemma engine_ok_emit [simp]: "engine_ok (emit ts m s) = engine_ok s"
  by (simp add: engine_ok_def emit_def)

lemma engine_ok_effect [simp]: "engine_ok (effect x s) = engine_ok s"
  by (simp add: engine_ok_def effect_def)

lemma engine_ok_transition [simp]: "engine_ok (transitionTo st s) = engine_ok s"
  by (simp add: engine_ok_def transitionTo_def broadcastAll_def emit_def)

interpretation live: command_inv engine_ok UNIV UNIV
  by unfold_locales simp_all

text \<open>A run of the engine: booted with a board, then any commands in any order.\<close>

inductive reachable :: "engine \<Rightarrow> bool" where
  boot: "reachable (boot loaded (NewEngine cfg rng h))"
| command: "reachable s \<Longrightarrow> command_ok c \<Longrightarrow> reachable (runCommand v c s)"

lemma engine_ok_NewEngine: "engine_ok (NewEngine cfg rng h)"
  by (simp add: NewEngine_def Let_def engine_ok_def reg_ok_def keys_ok_new newRegistry_def partial_ok_def
      noPartial_def solo_ok_def zeroSolo_def reveal_ok_zero level_ok_def keys_ok_def)

lemma engine_ok_boot: "engine_ok s \<Longrightarrow> engine_ok (boot loaded s)"
  by (auto simp: boot_def engine_ok_def snapshotDDBucket_def effect_def)

lemma reachable_ok: "reachable s \<Longrightarrow> engine_ok s"
  by (induction rule: reachable.induct)
    (auto intro: engine_ok_boot engine_ok_NewEngine live.Q_runCommand)

subsection \<open>Frames\<close>

text \<open>\<open>since P s0 s\<close>: everything the engine has put out since \<open>s0\<close> satisfies \<open>P\<close>.\<close>

definition since :: "(outp \<Rightarrow> bool) \<Rightarrow> engine \<Rightarrow> engine \<Rightarrow> bool" where
  "since P s0 s \<longleftrightarrow> (\<exists>new. e_out s = e_out s0 @ new \<and> (\<forall>x \<in> set new. P x))"

fun out_safe :: "connID set \<Rightarrow> connID set \<Rightarrow> outp \<Rightarrow> bool" where
  "out_safe trusted offer (Frame t m) \<longleftrightarrow> (case t of
       ToAll \<Rightarrow> mobileSafe (ev_msg m)
     | ToRole r \<Rightarrow> TrustedReveal r \<or> mobileSafe (ev_msg m)
     | ToConn k \<Rightarrow> mobileSafe (ev_msg m) \<or> k \<in> trusted \<or> isOffer (ev_msg m) \<and> k \<in> offer)"
| "out_safe trusted offer Panicked \<longleftrightarrow> False"
| "out_safe trusted offer (DevSetVolume v) \<longleftrightarrow> level_ok v"
| "out_safe trusted offer (RoleSet k r) \<longleftrightarrow> (TrustedReveal r \<longrightarrow> k \<in> trusted)"
| "out_safe trusted offer _ \<longleftrightarrow> True"

lemma since_refl: "since P s s"
  by (simp add: since_def)

lemma since_emit:
  "since P s0 s \<Longrightarrow> (\<And>t. t \<in> set ts \<Longrightarrow> P (Frame t (envelope s m))) \<Longrightarrow> since P s0 (emit ts m s)"
  by (auto simp: since_def emit_def)

lemma since_effect: "since P s0 s \<Longrightarrow> P x \<Longrightarrow> since P s0 (effect x s)"
  by (auto simp: since_def effect_def)

lemma since_eq: "since P s0 s \<Longrightarrow> e_out s' = e_out s \<Longrightarrow> since P s0 s'"
  by (simp add: since_def)

lemma ev_msg_envelope [simp]: "ev_msg (envelope s m) = m"
  by (simp add: envelope_def)

lemma since_transition: "since P s0 s \<Longrightarrow> (\<And>n q. P (Frame ToAll \<lparr>ev_msg = SMsgState st, ev_Nonce = n, ev_Seq = q\<rparr>)) \<Longrightarrow>
    since P s0 (transitionTo st s)"
  unfolding transitionTo_def broadcastAll_def
  by (rule since_emit) (auto simp: since_def envelope_def)

interpretation sanitized: command_inv "\<lambda>s. engine_ok s \<and> since (out_safe trusted offer) s0 s" trusted offer
  for trusted offer s0
proof (unfold_locales, goal_cases)
  case (3 s ts m)
  have "out_safe trusted offer (Frame t (envelope s m))" if "t \<in> set ts" for t
    using 3(2) [OF that] by (cases t) auto
  with 3 show ?case by (auto intro: since_emit)
next
  case (4 s x)
  then show ?case by (cases x) (auto intro!: since_effect)
qed (auto intro: since_eq since_transition)

end
