(* ===== verification/Sample.thy ===== *)
theory Sample
  imports Engine_Props
begin

section \<open>A small game\<close>

text \<open>
  Concrete inputs on which the properties are applied: a board of two cells with two tracks
  each, a server configuration, and the states a short game passes through. The character
  tables are those of ASCII, the random source counts up.
\<close>

definition asciiTables :: unicode where
  "asciiTables = \<lparr>u_upper = (\<lambda>r. if 97 \<le> r \<and> r \<le> 122 then r - 32 else r),
     u_control = (\<lambda>r. r < 32 \<or> r = 127), u_Cf = (\<lambda>_. False), u_Cs = (\<lambda>_. False),
     u_Co = (\<lambda>_. False), u_M = (\<lambda>_. False), u_Print = (\<lambda>r. 32 \<le> r \<and> r < 127)\<rparr>"

definition sampleConfig :: config where
  "sampleConfig = \<lparr>cf_SessionID = ''s1'', cf_AdminSecret = ''pw'', cf_SkipThresholdPct = 0,
     cf_RevealIntervalMs = 0, cf_RevealPhase1Ms = 0, cf_RevealBlockMs = 0, cf_RevealEaseMs = 0,
     cf_RevealEaseSet = False, cf_RevealAlternate = False, cf_RevealAlternateSet = False,
     cf_BuzzWindowMs = 0, cf_hasLyrics = False, cf_hasLyricsStore = False,
     cf_hasDropPointStore = False, cf_hasRoleSetter = False, cf_unicode = asciiTables,
     cf_prng = (\<lambda>seed i. i)\<rparr>"

definition sampleTrack :: "nat \<Rightarrow> track" where
  "sampleTrack i = \<lparr>tID = itoa (int i), tSpotifyURI = ''uri:'' @ itoa (int i), tArtist = ''A B'',
     tSong = ''Cd'', tAlbumArt = '''', tDurationMs = 200000, tPlayed = False, tPlayable = True,
     tYear = 1999, tGenre = ''''\<rparr>"

definition sampleCell :: "nat \<Rightarrow> cell" where
  "sampleCell i = \<lparr>cRow = int i + 1, cCol = 1, cCategory = ''Rock'', cTracks = [2 * i, 2 * i + 1],
     cDailyDouble = False, cDDTriggerVisit = 0\<rparr>"

definition sampleHeap :: heap where
  "sampleHeap = \<lparr>hTrack = sampleTrack, hCell = sampleCell, nextT = 4, nextC = 2\<rparr>"

definition sampleBoard :: board where
  "sampleBoard = \<lparr>bRows = 2, bCols = 1, bCells = [[Some 0], [Some 1]], bDailyDoubleCount = 0,
     bDDBucket = []\<rparr>"

text \<open>The engine after its start; \<open>atMs ms\<close> is a quiet environment at that time.\<close>

definition game0 :: engine where
  "game0 = boot (Some sampleBoard) (NewEngine sampleConfig (\<lambda>i. i) sampleHeap)"

definition atMs :: "int \<Rightarrow> env" where
  "atMs ms = \<lparr>en_now = ms, en_audioErr = None, en_lockErr = False, en_storeText = None, en_lines = [],
     en_fetchErr = False, en_dropPoint = None, en_saveErr = False\<rparr>"

definition client :: "connID \<Rightarrow> role \<Rightarrow> client_body \<Rightarrow> u64 \<Rightarrow> int \<Rightarrow> command" where
  "client cid r m nonce arrivalMs = Message cid r \<lparr>ce_body = m, ce_Nonce = nonce\<rparr> arrivalMs"

definition helloAs :: "role \<Rightarrow> string \<Rightarrow> string \<Rightarrow> string \<Rightarrow> client_body" where
  "helloAs r handle fp secret = CMsgHello (Inr \<lparr>hd_Role = r, hd_Handle = handle, hd_DeviceFP = fp, hd_JoinToken = '''',
     hd_AdminSecret = secret\<rparr>)"

text \<open>A player and the admin arrive, the game starts, the admin picks the first cell.\<close>

definition openingMoves :: "(env \<times> command) list" where
  "openingMoves = [
     (atMs 1, Connect ''c1'' ''10.0.0.1''),
     (atMs 2, client ''c1'' RoleMobile (helloAs RoleMobile ''Ann'' ''fp1'' '''') 0 2),
     (atMs 3, Connect ''c2'' ''10.0.0.2''),
     (atMs 4, client ''c2'' RoleMobile (helloAs RoleMobile ''Bob'' ''fp2'' '''') 0 4),
     (atMs 5, Connect ''c3'' ''10.0.0.3''),
     (atMs 6, client ''c3'' RoleMobile (helloAs RoleAdmin ''host'' ''fp3'' ''pw'') 0 6),
     (atMs 7, CmdStartGame),
     (atMs 8, client ''c3'' RoleAdmin (CMsgAdminSelect (Inr (1, 1))) 0 8)]"

definition play :: "(env \<times> command) list \<Rightarrow> engine \<Rightarrow> engine" where
  "play cs e = fold (\<lambda>(v, c). runCommand v c) cs e"

lemma reachable_play:
  assumes "reachable e" and "list_all (\<lambda>(v, c). command_ok c) cs"
  shows "reachable (play cs e)"
  using assms
proof (induction cs arbitrary: e)
  case Nil
  then show ?case by (simp add: play_def)
next
  case (Cons x cs)
  obtain v c where x: "x = (v, c)" by force
  with Cons.prems have "reachable (runCommand v c e)" by (auto intro: reachable.command)
  with Cons.IH [OF this] Cons.prems show ?case by (simp add: x play_def)
qed

lemma reachable_game0: "reachable game0"
  unfolding game0_def by (rule reachable.boot)

text \<open>The round that the opening starts.\<close>

definition round1 :: engine where
  "round1 = play openingMoves game0"

lemma reachable_round1: "reachable round1"
  unfolding round1_def by (rule reachable_play [OF reachable_game0])
    (simp add: openingMoves_def client_def)

end
