(* ===== verification/Safety.thy ===== *)
theory Safety
  imports Sample
begin

section \<open>Safety of the command loop\<close>

text \<open>
  What holds of every run of the engine, whatever the clients, the admin, the timers and the
  devices do: the live state stays well formed, nothing panics, track data goes only where
  it may go, and the nonce counts the state changes, so a message made before a change is
  refused after it. Each result is an instance of the closure of \<open>Engine_Closure\<close>.
\<close>

subsection \<open>State changes and the nonce\<close>

fun isStateFrame :: "outp \<Rightarrow> bool" where
  "isStateFrame (Frame ToAll m) \<longleftrightarrow> isState (ev_msg m)"
| "isStateFrame _ \<longleftrightarrow> False"

text \<open>The state changes broadcast between \<open>s0\<close> and \<open>s\<close>.\<close>

definition stateChanges :: "engine \<Rightarrow> engine \<Rightarrow> nat" where
  "stateChanges s0 s = length (filter isStateFrame (drop (length (e_out s0)) (e_out s)))"

definition nonce_counted :: "engine \<Rightarrow> engine \<Rightarrow> bool" where
  "nonce_counted s0 s \<longleftrightarrow> (\<exists>new. e_out s = e_out s0 @ new) \<and>
     gate_Current (e_gate s) = gate_Current (e_gate s0) + of_nat (stateChanges s0 s)"

lemma nonce_counted_refl: "nonce_counted s s"
  by (simp add: nonce_counted_def stateChanges_def)

lemma nonce_counted_append:
  assumes "nonce_counted s0 s" and "e_out s' = e_out s @ xs" and "filter isStateFrame xs = []"
    and "e_gate s' = e_gate s"
  shows "nonce_counted s0 s'"
  using assms by (auto simp: nonce_counted_def stateChanges_def)

lemma nonce_counted_emit:
  assumes "nonce_counted s0 s" and "\<And>t. t \<in> set ts \<Longrightarrow> target_ok trusted offer t m"
  shows "nonce_counted s0 (emit ts m s)"
proof (rule nonce_counted_append [OF assms(1)])
  show "e_out (emit ts m s) = e_out s @ map (\<lambda>t. Frame t (envelope s m)) ts" by (simp add: emit_def)
  have "\<not> isStateFrame (Frame t (envelope s m))" if "t \<in> set ts" for t
    using assms(2) [OF that] by (cases t) auto
  then show "filter isStateFrame (map (\<lambda>t. Frame t (envelope s m)) ts) = []"
    by (simp add: filter_empty_conv)
qed (simp add: emit_def)

lemma nonce_counted_effect:
  assumes "nonce_counted s0 s" and "quiet_out trusted x"
  shows "nonce_counted s0 (effect x s)"
proof (rule nonce_counted_append [OF assms(1)])
  show "e_out (effect x s) = e_out s @ [x]" by (simp add: effect_def)
  show "filter isStateFrame [x] = []" using assms(2) by (cases x) simp_all
qed (simp add: effect_def)

lemma nonce_counted_transition:
  "nonce_counted s0 s \<Longrightarrow> nonce_counted s0 (transitionTo st s)"
  by (auto simp: nonce_counted_def stateChanges_def transitionTo_def broadcastAll_def emit_def
      gate_Current_def gate_Bump_def)

interpretation counted: command_inv "\<lambda>s. engine_ok s \<and> nonce_counted s0 s" UNIV UNIV for s0
proof (unfold_locales, goal_cases)
  case (2 s s')
  have "nonce_counted s0 s'"
    by (rule nonce_counted_append [of s0 s s' "[]"]) (use 2 in \<open>simp_all only: append_Nil2 filter.simps\<close>)
  with 2(2) show ?case by blast
next
  case (3 s ts m)
  then have "nonce_counted s0 (emit ts m s)" by (blast intro: nonce_counted_emit)
  with 3(1) show ?case by simp
next
  case (4 s x)
  then show ?case using nonce_counted_effect by simp
qed (simp_all add: nonce_counted_transition)

lemma command_safe:
  assumes "reachable e" and "command_ok c"
  shows "since (out_safe (trustedConns c e) (offerConns e)) e (runCommand v c e)"
  using sanitized.Q_runCommand [OF _ order_refl order_refl assms(2)] reachable_ok [OF assms(1)]
  by (simp add: since_refl)

lemma command_counted:
  assumes "reachable e" and "command_ok c"
  shows "nonce_counted e (runCommand v c e)"
  using counted.Q_runCommand [OF _ subset_UNIV subset_UNIV assms(2)] reachable_ok [OF assms(1)]
  by (simp add: nonce_counted_refl)

text \<open>A client message made before at least one state change is refused after it.\<close>

lemma stale_after_change:
  assumes "nonce_counted e e'" and "0 < stateChanges e e'" and "stateChanges e e' < 2 ^ 64"
  shows "\<not> gate_Validate (e_gate e') (gate_Current (e_gate e))"
proof -
  have "(of_nat (stateChanges e e') :: u64) \<noteq> 0"
    using assms(2,3) by (simp add: word_of_nat_eq_0_iff) (meson nat_dvd_not_less)
  with assms(1) show ?thesis by (simp add: nonce_counted_def gate_Validate_def gate_Current_def)
qed

subsection \<open>The results\<close>

text \<open>
  C6: Sanitization (design section 4A). Whatever command the loop runs in whatever reachable
  state, every frame it sends obeys the rule: what goes to all clients or to the mobile role
  carries no track data; track data goes only to the stage and admin roles, to the connection
  that acts as one in this command, or, as a Daily Double offer, to the connections of the
  contestant.
\<close>

theorem frames_sanitized:
  assumes "reachable e" and "command_ok c"
  shows "since (out_safe (trustedConns c e) (offerConns e)) e (runCommand v c e)"
  using assms by (rule command_safe)

theorem frames_sanitized_witness:
  "since (out_safe (trustedConns (client ''c3'' RoleAdmin CMsgAdminReveal 0 9) round1) (offerConns round1))
     round1 (runCommand (atMs 9) (client ''c3'' RoleAdmin CMsgAdminReveal 0 9) round1)"
  by (rule frames_sanitized [OF reachable_round1]) (simp add: client_def)

text \<open>
  C7: The invariant of the live state. In every reachable state the registry's keys agree with
  the players and no score is negative, what is left of a partially guessed track is between 0
  and 150, Solo Karaoke is active exactly when it has a track and its index is inside the
  queue, the reveal orders are permutations of the letter positions with the counters inside
  them, the reveal knobs are inside their limits, the volume and every queued volume is between
  0 and 100 with at most 64 queued, and every pending task refers to data that exists.
\<close>

theorem reachable_invariant:
  assumes "reachable e"
  shows "engine_ok e"
  by (rule reachable_ok [OF assms])

theorem reachable_invariant_witness: "engine_ok round1"
  by (rule reachable_invariant [OF reachable_round1])



definition loudGame :: engine where
  "loudGame = play [(atMs 1, client ''c3'' RoleAdmin (CMsgAdminSetVolume (Inr 140)) 0 1), (atMs 2, VolumeWriter)] game0"

lemma reachable_loudGame: "reachable loudGame"
  unfolding loudGame_def by (rule reachable_play [OF reachable_game0]) (simp add: client_def)


text \<open>
  C13: The nonce is the number of state changes. A command raises the nonce by exactly the
  number of state frames it broadcasts to all clients (modulo the 64 bits), so after a command
  that changed the state a buzz or a vote stamped with the nonce of before is refused: the buzz
  gets the losing answer and nothing else happens, the vote is ignored.
\<close>

theorem stale_messages_refused:
  assumes "reachable e" and "command_ok c" and "e' = runCommand v c e"
    and "0 < stateChanges e e'" and "stateChanges e e' < 2 ^ 64"
  shows "gate_Current (e_gate e') = gate_Current (e_gate e) + of_nat (stateChanges e e') \<and>
    onBuzz cid (gate_Current (e_gate e)) ms e' = sendTo cid (SMsgBuzzResult False) e' \<and>
    onVote cid (gate_Current (e_gate e)) e' = e'"
proof -
  have "nonce_counted e e'" unfolding assms(3) by (rule command_counted [OF assms(1,2)])
  then show ?thesis
    using stale_after_change [OF _ assms(4,5)]
    by (auto simp: nonce_counted_def onBuzz_def onVote_def Let_def split: option.split)
qed

theorem stale_messages_refused_witness:
  "stateChanges game0 (runCommand (atMs 1) CmdStartGame game0) = 1 \<and>
   onVote ''c1'' (gate_Current (e_gate game0)) (runCommand (atMs 1) CmdStartGame game0) =
     runCommand (atMs 1) CmdStartGame game0"
proof -
  have n: "stateChanges game0 (runCommand (atMs 1) CmdStartGame game0) = 1" by code_simp
  with stale_messages_refused [OF reachable_game0 _ refl, of CmdStartGame "atMs 1"] show ?thesis by simp
qed

end
