(* ===== verification/Frames.thy ===== *)
theory Frames
  imports Sample
begin

section \<open>What the operations leave alone\<close>

text \<open>
  The frame rules of the engine. A field that sending, effects and timers cannot change is a
  \<open>quiet_field\<close>; one that the reveal clock, the lyric cache, the drop point and the random
  source cannot change either is a \<open>round_field\<close>; one that a state transition keeps as well is
  a \<open>rule_field\<close>. Each interpretation gives the rewrite rules of its field for all operations
  of that kind at once, which is what the proofs about handlers run on.
\<close>

subsection \<open>Sending\<close>

locale quiet_field =
  fixes f :: "engine \<Rightarrow> 'a"
  assumes f_out: "f (e\<lparr>e_out := xs\<rparr>) = f e"
    and f_seq: "f (e\<lparr>e_seq := n\<rparr>) = f e"
    and f_tasks: "f (e\<lparr>e_tasks := ts\<rparr>) = f e"
begin

lemma f_emit [simp]: "f (emit ts m e) = f e"
proof -
  have "f (emit ts m e) = f (e\<lparr>e_seq := e_seq e + 1\<rparr>)"
    unfolding emit_def using f_out [where e = "e\<lparr>e_seq := e_seq e + 1\<rparr>"] by simp
  then show ?thesis by (simp add: f_seq)
qed

lemma f_effect [simp]: "f (effect x e) = f e"
  by (simp add: effect_def f_out)

lemma f_spawn [simp]: "f (spawn d j e) = f e"
  by (simp add: spawn_def f_tasks)

lemma f_send [simp]:
  "f (sendTo cid m e) = f e" "f (broadcast r m e) = f e" "f (broadcastAll m e) = f e"
  "f (audioFrame a uri pos e) = f e" "f (sendError cid c x e) = f e" "f (sendErrorAll c x e) = f e"
  by (simp_all add: sendTo_def broadcast_def broadcastAll_def audioFrame_def sendError_def sendErrorAll_def)

lemma f_sendEach [simp]: "f (sendEach cids m e) = f e"
  unfolding sendEach_def by (rule fold_frame) simp

lemma f_broadcasts [simp]:
  "f (broadcastScoreboard e) = f e" "f (broadcastBoard e) = f e" "f (broadcastTelemetry e) = f e"
  "f (broadcastPickerStatus e) = f e" "f (broadcastPendingPick r c e) = f e"
  "f (sendPickableBoard e) = f e" "f (broadcastModeLock e) = f e" "f (broadcastVolumeStatus e) = f e"
  "f (revealTo ro e) = f e" "f (broadcastMask e) = f e" "f (saveScore pid e) = f e"
  "f (broadcastDailyDoublePerformer e) = f e"
  by (simp_all add: broadcastScoreboard_def broadcastBoard_def broadcastTelemetry_def broadcastPickerStatus_def
      broadcastPendingPick_def sendPickableBoard_def broadcastModeLock_def broadcastVolumeStatus_def
      revealTo_def broadcastMask_def saveScore_def broadcastDailyDoublePerformer_def
      split: option.split prod.split)

lemma f_persistScores [simp]: "f (persistScores e) = f e"
  unfolding persistScores_def by (rule fold_frame) simp

lemma f_broadcastVoteState [simp]: "f (broadcastVoteState e) = f e"
  by (simp add: broadcastVoteState_def Let_def fold_frame [where g = f])

lemma f_reenableEligible [simp]: "f (reenableEligible e) = f e"
  unfolding reenableEligible_def by (rule fold_frame) simp

lemma f_sendLost [simp]: "f (sendLost cs e) = f e"
  unfolding sendLost_def by (rule fold_frame) simp

end

subsection \<open>The reveal, the lyrics, the drop point\<close>

locale round_field = quiet_field +
  assumes f_rc: "f (e\<lparr>e_rc := rc\<rparr>) = f e"
    and f_revealTimer: "f (e\<lparr>e_revealTimer := b\<rparr>) = f e"
    and f_revealLocked: "f (e\<lparr>e_revealLocked := b\<rparr>) = f e"
    and f_lyricEnts: "f (e\<lparr>e_lyricEnts := les\<rparr>) = f e"
    and f_lyricCache: "f (e\<lparr>e_lyricCache := lc\<rparr>) = f e"
    and f_curDropPointMs: "f (e\<lparr>e_curDropPointMs := io\<rparr>) = f e"
    and f_rpos: "f (e\<lparr>e_rpos := k\<rparr>) = f e"
begin

lemma f_reveal [simp]:
  "f (clearReveal e) = f e" "f (stopRevealTimer e) = f e" "f (finalizeReveal e) = f e"
  "f (revealFieldFully field e) = f e" "f (startReveal e) = f e"
  by (simp_all add: clearReveal_def stopRevealTimer_def finalizeReveal_def revealFieldFully_def startReveal_def
      Let_def cond_def f_rc f_revealTimer f_revealLocked split: option.split)

lemma f_lyricFetch [simp]: "f (snd (lyricFetch uri a s d e)) = f e"
proof -
  have "f (e\<lparr>e_lyricEnts := les, e_lyricCache := lc\<rparr>) = f e" for les lc
    using f_lyricCache [where e = "e\<lparr>e_lyricEnts := les\<rparr>"] f_lyricEnts by simp
  then show ?thesis by (simp add: lyricFetch_def Let_def split: option.split)
qed

lemma f_lyrics [simp]:
  "f (prefetchLyrics uri a s d e) = f e" "f (sendLyrics rk ent e) = f e" "f (fetchAndSendLyrics e) = f e"
  using f_lyricFetch
  by (auto simp: prefetchLyrics_def sendLyrics_def fetchAndSendLyrics_def Let_def
      split: option.split prod.split) (metis f_lyricFetch snd_conv f_spawn)+

lemma f_soloLyrics [simp]:
  "f (soloSendLyrics tok ent e) = f e" "f (soloKaraokeFetchAndSendLyrics e) = f e"
  "f (broadcastSoloKaraokeNowPlaying e) = f e" "f (broadcastSoloKaraokeActive e) = f e"
  "f (broadcastSoloKaraokeError msg e) = f e"
  using f_lyricFetch
  by (auto simp: soloSendLyrics_def soloKaraokeFetchAndSendLyrics_def broadcastSoloKaraokeNowPlaying_def
      broadcastSoloKaraokeActive_def broadcastSoloKaraokeError_def Let_def
      split: option.split prod.split) (metis f_lyricFetch snd_conv f_spawn)+

lemma f_refreshCurDropPoint [simp]: "f (refreshCurDropPoint e) = f e"
  by (simp add: refreshCurDropPoint_def Let_def f_curDropPointMs split: option.split)

lemma f_draws [simp]: "f (snd (intn n e)) = f e" "f (snd (rngShuffle xs e)) = f e" "f (snd (drawTrack c e)) = f e"
  by (simp_all add: intn_def rngShuffle_def drawTrack_def f_rpos)

lemma f_load [simp]: "f (snd (loadAndPlayTrack t pos e)) = f e"
  by (simp add: loadAndPlayTrack_def Let_def)

lemma f_seekTo [simp]: "f (seekTo pos e) = f e"
  by (simp add: seekTo_def Let_def split: option.split)

end

subsection \<open>State transitions\<close>

locale rule_field = round_field +
  assumes f_state: "f (e\<lparr>e_state := st\<rparr>) = f e"
    and f_session: "f (e\<lparr>e_session := ss\<rparr>) = f e"
    and f_gate: "f (e\<lparr>e_gate := g\<rparr>) = f e"
begin

lemma f_transitionTo [simp]: "f (transitionTo st e) = f e"
proof -
  have "f (e\<lparr>e_state := st, e_session := ss, e_gate := g\<rparr>) = f e" for ss g
    using f_gate [where e = "e\<lparr>e_state := st, e_session := ss\<rparr>"]
      f_session [where e = "e\<lparr>e_state := st\<rparr>"] f_state by simp
  then show ?thesis by (simp add: transitionTo_def)
qed

end

subsection \<open>The fields\<close>

interpretation state_field: round_field e_state by unfold_locales simp_all
interpretation session_field: round_field e_session by unfold_locales simp_all
interpretation gate_field: round_field e_gate by unfold_locales simp_all
interpretation reg_field: rule_field e_reg by unfold_locales simp_all
interpretation curTrack_field: rule_field e_curTrack by unfold_locales simp_all
interpretation curCell_field: rule_field e_curCell by unfold_locales simp_all
interpretation curRow_field: rule_field e_curRow by unfold_locales simp_all
interpretation roundKey_field: rule_field e_roundKey by unfold_locales simp_all
interpretation buzzWinner_field: rule_field e_buzzWinner by unfold_locales simp_all
interpretation partial_field: rule_field e_partial by unfold_locales simp_all
interpretation cellPicker_field: rule_field e_cellPicker by unfold_locales simp_all
interpretation pendingPick_field: rule_field e_pendingPick by unfold_locales simp_all
interpretation karaokeReady_field: rule_field e_karaokeReady by unfold_locales simp_all
interpretation lastScorer_field: rule_field e_lastScorer by unfold_locales simp_all
interpretation board_field: rule_field e_board by unfold_locales simp_all
interpretation heap_field: rule_field e_heap by unfold_locales simp_all
interpretation ddOffer_field: rule_field e_ddOffer by unfold_locales simp_all
interpretation cfg_field: rule_field e_cfg by unfold_locales simp_all
interpretation lock_field: rule_field e_lock by unfold_locales simp_all
interpretation votingPool_field: rule_field e_votingPool by unfold_locales simp_all
interpretation votes_field: rule_field e_votes by unfold_locales simp_all
interpretation ratingPool_field: rule_field e_ratingPool by unfold_locales simp_all
interpretation ratings_field: rule_field e_ratings by unfold_locales simp_all
interpretation buzzWindowOpen_field: rule_field e_buzzWindowOpen by unfold_locales simp_all
interpretation buzzContenders_field: rule_field e_buzzContenders by unfold_locales simp_all
interpretation buzzWindowMs_field: rule_field e_buzzWindowMs by unfold_locales simp_all
interpretation now_field: rule_field e_now by unfold_locales simp_all
interpretation rng_field: rule_field e_rng by unfold_locales simp_all
interpretation solo_field: rule_field e_solo by unfold_locales simp_all
interpretation revealCfg_field: rule_field e_revealCfg by unfold_locales simp_all
interpretation lockErr_field: rule_field e_lockErr by unfold_locales simp_all
interpretation audioErr_field: rule_field e_audioErr by unfold_locales simp_all
interpretation volumePct_field: rule_field e_volumePct by unfold_locales simp_all
interpretation volumeCmds_field: rule_field e_volumeCmds by unfold_locales simp_all
interpretation pausedAtMs_field: rule_field e_pausedAtMs by unfold_locales simp_all
interpretation trackStartMs_field: rule_field e_trackStartMs by unfold_locales simp_all
interpretation cellVisits_field: rule_field e_cellVisits by unfold_locales simp_all
interpretation ddBucketOriginal_field: rule_field e_ddBucketOriginal by unfold_locales simp_all
interpretation roundWinner_field: rule_field e_roundWinner by unfold_locales simp_all
interpretation ddFadingRoundKey_field: rule_field e_ddFadingRoundKey by unfold_locales simp_all
interpretation lastPlayback_field: rule_field e_lastPlayback by unfold_locales simp_all

lemma state_transitionTo [simp]: "e_state (transitionTo st e) = st"
  by (simp add: transitionTo_def)

lemma gate_transitionTo [simp]: "gate_Current (e_gate (transitionTo st e)) = gate_Current (e_gate e) + 1"
  by (simp add: transitionTo_def gate_Bump_def gate_Current_def)

end
