(* ===== verification/Transport.thy ===== *)
theory Transport
  imports Protocol
begin

section \<open>The transport: server/internal/transport\<close>

text \<open>
  The session limiter, the framing of the control stream and the hub that fans frames out
  to the connections. A limiter and a hub are states; a stream is the list of chunks that
  successive reads return. Where a Go \<open>select\<close> has two ready cases the choice is an
  argument.
\<close>

subsection \<open>The session limiter (limiter.go)\<close>

record sessionLimiter =
  sl_total :: int
  sl_perIP :: "(string \<times> int) list"
  sl_maxTotal :: int
  sl_maxPerIP :: int

definition newSessionLimiter :: "int \<Rightarrow> int \<Rightarrow> sessionLimiter" where
  "newSessionLimiter maxTotal maxPerIP =
     \<lparr>sl_total = 0, sl_perIP = [], sl_maxTotal = maxTotal, sl_maxPerIP = maxPerIP\<rparr>"

definition acquire :: "string \<Rightarrow> sessionLimiter \<Rightarrow> bool \<times> sessionLimiter" where
  "acquire ip l =
     (if sl_maxTotal l > 0 \<and> sl_total l \<ge> sl_maxTotal l then (False, l)
      else if sl_maxPerIP l > 0 \<and> get_or 0 (sl_perIP l) ip \<ge> sl_maxPerIP l then (False, l)
      else (True, l\<lparr>sl_total := sl_total l + 1,
              sl_perIP := AList.update ip (get_or 0 (sl_perIP l) ip + 1) (sl_perIP l)\<rparr>))"

definition release :: "string \<Rightarrow> sessionLimiter \<Rightarrow> sessionLimiter" where
  "release ip l =
     (let l1 = (if sl_total l > 0 then l\<lparr>sl_total := sl_total l - 1\<rparr> else l);
          n = get_or 0 (sl_perIP l1) ip
      in if n > 1 then l1\<lparr>sl_perIP := AList.update ip (n - 1) (sl_perIP l1)\<rparr>
         else if n = 1 then l1\<lparr>sl_perIP := AList.delete ip (sl_perIP l1)\<rparr>
         else l1)"

text \<open>
  \<open>envInt\<close>: the value of the variable (the empty string when unset) and what
  \<open>strconv.Atoi\<close> made of it.
\<close>

definition envInt :: "string \<Rightarrow> int option \<Rightarrow> int \<Rightarrow> int" where
  "envInt v parsed dflt =
     (if v = '''' then dflt
      else case parsed of None \<Rightarrow> dflt | Some n \<Rightarrow> if n < 0 then dflt else n)"

definition defaultMaxSessionsTotal :: int where "defaultMaxSessionsTotal = 2000"
definition defaultMaxSessionsPerIP :: int where "defaultMaxSessionsPerIP = 128"

definition newSessionLimiterFromEnv :: "string \<Rightarrow> int option \<Rightarrow> string \<Rightarrow> int option \<Rightarrow> sessionLimiter" where
  "newSessionLimiterFromEnv v1 p1 v2 p2 =
     newSessionLimiter (envInt v1 p1 defaultMaxSessionsTotal) (envInt v2 p2 defaultMaxSessionsPerIP)"

text \<open>
  The contract: the limiter holds a multiset of live sessions, one entry per session, and
  admits a session while neither cap is reached.
\<close>

definition limiter_holds :: "sessionLimiter \<Rightarrow> string multiset \<Rightarrow> bool" where
  "limiter_holds l M \<longleftrightarrow> sl_total l = int (size M) \<and>
     (\<forall>ip. get_or 0 (sl_perIP l) ip = int (count M ip))"

definition admits :: "int \<Rightarrow> int \<Rightarrow> string multiset \<Rightarrow> string \<Rightarrow> bool" where
  "admits maxTotal maxPerIP M ip \<longleftrightarrow>
     (maxTotal > 0 \<longrightarrow> int (size M) < maxTotal) \<and> (maxPerIP > 0 \<longrightarrow> int (count M ip) < maxPerIP)"

lemma acquire_refines:
  assumes "limiter_holds l M"
  shows "fst (acquire ip l) \<longleftrightarrow> admits (sl_maxTotal l) (sl_maxPerIP l) M ip"
    and "limiter_holds (snd (acquire ip l)) (if fst (acquire ip l) then add_mset ip M else M)"
  using assms by (auto simp: limiter_holds_def acquire_def admits_def)

lemma release_refines:
  assumes "limiter_holds l M" and "ip \<in># M"
  shows "limiter_holds (release ip l) (M - {#ip#})"
proof -
  have "0 < count M ip" "0 < size M" using assms(2) by (auto simp: nonempty_has_size [symmetric])
  with assms show ?thesis
    by (auto simp: limiter_holds_def release_def Let_def size_Diff_singleton of_nat_diff Suc_leI)
qed

lemma limiter_caps [simp]:
  "sl_maxTotal (snd (acquire ip l)) = sl_maxTotal l" "sl_maxPerIP (snd (acquire ip l)) = sl_maxPerIP l"
  "sl_maxTotal (release ip l) = sl_maxTotal l" "sl_maxPerIP (release ip l) = sl_maxPerIP l"
  by (simp_all add: acquire_def release_def Let_def)

text \<open>
  A run of the accept loop: a session of \<open>ip\<close> arrives, or one of the live sessions ends
  (ws.go and server.go release exactly once, and only what was admitted).
\<close>

datatype session_event = Arrive string | Leave string

fun limiterRun :: "session_event list \<Rightarrow> sessionLimiter \<times> string multiset \<Rightarrow> sessionLimiter \<times> string multiset" where
  "limiterRun [] s = s"
| "limiterRun (Arrive ip # es) (l, M) =
     (case acquire ip l of (ok, l') \<Rightarrow> limiterRun es (l', if ok then add_mset ip M else M))"
| "limiterRun (Leave ip # es) (l, M) =
     (if ip \<in># M then limiterRun es (release ip l, M - {#ip#}) else limiterRun es (l, M))"

definition within_caps :: "sessionLimiter \<Rightarrow> string multiset \<Rightarrow> bool" where
  "within_caps l M \<longleftrightarrow> (sl_maxTotal l > 0 \<longrightarrow> int (size M) \<le> sl_maxTotal l) \<and>
     (sl_maxPerIP l > 0 \<longrightarrow> (\<forall>ip. int (count M ip) \<le> sl_maxPerIP l))"

lemma within_caps_release:
  assumes "within_caps l M"
  shows "within_caps (release ip l) (M - {#ip#})"
proof -
  have "int (count (M - {#ip#}) x) \<le> int (count M x)" "int (size (M - {#ip#})) \<le> int (size M)" for x
    by (simp_all add: size_mset_mono)
  then show ?thesis using assms unfolding within_caps_def limiter_caps by (meson order_trans)
qed

lemma limiterRun_invariant:
  assumes "limiter_holds l M" and "within_caps l M" and "limiterRun es (l, M) = (l', M')"
  shows "limiter_holds l' M' \<and> within_caps l' M' \<and> sl_maxTotal l' = sl_maxTotal l \<and> sl_maxPerIP l' = sl_maxPerIP l"
  using assms
proof (induction es arbitrary: l M)
  case Nil
  then show ?case by simp
next
  case (Cons ev es)
  show ?case
  proof (cases ev)
    case (Arrive ip)
    have caps: "within_caps (snd (acquire ip l)) (if fst (acquire ip l) then add_mset ip M else M)"
      using Cons.prems(2) acquire_refines(1) [OF Cons.prems(1), of ip]
      by (auto simp: within_caps_def admits_def)
    from Cons.IH [OF acquire_refines(2) [OF Cons.prems(1)] caps] Cons.prems(3) show ?thesis
      by (simp add: Arrive case_prod_beta)
  next
    case (Leave ip)
    show ?thesis
    proof (cases "ip \<in># M")
      case True
      from Cons.IH [OF release_refines [OF Cons.prems(1) True] within_caps_release [OF Cons.prems(2)]] Cons.prems(3) True show ?thesis
        by (simp add: Leave)
    next
      case False
      then show ?thesis using Cons by (simp add: Leave)
    qed
  qed
qed

subsection \<open>Framing (framing.go)\<close>

type_synonym bytes = "8 word list"

definition maxFrameLen :: nat where "maxFrameLen = 2 ^ 20"
definition frameHeaderLen :: nat where "frameHeaderLen = 4"

definition PutUint32 :: "nat \<Rightarrow> bytes" where
  "PutUint32 n = [of_nat (n div 2 ^ 24), of_nat (n div 2 ^ 16), of_nat (n div 2 ^ 8), of_nat n]"

definition Uint32 :: "bytes \<Rightarrow> nat" where
  "Uint32 bs = fold (\<lambda>b n. 256 * n + unat b) bs 0"

definition encodeFrame :: "bytes \<Rightarrow> bytes" where
  "encodeFrame body = PutUint32 (length body mod 2 ^ 32) @ body"

datatype take_result = NeedMore | TooLong nat | Taken bytes bytes

definition takeFrame :: "bytes \<Rightarrow> take_result" where
  "takeFrame buf =
     (if length buf < frameHeaderLen then NeedMore
      else
        (let n = Uint32 (take frameHeaderLen buf)
         in if n > maxFrameLen then TooLong n
            else
              (let total = frameHeaderLen + n
               in if length buf < total then NeedMore
                  else Taken (take n (drop frameHeaderLen buf)) (drop total buf))))"

datatype read_error = EOF | UnexpectedEOF | ReadErr string | FrameTooLong nat

text \<open>
  \<open>ReadFrame\<close> on a reader that returns the chunks one after the other and then the error
  \<open>fin\<close>; \<open>buf\<close> is what is buffered. The result is the body or the error, with the
  buffer and the chunks that are left.
\<close>

fun ReadFrame :: "read_error \<Rightarrow> bytes list \<Rightarrow> bytes \<Rightarrow> (read_error + bytes) \<times> bytes \<times> bytes list" where
  "ReadFrame fin [] buf =
     (case takeFrame buf of
        TooLong n \<Rightarrow> (Inl (FrameTooLong n), buf, [])
      | Taken body rest \<Rightarrow> (Inr body, rest, [])
      | NeedMore \<Rightarrow> (Inl (if fin = EOF \<and> buf \<noteq> [] then UnexpectedEOF else fin), buf, []))"
| "ReadFrame fin (c # cs) buf =
     (case takeFrame buf of
        TooLong n \<Rightarrow> (Inl (FrameTooLong n), buf, c # cs)
      | Taken body rest \<Rightarrow> (Inr body, rest, c # cs)
      | NeedMore \<Rightarrow> ReadFrame fin cs (buf @ c))"

lemma takeFrame_shrinks: "takeFrame buf = Taken body rest \<Longrightarrow> length rest < length buf"
  by (auto simp: takeFrame_def frameHeaderLen_def Let_def split: if_splits)

lemma ReadFrame_shrinks:
  "ReadFrame fin cs buf = (Inr body, buf', cs') \<Longrightarrow>
   length buf' + sum_list (map length cs') < length buf + sum_list (map length cs)"
  by (induction fin cs buf rule: ReadFrame.induct) (fastforce dest: takeFrame_shrinks split: take_result.splits)+

text \<open>The read loop of a connection: all bodies up to the error that ends it.\<close>

function readLoop :: "read_error \<Rightarrow> bytes list \<Rightarrow> bytes \<Rightarrow> bytes list \<times> read_error" where
  "readLoop fin cs buf =
     (case ReadFrame fin cs buf of
        (Inl err, _, _) \<Rightarrow> ([], err)
      | (Inr body, buf', cs') \<Rightarrow> (case readLoop fin cs' buf' of (bodies, err) \<Rightarrow> (body # bodies, err)))"
  by pat_completeness auto
termination
  by (relation "measure (\<lambda>(fin, cs, buf). length buf + sum_list (map length cs))")
    (auto dest: ReadFrame_shrinks ReadFrame_shrinks [OF sym])

declare readLoop.simps [simp del]

text \<open>
  The interface of a self-delimiting codec, as the read loop uses it: an encoded body is
  taken off the front of a buffer whatever follows it, and a proper prefix of an encoding
  asks for more.
\<close>

locale frame_codec =
  fixes enc :: "bytes \<Rightarrow> bytes" and tk :: "bytes \<Rightarrow> take_result" and valid :: "bytes \<Rightarrow> bool"
  assumes take_enc: "valid b \<Longrightarrow> tk (enc b @ rest) = Taken b rest"
    and take_prefix: "valid b \<Longrightarrow> enc b = p @ q \<Longrightarrow> q \<noteq> [] \<Longrightarrow> tk p = NeedMore"
begin

lemma take_front:
  assumes "valid b" and "buf @ r = enc b @ rest"
  shows "tk buf = NeedMore \<and> r \<noteq> [] \<or> (\<exists>r'. tk buf = Taken b r' \<and> r' @ r = rest)"
proof -
  from assms(2) obtain us where
    us: "buf = enc b @ us \<and> us @ r = rest \<or> enc b = buf @ us \<and> r = us @ rest"
    by (metis append_eq_append_conv2 [of buf r "enc b" rest])
  then show ?thesis
    using take_enc [OF assms(1), of us] take_enc [OF assms(1), of "[]"] take_prefix [OF assms(1), of buf us]
    by (cases "us = []") auto
qed

end

lemma unat_byte: "unat (of_nat k :: 8 word) = k mod 256"
  by (simp add: unat_of_nat)

lemma Uint32_PutUint32:
  assumes "n < 2 ^ 32"
  shows "Uint32 (PutUint32 n) = n"
proof -
  define a b c where "a = n div 256" and "b = a div 256" and "c = b div 256"
  have d: "n div 2 ^ 24 = c" "n div 2 ^ 16 = b" "n div 2 ^ 8 = a"
    by (simp_all add: a_def b_def c_def div_mult2_eq [symmetric])
  have "c < 256" using assms by (simp add: d [symmetric] less_mult_imp_div_less)
  then have "c mod 256 = c" by simp
  moreover have "256 * a + n mod 256 = n" "256 * b + a mod 256 = a" "256 * c + b mod 256 = b"
    by (simp_all add: a_def b_def c_def)
  ultimately show ?thesis
    unfolding Uint32_def PutUint32_def list.map fold.simps comp_def id_apply unat_byte d by simp
qed

lemma length_PutUint32 [simp]: "length (PutUint32 n) = 4"
  by (simp add: PutUint32_def)

lemma takeFrame_encode:
  assumes "length body \<le> maxFrameLen"
  shows "takeFrame (encodeFrame body @ rest) = Taken body rest"
proof -
  have "length body < 2 ^ 32" using assms by (simp add: maxFrameLen_def)
  then show ?thesis using assms
    by (simp add: takeFrame_def encodeFrame_def frameHeaderLen_def Uint32_PutUint32)
qed

lemma takeFrame_partial:
  assumes "length body \<le> maxFrameLen" and "encodeFrame body = p @ q" and "q \<noteq> []"
  shows "takeFrame p = NeedMore"
proof (cases "length p < 4")
  case True
  then show ?thesis by (simp add: takeFrame_def frameHeaderLen_def)
next
  case False
  have n: "length body < 2 ^ 32" using assms(1) by (simp add: maxFrameLen_def)
  have "take 4 p = take 4 (encodeFrame body)" using False by (simp add: assms(2))
  then have "take 4 p = PutUint32 (length body)" using n by (simp add: encodeFrame_def)
  moreover have "length p < 4 + length body"
  proof -
    have "length p + length q = 4 + length body"
      using arg_cong [OF assms(2), of length] by (simp add: encodeFrame_def)
    then show ?thesis using assms(3) by (cases q) auto
  qed
  ultimately show ?thesis
    using False n assms(1) by (simp add: takeFrame_def frameHeaderLen_def Uint32_PutUint32 Let_def)
qed

interpretation wire: frame_codec encodeFrame takeFrame "\<lambda>b. length b \<le> maxFrameLen"
  by unfold_locales (fact takeFrame_encode, fact takeFrame_partial)

lemma ReadFrame_front:
  assumes "length b \<le> maxFrameLen" and "buf @ concat cs = encodeFrame b @ rest"
  shows "\<exists>buf' cs'. ReadFrame fin cs buf = (Inr b, buf', cs') \<and> buf' @ concat cs' = rest"
  using assms(2)
proof (induction cs arbitrary: buf)
  case Nil
  then show ?case using wire.take_front [OF assms(1), of buf "[]" rest] by auto
next
  case (Cons c cs)
  consider "takeFrame buf = NeedMore" | r' where "takeFrame buf = Taken b r'" "r' @ concat (c # cs) = rest"
    using wire.take_front [OF assms(1), of buf "concat (c # cs)" rest] Cons.prems by auto
  then show ?case
    using Cons.IH [of "buf @ c"] Cons.prems by cases auto
qed

lemma ReadFrame_rest:
  assumes "length b \<le> maxFrameLen" and "encodeFrame b = (buf @ concat cs) @ q" and "q \<noteq> []"
  shows "fst (ReadFrame EOF cs buf) = Inl (if buf @ concat cs = [] then EOF else UnexpectedEOF)"
  using assms(2)
proof (induction cs arbitrary: buf)
  case Nil
  then show ?case using takeFrame_partial [OF assms(1) _ assms(3), of buf] by simp
next
  case (Cons c cs)
  have "takeFrame buf = NeedMore"
    using takeFrame_partial [OF assms(1), of buf "concat (c # cs) @ q"] Cons.prems assms(3) by simp
  then show ?case using Cons by simp
qed

lemma readLoop_frames:
  assumes "\<forall>b \<in> set bodies. length b \<le> maxFrameLen"
    and "length b \<le> maxFrameLen" and "encodeFrame b = p @ q" and "q \<noteq> []"
    and "buf @ concat cs = concat (map encodeFrame bodies) @ p"
  shows "readLoop EOF cs buf = (bodies, if p = [] then EOF else UnexpectedEOF)"
  using assms(1,5)
proof (induction bodies arbitrary: buf cs)
  case Nil
  then have "buf @ concat cs = p" by simp
  with ReadFrame_rest [OF assms(2) _ assms(4), of buf cs] assms(3)
  have "fst (ReadFrame EOF cs buf) = Inl (if p = [] then EOF else UnexpectedEOF)" by simp
  then obtain buf' cs' where "ReadFrame EOF cs buf = (Inl (if p = [] then EOF else UnexpectedEOF), buf', cs')"
    by (metis prod.collapse)
  then show ?case by (subst readLoop.simps) simp
next
  case (Cons x bodies)
  then obtain buf' cs' where "ReadFrame EOF cs buf = (Inr x, buf', cs')"
    "buf' @ concat cs' = concat (map encodeFrame bodies) @ p"
    using ReadFrame_front [of x buf cs "concat (map encodeFrame bodies) @ p" EOF] by auto
  with Cons show ?case by (subst readLoop.simps) simp
qed

subsection \<open>The hub (hub.go)\<close>

text \<open>
  A connection as the hub sees it: its role, the bounded queue of its writer goroutine, the
  sequence number the writer stamps, whether it was stopped, the bytes written to its
  stream, and whether its writer goroutine has returned. JSON encoding is the parameter \<open>marshal\<close> (None: an encoding error); \<open>werr\<close>
  says whether the write fails.
\<close>

definition sendQueueDepth :: nat where "sendQueueDepth = 64"

record hubConn =
  hc_role :: role
  hc_out :: "serverEnvelope list"
  hc_seq :: u64
  hc_closed :: bool
  hc_wire :: bytes
  hc_returned :: bool

type_synonym hub = "(connID \<times> hubConn) list"

definition hub_add :: "connID \<Rightarrow> hub \<Rightarrow> hub" where
  "hub_add cid h = AList.update cid
     \<lparr>hc_role = RoleMobile, hc_out = [], hc_seq = 0, hc_closed = False, hc_wire = [],
       hc_returned = False\<rparr> h"

definition hub_remove :: "connID \<Rightarrow> hub \<Rightarrow> hub" where
  "hub_remove cid h = AList.delete cid h"

definition updConn :: "connID \<Rightarrow> (hubConn \<Rightarrow> hubConn) \<Rightarrow> hub \<Rightarrow> hub" where
  "updConn cid f h = map (\<lambda>(k, c). (k, if k = cid then f c else c)) h"

definition SetRole :: "connID \<Rightarrow> role \<Rightarrow> hub \<Rightarrow> hub" where
  "SetRole cid r = updConn cid (\<lambda>c. c\<lparr>hc_role := r\<rparr>)"

definition conn_stop :: "hubConn \<Rightarrow> hubConn" where
  "conn_stop c = c\<lparr>hc_closed := True\<rparr>"

text \<open>
  \<open>pick\<close>: the choice of the select when the connection is closed and its queue has room; a
  fan-out makes one for each connection.
\<close>

definition enqueue :: "bool \<Rightarrow> serverEnvelope \<Rightarrow> hubConn \<Rightarrow> hubConn" where
  "enqueue pick m c =
     (if length (hc_out c) < sendQueueDepth
      then (if hc_closed c \<and> pick then c else c\<lparr>hc_out := hc_out c @ [m]\<rparr>)
      else if hc_closed c then c
      else conn_stop c)"

definition hub_SendTo :: "(connID \<Rightarrow> bool) \<Rightarrow> connID \<Rightarrow> serverEnvelope \<Rightarrow> hub \<Rightarrow> hub" where
  "hub_SendTo pick cid m = updConn cid (enqueue (pick cid) m)"

definition hub_Broadcast :: "(connID \<Rightarrow> bool) \<Rightarrow> role \<Rightarrow> serverEnvelope \<Rightarrow> hub \<Rightarrow> hub" where
  "hub_Broadcast pick r m h = map (\<lambda>(k, c). (k, if hc_role c = r then enqueue (pick k) m c else c)) h"

definition hub_BroadcastAll :: "(connID \<Rightarrow> bool) \<Rightarrow> serverEnvelope \<Rightarrow> hub \<Rightarrow> hub" where
  "hub_BroadcastAll pick m h = map (\<lambda>(k, c). (k, enqueue (pick k) m c)) h"

text \<open>The role the read loop attaches to a message (server.go).\<close>

definition roleOf :: "connID \<Rightarrow> hub \<Rightarrow> role" where
  "roleOf cid h = (case map_of h cid of None \<Rightarrow> RoleMobile | Some c \<Rightarrow> hc_role c)"

text \<open>
  One turn of the writer goroutine; on a closed connection \<open>pick\<close> chooses to return. After a
  return there are no more turns.
\<close>

definition writeStep :: "(serverEnvelope \<Rightarrow> bytes option) \<Rightarrow> bool \<Rightarrow> bool \<Rightarrow> hubConn \<Rightarrow> hubConn" where
  "writeStep marshal werr pick c =
     (if hc_returned c then c
      else if hc_closed c \<and> (pick \<or> hc_out c = []) then c\<lparr>hc_returned := True\<rparr>
      else case hc_out c of [] \<Rightarrow> c
      | m # rest \<Rightarrow>
        (let seq = hc_seq c + 1; c1 = c\<lparr>hc_out := rest, hc_seq := seq\<rparr>
         in case marshal (m\<lparr>ev_Seq := seq\<rparr>) of
              None \<Rightarrow> c1
            | Some body \<Rightarrow>
                if werr then (conn_stop c1)\<lparr>hc_returned := True\<rparr>
                else c1\<lparr>hc_wire := hc_wire c1 @ encodeFrame body\<rparr>))"

text \<open>The bytes of a list of envelopes on the wire.\<close>

definition wireOf :: "(serverEnvelope \<Rightarrow> bytes option) \<Rightarrow> serverEnvelope list \<Rightarrow> bytes" where
  "wireOf marshal ms = concat (map (\<lambda>m. encodeFrame (the (marshal m))) ms)"

lemma enqueue_bounded: "length (hc_out c) \<le> sendQueueDepth \<Longrightarrow> length (hc_out (enqueue pick m c)) \<le> sendQueueDepth"
  by (simp add: enqueue_def conn_stop_def sendQueueDepth_def)

lemma enqueue_role [simp]: "hc_role (enqueue pick m c) = hc_role c"
  by (simp add: enqueue_def conn_stop_def)

lemma map_of_map_conn:
  "map_of (map (\<lambda>(k, c). (k, f k c)) h) cid = map_option (f cid) (map_of h cid)"
  by (induction h) auto

end
