(* ===== verification/System.thy ===== *)
theory System
  imports Safety Frames Transport
begin

section \<open>The whole server: engine, hub and sessions\<close>

text \<open>
  The composition of the command loop with the transport, as server.go and ws.go wire it: a
  session is admitted by the limiter, registered with the hub and announced to the engine; each
  frame that decodes is forwarded with the role the hub has for the connection at that moment;
  the loop takes the submitted commands in order, and what the engine emits goes to the
  queues of the hub's connections or changes a role there. The commands that no connection
  submits (timers, ticks, the HTTP API) run at any time. \<open>sy_log\<close>, the commands run so far, is
  there for the statements only.
\<close>

record system =
  sy_engine :: engine
  sy_hub :: hub
  sy_limiter :: sessionLimiter
  sy_connSeq :: nat
  sy_sessions :: "(connID \<times> string) list"
  sy_cmds :: "command list"
  sy_log :: "command list"

text \<open>The capacity of the engine's command channel; a submitter waits while it is full.\<close>

definition cmdsDepth :: nat where "cmdsDepth = 256"

definition submit :: "command \<Rightarrow> system \<Rightarrow> system" where
  "submit c s = s\<lparr>sy_cmds := sy_cmds s @ [c]\<rparr>"

subsection \<open>Sessions\<close>

text \<open>The beginning of \<open>serveStream\<close>: a fresh connection ID, the hub, the engine.\<close>

definition serveOpen :: "string \<Rightarrow> system \<Rightarrow> system" where
  "serveOpen ip s =
     (let n = sy_connSeq s + 1; cid = ''c'' @ itoa (int n)
      in submit (Connect cid ip) (s\<lparr>sy_connSeq := n, sy_hub := hub_add cid (sy_hub s),
           sy_sessions := sy_sessions s @ [(cid, ip)]\<rparr>))"

text \<open>\<open>opened\<close>: the upgrade succeeded and the client opened its control stream.\<close>

definition handleSession :: "string \<Rightarrow> bool \<Rightarrow> system \<Rightarrow> system" where
  "handleSession ip opened s =
     (case acquire ip (sy_limiter s) of
        (False, l) \<Rightarrow> s\<lparr>sy_limiter := l\<rparr>
      | (True, l) \<Rightarrow> if opened then serveOpen ip (s\<lparr>sy_limiter := l\<rparr>)
                     else s\<lparr>sy_limiter := release ip l\<rparr>)"

text \<open>One turn of the read loop: \<open>None\<close> is a frame that does not decode.\<close>

definition serveFrame :: "connID \<Rightarrow> clientEnvelope option \<Rightarrow> int \<Rightarrow> system \<Rightarrow> system" where
  "serveFrame cid decoded arrivalMs s =
     (case decoded of None \<Rightarrow> s
      | Some m \<Rightarrow> submit (Message cid (roleOf cid (sy_hub s)) m arrivalMs) s)"

text \<open>The deferred calls when the read loop ends, and the release of the session.\<close>

definition serveClose :: "connID \<Rightarrow> string \<Rightarrow> system \<Rightarrow> system" where
  "serveClose cid ip s =
     (submit (Disconnect cid) s)\<lparr>sy_hub := hub_remove cid (sy_hub s),
        sy_sessions := AList.delete cid (sy_sessions s), sy_limiter := release ip (sy_limiter s)\<rparr>"

subsection \<open>The loop and the writers\<close>

text \<open>The Broadcaster and the RoleSetter of the engine are the hub.\<close>

fun deliver :: "(connID \<Rightarrow> bool) \<Rightarrow> outp \<Rightarrow> hub \<Rightarrow> hub" where
  "deliver pick (Frame ToAll m) = hub_BroadcastAll pick m"
| "deliver pick (Frame (ToRole r) m) = hub_Broadcast pick r m"
| "deliver pick (Frame (ToConn cid) m) = hub_SendTo pick cid m"
| "deliver pick (RoleSet cid r) = SetRole cid r"
| "deliver pick _ = id"

definition runAndDeliver :: "env \<Rightarrow> (connID \<Rightarrow> bool) \<Rightarrow> command \<Rightarrow> system \<Rightarrow> system" where
  "runAndDeliver v pick c s =
     (let e = runCommand v c (sy_engine s); new = drop (length (e_out (sy_engine s))) (e_out e)
      in s\<lparr>sy_engine := e, sy_hub := fold (deliver pick) new (sy_hub s), sy_log := sy_log s @ [c]\<rparr>)"

text \<open>
  The events. \<open>OwnCommand\<close> runs a command that comes from no connection.
\<close>

datatype sys_event =
    SessionArrives string bool
  | FrameArrives connID "clientEnvelope option" int
  | SessionEnds connID
  | RunNext env "connID \<Rightarrow> bool"
  | OwnCommand env "connID \<Rightarrow> bool" command
  | WriterTurn connID bool bool

fun fromConn :: "command \<Rightarrow> bool" where
  "fromConn (Connect _ _) = True"
| "fromConn (Message _ _ _ _) = True"
| "fromConn (Disconnect _) = True"
| "fromConn _ = False"

fun sysStep :: "(serverEnvelope \<Rightarrow> bytes option) \<Rightarrow> sys_event \<Rightarrow> system \<Rightarrow> system" where
  "sysStep marshal (SessionArrives ip opened) s =
     (if length (sy_cmds s) < cmdsDepth then handleSession ip opened s else s)"
| "sysStep marshal (FrameArrives cid decoded ms) s =
     (if map_of (sy_sessions s) cid \<noteq> None \<and> length (sy_cmds s) < cmdsDepth then serveFrame cid decoded ms s else s)"
| "sysStep marshal (SessionEnds cid) s =
     (case map_of (sy_sessions s) cid of None \<Rightarrow> s
      | Some ip \<Rightarrow> if length (sy_cmds s) < cmdsDepth then serveClose cid ip s else s)"
| "sysStep marshal (RunNext v pick) s =
     (case sy_cmds s of [] \<Rightarrow> s | c # cs \<Rightarrow> runAndDeliver v pick c (s\<lparr>sy_cmds := cs\<rparr>))"
| "sysStep marshal (OwnCommand v pick c) s =
     (if fromConn c \<or> \<not> command_ok c then s else runAndDeliver v pick c s)"
| "sysStep marshal (WriterTurn cid werr pick) s =
     s\<lparr>sy_hub := updConn cid (writeStep marshal werr pick) (sy_hub s)\<rparr>"

definition startServer :: "engine \<Rightarrow> int \<Rightarrow> int \<Rightarrow> system" where
  "startServer e maxTotal maxPerIP = \<lparr>sy_engine = e, sy_hub = [], sy_limiter = newSessionLimiter maxTotal maxPerIP,
     sy_connSeq = 0, sy_sessions = [], sy_cmds = [], sy_log = []\<rparr>"

inductive sys_reachable :: "(serverEnvelope \<Rightarrow> bytes option) \<Rightarrow> system \<Rightarrow> bool" for marshal where
  start: "sys_reachable marshal (startServer (boot loaded (NewEngine cfg rng h)) maxTotal maxPerIP)"
| step: "sys_reachable marshal s \<Longrightarrow> sys_reachable marshal (sysStep marshal ev s)"

subsection \<open>Who has shown the secret\<close>

text \<open>
  Connection \<open>k\<close> has presented the admin secret: a Hello of it that asks for a trusted role and
  carries the configured secret (any, when none is configured) has been run.
\<close>

definition presented :: "system \<Rightarrow> connID \<Rightarrow> bool" where
  "presented s k \<longleftrightarrow> (\<exists>r m a. Message k r m a \<in> set (sy_log s) \<and> helloTrusted (sy_engine s) (ce_body m))"

definition safeFor :: "bool \<Rightarrow> serverEnvelope \<Rightarrow> bool" where
  "safeFor known m \<longleftrightarrow> mobileSafe (ev_msg m) \<or> isOffer (ev_msg m) \<or> known"

definition conn_ok :: "(serverEnvelope \<Rightarrow> bytes option) \<Rightarrow> bool \<Rightarrow> hubConn \<Rightarrow> bool" where
  "conn_ok marshal known c \<longleftrightarrow> (TrustedReveal (hc_role c) \<longrightarrow> known) \<and> (\<forall>m \<in> set (hc_out c). safeFor known m) \<and>
     (\<exists>ms. hc_wire c = wireOf marshal ms \<and> (\<forall>m \<in> set ms. safeFor known m \<and> marshal m \<noteq> None))"

definition hub_ok :: "(serverEnvelope \<Rightarrow> bytes option) \<Rightarrow> (connID \<Rightarrow> bool) \<Rightarrow> hub \<Rightarrow> bool" where
  "hub_ok marshal P h \<longleftrightarrow> (\<forall>(k, c) \<in> set h. conn_ok marshal (P k) c)"

lemma conn_ok_mono: "conn_ok marshal p c \<Longrightarrow> (p \<Longrightarrow> q) \<Longrightarrow> conn_ok marshal q c"
  unfolding conn_ok_def safeFor_def by blast

lemma hub_ok_mono: "hub_ok marshal P h \<Longrightarrow> (\<And>k. P k \<Longrightarrow> P' k) \<Longrightarrow> hub_ok marshal P' h"
  unfolding hub_ok_def by (auto intro: conn_ok_mono)

lemma conn_ok_enqueue: "conn_ok marshal known c \<Longrightarrow> safeFor known m \<Longrightarrow> conn_ok marshal known (enqueue pick m c)"
  by (auto simp: conn_ok_def enqueue_def conn_stop_def)

lemma conn_ok_wire:
  "conn_ok marshal known c \<Longrightarrow> \<forall>m \<in> set ms. safeFor known m \<and> marshal m \<noteq> None \<Longrightarrow>
     conn_ok marshal known (c\<lparr>hc_wire := wireOf marshal ms\<rparr>)"
  unfolding conn_ok_def by auto

lemma conn_ok_write:
  assumes "conn_ok marshal known c"
  shows "conn_ok marshal known (writeStep marshal werr pick c)"
proof (cases "hc_returned c \<or> hc_closed c \<and> pick \<or> hc_out c = []")
  case True
  with assms show ?thesis by (auto simp: writeStep_def conn_ok_def)
next
  case False
  then obtain m rest where out: "hc_out c = m # rest" by (cases "hc_out c") auto
  let ?m = "m\<lparr>ev_Seq := hc_seq c + 1\<rparr>"
  let ?c = "c\<lparr>hc_out := rest, hc_seq := hc_seq c + 1\<rparr>"
  from assms out have m: "safeFor known ?m" and c: "conn_ok marshal known ?c"
    by (auto simp: conn_ok_def safeFor_def)
  from assms obtain ms where ms: "hc_wire c = wireOf marshal ms" "\<forall>m \<in> set ms. safeFor known m \<and> marshal m \<noteq> None"
    by (auto simp: conn_ok_def)
  have "conn_ok marshal known (?c\<lparr>hc_wire := hc_wire c @ encodeFrame body\<rparr>)" if "marshal ?m = Some body" for body
  proof -
    have "hc_wire c @ encodeFrame body = wireOf marshal (ms @ [?m])" using ms(1) that by (simp add: wireOf_def)
    moreover have "\<forall>m \<in> set (ms @ [?m]). safeFor known m \<and> marshal m \<noteq> None" using ms(2) m that by auto
    ultimately show ?thesis using conn_ok_wire [OF c] by simp
  qed
  moreover have "conn_ok marshal known ((conn_stop ?c)\<lparr>hc_returned := True\<rparr>)" using c by (simp add: conn_ok_def conn_stop_def)
  ultimately show ?thesis using False out c by (auto simp: writeStep_def Let_def split: option.split)
qed

lemma hub_ok_updConn:
  assumes "hub_ok marshal P h" and "\<And>c. conn_ok marshal (P cid) c \<Longrightarrow> conn_ok marshal (P cid) (f c)"
  shows "hub_ok marshal P (updConn cid f h)"
  using assms by (fastforce simp: hub_ok_def updConn_def)

lemma hub_ok_add: "hub_ok marshal P h \<Longrightarrow> hub_ok marshal P (hub_add cid h)"
proof -
  assume h: "hub_ok marshal P h"
  have "conn_ok marshal known \<lparr>hc_role = RoleMobile, hc_out = [], hc_seq = 0, hc_closed = False, hc_wire = [], hc_returned = False\<rparr>" for known
    by (auto simp: conn_ok_def wireOf_def intro!: exI [of _ "[]"])
  with h show ?thesis by (auto simp: hub_ok_def hub_add_def dest!: mem_update)
qed

lemma hub_ok_remove: "hub_ok marshal P h \<Longrightarrow> hub_ok marshal P (hub_remove cid h)"
  by (auto simp: hub_ok_def hub_remove_def dest!: mem_delete)

text \<open>What the engine puts out under its sanitization rule keeps the hub sound.\<close>

lemma hub_ok_deliver:
  assumes "hub_ok marshal P h" and "out_safe T off x" and "\<And>k. k \<in> T \<Longrightarrow> P k"
  shows "hub_ok marshal P (deliver pick x h)"
proof (cases x)
  case (Frame t m)
  show ?thesis
  proof (cases t)
    case ToAll
    with Frame assms show ?thesis
      by (auto simp: hub_ok_def hub_BroadcastAll_def safeFor_def intro!: conn_ok_enqueue)
  next
    case (ToRole r)
    have "conn_ok marshal (P k) (enqueue (pick k) m c)" if "(k, c) \<in> set h" "hc_role c = r" for k c
    proof -
      have ok: "conn_ok marshal (P k) c" using assms(1) that(1) by (auto simp: hub_ok_def)
      then have "TrustedReveal r \<Longrightarrow> P k" using that(2) by (simp add: conn_ok_def)
      with assms(2) Frame ToRole have "safeFor (P k) m" by (auto simp: safeFor_def)
      with ok show ?thesis by (rule conn_ok_enqueue)
    qed
    with Frame ToRole assms(1) show ?thesis by (auto simp: hub_ok_def hub_Broadcast_def)
  next
    case (ToConn cid)
    with Frame assms(2,3) have "safeFor (P cid) m" by (auto simp: safeFor_def)
    with Frame ToConn assms(1) show ?thesis
      by (auto simp: hub_SendTo_def intro!: hub_ok_updConn conn_ok_enqueue)
  qed
next
  case (RoleSet cid r)
  have "conn_ok marshal (P cid) (c\<lparr>hc_role := r\<rparr>)" if "conn_ok marshal (P cid) c" for c
    using that assms(2,3) RoleSet by (auto simp: conn_ok_def)
  with RoleSet assms(1) show ?thesis by (auto simp: SetRole_def intro!: hub_ok_updConn)
qed (use assms(1) in simp_all)

lemma hub_ok_delivers:
  assumes "\<forall>x \<in> set xs. out_safe T off x" and "hub_ok marshal P h" and "\<And>k. k \<in> T \<Longrightarrow> P k"
  shows "hub_ok marshal P (fold (deliver pick) xs h)"
  by (rule fold_invariant_gen [where P = "hub_ok marshal P"]) (use assms in \<open>auto intro: hub_ok_deliver\<close>)

subsection \<open>The configuration never changes\<close>

interpretation cfgKept: command_inv "\<lambda>s. engine_ok s \<and> e_cfg s = g" UNIV UNIV for g
  by unfold_locales (simp_all add: cfg_field.f_emit cfg_field.f_effect cfg_field.f_transitionTo)

lemma cfg_runCommand:
  assumes "reachable e" and "command_ok c"
  shows "e_cfg (runCommand v c e) = e_cfg e"
  using cfgKept.Q_runCommand [OF _ subset_UNIV subset_UNIV assms(2), of e "e_cfg e" v] reachable_ok [OF assms(1)]
  by simp

lemma helloTrusted_cong: "e_cfg e = e_cfg e' \<Longrightarrow> helloTrusted e m = helloTrusted e' m"
  by (simp add: helloTrusted_def split: client_body.split sum.split)

subsection \<open>The invariant of the server\<close>

definition cmd_ok :: "system \<Rightarrow> command \<Rightarrow> bool" where
  "cmd_ok s c \<longleftrightarrow> fromConn c \<and> (\<forall>k r m a. c = Message k r m a \<longrightarrow> TrustedReveal r \<longrightarrow> presented s k)"

definition sys_ok :: "(serverEnvelope \<Rightarrow> bytes option) \<Rightarrow> system \<Rightarrow> bool" where
  "sys_ok marshal s \<longleftrightarrow> reachable (sy_engine s) \<and> hub_ok marshal (presented s) (sy_hub s) \<and>
     (\<forall>c \<in> set (sy_cmds s). cmd_ok s c)"

lemma fromConn_ok: "fromConn c \<Longrightarrow> command_ok c"
  by (cases c) simp_all

lemma sys_ok_run:
  assumes "sys_ok marshal s" and c: "command_ok c"
    and t: "\<And>k r m a. c = Message k r m a \<Longrightarrow> TrustedReveal r \<Longrightarrow> presented s k"
  shows "sys_ok marshal (runAndDeliver v pick c s)"
proof -
  let ?e = "sy_engine s" and ?s = "runAndDeliver v pick c s"
  let ?e' = "runCommand v c ?e"
  have r: "reachable ?e" and h: "hub_ok marshal (presented s) (sy_hub s)" and q: "\<forall>c \<in> set (sy_cmds s). cmd_ok s c"
    using assms(1) by (simp_all add: sys_ok_def)
  have r': "reachable ?e'" using r c by (rule reachable.command)
  have hello: "helloTrusted ?e' m = helloTrusted ?e m" for m
    by (rule helloTrusted_cong) (rule cfg_runCommand [OF r c])
  have mono: "presented s k \<Longrightarrow> presented ?s k" for k
    by (auto simp: presented_def runAndDeliver_def Let_def hello)
  have trusted: "presented ?s k" if k: "k \<in> trustedConns c ?e" for k
  proof -
    from k obtain r m a where m: "c = Message k r m a" "TrustedReveal r \<or> helloTrusted ?e (ce_body m)"
      by (auto simp: trustedConns_def split: command.splits if_splits)
    then show ?thesis
    proof (elim disjE)
      assume "TrustedReveal r"
      with m(1) t show ?thesis by (intro mono) blast
    next
      assume "helloTrusted ?e (ce_body m)"
      then have "helloTrusted ?e' (ce_body m)" by (simp only: hello)
      then have "\<exists>r m a. Message k r m a \<in> set (sy_log s @ [c]) \<and> helloTrusted ?e' (ce_body m)"
        using m(1) by (intro exI [of _ r] exI [of _ m] exI [of _ a]) simp
      then show ?thesis by (simp add: presented_def runAndDeliver_def Let_def)
    qed
  qed
  from command_safe [OF r c, of v] obtain new where new: "e_out ?e' = e_out ?e @ new"
    "\<forall>x \<in> set new. out_safe (trustedConns c ?e) (offerConns ?e) x" by (auto simp: since_def)
  then have "sy_hub ?s = fold (deliver pick) new (sy_hub s)" by (simp add: runAndDeliver_def Let_def)
  then have "hub_ok marshal (presented ?s) (sy_hub ?s)"
    using hub_ok_delivers [OF new(2) hub_ok_mono [OF h mono] trusted, where pick = pick] by simp
  moreover have "\<forall>c \<in> set (sy_cmds ?s). cmd_ok ?s c"
    using q mono by (auto simp: cmd_ok_def runAndDeliver_def Let_def)
  ultimately show ?thesis using r' by (simp add: sys_ok_def runAndDeliver_def Let_def)
qed

lemma presented_frame:
  "sy_log s' = sy_log s \<Longrightarrow> sy_engine s' = sy_engine s \<Longrightarrow> presented s' = presented s"
  by (auto simp: presented_def)

lemma sys_ok_frame:
  assumes "sys_ok marshal s" and "sy_log s' = sy_log s" and "sy_engine s' = sy_engine s"
    and "hub_ok marshal (presented s) (sy_hub s')"
    and "\<And>c. c \<in> set (sy_cmds s') \<Longrightarrow> c \<in> set (sy_cmds s) \<or> cmd_ok s c"
  shows "sys_ok marshal s'"
proof -
  have "cmd_ok s' = cmd_ok s" by (simp add: cmd_ok_def fun_eq_iff presented_frame [OF assms(2,3)])
  with assms presented_frame [OF assms(2,3)] show ?thesis by (auto simp: sys_ok_def)
qed

lemma roleOf_ok: "hub_ok marshal P h \<Longrightarrow> TrustedReveal (roleOf k h) \<Longrightarrow> P k"
  by (auto simp: roleOf_def hub_ok_def conn_ok_def split: option.splits dest!: map_of_SomeD)

lemma sys_ok_step:
  assumes ok: "sys_ok marshal s"
  shows "sys_ok marshal (sysStep marshal ev s)"
proof -
  have h: "hub_ok marshal (presented s) (sy_hub s)" using ok by (simp add: sys_ok_def)
  show ?thesis
  proof (cases ev)
    case (SessionArrives ip opened)
    have "sys_ok marshal (handleSession ip opened s)"
      by (rule sys_ok_frame [OF ok])
        (auto simp: handleSession_def serveOpen_def submit_def Let_def cmd_ok_def h hub_ok_add
          split: prod.splits bool.splits if_splits)
    with SessionArrives ok show ?thesis by simp
  next
    case (FrameArrives cid decoded ms)
    have "sys_ok marshal (serveFrame cid decoded ms s)"
      by (rule sys_ok_frame [OF ok])
        (auto simp: serveFrame_def submit_def cmd_ok_def h roleOf_ok [OF h] split: option.splits)
    with FrameArrives ok show ?thesis by simp
  next
    case (SessionEnds cid)
    have "sys_ok marshal (serveClose cid ip s)" for ip
      by (rule sys_ok_frame [OF ok]) (auto simp: serveClose_def submit_def cmd_ok_def h hub_ok_remove)
    with SessionEnds ok show ?thesis by (auto split: option.split)
  next
    case (RunNext v pick)
    show ?thesis
    proof (cases "sy_cmds s")
      case (Cons c cs)
      have "sys_ok marshal (s\<lparr>sy_cmds := cs\<rparr>)"
        by (rule sys_ok_frame [OF ok]) (auto simp: h Cons)
      moreover have "cmd_ok s c" using ok Cons by (simp add: sys_ok_def)
      ultimately have "sys_ok marshal (runAndDeliver v pick c (s\<lparr>sy_cmds := cs\<rparr>))"
        by (intro sys_ok_run) (auto simp: cmd_ok_def fromConn_ok presented_def)
      with RunNext Cons show ?thesis by simp
    qed (use RunNext ok in simp)
  next
    case (OwnCommand v pick c)
    with ok show ?thesis by (auto intro!: sys_ok_run)
  next
    case (WriterTurn cid werr pick)
    show ?thesis unfolding WriterTurn
      by (rule sys_ok_frame [OF ok]) (auto intro!: hub_ok_updConn h conn_ok_write)
  qed
qed

lemma sys_reachable_ok: "sys_reachable marshal s \<Longrightarrow> sys_ok marshal s"
proof (induction rule: sys_reachable.induct)
  case (start loaded cfg rng h maxTotal maxPerIP)
  show ?case by (simp add: sys_ok_def startServer_def hub_ok_def reachable.boot)
qed (rule sys_ok_step)

subsection \<open>Sessions and their bounds\<close>

lemma digits_value: "foldl (\<lambda>a c. 10 * a + (of_char c - 48)) 0 (digits n) = n"
proof (induction n rule: digits.induct)
  case (1 n)
  show ?case
  proof (cases "n < 10")
    case True
    then show ?thesis by (simp add: digits.simps)
  next
    case False
    moreover have "48 + n mod 10 < 256" by (simp add: trans_less_add1)
    ultimately show ?thesis using 1 by (subst digits.simps) simp
  qed
qed

lemma digits_eq [simp]: "digits m = digits n \<longleftrightarrow> m = n"
  by (metis digits_value)

text \<open>
  What the limiter counts are the live sessions; the hub has a connection for each of them and
  no other; connection IDs are never used twice; the command channel is bounded.
\<close>

definition sessions_ok :: "system \<Rightarrow> bool" where
  "sessions_ok s \<longleftrightarrow> limiter_holds (sy_limiter s) (mset (map snd (sy_sessions s))) \<and>
     within_caps (sy_limiter s) (mset (map snd (sy_sessions s))) \<and>
     distinct (map fst (sy_sessions s)) \<and> fst ` set (sy_hub s) = fst ` set (sy_sessions s) \<and>
     (\<forall>k \<in> fst ` set (sy_sessions s). \<exists>n \<le> sy_connSeq s. k = ''c'' @ itoa (int n)) \<and>
     length (sy_cmds s) \<le> cmdsDepth"

lemma keys_deliver [simp]: "fst ` set (deliver pick x h) = fst ` set h"
proof (cases x)
  case (Frame t m)
  then show ?thesis
    by (cases t) (force simp: hub_BroadcastAll_def hub_Broadcast_def hub_SendTo_def updConn_def)+
qed (force simp: SetRole_def updConn_def)+

lemma keys_delivers [simp]: "fst ` set (fold (deliver pick) xs h) = fst ` set h"
  by (rule fold_frame) simp

lemma sessions_ok_frame:
  assumes "sessions_ok s" and "sy_limiter s' = sy_limiter s" and "sy_sessions s' = sy_sessions s"
    and "fst ` set (sy_hub s') = fst ` set (sy_hub s)" and "sy_connSeq s' = sy_connSeq s"
    and "length (sy_cmds s') \<le> cmdsDepth"
  shows "sessions_ok s'"
  using assms by (simp add: sessions_ok_def)

lemma keys_delete: "fst ` set (AList.delete k xs) = fst ` set xs - {k}"
  by (auto simp: AList.delete_eq)

lemma mset_delete_key:
  "distinct (map fst xs) \<Longrightarrow> map_of xs k = Some v \<Longrightarrow>
     mset (map snd (AList.delete k xs)) = mset (map snd xs) - {#v#}"
proof (induction xs)
  case (Cons x xs)
  obtain a w where x: "x = (a, w)" by force
  show ?case
  proof (cases "a = k")
    case True
    then have "AList.delete k xs = xs" using Cons.prems(1) x by (auto intro!: delete_idem)
    with True Cons.prems(2) x show ?thesis by simp
  next
    case False
    with Cons.prems(2) x have m: "map_of xs k = Some v" by simp
    then have "v \<in># mset (map snd xs)" by (force dest!: map_of_SomeD)
    then show ?thesis using False x m Cons by (simp add: insert_DiffM)
  qed
qed simp

lemma sessions_ok_open:
  assumes "sessions_ok s" and "length (sy_cmds s) < cmdsDepth"
  shows "sessions_ok (handleSession ip opened s)"
proof -
  let ?M = "mset (map snd (sy_sessions s))"
  obtain ok l where a: "acquire ip (sy_limiter s) = (ok, l)" by force
  have held: "limiter_holds (sy_limiter s) ?M" and caps: "within_caps (sy_limiter s) ?M"
    using assms(1) by (simp_all add: sessions_ok_def)
  have l: "limiter_holds l (if ok then add_mset ip ?M else ?M)"
    and admit: "ok = admits (sl_maxTotal (sy_limiter s)) (sl_maxPerIP (sy_limiter s)) ?M ip"
    and same: "sl_maxTotal l = sl_maxTotal (sy_limiter s)" "sl_maxPerIP l = sl_maxPerIP (sy_limiter s)"
    using acquire_refines [OF held, of ip] limiter_caps(1,2) [of ip "sy_limiter s"] a by simp_all
  show ?thesis
  proof (cases ok)
    case False
    with a have "l = sy_limiter s" by (auto simp: acquire_def split: if_splits)
    with False a assms show ?thesis by (auto simp: handleSession_def intro: sessions_ok_frame)
  next
    case True
    have caps': "within_caps l (add_mset ip ?M)"
      using caps admit True by (auto simp: within_caps_def admits_def same)
    show ?thesis
    proof (cases opened)
      case True
      let ?cid = "''c'' @ itoa (int (sy_connSeq s + 1))"
      have "?cid \<notin> fst ` set (sy_sessions s)"
        using assms(1) by (auto simp: sessions_ok_def itoa_def)
      moreover have "\<forall>x \<in> set (sy_sessions s). \<exists>n \<le> Suc (sy_connSeq s). fst x = ''c'' @ itoa (int n)"
        using assms(1) unfolding sessions_ok_def by (meson imageI le_SucI)
      moreover have "\<exists>n \<le> Suc (sy_connSeq s). itoa (1 + int (sy_connSeq s)) = itoa (int n)"
        by (rule exI [of _ "Suc (sy_connSeq s)"]) simp
      ultimately show ?thesis
        using assms l caps' True \<open>ok\<close> a
        by (simp add: handleSession_def serveOpen_def submit_def Let_def sessions_ok_def hub_add_def
            dom_update add.commute)
    next
      case False
      have "limiter_holds (release ip l) ?M" using release_refines [OF l, of ip] \<open>ok\<close> by simp
      moreover have "within_caps (release ip l) ?M" using caps by (simp add: within_caps_def same)
      ultimately show ?thesis using False \<open>ok\<close> a assms by (simp add: handleSession_def sessions_ok_def)
    qed
  qed
qed

lemma sessions_ok_close:
  assumes "sessions_ok s" and "map_of (sy_sessions s) cid = Some ip" and "length (sy_cmds s) < cmdsDepth"
  shows "sessions_ok (serveClose cid ip s)"
proof -
  let ?M = "mset (map snd (sy_sessions s))"
  have d: "distinct (map fst (sy_sessions s))" and held: "limiter_holds (sy_limiter s) ?M"
    and caps: "within_caps (sy_limiter s) ?M"
    using assms(1) by (simp_all add: sessions_ok_def)
  have M: "mset (map snd (AList.delete cid (sy_sessions s))) = ?M - {#ip#}"
    using mset_delete_key [OF d assms(2)] .
  have "ip \<in># ?M" using assms(2) by (force dest!: map_of_SomeD)
  then have "limiter_holds (release ip (sy_limiter s)) (?M - {#ip#})" by (rule release_refines [OF held])
  moreover have "within_caps (release ip (sy_limiter s)) (?M - {#ip#})"
    using caps by (rule within_caps_release)
  moreover have "\<forall>k \<in> fst ` set (sy_sessions s) - {cid}. \<exists>n \<le> sy_connSeq s. k = ''c'' @ itoa (int n)"
    using assms(1) unfolding sessions_ok_def by blast
  ultimately show ?thesis
    using assms d M by (simp add: serveClose_def submit_def sessions_ok_def hub_remove_def distinct_delete keys_delete)
qed

lemma sessions_ok_step:
  assumes "sessions_ok s"
  shows "sessions_ok (sysStep marshal ev s)"
proof (cases ev)
  case (SessionArrives ip opened)
  with assms show ?thesis by (simp add: sessions_ok_open)
next
  case (FrameArrives cid decoded ms)
  with assms show ?thesis
    by (auto simp: serveFrame_def submit_def split: option.split intro!: sessions_ok_frame [OF assms])
next
  case (SessionEnds cid)
  with assms show ?thesis by (auto intro: sessions_ok_close split: option.split)
next
  case (RunNext v pick)
  with assms show ?thesis
    by (auto simp add: runAndDeliver_def Let_def sessions_ok_def split: list.split)
next
  case (OwnCommand v pick c)
  with assms show ?thesis
    by (simp add: runAndDeliver_def Let_def sessions_ok_def)
next
  case (WriterTurn cid werr pick)
  have "fst ` set (updConn cid f h) = fst ` set h" for f h by (force simp: updConn_def)
  with WriterTurn assms show ?thesis by (simp add: sessions_ok_def)
qed

subsection \<open>The results\<close>


text \<open>
  C3: Orders need the secret. When the next command of the loop is an admin message from a
  connection that has not presented the secret, running it only answers that connection with
  \<open>forbidden\<close>: the engine changes in nothing else.
\<close>

theorem orders_need_secret:
  assumes "sys_reachable marshal s" and "sy_cmds s = Message k r m a # rest" and "isAdminMsg (ce_body m)"
    and "\<not> presented s k"
  shows "sy_engine (sysStep marshal (RunNext v pick) s) = sendError k ''forbidden'' ''admin role required''
    ((sy_engine s)\<lparr>e_now := en_now v, e_audioErr := en_audioErr v, e_lockErr := en_lockErr v\<rparr>)"
proof -
  have "cmd_ok s (Message k r m a)"
    using sys_reachable_ok [OF assms(1)] assms(2) by (simp add: sys_ok_def)
  then have "r \<noteq> RoleAdmin" using assms(4) by (auto simp: cmd_ok_def)
  then show ?thesis using assms(2,3) by (simp add: runAndDeliver_def Let_def runCommand_def dispatch_def)
qed


subsection \<open>Applied to a small server\<close>

text \<open>
  A server with room for two sessions, one per address; a client that never says Hello sends an
  admin order, whose frame waits in the command channel.
\<close>

definition server0 :: system where
  "server0 = startServer game0 2 1"

definition server1 :: system where
  "server1 = fold (sysStep (\<lambda>_. Some [])) [SessionArrives ''10.0.0.1'' True, SessionArrives ''10.0.0.1'' True,
     RunNext (atMs 1) (\<lambda>_. False), FrameArrives ''c1'' (Some \<lparr>ce_body = CMsgAdminReveal, ce_Nonce = 0\<rparr>) 2] server0"

lemma sys_reachable_fold: "sys_reachable marshal s \<Longrightarrow> sys_reachable marshal (fold (sysStep marshal) es s)"
  by (rule fold_invariant_gen [where P = "sys_reachable marshal"]) (auto intro: sys_reachable.step)

lemma sys_reachable_server1: "sys_reachable (\<lambda>_. Some []) server1"
  unfolding server1_def server0_def game0_def by (intro sys_reachable_fold sys_reachable.start)

lemma server1_facts:
  "sy_sessions server1 = [(''c1'', ''10.0.0.1'')]" "sl_maxTotal (sy_limiter server1) = 2"
  "sl_maxPerIP (sy_limiter server1) = 1" "sy_log server1 = [Connect ''c1'' ''10.0.0.1'']"
  "sy_hub server1 = [(''c1'', \<lparr>hc_role = RoleMobile, hc_out = [], hc_seq = 0, hc_closed = False, hc_wire = [], hc_returned = False\<rparr>)]"
  "sy_cmds server1 = [Message ''c1'' RoleMobile \<lparr>ce_body = CMsgAdminReveal, ce_Nonce = 0\<rparr> 2]"
  by code_simp+

lemma unknown_client: "\<not> presented server1 ''c1''"
  by (simp add: presented_def server1_facts)


theorem orders_need_secret_witness:
  "e_state (sy_engine (sysStep (\<lambda>_. Some []) (RunNext (atMs 3) (\<lambda>_. False)) server1)) = e_state (sy_engine server1)"
  using orders_need_secret [OF sys_reachable_server1 server1_facts(6) _ unknown_client, of "atMs 3" "\<lambda>_. False"]
  by simp


end
