(* ===== verification/Buzz_Rules.thy ===== *)
theory Buzz_Rules
  imports Frames
begin

section \<open>The rules of the buzzer\<close>

text \<open>
  What the collection window, its resolution and the buzz handler guarantee: one entry per
  player with the player's first arrival, a decision for an eligible contender that nobody
  beats, at most one winner, and no effect of a stale timer or a refused buzz.
\<close>

subsection \<open>The contenders\<close>

lemma addContenderTo_players:
  "bc_playerID ` set (addContenderTo c cs) = insert (bc_playerID c) (bc_playerID ` set cs)"
  by (induction cs) auto

lemma addContenderTo_sub: "set (addContenderTo c cs) \<subseteq> insert c (set cs)"
  by (induction cs) auto

lemma distinct_addContenderTo:
  "distinct (map bc_playerID cs) \<Longrightarrow> distinct (map bc_playerID (addContenderTo c cs))"
proof (induction cs)
  case (Cons x xs)
  then show ?case using addContenderTo_players [of c xs] by (auto simp flip: set_map)
qed simp

text \<open>\<open>firstArrivals cs bs\<close>: \<open>cs\<close> holds, for each player of \<open>bs\<close>, one buzz, a first one.\<close>

definition firstArrivals :: "buzzContender list \<Rightarrow> buzzContender list \<Rightarrow> bool" where
  "firstArrivals cs bs \<longleftrightarrow> distinct (map bc_playerID cs) \<and> set cs \<subseteq> set bs \<and>
     (\<forall>b \<in> set bs. \<exists>c \<in> set cs. bc_playerID c = bc_playerID b \<and> bc_arrivalMs c \<le> bc_arrivalMs b)"

lemma addContenderTo_covers:
  "b = c \<or> b \<in> set cs \<Longrightarrow>
   \<exists>x \<in> set (addContenderTo c cs). bc_playerID x = bc_playerID b \<and> bc_arrivalMs x \<le> bc_arrivalMs b"
proof (induction cs)
  case (Cons x xs)
  show ?case
  proof (cases "b = c \<or> b \<in> set xs")
    case True
    with Cons.IH show ?thesis by (cases "b = c") (auto simp: not_less)
  next
    case False
    with Cons.prems show ?thesis by (auto simp: not_less less_imp_le)
  qed
qed simp

lemma firstArrivals_add:
  assumes "firstArrivals cs bs"
  shows "firstArrivals (addContenderTo c cs) (c # bs)"
proof -
  have "\<exists>x \<in> set (addContenderTo c cs). bc_playerID x = bc_playerID b \<and> bc_arrivalMs x \<le> bc_arrivalMs b"
    if "b \<in> set (c # bs)" for b
  proof (cases "b = c")
    case True
    then show ?thesis by (intro addContenderTo_covers) simp
  next
    case False
    with that assms obtain y where "y \<in> set cs" "bc_playerID y = bc_playerID b" "bc_arrivalMs y \<le> bc_arrivalMs b"
      by (auto simp: firstArrivals_def)
    with addContenderTo_covers [of y c cs] show ?thesis by force
  qed
  then show ?thesis
    using assms addContenderTo_sub [of c cs] distinct_addContenderTo [of cs c]
    by (auto simp: firstArrivals_def)
qed

lemma firstArrivals_fold:
  "firstArrivals cs bs0 \<Longrightarrow> firstArrivals (fold addContenderTo bs cs) (rev bs @ bs0)"
  by (induction bs arbitrary: cs bs0) (auto dest: firstArrivals_add)

subsection \<open>The decision\<close>

lemma buzzOrder_props:
  assumes "buzzOrder e = (order, e1)"
  shows "set order = set (e_buzzContenders e)" and "sorted (map bc_arrivalMs order)"
    and "e1 = e\<lparr>e_rpos := e_rpos e1\<rparr>" and "mset order = mset (e_buzzContenders e)"
  using assms by (auto simp: buzzOrder_def rngShuffle_def)

lemma find_first:
  assumes "find (\<lambda>i. P (xs ! i)) [0..<length xs] = Some i"
  shows "i < length xs" and "P (xs ! i)" and "\<And>j. j < i \<Longrightarrow> \<not> P (xs ! j)"
  using assms by (auto simp: find_Some_iff)

lemma sorted_first_min:
  assumes "sorted (map g xs)" and "find (\<lambda>i. P (xs ! i)) [0..<length xs] = Some i" and "y \<in> set xs" and "P y"
  shows "g (xs ! i) \<le> g y"
proof -
  from assms(3) obtain j where j: "j < length xs" "y = xs ! j" by (auto simp: in_set_conv_nth)
  with assms(4) find_first(3) [OF assms(2)] have "i \<le> j" by (meson not_le)
  with assms(1) j show ?thesis by (auto simp: sorted_iff_nth_mono)
qed

lemma eligible_found:
  assumes "y \<in> set xs" and "P y"
  obtains i where "find (\<lambda>i. P (xs ! i)) [0..<length xs] = Some i"
proof -
  from assms have "find (\<lambda>i. P (xs ! i)) [0..<length xs] \<noteq> None"
    by (auto simp: find_None_iff in_set_conv_nth)
  then show thesis using that by blast
qed

subsection \<open>The winning frames\<close>

text \<open>The connections told that they won, among the output after \<open>n\<close> entries.\<close>

fun wonAt :: "outp \<Rightarrow> connID option" where
  "wonAt (Frame (ToConn k) m) = (case ev_msg m of SMsgBuzzResult True \<Rightarrow> Some k | _ \<Rightarrow> None)"
| "wonAt _ = None"

definition winners :: "outp list \<Rightarrow> connID list" where
  "winners out = List.map_filter wonAt out"

lemma winners_append [simp]: "winners (xs @ ys) = winners xs @ winners ys"
  by (simp add: winners_def map_filter_def)

lemma winners_emit: "winners (e_out (emit ts m e)) = winners (e_out e) @
    (if m = SMsgBuzzResult True then List.map_filter (\<lambda>t. case t of ToConn k \<Rightarrow> Some k | _ \<Rightarrow> None) ts else [])"
proof -
  have "wonAt (Frame t (envelope e m)) =
      (if m = SMsgBuzzResult True then (case t of ToConn k \<Rightarrow> Some k | _ \<Rightarrow> None) else None)" for t
    by (cases t) (auto split: server_msg.split bool.split)
  then show ?thesis
    by (auto simp: emit_def winners_def map_filter_def o_def filter_map)
qed

lemma winners_sendEach:
  "winners (e_out (sendEach cids m e)) =
     winners (e_out e) @ (if m = SMsgBuzzResult True then cids else [])"
  unfolding sendEach_def
  by (induction cids arbitrary: e) (auto simp: sendTo_def winners_emit map_filter_simps)

lemma winners_sendLost: "winners (e_out (sendLost cs e)) = winners (e_out e)"
  unfolding sendLost_def
  by (rule fold_frame) (simp add: winners_sendEach)

lemma winners_award:
  "winners (e_out (awardBuzzWinner pid h a e)) = winners (e_out e) @ connIDs (e_reg e) pid"
proof -
  have "winners [RepoLogBuzz pid h a] = []" by (simp add: winners_def map_filter_simps)
  moreover have "adminViewMsg x \<noteq> SMsgBuzzResult True" for x
    by (simp add: adminViewMsg_def Let_def)
  ultimately show ?thesis
    by (simp add: awardBuzzWinner_def audioFrame_def broadcast_def broadcastAll_def transitionTo_def
        effect_def winners_emit winners_sendEach map_filter_simps)
qed

lemma awardWinner_fields [simp]:
  "e_state (awardBuzzWinner pid h a e) = StateAdjudicate" "e_buzzWinner (awardBuzzWinner pid h a e) = pid"
  "e_lock (awardBuzzWinner pid h a e) = e_lock e" "e_reg (awardBuzzWinner pid h a e) = e_reg e"
  by (simp_all add: awardBuzzWinner_def)

lemma closeWindow_fields [simp]:
  "e_state (closeWindow e) = e_state e" "e_buzzWinner (closeWindow e) = e_buzzWinner e"
  "e_lock (closeWindow e) = e_lock e" "e_reg (closeWindow e) = e_reg e" "e_out (closeWindow e) = e_out e"
  "\<not> e_buzzWindowOpen (closeWindow e)" "e_buzzContenders (closeWindow e) = []"
  by (simp_all add: closeWindow_def)

subsection \<open>The results\<close>

text \<open>
  C15: The collection window keeps, for every player who buzzed in it, exactly one entry: a
  buzz that player really made, with the earliest server arrival among that player's buzzes.
  Buzzing again never helps and never hurts, in whatever order the buzzes come in.
\<close>

theorem window_keeps_first_arrivals:
  "firstArrivals (e_buzzContenders (fold addContender bs (e\<lparr>e_buzzContenders := []\<rparr>))) (rev bs)"
proof -
  have "e_buzzContenders (fold addContender bs x) = fold addContenderTo bs (e_buzzContenders x)" for x
    by (induction bs arbitrary: x) (simp_all add: addContender_def)
  moreover have "firstArrivals [] []" by (simp add: firstArrivals_def)
  ultimately show ?thesis using firstArrivals_fold [of "[]" "[]" bs] by simp
qed

text \<open>
  C14: When the window of the live round resolves, the buzz lock is free and somebody who
  buzzed is still eligible, then an eligible contender whom no eligible contender beats on
  server arrival wins: that player becomes the buzz winner and the holder of the round's lock,
  the state is ADJUDICATE, the window is closed and empty, and the winner's connections are the
  only ones that are told they won.
\<close>

theorem window_awards_earliest:
  assumes "e_state e = StateRoundActive" and "e_roundKey e = rk" and "e_buzzWindowOpen e"
    and "\<not> e_lockErr e" and "ml_lookup (e_lock e) rk = None"
    and "c0 \<in> set (e_buzzContenders e)" and "contenderEligible (e_reg e) c0"
  shows "\<exists>w \<in> set (e_buzzContenders e). contenderEligible (e_reg e) w \<and>
      (\<forall>c \<in> set (e_buzzContenders e). contenderEligible (e_reg e) c \<longrightarrow> bc_arrivalMs w \<le> bc_arrivalMs c) \<and>
      e_buzzWinner (resolveBuzzWindow rk e) = bc_playerID w \<and>
      ml_lookup (e_lock (resolveBuzzWindow rk e)) rk = Some (bc_playerID w) \<and>
      e_state (resolveBuzzWindow rk e) = StateAdjudicate \<and>
      \<not> e_buzzWindowOpen (resolveBuzzWindow rk e) \<and> e_buzzContenders (resolveBuzzWindow rk e) = [] \<and>
      winners (e_out (resolveBuzzWindow rk e)) = winners (e_out e) @ connIDs (e_reg e) (bc_playerID w)"
proof -
  obtain order e1 where ord: "buzzOrder e = (order, e1)" by force
  note o = buzzOrder_props [OF ord]
  have e1: "e_reg e1 = e_reg e" "e_lock e1 = e_lock e" "e_lockErr e1 = e_lockErr e" "e_out e1 = e_out e"
      "e_roundKey e1 = e_roundKey e"
    by (subst o(3), simp)+
  obtain i where i: "find (\<lambda>i. contenderEligible (e_reg e) (order ! i)) [0..<length order] = Some i"
    using eligible_found [of c0 order "contenderEligible (e_reg e)"] assms(6,7) o(1) by metis
  note f = find_first [where P = "contenderEligible (e_reg e)", OF i]
  let ?w = "order ! i"
  have "bc_arrivalMs ?w \<le> bc_arrivalMs c" if "c \<in> set order" "contenderEligible (e_reg e) c" for c
    by (rule sorted_first_min [where P = "contenderEligible (e_reg e)", OF o(2) i that])
  moreover have won: "tryAcquire (e_roundKey e1) (bc_playerID ?w) e1 =
      (True, e1\<lparr>e_lock := snd (ml_TryAcquire (e_lock e) rk (bc_playerID ?w))\<rparr>)"
    using assms(2,4,5) by (simp add: tryAcquire_def e1 ml_TryAcquire_def ml_lookup_def)
  moreover have "ml_lookup (snd (ml_TryAcquire (e_lock e) rk (bc_playerID ?w))) rk = Some (bc_playerID ?w)"
    using assms(5) by (simp add: ml_TryAcquire_def ml_lookup_def)
  ultimately show ?thesis
    using assms(1-3) f nth_mem [OF f(1)]
    by (intro bexI [of _ ?w])
      (simp_all add: resolveBuzzWindow_def ord i e1 Let_def winners_sendLost winners_award o(1))
qed

text \<open>A live round: both players of the sample buzzed, Bob first.\<close>

definition buzzRound :: engine where
  "buzzRound = game0\<lparr>e_state := StateRoundActive, e_roundKey := ''r'', e_buzzWindowOpen := True,
     e_curTrack := Some 0, e_curCell := Some 0, e_curRow := 2,
     e_reg := \<lparr>r_conns = [(''c1'', \<lparr>cn_id = ''c1'', cn_role = RoleMobile, cn_playerID = ''ann''\<rparr>),
                         (''c2'', \<lparr>cn_id = ''c2'', cn_role = RoleMobile, cn_playerID = ''bob''\<rparr>)],
       r_players = [(''ann'', newPlayer ''ann'' ''ann''), (''bob'', newPlayer ''bob'' ''bob'')],
       r_byFP = [(''ann'', ''ann''), (''bob'', ''bob'')],
       r_connByPl = [(''ann'', [''c1'']), (''bob'', [''c2''])]\<rparr>,
     e_buzzContenders := [\<lparr>bc_playerID = ''ann'', bc_connID = ''c1'', bc_arrivalMs = 12\<rparr>,
                          \<lparr>bc_playerID = ''bob'', bc_connID = ''c2'', bc_arrivalMs = 10\<rparr>]\<rparr>"

lemma buzzRound_start:
  "e_state buzzRound = StateRoundActive \<and> e_roundKey buzzRound = ''r'' \<and> e_buzzWindowOpen buzzRound \<and>
   \<not> e_lockErr buzzRound \<and> ml_lookup (e_lock buzzRound) ''r'' = None"
  by (simp add: buzzRound_def game0_def boot_def NewEngine_def Let_def snapshotDDBucket_def effect_def
      ml_lookup_def NewMemLock_def)

theorem window_awards_earliest_witness:
  "e_state (resolveBuzzWindow ''r'' buzzRound) = StateAdjudicate \<and>
   e_buzzWinner (resolveBuzzWindow ''r'' buzzRound) = ''bob''"
proof -
  let ?c = "\<lambda>n k a. \<lparr>bc_playerID = n, bc_connID = k, bc_arrivalMs = a\<rparr>"
  have cs: "e_buzzContenders buzzRound = [?c ''ann'' ''c1'' 12, ?c ''bob'' ''c2'' 10]"
    by (simp add: buzzRound_def)
  have el: "contenderEligible (e_reg buzzRound) (?c ''ann'' ''c1'' 12)"
      "contenderEligible (e_reg buzzRound) (?c ''bob'' ''c2'' 10)"
    by (simp_all add: buzzRound_def contenderEligible_def getPlayer_def newPlayer_def online_def get_or_def)
  show ?thesis
    using window_awards_earliest [of buzzRound "''r''" "?c ''bob'' ''c2'' 10"] buzzRound_start el cs by auto
qed

text \<open>
  A resolution with no rightful winner changes nothing that matters. If the timer is stale
  (the round is over, another round runs, or the window was resolved already), if nobody who
  buzzed is still eligible, or if the lock was taken or its backend failed, then nobody is told
  of a win, no winner is recorded, the state, the lock and all players are as before; and
  unless the timer was stale the window is closed, so the round can go on.
\<close>

theorem window_without_winner:
  assumes "e_state e \<noteq> StateRoundActive \<or> e_roundKey e \<noteq> rk \<or> \<not> e_buzzWindowOpen e \<or>
    (\<forall>c \<in> set (e_buzzContenders e). \<not> contenderEligible (e_reg e) c) \<or>
    e_lockErr e \<or> ml_lookup (e_lock e) rk \<noteq> None"
  shows "e_state (resolveBuzzWindow rk e) = e_state e \<and> e_buzzWinner (resolveBuzzWindow rk e) = e_buzzWinner e \<and>
    e_lock (resolveBuzzWindow rk e) = e_lock e \<and> e_reg (resolveBuzzWindow rk e) = e_reg e \<and>
    winners (e_out (resolveBuzzWindow rk e)) = winners (e_out e) \<and>
    (e_state e = StateRoundActive \<and> e_roundKey e = rk \<longrightarrow> \<not> e_buzzWindowOpen (resolveBuzzWindow rk e))"
proof -
  obtain order e1 where ord: "buzzOrder e = (order, e1)" by force
  note o = buzzOrder_props [OF ord]
  have e1: "e_reg e1 = e_reg e" "e_lock e1 = e_lock e" "e_lockErr e1 = e_lockErr e" "e_out e1 = e_out e"
      "e_roundKey e1 = e_roundKey e" "e_state e1 = e_state e" "e_buzzWinner e1 = e_buzzWinner e"
    by (subst o(3), simp)+
  show ?thesis
  proof (cases "e_state e \<noteq> StateRoundActive \<or> e_roundKey e \<noteq> rk \<or> \<not> e_buzzWindowOpen e")
    case True
    then show ?thesis by (auto simp: resolveBuzzWindow_def)
  next
    case False
    show ?thesis
    proof (cases "find (\<lambda>i. contenderEligible (e_reg e) (order ! i)) [0..<length order]")
      case None
      with False show ?thesis by (simp add: resolveBuzzWindow_def ord e1)
    next
      case (Some i)
      then have "order ! i \<in> set (e_buzzContenders e)" "contenderEligible (e_reg e) (order ! i)"
        using o(1) by (auto simp: find_Some_iff)
      with assms False have "e_lockErr e \<or> ml_lookup (e_lock e) (e_roundKey e) \<noteq> None" by auto
      then have "tryAcquire (e_roundKey e) (bc_playerID (order ! i)) e1 = (False, e1)"
        by (auto simp: tryAcquire_def e1 ml_TryAcquire_def ml_lookup_def)
      with False Some show ?thesis
        by (simp add: resolveBuzzWindow_def ord e1 winners_sendLost)
    qed
  qed
qed

theorem window_without_winner_witness:
  "e_buzzWinner (resolveBuzzWindow ''old'' buzzRound) = ''''"
proof -
  have "e_buzzWinner buzzRound = ''''"
    by (simp add: buzzRound_def game0_def boot_def NewEngine_def Let_def snapshotDDBucket_def effect_def)
  with window_without_winner [of buzzRound "''old''"] buzzRound_start show ?thesis by simp
qed

end
