(* ===== verification/Round_Rules.thy ===== *)
theory Round_Rules
  imports Buzz_Rules
begin

section \<open>The rules of a round\<close>

text \<open>
  Grading and its effect on scores, the bounds on what one track can pay, the consumption of
  tracks, and the skip vote of the karaoke phase.
\<close>

subsection \<open>Scores\<close>

definition scoreOf :: "engine \<Rightarrow> playerID \<Rightarrow> int option" where
  "scoreOf e q = map_option pScore (getPlayer (e_reg e) q)"

lemma updPl_reg [simp]: "e_reg (updPl pid f e) = updPlayer pid f (e_reg e)"
  by (simp add: updPl_def)

lemma updPl_fields [simp]:
  "e_state (updPl pid f e) = e_state e" "e_partial (updPl pid f e) = e_partial e"
  "e_curRow (updPl pid f e) = e_curRow e" "e_buzzWinner (updPl pid f e) = e_buzzWinner e"
  "e_lock (updPl pid f e) = e_lock e" "e_curTrack (updPl pid f e) = e_curTrack e"
  "e_heap (updPl pid f e) = e_heap e" "e_roundKey (updPl pid f e) = e_roundKey e"
  "e_pausedAtMs (updPl pid f e) = e_pausedAtMs e" "e_gate (updPl pid f e) = e_gate e"
  "e_cellPicker (updPl pid f e) = e_cellPicker e" "e_board (updPl pid f e) = e_board e"
  "roundPool (updPl pid f e) = roundPool e"
  by (simp_all add: updPl_def roundPool_def)

lemma award_fields [simp]:
  "e_state (award pid pts e) = e_state e" "e_partial (award pid pts e) = e_partial e"
  "e_curRow (award pid pts e) = e_curRow e" "e_buzzWinner (award pid pts e) = e_buzzWinner e"
  "e_lock (award pid pts e) = e_lock e" "e_curTrack (award pid pts e) = e_curTrack e"
  "e_heap (award pid pts e) = e_heap e" "e_roundKey (award pid pts e) = e_roundKey e"
  "e_pausedAtMs (award pid pts e) = e_pausedAtMs e" "e_cellPicker (award pid pts e) = e_cellPicker e"
  "e_board (award pid pts e) = e_board e" "e_ddOffer (award pid pts e) = e_ddOffer e"
  "e_reg (award pid pts e) = updPlayer pid (\<lambda>p. p\<lparr>pScore := pScore p + pts\<rparr>) (e_reg e)"
  by (simp_all add: award_def cond_def)
    (simp_all add: updPl_def)

lemma enterKaraoke_fields [simp]:
  "e_state (enterKaraoke e) = StateKaraoke" "e_reg (enterKaraoke e) = e_reg e"
  "e_buzzWinner (enterKaraoke e) = e_buzzWinner e" "e_lock (enterKaraoke e) = e_lock e"
  "e_heap (enterKaraoke e) = e_heap e" "e_cellPicker (enterKaraoke e) = e_cellPicker e"
  "e_curTrack (enterKaraoke e) = e_curTrack e" "e_partial (enterKaraoke e) = e_partial e"
  "e_votes (enterKaraoke e) = []" "e_roundKey (enterKaraoke e) = e_roundKey e"
  "e_board (enterKaraoke e) = e_board e"
  "e_votingPool (enterKaraoke e) =
     map pID (filter (\<lambda>p. pActive p \<and> \<not> pBanned p \<and> online (e_reg e) (pID p)) (mobilePlayers (e_reg e)))"
  by (simp_all add: enterKaraoke_def resumeAudio_def)

lemma releaseBuzz_fields [simp]:
  "e_state (releaseBuzz e) = e_state e" "e_reg (releaseBuzz e) = e_reg e" "e_buzzWinner (releaseBuzz e) = ''''"
  "e_lock (releaseBuzz e) = ml_Release (e_lock e) (e_roundKey e)" "e_heap (releaseBuzz e) = e_heap e"
  "e_cellPicker (releaseBuzz e) = e_cellPicker e" "e_curTrack (releaseBuzz e) = e_curTrack e"
  "e_partial (releaseBuzz e) = e_partial e" "e_roundKey (releaseBuzz e) = e_roundKey e"
  "e_board (releaseBuzz e) = e_board e"
  by (simp_all add: releaseBuzz_def lockRelease_def)

lemma consumeTrack_fields [simp]:
  "e_state (consumeTrack e) = e_state e" "e_reg (consumeTrack e) = e_reg e"
  "e_buzzWinner (consumeTrack e) = e_buzzWinner e" "e_lock (consumeTrack e) = e_lock e"
  "e_cellPicker (consumeTrack e) = e_cellPicker e" "e_curTrack (consumeTrack e) = e_curTrack e"
  "e_partial (consumeTrack e) = e_partial e" "e_roundKey (consumeTrack e) = e_roundKey e"
  "e_board (consumeTrack e) = e_board e"
  "e_heap (consumeTrack e) = (case e_curTrack e of None \<Rightarrow> e_heap e
     | Some t \<Rightarrow> updTrack t (\<lambda>x. x\<lparr>tPlayed := True\<rparr>) (e_heap e))"
  by (simp_all add: consumeTrack_def split: option.split)

lemma resumeAudio_fields [simp]:
  "e_state (resumeAudio e) = e_state e" "e_reg (resumeAudio e) = e_reg e"
  "e_lock (resumeAudio e) = e_lock e" "e_roundKey (resumeAudio e) = e_roundKey e"
  "e_partial (resumeAudio e) = e_partial e" "e_curTrack (resumeAudio e) = e_curTrack e"
  "e_heap (resumeAudio e) = e_heap e"
  by (simp_all add: resumeAudio_def)

lemma lock_freed [simp]: "ml_lookup (ml_Release l rk) rk = None"
  by (simp add: ml_lookup_def ml_Release_def)

subsection \<open>Grading\<close>

text \<open>
  C16: A correct verdict pays the winner, and only the winner, the value of the track at the
  moment the audio was paused: between 0 and the pool of the round, so at most 200. The round
  is over (KARAOKE), the winner is the next picker, the buzz slot and the round's lock are
  free, and the track is consumed.
\<close>

theorem correct_grade:
  assumes "e_state e = StateAdjudicate" and "getPlayer (e_reg e) (e_buzzWinner e) = Some w"
    and "keys_ok (e_reg e)" and "partial_ok (e_partial e)" and "roundPool e = (maxP, baseP)"
    and "pts = currentPointsFromPool maxP baseP (e_pausedAtMs e)"
    and "e' = onGrade cid (Inr (''correct'', kind)) e"
  shows "0 \<le> pts \<and> pts \<le> maxP \<and> maxP \<le> 200 \<and>
    scoreOf e' (pID w) = Some (pScore w + pts) \<and> (\<forall>q. q \<noteq> pID w \<longrightarrow> scoreOf e' q = scoreOf e q) \<and>
    e_state e' = StateKaraoke \<and> e_cellPicker e' = pID w \<and> e_buzzWinner e' = '''' \<and>
    ml_lookup (e_lock e') (e_roundKey e) = None \<and>
    (\<forall>t. e_curTrack e = Some t \<longrightarrow> tPlayed (hTrack (e_heap e') t))"
proof -
  have pid: "pID w = e_buzzWinner e" by (rule getPlayer_pID [OF assms(3,2)])
  have bounds: "0 \<le> pts \<and> pts \<le> maxP" "maxP \<le> 200"
    using pool_award_bounds [OF assms(4,5)] roundPool_ok [OF assms(4,5)] assms(6) by auto
  show ?thesis
    using bounds assms(1,2,5,6)
    by (simp add: assms(7) onGrade_def pid gradeCorrect_def scoreOf_def getPlayer_updPlayer updTrack_def
        option.map_comp o_def split: option.split)
qed

text \<open>The sample round after Ann was ruled the winner of the buzz.\<close>

definition judged :: engine where
  "judged = buzzRound\<lparr>e_state := StateAdjudicate, e_buzzWinner := ''ann'', e_pausedAtMs := 1000\<rparr>"

lemma judged_start:
  "e_state judged = StateAdjudicate" "e_buzzWinner judged = ''ann''" "e_curRow judged = 2"
  "getPlayer (e_reg judged) (e_buzzWinner judged) = Some (newPlayer ''ann'' ''ann'')"
  "keys_ok (e_reg judged)" "e_partial judged = noPartial" "roundPool judged = (125, 100)"
  "e_pausedAtMs judged = 1000" "scoreOf judged ''bob'' = Some 0" "e_curTrack judged = Some 0"
  by (simp_all add: judged_def buzzRound_def getPlayer_def keys_ok_def newPlayer_def roundPool_def
      game0_def boot_def NewEngine_def Let_def snapshotDDBucket_def effect_def noPartial_def
      MaxPointsForRow_eq BaseValue_def scoreOf_def)

lemma hold_value: "currentPointsFromPool 125 100 1000 = 125"
  by code_simp

theorem correct_grade_witness:
  "scoreOf (onGrade ''c3'' (Inr (''correct'', '''')) judged) ''ann'' = Some 125 \<and>
   scoreOf (onGrade ''c3'' (Inr (''correct'', '''')) judged) ''bob'' = Some 0"
  using correct_grade [OF judged_start(1,4,5) _ judged_start(7) refl refl, of "''c3''" "''''"] judged_start(8,9)
  by (simp add: judged_start(6) noPartial_def partial_ok_def newPlayer_def hold_value)

lemma incorrect_reg:
  assumes "e_state e = StateAdjudicate" and "getPlayer (e_reg e) (e_buzzWinner e) = Some w"
  shows "e_reg (onGrade cid (Inr (''incorrect'', kind)) e) =
    updPlayer (pID w) (\<lambda>p. p\<lparr>pGuessedThisTrack := True\<rparr>)
      (updPlayer (pID w) (\<lambda>p. p\<lparr>pGuessedThisTrack := True\<rparr>) (e_reg e))"
  using assms by (simp add: onGrade_def gradeIncorrect_def)

text \<open>
  C17: An incorrect verdict costs nothing and changes no score; play goes on (ROUND_ACTIVE) with
  the buzz slot and the lock free, and the guesser is out for this track: every later buzz from
  any connection bound to that player gets the losing answer and has no other effect.
\<close>

theorem incorrect_grade:
  assumes "e_state e = StateAdjudicate" and "getPlayer (e_reg e) (e_buzzWinner e) = Some w"
    and "keys_ok (e_reg e)" and "e' = onGrade cid (Inr (''incorrect'', kind)) e"
  shows "e_state e' = StateRoundActive \<and> e_buzzWinner e' = '''' \<and>
    ml_lookup (e_lock e') (e_roundKey e) = None \<and> scoreOf e' q = scoreOf e q \<and>
    (\<forall>k p n ms. playerForConn (e_reg e') k = Some p \<and> pID p = pID w \<longrightarrow>
       onBuzz k n ms e' = sendTo k (SMsgBuzzResult False) e')"
proof -
  have pid: "pID w = e_buzzWinner e" by (rule getPlayer_pID [OF assms(3,2)])
  have reg: "e_reg e' = updPlayer (pID w) (\<lambda>p. p\<lparr>pGuessedThisTrack := True\<rparr>)
      (updPlayer (pID w) (\<lambda>p. p\<lparr>pGuessedThisTrack := True\<rparr>) (e_reg e))"
    unfolding assms(4) by (rule incorrect_reg [OF assms(1,2)])
  have keys: "keys_ok (e_reg e')" unfolding reg by (intro keys_ok_updPlayer assms(3)) simp_all
  have guessed: "pGuessedThisTrack p" if "playerForConn (e_reg e') k = Some p" "pID p = pID w" for k p
  proof -
    from that(1) obtain i where i: "getPlayer (e_reg e') i = Some p"
      by (auto simp: playerForConn_def split: option.splits if_splits)
    with keys that(2) have "i = pID w" using getPlayer_pID by fastforce
    with i show ?thesis by (auto simp: reg getPlayer_updPlayer)
  qed
  have "scoreOf e' q = scoreOf e q"
    by (simp add: scoreOf_def reg getPlayer_updPlayer option.map_comp o_def)
  moreover have "e_state e' = StateRoundActive \<and> e_buzzWinner e' = '''' \<and> ml_lookup (e_lock e') (e_roundKey e) = None"
    using assms(1,2) by (simp add: assms(4) onGrade_def pid gradeIncorrect_def)
  moreover have "onBuzz k n ms e' = sendTo k (SMsgBuzzResult False) e'"
    if "playerForConn (e_reg e') k = Some p" "pID p = pID w" for k p n ms
    using that guessed [OF that] by (simp add: onBuzz_def Let_def)
  ultimately show ?thesis by blast
qed

theorem incorrect_grade_witness:
  "onBuzz ''c1'' 7 99 (onGrade ''c3'' (Inr (''incorrect'', '''')) judged) =
   sendTo ''c1'' (SMsgBuzzResult False) (onGrade ''c3'' (Inr (''incorrect'', '''')) judged)"
proof -
  have "\<exists>p. playerForConn (e_reg (onGrade ''c3'' (Inr (''incorrect'', '''')) judged)) ''c1'' = Some p \<and> pID p = ''ann''"
    unfolding playerForConn_def incorrect_reg [OF judged_start(1,4)]
    by (simp add: updPlayer_def judged_def buzzRound_def getPlayer_def newPlayer_def)
  then show ?thesis
    using incorrect_grade [OF judged_start(1,4,5) refl, of "''c3''" "''''"] by (auto simp: newPlayer_def)
qed



subsection \<open>The skip vote\<close>

lemma quot_div: "0 \<le> a \<Longrightarrow> 0 < b \<Longrightarrow> quot a b = a div b"
  by (cases "a = 0") (simp_all add: quot_def)

lemma activeVoters_nonneg: "0 \<le> activeVoters e"
  by (simp add: activeVoters_def)

lemma needVotes_spec:
  assumes "0 \<le> pct" and "ss_SkipThresholdPct (e_session e) = pct" and "0 < activeVoters e"
  shows "1 \<le> needVotes e \<and> needVotes e \<le> activeVoters e \<and>
    (pct < 100 \<longrightarrow> (\<forall>k. needVotes e \<le> k \<longleftrightarrow> pct * activeVoters e < 100 * k)) \<and>
    (100 \<le> pct \<longrightarrow> needVotes e = activeVoters e)"
proof (cases "100 \<le> pct")
  case True
  with assms show ?thesis by (simp add: needVotes_def Let_def)
next
  case False
  let ?a = "activeVoters e"
  have "0 \<le> ?a * pct" using assms by simp
  then have q: "quot (?a * pct) 100 = ?a * pct div 100" by (simp add: quot_div)
  have "?a * pct < ?a * 100" using assms False by simp
  then have lt: "?a * pct div 100 < ?a" by linarith
  then have need: "needVotes e = ?a * pct div 100 + 1"
    using assms False \<open>0 \<le> ?a * pct\<close> by (simp add: needVotes_def Let_def q pos_imp_zdiv_nonneg_iff)
  have "x div 100 + 1 \<le> k \<longleftrightarrow> x < 100 * k" for x k :: int
  proof -
    have "x = 100 * (x div 100) + x mod 100" "0 \<le> x mod 100" "x mod 100 < 100" by simp_all
    then show ?thesis by linarith
  qed
  then have "?a * pct div 100 + 1 \<le> k \<longleftrightarrow> pct * ?a < 100 * k" for k by (simp add: mult.commute)
  moreover have "pct * ?a < 100 * ?a" using \<open>?a * pct < ?a * 100\<close> by (simp add: mult.commute)
  ultimately show ?thesis using need \<open>0 \<le> ?a * pct\<close> False by (simp add: pos_imp_zdiv_nonneg_iff)
qed

text \<open>
  The number of votes needed. With a threshold below 100 percent it is the least number
  of votes that is strictly more than that share of the active voters, so never more than all
  of them and at least one while anybody is active; at 100 percent it is all of them.
\<close>

theorem votes_needed:
  assumes "0 \<le> pct" and "ss_SkipThresholdPct (e_session e) = pct" and "0 < activeVoters e"
  shows "1 \<le> needVotes e \<and> needVotes e \<le> activeVoters e \<and>
    (pct < 100 \<longrightarrow> (\<forall>k. needVotes e \<le> k \<longleftrightarrow> pct * activeVoters e < 100 * k)) \<and>
    (100 \<le> pct \<longrightarrow> needVotes e = activeVoters e)"
  using assms by (rule needVotes_spec)

lemma karaokeConditionMet_state:
  "e_state (karaokeConditionMet e) =
     (if e_cellPicker e = '''' \<or> e_pendingPick e \<noteq> None then StateTransition else e_state e)"
  "e_karaokeReady (karaokeConditionMet e) =
     (if e_cellPicker e = '''' \<or> e_pendingPick e \<noteq> None then e_karaokeReady e else True)"
  "e_votes (karaokeConditionMet e) = e_votes e"
  by (simp_all add: karaokeConditionMet_def beginTransition_def)

lemma evaluateSkipVotes_state:
  assumes "e_state e = StateKaraoke"
  shows "e_votes (evaluateSkipVotes e) = e_votes e \<and>
    (if 0 < activeVoters e \<and> needVotes e \<le> haveVotes e
     then (if e_cellPicker e = '''' \<or> e_pendingPick e \<noteq> None then e_state (evaluateSkipVotes e) = StateTransition
           else e_state (evaluateSkipVotes e) = StateKaraoke \<and> e_karaokeReady (evaluateSkipVotes e))
     else evaluateSkipVotes e = e)"
  using assms activeVoters_nonneg [of e] by (auto simp: evaluateSkipVotes_def karaokeConditionMet_state)

lemma votes_frame [simp]:
  "activeVoters (broadcastVoteState e) = activeVoters e" "needVotes (broadcastVoteState e) = needVotes e"
  "haveVotes (broadcastVoteState e) = haveVotes e" "e_session (broadcastVoteState e) = e_session e"
  by (simp_all add: activeVoters_def needVotes_def haveVotes_def)

lemma count_all_voted:
  assumes "distinct xs" and "distinct ys" and "\<And>q. q \<in> set xs \<Longrightarrow> P q \<Longrightarrow> q \<in> set ys"
  shows "length (filter (\<lambda>i. i \<in> set xs \<and> P i) ys) = length (filter P xs)"
proof -
  have "set (filter (\<lambda>i. i \<in> set xs \<and> P i) ys) = set (filter P xs)" using assms(3) by auto
  then show ?thesis using assms(1,2) distinct_card by (metis distinct_filter)
qed

text \<open>
  The vote of the last active voter ends the song. In KARAOKE, when every other online
  member of the voting pool has voted and the last one votes with a current nonce, the vote is
  counted and the threshold is met, whatever the percentage is: the countdown starts
  (TRANSITION), or, when a picker still has to choose, the game notes that it is ready to move
  on as soon as the choice comes.
\<close>

theorem last_vote_moves_on:
  assumes "e_state e = StateKaraoke" and "gate_Validate (e_gate e) nonce"
    and "playerForConn (e_reg e) cid = Some p" and "pID p \<in> set (e_votingPool e)"
    and "online (e_reg e) (pID p)" and "distinct (e_votingPool e)" and "distinct (e_votes e)"
    and "\<forall>q \<in> set (e_votingPool e). online (e_reg e) q \<longrightarrow> q = pID p \<or> q \<in> set (e_votes e)"
    and "0 \<le> ss_SkipThresholdPct (e_session e)"
  shows "set (e_votes (onVote cid nonce e)) = insert (pID p) (set (e_votes e)) \<and>
    (if e_cellPicker e = '''' \<or> e_pendingPick e \<noteq> None then e_state (onVote cid nonce e) = StateTransition
     else e_state (onVote cid nonce e) = StateKaraoke \<and> e_karaokeReady (onVote cid nonce e))"
proof -
  define e1 where "e1 = broadcastVoteState (e\<lparr>e_votes := set_add (pID p) (e_votes e)\<rparr>)"
  have f: "e_state e1 = StateKaraoke" "e_cellPicker e1 = e_cellPicker e" "e_pendingPick e1 = e_pendingPick e"
      "set (e_votes e1) = insert (pID p) (set (e_votes e))"
    using assms(1) by (simp_all add: e1_def)
  have vote: "onVote cid nonce e = evaluateSkipVotes e1"
    using assms(1-4) by (simp add: onVote_def e1_def)
  have active: "activeVoters e1 = activeVoters e" "ss_SkipThresholdPct (e_session e1) = ss_SkipThresholdPct (e_session e)"
    by (simp_all add: e1_def activeVoters_def)
  have "filter (online (e_reg e)) (e_votingPool e) \<noteq> []"
    using assms(4,5) by (auto simp: filter_empty_conv)
  then have pos: "0 < activeVoters e1" unfolding active(1) by (simp add: activeVoters_def)
  have "haveVotes e1 = activeVoters e1"
    unfolding active(1) e1_def votes_frame haveVotes_def activeVoters_def
    using assms(6-8) by (simp add: count_all_voted)
  moreover have "needVotes e1 \<le> activeVoters e1"
    using needVotes_spec [OF _ refl pos] assms(9) active(2) by simp
  ultimately show ?thesis using evaluateSkipVotes_state [OF f(1)] pos f vote by auto
qed

text \<open>The sample round in its karaoke phase; Bob has voted.\<close>

definition singing :: engine where
  "singing = judged\<lparr>e_state := StateKaraoke, e_votingPool := [''ann'', ''bob''], e_votes := [''bob'']\<rparr>"

lemma singing_fields:
  "e_state singing = StateKaraoke" "e_votingPool singing = [''ann'', ''bob'']" "e_votes singing = [''bob'']"
  "playerForConn (e_reg singing) ''c1'' = Some (newPlayer ''ann'' ''ann'')"
  "online (e_reg singing) ''ann''" "e_cellPicker singing = ''''" "e_gate singing = NewNonceGate"
  "ss_SkipThresholdPct (e_session singing) = 50" "activeVoters singing = 2"
  by (simp_all add: singing_def judged_def buzzRound_def playerForConn_def getPlayer_def newPlayer_def
      online_def get_or_def activeVoters_def game0_def boot_def NewEngine_def Let_def
      snapshotDDBucket_def effect_def sampleConfig_def)

theorem votes_needed_witness: "1 \<le> needVotes singing \<and> needVotes singing \<le> 2"
  using votes_needed [OF _ singing_fields(8)] singing_fields(9) by simp

theorem last_vote_moves_on_witness: "e_state (onVote ''c1'' 0 singing) = StateTransition"
proof -
  have "gate_Validate (e_gate singing) 0"
    by (simp add: singing_fields NewNonceGate_def gate_Validate_def)
  then show ?thesis
    using last_vote_moves_on [OF singing_fields(1) _ singing_fields(4), of 0] singing_fields
    by (simp add: newPlayer_def)
qed

end
