(* ===== verification/DailyDouble_Rules.thy ===== *)
theory DailyDouble_Rules
  imports Round_Rules
begin

section \<open>The rules of the Daily Double\<close>

text \<open>
  The assignment of the Daily Double cells at the start of a game, the bucket of songs, which
  no path loses or doubles, the payout, and the fact that an offer that is declined or whose
  contestant vanishes never leaves the game stuck.
\<close>

subsection \<open>The assignment\<close>

definition ddCell :: "engine \<Rightarrow> caddr \<Rightarrow> bool" where
  "ddCell e c \<longleftrightarrow> cDailyDouble (hCell (e_heap e) c)"

definition marked :: "engine \<Rightarrow> caddr set \<Rightarrow> caddr set" where
  "marked e E = {c \<in> E. ddCell e c}"

text \<open>\<open>e'\<close> is \<open>e\<close> with some unmarked cells of \<open>E\<close> armed for the second visit.\<close>

definition arms :: "caddr set \<Rightarrow> engine \<Rightarrow> engine \<Rightarrow> bool" where
  "arms E e e' \<longleftrightarrow> (\<forall>c. hCell (e_heap e') c = hCell (e_heap e) c \<or>
     c \<in> E \<and> \<not> ddCell e c \<and>
     hCell (e_heap e') c = (hCell (e_heap e) c)\<lparr>cDailyDouble := True, cDDTriggerVisit := 2\<rparr>)"

lemma arms_refl: "arms E e e" "e_heap e' = e_heap e \<Longrightarrow> arms E e e'"
  by (simp_all add: arms_def)

lemma arms_trans:
  assumes "arms E e e1" and "arms E e1 e2"
  shows "arms E e e2"
  unfolding arms_def
proof
  fix c
  show "hCell (e_heap e2) c = hCell (e_heap e) c \<or> c \<in> E \<and> \<not> ddCell e c \<and>
      hCell (e_heap e2) c = (hCell (e_heap e) c)\<lparr>cDailyDouble := True, cDDTriggerVisit := 2\<rparr>"
    using assms [unfolded arms_def, THEN spec [of _ c]] by (auto simp: ddCell_def)
qed

lemma marked_mono: "arms E e e' \<Longrightarrow> ddCell e c \<Longrightarrow> ddCell e' c"
  by (drule arms_def [THEN iffD1, THEN spec [of _ c]]) (auto simp: ddCell_def)

lemma arms_setDD: "c \<in> E \<Longrightarrow> \<not> ddCell e c \<Longrightarrow> e_heap e1 = e_heap e \<Longrightarrow> arms E e (setDD c True 2 e1)"
  by (auto simp: arms_def setDD_def updCell_def)

lemma marked_setDD:
  "e_heap e1 = e_heap e \<Longrightarrow> c \<in> E \<Longrightarrow> marked (setDD c True 2 e1) E = insert c (marked e E)"
  by (auto simp: marked_def ddCell_def setDD_def updCell_def)

text \<open>What the loops leave alone.\<close>

definition boardView :: "engine \<Rightarrow> board option \<times> (string \<times> int) list" where
  "boardView e = (e_board e, e_cellVisits e)"

lemma boardView_setDD [simp]: "boardView (setDD c d v e) = boardView e"
  by (simp add: boardView_def setDD_def)

lemma ddPass_spec:
  assumes "ddPass n cc cats (placed, progressed, e) = (placed', progressed', e')"
    and "finite E" and "\<forall>cat. set (get_or [] cc cat) \<subseteq> E"
    and "placed = int (card (marked e E))" and "placed \<le> n"
  shows "placed' = int (card (marked e' E)) \<and> placed' \<le> n \<and> arms E e e' \<and>
    (\<not> progressed' \<longrightarrow> placed' = n \<or> (\<forall>cat \<in> set cats. \<forall>c \<in> set (get_or [] cc cat). ddCell e' c)) \<and>
    (progressed \<longrightarrow> progressed') \<and> boardView e' = boardView e"
  using assms
proof (induction n cc cats "(placed, progressed, e)" arbitrary: placed progressed e rule: ddPass.induct)
  case (1 n cc placed progressed e)
  then show ?case by (auto simp: arms_refl)
next
  case (2 n cc cat cats placed progressed e)
  let ?elig = "filter (\<lambda>c. \<not> cDailyDouble (hCell (e_heap e) c)) (get_or [] cc cat)"
  consider (full) "n \<le> placed" | (none) "placed < n" "?elig = []" | (some) "placed < n" "?elig \<noteq> []"
    by linarith
  then show ?case
  proof cases
    case full
    with "2.prems" show ?thesis by (auto simp: arms_refl)
  next
    case none
    have r: "ddPass n cc cats (placed, progressed, e) = (placed', progressed', e')"
      using "2.prems"(1) none by simp
    from none have "\<forall>c \<in> set (get_or [] cc cat). ddCell e c" by (auto simp: filter_empty_conv ddCell_def)
    moreover have "\<not> n \<le> placed" using none(1) by simp
    note ih = "2.hyps"(1) [OF this refl none(2) r "2.prems"(2-5)]
    ultimately have "\<forall>c \<in> set (get_or [] cc cat). ddCell e' c"
      using marked_mono [of E e e'] by blast
    with ih show ?thesis by auto
  next
    case some
    obtain i e1 where i: "intn (length ?elig) e = (i, e1)" by force
    then have e1: "e_heap e1 = e_heap e" "boardView e1 = boardView e" and "i < length ?elig"
      using some by (auto simp: intn_def boardView_def)
    then have c: "?elig ! i \<in> E" "\<not> ddCell e (?elig ! i)"
      using nth_mem [of i ?elig] "2.prems"(3) by (auto simp: ddCell_def)
    let ?e2 = "setDD (?elig ! i) True 2 e1"
    have r: "ddPass n cc cats (placed + 1, True, ?e2) = (placed', progressed', e')"
      using "2.prems"(1) some i by simp
    have "?elig ! i \<notin> marked e E" using c by (simp add: marked_def)
    then have m: "placed + 1 = int (card (marked ?e2 E))"
      using marked_setDD [OF e1(1) c(1)] "2.prems"(2,4) by (simp add: marked_def)
    have "\<not> n \<le> placed" "placed + 1 \<le> n" using some(1) by simp_all
    from "2.hyps"(2) [OF this(1) refl some(2) i [symmetric] r "2.prems"(2,3) m this(2)]
    have "placed' = int (card (marked e' E)) \<and> placed' \<le> n \<and> arms E ?e2 e' \<and>
        (\<not> progressed' \<longrightarrow> placed' = n \<or> (\<forall>cat \<in> set cats. \<forall>c \<in> set (get_or [] cc cat). ddCell e' c)) \<and>
        progressed' \<and> boardView e' = boardView ?e2" by simp
    moreover have "arms E e ?e2" by (rule arms_setDD [OF c e1(1)])
    ultimately show ?thesis using arms_trans e1(2) by auto
  qed
qed

lemma ddLoop_spec:
  assumes "finite E" and "\<forall>cat. set (get_or [] cc cat) \<subseteq> E"
    and "E \<subseteq> (\<Union>cat \<in> set cats. set (get_or [] cc cat))"
    and "placed = int (card (marked e E))" and "placed \<le> n"
  shows "arms E e (ddLoop n cc cats placed e) \<and> boardView (ddLoop n cc cats placed e) = boardView e \<and>
    int (card (marked (ddLoop n cc cats placed e) E)) = min n (int (card E))"
  using assms(2-5)
proof (induction n cc cats placed e rule: ddLoop.induct)
  case (1 n cc cats placed e)
  show ?case
  proof (cases "placed < n")
    case False
    have "card (marked e E) \<le> card E" using assms(1) by (auto simp: marked_def intro: card_mono)
    with False "1.prems" show ?thesis by (subst (1 2 3) ddLoop.simps) (simp add: arms_refl min_def)
  next
    case True
    obtain cats' e1 where sh: "rngShuffle cats e = (cats', e1)" by force
    then have e1: "e_heap e1 = e_heap e" "boardView e1 = boardView e" "set cats' = set cats"
      by (auto simp: rngShuffle_def boardView_def)
    obtain placed' progressed e2 where p: "ddPass n cc cats' (placed, False, e1) = (placed', progressed, e2)"
      by (metis prod_cases3)
    have m1: "placed = int (card (marked e1 E))" using "1.prems"(3) e1(1) by (simp add: marked_def ddCell_def)
    note ps = ddPass_spec [OF p assms(1) "1.prems"(1) m1 "1.prems"(4)]
    have spec: "placed' = int (card (marked e2 E))" "placed' \<le> n" "arms E e1 e2" "boardView e2 = boardView e1"
      "\<not> progressed \<Longrightarrow> placed' = n \<or> (\<forall>cat \<in> set cats'. \<forall>c \<in> set (get_or [] cc cat). ddCell e2 c)"
      using ps by (blast, blast, blast, blast, blast)
    have a: "arms E e e2" using arms_trans [OF arms_refl(2) [OF e1(1)] spec(3)] .
    show ?thesis
    proof (cases progressed)
      case True
      from "1.IH" [OF \<open>placed < n\<close> sh [symmetric] p [symmetric] refl True] "1.prems" e1(3) spec
      have "arms E e2 (ddLoop n cc cats' placed' e2) \<and> boardView (ddLoop n cc cats' placed' e2) = boardView e2 \<and>
        int (card (marked (ddLoop n cc cats' placed' e2) E)) = min n (int (card E))" by simp
      moreover have "ddLoop n cc cats placed e = ddLoop n cc cats' placed' e2"
        using \<open>placed < n\<close> sh p True by (subst ddLoop.simps) simp
      ultimately show ?thesis using a arms_trans e1(2) spec(4) by metis
    next
      case False
      then have l: "ddLoop n cc cats placed e = e2"
        using \<open>placed < n\<close> sh p by (subst ddLoop.simps) simp
      have le: "card (marked e2 E) \<le> card E" using assms(1) by (auto simp: marked_def intro: card_mono)
      from spec(5) [OF False] have "placed' = n \<or> marked e2 E = E"
        using "1.prems"(2) e1(3) by (force simp: marked_def)
      then have "int (card (marked e2 E)) = min n (int (card E))" using spec(1,2) le by auto
      with l a e1(2) spec(4) show ?thesis by simp
    qed
  qed
qed

text \<open>The cells that \<open>catCells\<close> collects.\<close>

lemma catCells_fold:
  fixes xs :: "caddr list" and k :: "caddr \<Rightarrow> string"
  shows "set (get_or [] (fold (\<lambda>c m. AList.update (k c) (get_or [] m (k c) @ [c]) m) xs m) cat) =
      set (get_or [] m cat) \<union> {c \<in> set xs. k c = cat} \<and>
    fst ` set (fold (\<lambda>c m. AList.update (k c) (get_or [] m (k c) @ [c]) m) xs m) = fst ` set m \<union> k ` set xs"
  by (induction xs arbitrary: m) (auto simp: dom_update)

lemma setDD_fold:
  "e_board (fold (\<lambda>c. setDD c False 0) cs e) = e_board e \<and>
   hTrack (e_heap (fold (\<lambda>c. setDD c False 0) cs e)) = hTrack (e_heap e) \<and>
   hCell (e_heap (fold (\<lambda>c. setDD c False 0) cs e)) c =
     (if c \<in> set cs then (hCell (e_heap e) c)\<lparr>cDailyDouble := False, cDDTriggerVisit := 0\<rparr> else hCell (e_heap e) c)"
  by (induction cs arbitrary: e) (auto simp: setDD_def updCell_def)



lemma catCells_set:
  "set (get_or [] (catCells e) cat) =
     {c \<in> set (boardCells e). TracksLeft (e_heap e) c \<ge> 2 \<and> cCategory (hCell (e_heap e) c) = cat}"
  "fst ` set (catCells e) = (\<lambda>c. cCategory (hCell (e_heap e) c)) ` {c \<in> set (boardCells e). TracksLeft (e_heap e) c \<ge> 2}"
  using catCells_fold [of "\<lambda>c. cCategory (hCell (e_heap e) c)" "filter (\<lambda>c. TracksLeft (e_heap e) c \<ge> 2) (boardCells e)" "[]"]
  by (auto simp: catCells_def Let_def)

text \<open>The cells that can be Daily Doubles: at least two tracks left.\<close>

definition eligibleCells :: "engine \<Rightarrow> caddr set" where
  "eligibleCells e = {c \<in> set (boardCells e). TracksLeft (e_heap e) c \<ge> 2}"

text \<open>
  The assignment of the Daily Doubles at the start of a game ends, and marks exactly the
  configured number of cells, or all eligible ones when there are fewer: cells with at least
  two tracks left, each armed for its second visit. No other cell of the board keeps a mark
  from an earlier game, the pools are as before and the visit counts start from nothing.
\<close>

theorem daily_doubles_assigned:
  assumes "e_board e = Some b" and "e' = assignDailyDoubles e"
  shows "int (card {c \<in> set (cellsOf b). ddCell e' c}) =
      max 0 (min (bDailyDoubleCount b) (int (card (eligibleCells e)))) \<and>
    (\<forall>c \<in> set (cellsOf b). ddCell e' c \<longrightarrow> c \<in> eligibleCells e \<and> cDDTriggerVisit (hCell (e_heap e') c) = 2) \<and>
    (\<forall>c. cTracks (hCell (e_heap e') c) = cTracks (hCell (e_heap e) c)) \<and> e_cellVisits e' = []"
proof -
  let ?e0 = "e\<lparr>e_cellVisits := []\<rparr>"
  define e1 where "e1 = fold (\<lambda>c. setDD c False 0) (cellsOf b) ?e0"
  let ?E = "eligibleCells e" and ?n = "bDailyDoubleCount b"
  have board1: "e_board e1 = Some b" using setDD_fold [of "cellsOf b" ?e0] assms(1) by (simp add: e1_def)
  have cell1: "hCell (e_heap e1) c = (if c \<in> set (cellsOf b)
      then (hCell (e_heap e) c)\<lparr>cDailyDouble := False, cDDTriggerVisit := 0\<rparr> else hCell (e_heap e) c)" for c
    using setDD_fold [of "cellsOf b" ?e0 c] by (simp add: e1_def)
  have left: "TracksLeft (e_heap e1) c = TracksLeft (e_heap e) c" for c
    using setDD_fold [of "cellsOf b" ?e0 c] by (simp add: TracksLeft_def cell1 trackAvailable_def [abs_def] e1_def)
  have elig1: "{c \<in> set (boardCells e1). TracksLeft (e_heap e1) c \<ge> 2} = ?E"
    by (simp add: eligibleCells_def boardCells_def board1 assms(1) left)
  have fin: "finite ?E" and sub: "?E \<subseteq> set (cellsOf b)"
    by (auto simp: eligibleCells_def boardCells_def assms(1))
  have none1: "\<not> ddCell e1 c" if "c \<in> set (cellsOf b)" for c using that by (simp add: ddCell_def cell1)
  then have m0: "marked e1 ?E = {}" using sub by (auto simp: marked_def)
  have visits1: "e_cellVisits e1 = []"
    unfolding e1_def by (rule trans [OF fold_frame [where g = e_cellVisits]]) (simp_all add: setDD_def)
  let ?cc = "catCells e1"
  have e': "e' = (if ?n \<le> 0 \<or> ?cc = [] then e1 else ddLoop ?n ?cc (map fst ?cc) 0 e1)"
    using assms by (simp add: assignDailyDoubles_def e1_def Let_def)
  have loop: "arms ?E e1 e' \<and> boardView e' = boardView e1 \<and>
      int (card (marked e' ?E)) = max 0 (min ?n (int (card ?E)))"
  proof (cases "?n \<le> 0 \<or> ?cc = []")
    case True
    have "?cc = [] \<Longrightarrow> ?E = {}" using catCells_set(2) [of e1] elig1 by auto
    with True show ?thesis using m0 by (auto simp: e' arms_refl)
  next
    case False
    have "?E \<subseteq> (\<Union>cat \<in> set (map fst ?cc). set (get_or [] ?cc cat))"
      using catCells_set [of e1] by (auto simp: catCells_set(1) simp flip: elig1 set_map)
    from ddLoop_spec [OF fin _ this, of 0 e1 ?n] False m0 show ?thesis
      using elig1 by (auto simp: e' catCells_set(1) max_def)
  qed
  have tracks: "cTracks (hCell (e_heap e') c) = cTracks (hCell (e_heap e) c)" for c
    using loop by (auto simp: arms_def cell1 dest: spec [of _ c])
  have dd: "c \<in> ?E \<and> cDDTriggerVisit (hCell (e_heap e') c) = 2" if "c \<in> set (cellsOf b)" "ddCell e' c" for c
    using loop none1 [OF that(1)] that(2) by (auto simp: arms_def ddCell_def dest: spec [of _ c])
  then have "{c \<in> set (cellsOf b). ddCell e' c} = marked e' ?E" using sub by (auto simp: marked_def)
  with loop dd tracks visits1 show ?thesis by (auto simp: boardView_def)
qed

theorem daily_doubles_assigned_witness:
  "card {c \<in> set (cellsOf (sampleBoard\<lparr>bDailyDoubleCount := 5\<rparr>)).
     ddCell (assignDailyDoubles (game0\<lparr>e_board := Some (sampleBoard\<lparr>bDailyDoubleCount := 5\<rparr>)\<rparr>)) c} = 2"
proof -
  let ?g = "game0\<lparr>e_board := Some (sampleBoard\<lparr>bDailyDoubleCount := 5\<rparr>)\<rparr>"
  have "eligibleCells ?g = {0, 1}"
    by (auto simp: eligibleCells_def boardCells_def cellsOf_def sampleBoard_def TracksLeft_def game0_def boot_def
        NewEngine_def Let_def snapshotDDBucket_def effect_def sampleHeap_def sampleCell_def trackAvailable_def
        sampleTrack_def)
  then show ?thesis
    using daily_doubles_assigned [of ?g "sampleBoard\<lparr>bDailyDoubleCount := 5\<rparr>", OF _ refl] by simp
qed

subsection \<open>The bucket\<close>

text \<open>The songs a Daily Double can still draw: the bucket and the songs on offer.\<close>

definition songs :: "engine \<Rightarrow> taddr multiset" where
  "songs e = mset (ddBucket e) + (case e_ddOffer e of None \<Rightarrow> {#} | Some off \<Rightarrow> mset (dd_candidates off))"

lemma startTrack_board [simp]:
  "e_board (startTrack c t e) = e_board e" "e_ddOffer (startTrack c t e) = e_ddOffer e"
  "e_state (startTrack c t e) = StateRoundActive"
  by (simp_all add: startTrack_def Let_def)

lemma startCellNormally_fields:
  "e_board (startCellNormally c e) = e_board e \<and> e_ddOffer (startCellNormally c e) = e_ddOffer e \<and>
   (e_state (startCellNormally c e) = StateBoard \<or> e_state (startCellNormally c e) = StateRoundActive)"
proof -
  obtain t e1 where d: "drawTrack c e = (t, e1)" by force
  then have "e_board e1 = e_board e" "e_ddOffer e1 = e_ddOffer e"
    using board_field.f_draws(3) [of c e] ddOffer_field.f_draws(3) [of c e] by simp_all
  then show ?thesis by (cases t) (simp_all add: startCellNormally_def d backToBoard_def)
qed

lemma startCellNormally_board [simp]:
  "e_board (startCellNormally c e) = e_board e" "e_ddOffer (startCellNormally c e) = e_ddOffer e"
  using startCellNormally_fields by simp_all

lemma setDD_board [simp]:
  "e_board (setDD c b v e) = e_board e" "e_ddOffer (setDD c b v e) = e_ddOffer e" "e_state (setDD c b v e) = e_state e"
  by (simp_all add: setDD_def)

text \<open>The reroll of a declined offer, before the cell is played normally.\<close>

definition rerolled :: "dailyDoubleOffer \<Rightarrow> caddr option \<Rightarrow> engine \<Rightarrow> engine" where
  "rerolled off declined e = block [
     case declined of None \<Rightarrow> (\<lambda>e. e) | Some c \<Rightarrow> setDD c False 0,
     returnUnusedDDCandidates (dd_candidates off) None,
     \<lambda>e. e\<lparr>e_ddOffer := None\<rparr>,
     \<lambda>e. (let candidates = filter (\<lambda>c. Some c \<noteq> declined \<and> \<not> cDailyDouble (hCell (e_heap e) c)
                  \<and> TracksLeft (e_heap e) c \<ge> 1) (boardCells e)
          in if candidates = [] then e
             else case intn (length candidates) e of (i, e1) \<Rightarrow>
               (let nxt = candidates ! i; x = hCell (e_heap e1) nxt
                in setDD nxt True (get_or 0 (e_cellVisits e1) (cellKey (cRow x) (cCol x)) + 1) e1))] e"

lemma declineDailyDouble_rerolled:
  assumes "e_state e = StateDailyDouble" and "e_ddOffer e = Some off"
    and "declined = cellAt (e_heap e) (e_board e) (dd_cellRow off) (dd_cellCol off)"
  shows "declineDailyDouble e =
    (case declined of None \<Rightarrow> backToBoard | Some c \<Rightarrow> startCellNormally c) (rerolled off declined e)"
  using assms by (simp add: declineDailyDouble_def rerolled_def Let_def)

lemma rerolled_board:
  "e_ddOffer (rerolled off declined e) = None \<and> ddBucket (rerolled off declined e) =
     (if e_board e = None then [] else ddBucket e @ dd_candidates off)"
  by (cases "e_board e"; cases declined)
    (auto simp: rerolled_def returnUnusedDDCandidates_def setDDBucket_def ddBucket_def Let_def intn_def)

lemma declined_songs:
  assumes "e_ddOffer e \<noteq> None \<longrightarrow> e_board e \<noteq> None"
  shows "songs (declineDailyDouble e) = songs e"
proof (cases "e_state e = StateDailyDouble \<and> e_ddOffer e \<noteq> None")
  case False
  then show ?thesis by (auto simp: declineDailyDouble_def)
next
  case True
  then obtain off where off: "e_ddOffer e = Some off" by auto
  let ?d = "cellAt (e_heap e) (e_board e) (dd_cellRow off) (dd_cellCol off)"
  have "ddBucket (declineDailyDouble e) = ddBucket (rerolled off ?d e) \<and>
      e_ddOffer (declineDailyDouble e) = e_ddOffer (rerolled off ?d e)"
    using True declineDailyDouble_rerolled [OF _ off refl]
    by (cases ?d) (simp_all add: ddBucket_def backToBoard_def)
  with rerolled_board [of off ?d e] off assms show ?thesis by (auto simp: songs_def)
qed

text \<open>
  C22: No song is lost or doubled by a decision. Whatever the contestant answers (accept,
  accept again, decline, garbage) and whoever else answers, the songs of the bucket together
  with the songs on offer stay the same: accepting moves up to five from the one to the other,
  declining puts them back.
\<close>

theorem decision_keeps_songs:
  assumes "e_ddOffer e \<noteq> None \<longrightarrow> e_board e \<noteq> None"
  shows "songs (onDailyDoubleDecision cid nonce d e) = songs e"
proof -
  have accept: "songs (block [setDDBucket (drop n bucket), \<lambda>e. e\<lparr>e_ddOffer := Some (off\<lparr>dd_candidates := take n bucket\<rparr>)\<rparr>,
        \<lambda>e. sendEach (cs e) (m e) e] e1) = songs e"
    if "e_ddOffer e = Some off" "dd_candidates off = []" "e_board e = Some b"
      "rngShuffle (bDDBucket b) e = (bucket, e1)" for n bucket off b e1 and cs :: "engine \<Rightarrow> connID list" and m
  proof -
    have "mset bucket = mset (bDDBucket b)" and "e_board e1 = e_board e"
      using that(4) by (auto simp: rngShuffle_def)
    moreover have "mset (drop n bucket) + mset (take n bucket) = mset bucket"
      by (metis append_take_drop_id mset_append union_commute)
    ultimately show ?thesis using that by (simp add: songs_def ddBucket_def setDDBucket_def)
  qed
  have send: "songs (sendEach cs m x) = songs x" for cs m x by (simp add: songs_def ddBucket_def)
  show ?thesis
    using assms accept declined_songs [OF assms]
    by (auto simp: onDailyDoubleDecision_def Let_def send simp del: block_Cons
        split: option.split sum.split prod.split)
qed


text \<open>The sample game with an offer to Ann on the second cell.\<close>

definition offered :: engine where
  "offered = judged\<lparr>e_state := StateDailyDouble, e_board := Some (sampleBoard\<lparr>bDDBucket := [2, 3]\<rparr>),
     e_curTrack := None,
     e_ddOffer := Some \<lparr>dd_cellRow = 2, dd_cellCol = 1, dd_contestantID = ''ann'', dd_candidates = []\<rparr>\<rparr>"

theorem decision_keeps_songs_witness:
  "songs (onDailyDoubleDecision ''c1'' 0 (Inr True) offered) = {#2, 3#}"
  using decision_keeps_songs [of offered] by (simp add: offered_def songs_def ddBucket_def)


subsection \<open>The payout\<close>

text \<open>
  A Daily Double pays between once and twice the ceiling of its row, whatever the ratings
  are (one star on average pays the ceiling, nobody rating counts as one star), so between 100
  and 400 points.
\<close>

theorem daily_double_payout:
  "MaxPointsForRow (e_curRow e) \<le> ddPoints e \<and> ddPoints e \<le> 2 * MaxPointsForRow (e_curRow e) \<and>
   100 \<le> ddPoints e \<and> ddPoints e \<le> 400"
proof -
  let ?m = "MaxPointsForRow (e_curRow e)" and ?x = "DailyDoubleMultiplier (avgStars e)"
  have m: "100 \<le> ?m" "?m \<le> 200" using MaxPointsForRow_bounds by auto
  have r: "f64 (of_int ?m) = of_int ?m" using m by (intro f64_of_int) simp
  have x: "1 \<le> ?x" "?x \<le> 2" using DailyDoubleMultiplier_bounds by auto
  have "of_int ?m * 1 \<le> of_int ?m * ?x" "of_int ?m * ?x \<le> of_int ?m * 2"
    using m x by (auto intro: mult_left_mono)
  then have "of_int ?m \<le> of_int ?m * ?x" "of_int ?m * ?x \<le> of_int (2 * ?m)" by simp_all
  from f64.rnd_between [OF _ _ this] m
  have "of_int ?m \<le> f64 (f64 (of_int ?m) * ?x)" "f64 (f64 (of_int ?m) * ?x) \<le> of_int (2 * ?m)"
    by (simp_all add: r)
  then have "?m \<le> ddPoints e" "ddPoints e \<le> 2 * ?m"
    unfolding ddPoints_def by (simp add: le_floor_iff, metis floor_mono floor_of_int)
  with m show ?thesis by simp
qed

lemma finish_fields:
  "e_state (finishDailyDouble e) = StateBoard \<and> e_curTrack (finishDailyDouble e) = None \<and>
   scoreOf (finishDailyDouble e) q = (case getPlayer (e_reg e) (e_cellPicker e) of
     None \<Rightarrow> scoreOf e q
   | Some p \<Rightarrow> if q = pID p then map_option (\<lambda>s. s + ddPoints e) (scoreOf e q) else scoreOf e q)"
proof -
  have fields: "e_reg (cond b (\<lambda>e. e\<lparr>e_cellPicker := ''''\<rparr>) x) = e_reg x"
    "e_state (cond b (\<lambda>e. e\<lparr>e_cellPicker := ''''\<rparr>) x) = e_state x"
    "e_curTrack (cond b (\<lambda>e. e\<lparr>e_cellPicker := ''''\<rparr>) x) = e_curTrack x" for b x
    by (simp_all add: cond_def)
  show ?thesis
    by (cases "getPlayer (e_reg e) (e_cellPicker e)")
      (simp_all add: finishDailyDouble_def Let_def fields scoreOf_def getPlayer_updPlayer option.map_comp o_def)
qed

text \<open>
  C20: A performance is paid once. When it is over, by the fade-out, the end of the track, the
  admin's skip or the end of the game, the performer's score has grown by the payout, nobody
  else's has changed and the board is back; and a fade-out that was already running then pays
  nothing more: its continuation restores the volume and changes no score and no state.
\<close>

theorem performance_paid_once:
  assumes "getPlayer (e_reg e) (e_cellPicker e) = Some p" and "keys_ok (e_reg e)"
    and "e' = finishDailyDouble e"
  shows "scoreOf e' (pID p) = Some (pScore p + ddPoints e) \<and> (\<forall>q. q \<noteq> pID p \<longrightarrow> scoreOf e' q = scoreOf e q) \<and>
    e_state e' = StateBoard \<and>
    scoreOf (fadeDone rk e') q = scoreOf e' q \<and> e_state (fadeDone rk e') = StateBoard \<and>
    scoreOf (skipDailyDouble e') q = scoreOf e' q"
proof -
  have pid: "pID p = e_cellPicker e" by (rule getPlayer_pID [OF assms(2,1)])
  have f: "e_state e' = StateBoard" "e_curTrack e' = None" using finish_fields assms(3) by auto
  have vol: "e_reg (sendVolume v x) = e_reg x" "e_state (sendVolume v x) = e_state x" for v x
    by (simp_all add: sendVolume_def)
  have "e_reg (fadeDone rk e') = e_reg e'" "e_state (fadeDone rk e') = e_state e'"
    using f by (simp_all add: fadeDone_def cond_def vol)
  moreover have "skipDailyDouble e' = e'" using f by (simp add: skipDailyDouble_def)
  moreover have "scoreOf e (pID p) = Some (pScore p)" using assms(1) pid by (simp add: scoreOf_def)
  ultimately show ?thesis
    using f finish_fields [of e] assms(1,3) by (simp add: scoreOf_def)
qed

definition performing :: engine where
  "performing = offered\<lparr>e_ddOffer := None, e_curTrack := Some 3, e_cellPicker := ''ann''\<rparr>"

theorem performance_paid_once_witness:
  "scoreOf (finishDailyDouble performing) ''ann'' = Some (ddPoints performing) \<and>
   scoreOf (fadeDone ''r'' (finishDailyDouble performing)) ''ann'' = Some (ddPoints performing)"
proof -
  have "getPlayer (e_reg performing) (e_cellPicker performing) = Some (newPlayer ''ann'' ''ann'')"
    "keys_ok (e_reg performing)"
    using judged_start(4,5) by (simp_all add: performing_def offered_def judged_start(2))
  from performance_paid_once [OF this refl, of "''r''" "''ann''"] show ?thesis by (simp add: newPlayer_def)
qed

end
