(* ===== verification/Solo_Rules.thy ===== *)
theory Solo_Rules
  imports Frames
begin

section \<open>The rules of Solo Karaoke\<close>

text \<open>
  Which track plays next, in order or shuffled; that a change of the playlist keeps the place;
  that a pause costs no time.
\<close>

subsection \<open>Playing an entry\<close>

lemma updSolo_fields [simp]:
  "e_solo (updSolo f e) = f (e_solo e)" "e_heap (updSolo f e) = e_heap e" "e_out (updSolo f e) = e_out e"
  "e_now (updSolo f e) = e_now e"
  by (simp_all add: updSolo_def)

text \<open>Entry \<open>idx\<close> of the queue is what plays.\<close>

definition playsEntry :: "engine \<Rightarrow> nat \<Rightarrow> bool" where
  "playsEntry e idx \<longleftrightarrow> sk_index (e_solo e) = int idx \<and> idx < length (sk_queue (e_solo e)) \<and>
     sk_currentTrack (e_solo e) = Some (sk_queue (e_solo e) ! idx) \<and> \<not> sk_paused (e_solo e)"

lemma playAt_solo:
  assumes "idx < length (sk_queue (e_solo e))"
  shows "playsEntry (soloKaraokePlayAt (int idx) e) idx \<and>
    sk_active (e_solo (soloKaraokePlayAt (int idx) e)) = sk_active (e_solo e) \<and>
    sk_queue (e_solo (soloKaraokePlayAt (int idx) e)) = sk_queue (e_solo e)"
proof -
  have load: "e_solo (case loadAndPlayTrack t 0 x of (None, e1) \<Rightarrow> e1
      | (Some err, e1) \<Rightarrow> broadcastSoloKaraokeError (m err) e1) = e_solo x" for t x m
    using solo_field.f_load [of t 0 x] by (cases "loadAndPlayTrack t 0 x") (auto split: option.split)
  show ?thesis using assms by (simp add: soloKaraokePlayAt_def playsEntry_def Let_def load)
qed

lemma deactivate_solo:
  "sk_active (e_solo e) \<Longrightarrow> \<not> sk_active (e_solo (soloKaraokeDeactivate e)) \<and>
     sk_currentTrack (e_solo (soloKaraokeDeactivate e)) = None"
  by (simp add: soloKaraokeDeactivate_def)

subsection \<open>The next track\<close>

text \<open>
  In order, the next track is the following entry of the playlist; after the last one
  repeat-all starts again at the first, otherwise the session ends; with repeat-one a track
  that ends by itself is played again.
\<close>

theorem next_in_order:
  assumes "sk_active (e_solo e)" and "\<not> sk_shuffle (e_solo e)" and "sk_index (e_solo e) = int i"
    and "n = length (sk_queue (e_solo e))" and "i < n"
  shows "(i + 1 < n \<longrightarrow> playsEntry (onAdminSoloKaraokeNext e) (i + 1)) \<and>
    (i + 1 = n \<and> sk_repeat (e_solo e) = ''all'' \<longrightarrow> playsEntry (onAdminSoloKaraokeNext e) 0) \<and>
    (i + 1 = n \<and> sk_repeat (e_solo e) \<noteq> ''all'' \<longrightarrow> \<not> sk_active (e_solo (onAdminSoloKaraokeNext e))) \<and>
    (sk_repeat (e_solo e) = ''one'' \<longrightarrow> playsEntry (soloKaraokeAdvance e) i) \<and>
    (sk_repeat (e_solo e) \<noteq> ''one'' \<longrightarrow> soloKaraokeAdvance e = onAdminSoloKaraokeNext e)"
proof -
  have "playsEntry (soloKaraokePlayAt (int k) e) k" if "k < n" for k
    using playAt_solo [of k e] assms(4) that by simp
  from this [of "i + 1"] this [of 0] this [of i] show ?thesis
    using assms deactivate_solo [of e]
    by (auto simp: onAdminSoloKaraokeNext_def soloKaraokeStepForward_def soloKaraokeAdvance_def Let_def add.commute)
qed

text \<open>
  Shuffled, the next track is another entry than the current one whenever the playlist
  has another: the draw is repeated until it differs, and it ends as soon as the random source
  yields a different value, so a source that does not repeat one value for ever always yields
  a track.
\<close>

theorem shuffle_plays_another:
  assumes "sk_active (e_solo e)" and "sk_shuffle (e_solo e)" and "n = length (sk_queue (e_solo e))" and "1 < n"
    and "int (e_rng e (e_rpos e + k) mod n) \<noteq> sk_index (e_solo e)"
  shows "\<exists>i < n. playsEntry (onAdminSoloKaraokeNext e) i \<and> int i \<noteq> sk_index (e_solo e) \<and>
    sk_active (e_solo (onAdminSoloKaraokeNext e))"
proof -
  have "drawOther n (sk_index (e_solo e)) e \<noteq> None"
    by (rule drawOther_returns [OF assms(5)])
  then obtain i e1 where d: "drawOther n (sk_index (e_solo e)) e = Some (i, e1)" by auto
  from drawOther_result [OF d] assms(4)
  have i: "i < n" "int i \<noteq> sk_index (e_solo e)" and e1: "\<exists>p. e1 = e\<lparr>e_rpos := p\<rparr>"
    by auto
  from e1 have "e_solo e1 = e_solo e" by auto
  then have "onAdminSoloKaraokeNext e = soloKaraokePlayAt (int i) e1" "i < length (sk_queue (e_solo e1))"
    using assms(1-4) d i by (auto simp: onAdminSoloKaraokeNext_def soloKaraokeStepForward_def Let_def)
  with playAt_solo [of i e1] i \<open>e_solo e1 = e_solo e\<close> assms(1) show ?thesis by auto
qed

text \<open>The sample game in a shuffled Solo Karaoke session on the first of two tracks.\<close>

definition soloGame :: "bool \<Rightarrow> engine" where
  "soloGame shuffled = game0\<lparr>e_solo := zeroSolo\<lparr>sk_active := True, sk_queue := [0, 1],
     sk_index := 0, sk_currentTrack := Some 0, sk_shuffle := shuffled, sk_trackStartMs := 100\<rparr>\<rparr>"

lemma soloGame_fields [simp]:
  "sk_active (e_solo (soloGame b))" "sk_queue (e_solo (soloGame b)) = [0, 1]" "sk_index (e_solo (soloGame b)) = 0"
  "sk_shuffle (e_solo (soloGame b)) = b" "sk_currentTrack (e_solo (soloGame b)) = Some 0"
  "\<not> sk_paused (e_solo (soloGame b))" "sk_trackStartMs (e_solo (soloGame b)) = 100"
  "e_rng (soloGame b) = (\<lambda>i. i)" "e_rpos (soloGame b) = 0" "e_heap (soloGame b) = sampleHeap"
  by (simp_all add: soloGame_def zeroSolo_def game0_def boot_def NewEngine_def Let_def snapshotDDBucket_def
      effect_def)

theorem next_in_order_witness: "playsEntry (onAdminSoloKaraokeNext (soloGame False)) 1"
  using next_in_order [of "soloGame False" 0 2] by simp

theorem shuffle_plays_another_witness: "playsEntry (onAdminSoloKaraokeNext (soloGame True)) 1"
proof -
  obtain i where "i < 2" "playsEntry (onAdminSoloKaraokeNext (soloGame True)) i" "int i \<noteq> 0"
    using shuffle_plays_another [of "soloGame True" 2 1] by auto
  moreover from this have "i = 1" by simp
  ultimately show ?thesis by simp
qed

subsection \<open>Changes of the playlist and pauses\<close>

lemma findIndex_cases:
  "(findIndex P xs = -1 \<and> (\<forall>x \<in> set xs. \<not> P x)) \<or>
   (\<exists>i < length xs. findIndex P xs = int i \<and> P (xs ! i) \<and> (\<forall>j < i. \<not> P (xs ! j)))"
proof (cases "find (\<lambda>i. P (xs ! i)) [0..<length xs]")
  case None
  then have "findIndex P xs = -1" by (simp add: findIndex_def)
  with None show ?thesis by (auto simp: find_None_iff in_set_conv_nth)
next
  case (Some i)
  then have "findIndex P xs = int i" by (simp add: findIndex_def)
  moreover have "i < length xs \<and> P (xs ! i) \<and> (\<forall>j < i. \<not> P (xs ! j))"
    using Some by (auto simp: find_Some_iff)
  ultimately show ?thesis by blast
qed

text \<open>
  A change of the playlist never disturbs the track that is playing, and the place in the
  playlist follows it: to the first entry with that track's ID, or to no place (-1) when the
  track was removed.
\<close>

theorem reload_keeps_place:
  assumes "sk_currentTrack (e_solo e) = Some t" and "tid = (\<lambda>x. tID (hTrack (e_heap e) x))"
    and "e' = ReloadSoloKaraokeQueue ts e"
  shows "sk_queue (e_solo e') = ts \<and> sk_currentTrack (e_solo e') = Some t \<and>
    sk_active (e_solo e') = sk_active (e_solo e) \<and> sk_playToken (e_solo e') = sk_playToken (e_solo e) \<and>
    e_out e' = e_out e \<and>
    (if tid t \<in> tid ` set ts
     then \<exists>i < length ts. sk_index (e_solo e') = int i \<and> tid (ts ! i) = tid t \<and> (\<forall>j < i. tid (ts ! j) \<noteq> tid t)
     else sk_index (e_solo e') = -1)"
proof -
  have cur: "soloTrack (updSolo (\<lambda>sk. sk\<lparr>sk_queue := ts\<rparr>) e) = Some (hTrack (e_heap e) t)"
    using assms(1) by (simp add: soloTrack_def updSolo_def)
  have idx: "sk_index (e_solo e') = findIndex (\<lambda>x. tid x = tid t) ts"
    using assms by (simp add: ReloadSoloKaraokeQueue_def cur Let_def)
  have rest: "sk_queue (e_solo e') = ts" "sk_currentTrack (e_solo e') = Some t"
    "sk_active (e_solo e') = sk_active (e_solo e)" "sk_playToken (e_solo e') = sk_playToken (e_solo e)"
    "e_out e' = e_out e"
    using assms cur by (simp_all add: ReloadSoloKaraokeQueue_def Let_def)
  from findIndex_cases [of "\<lambda>x. tid x = tid t" ts]
  have "if tid t \<in> tid ` set ts
     then \<exists>i < length ts. findIndex (\<lambda>x. tid x = tid t) ts = int i \<and> tid (ts ! i) = tid t \<and>
       (\<forall>j < i. tid (ts ! j) \<noteq> tid t)
     else findIndex (\<lambda>x. tid x = tid t) ts = -1"
  proof
    assume "findIndex (\<lambda>x. tid x = tid t) ts = -1 \<and> (\<forall>x \<in> set ts. tid x \<noteq> tid t)"
    then show ?thesis by force
  next
    assume r: "\<exists>i < length ts. findIndex (\<lambda>x. tid x = tid t) ts = int i \<and> tid (ts ! i) = tid t \<and>
        (\<forall>j < i. tid (ts ! j) \<noteq> tid t)"
    then have "tid t \<in> tid ` set ts" by (metis imageI nth_mem)
    with r show ?thesis by simp
  qed
  with rest show ?thesis by (simp only: idx)
qed

theorem reload_keeps_place_witness:
  "sk_index (e_solo (ReloadSoloKaraokeQueue [1, 2] (soloGame False))) = -1 \<and>
   sk_currentTrack (e_solo (ReloadSoloKaraokeQueue [1, 2] (soloGame False))) = Some 0"
proof -
  have "tID (sampleTrack 0) \<notin> {tID (sampleTrack 1), tID (sampleTrack 2)}" by code_simp
  then show ?thesis
    using reload_keeps_place [of "soloGame False" 0, OF _ refl refl, of "[1, 2]"] by (simp add: sampleHeap_def)
qed

text \<open>
  A pause costs no time: when a track is paused and later resumed, its position at the
  resume is its position at the pause, however long the pause lasted, and it plays on.
\<close>

theorem pause_keeps_position:
  assumes "sk_active (e_solo e)" and "sk_currentTrack (e_solo e) = Some t" and "\<not> sk_paused (e_solo e)"
    and "paused = onAdminSoloKaraokePause e" and "e' = onAdminSoloKaraokeResume (paused\<lparr>e_now := later\<rparr>)"
  shows "later - sk_trackStartMs (e_solo e') = e_now e - sk_trackStartMs (e_solo e) \<and>
    sk_paused (e_solo paused) \<and> \<not> sk_paused (e_solo e') \<and> sk_active (e_solo e') \<and>
    sk_currentTrack (e_solo e') = Some t \<and> sk_index (e_solo e') = sk_index (e_solo e)"
proof -
  have p: "e_solo paused = (e_solo e)\<lparr>sk_pausedAtMs := e_now e - sk_trackStartMs (e_solo e), sk_paused := True\<rparr>"
    using assms(1-4) by (simp add: onAdminSoloKaraokePause_def)
  then show ?thesis
    using assms(1-3,5) by (simp add: onAdminSoloKaraokeResume_def)
qed

theorem pause_keeps_position_witness:
  "9000 - sk_trackStartMs (e_solo (onAdminSoloKaraokeResume
     ((onAdminSoloKaraokePause ((soloGame False)\<lparr>e_now := 700\<rparr>))\<lparr>e_now := 9000\<rparr>))) = 600"
  using pause_keeps_position [of "(soloGame False)\<lparr>e_now := 700\<rparr>" 0, OF _ _ _ refl refl, of 9000] by simp

end
