(* ===== verification/Lobby_Rules.thy ===== *)
theory Lobby_Rules
  imports DailyDouble_Rules Solo_Rules
begin

section \<open>The rules around a game\<close>

text \<open>
  Picking a cell and what the round takes from its pool, the clean slate of a new game, who may
  give orders, and the two modes (trivia and Solo Karaoke) keeping out of each other's way:
  their own entry points do, the admin's cell selection does not.
\<close>

subsection \<open>Picking a cell\<close>

lemma startTrack_fields [simp]:
  "e_curTrack (startTrack c t e) = Some t" "e_curCell (startTrack c t e) = Some c"
  "e_curRow (startTrack c t e) = cRow (hCell (e_heap e) c)" "e_heap (startTrack c t e) = e_heap e"
  "e_partial (startTrack c t e) = noPartial" "e_solo (startTrack c t e) = e_solo e"
  "e_buzzWindowOpen (startTrack c t e) = False" "e_buzzWinner (startTrack c t e) = ''''"
  by (simp_all add: startTrack_def Let_def)

lemma endRound_fields:
  assumes "e_state e \<noteq> StateDailyDouble"
  shows "e_state (endRound e) = StateBoard" "e_curTrack (endRound e) = None"
    "e_buzzWindowOpen (endRound e) = False" "e_lock (endRound e) = ml_Release (e_lock e) (e_roundKey e)"
    "e_heap (endRound e) = e_heap (consumeTrack e)" "e_reg (endRound e) = e_reg e"
  using assms by (simp_all add: endRound_def lockRelease_def)

text \<open>The picker that a selection clears first, and a selection that does not open a Daily Double.\<close>

definition unpick :: "engine \<Rightarrow> engine" where
  "unpick = cond (\<lambda>e. e_cellPicker e \<noteq> '''' \<or> e_pendingPick e \<noteq> None) (block [
          \<lambda>e. e\<lparr>e_cellPicker := '''', e_pendingPick := None, e_karaokeReady := False\<rparr>,
          broadcastPickerStatus,
          broadcastPendingPick 0 0])"

lemma unpick_fields [simp]:
  "e_heap (unpick e) = e_heap e" "e_board (unpick e) = e_board e" "e_solo (unpick e) = e_solo e"
  by (simp_all add: unpick_def cond_def)

lemma selectCell_unpick:
  assumes "e_state e \<notin> {StateRoundActive, StateLocked, StateAdjudicate, StateDailyDouble}"
    and "cellAt (e_heap e) (e_board e) row col = Some c" and "\<not> Exhausted (e_heap e) c"
    and "\<not> cDailyDouble (hCell (e_heap e) c)"
    and "e2 = (unpick e)\<lparr>e_cellVisits := AList.update (cellKey row col)
      (get_or 0 (e_cellVisits (unpick e)) (cellKey row col) + 1) (e_cellVisits (unpick e))\<rparr>"
    and "drawTrack c e2 = (Some t, e3)"
  shows "selectCell row col e = startTrack c t e3"
  using assms unfolding selectCell_def unpick_def [symmetric] block_Cons block_Nil
  by (simp add: Let_def del: cond_True cond_False)

lemma selectCell_starts:
  assumes "e_state e \<notin> {StateRoundActive, StateLocked, StateAdjudicate, StateDailyDouble}"
    and "cellAt (e_heap e) (e_board e) row col = Some c" and "\<not> Exhausted (e_heap e) c"
    and "\<not> cDailyDouble (hCell (e_heap e) c)"
  obtains t e1 where "selectCell row col e = startTrack c t e1" and "e_heap e1 = e_heap e"
    and "e_solo e1 = e_solo e" and "t \<in> set (trackPool (e_heap e) c)"
proof -
  define e2 where "e2 = (unpick e)\<lparr>e_cellVisits := AList.update (cellKey row col)
      (get_or 0 (e_cellVisits (unpick e)) (cellKey row col) + 1) (e_cellVisits (unpick e))\<rparr>"
  obtain t e1 where d: "drawTrack c e2 = (t, e1)" by force
  have h: "e_heap e1 = e_heap e" "e_solo e1 = e_solo e"
    using d heap_field.f_draws(3) [of c e2] solo_field.f_draws(3) [of c e2] by (simp_all add: e2_def)
  have t: "t = pickTrack (e_heap e) (Some c) (Some (e_rng e2 (e_rpos e2)))"
    using d by (simp add: drawTrack_def e2_def)
  then obtain t' where t': "t = Some t'" using assms(3) by (metis pickTrack_None_iff option.exhaust)
  have "t' \<in> set (trackPool (e_heap e) c)"
    using pickTrack_Some [of "e_heap e" c _ t'] t t' by (auto simp: trackPool_def trackAvailable_def)
  with that [OF selectCell_unpick [OF assms e2_def d [unfolded t']] h] show thesis by blast
qed

text \<open>
  Picking a cell that is not an armed Daily Double starts a round on one of the cell's
  tracks that is playable and was not played yet; and when that round ends, the cell has exactly
  one track less to play, the board is back, and the round's lock is free.
\<close>

theorem picked_track_is_fresh:
  assumes "e_state e \<in> {StateBoard, StateKaraoke, StateTransition}"
    and "cellAt (e_heap e) (e_board e) row col = Some c" and "\<not> Exhausted (e_heap e) c"
    and "\<not> cDailyDouble (hCell (e_heap e) c)" and "distinct (cTracks (hCell (e_heap e) c))"
    and "e' = selectCell row col e"
  shows "e_state e' = StateRoundActive \<and> e_curCell e' = Some c \<and> e_curRow e' = row \<and>
    (\<exists>t \<in> set (cTracks (hCell (e_heap e) c)). e_curTrack e' = Some t \<and> trackAvailable (e_heap e) t) \<and>
    TracksLeft (e_heap (endRound e')) c = TracksLeft (e_heap e) c - 1 \<and> e_state (endRound e') = StateBoard \<and>
    ml_lookup (e_lock (endRound e')) (e_roundKey e') = None"
proof -
  have "e_state e \<notin> {StateRoundActive, StateLocked, StateAdjudicate, StateDailyDouble}" using assms(1) by auto
  then obtain t e1 where s: "e' = startTrack c t e1" "e_heap e1 = e_heap e" "t \<in> set (trackPool (e_heap e) c)"
    using selectCell_starts [OF _ assms(2-4)] assms(6) by blast
  have t: "t \<in> set (cTracks (hCell (e_heap e) c))" "trackAvailable (e_heap e) t"
    using s(3) by (auto simp: trackPool_def)
  have "e_heap (endRound e') = updTrack t (tPlayed_update (\<lambda>_. True)) (e_heap e)"
    using s by (simp add: endRound_fields(5))
  then have "TracksLeft (e_heap (endRound e')) c = TracksLeft (e_heap e) c - 1"
    using TracksLeft_consume [OF t(1) assms(5) t(2)] by simp
  moreover have "cRow (hCell (e_heap e) c) = row" using cellAt_Some [OF assms(2)] by simp
  moreover have "e_state e' = StateRoundActive" "e_curCell e' = Some c" "e_curTrack e' = Some t"
    "e_curRow e' = cRow (hCell (e_heap e) c)"
    unfolding s(1) by (simp_all add: s(2))
  ultimately show ?thesis using t endRound_fields [of e'] by auto
qed

theorem picked_track_is_fresh_witness:
  "e_state (selectCell 1 1 (game0\<lparr>e_state := StateBoard\<rparr>)) = StateRoundActive \<and>
   TracksLeft (e_heap (endRound (selectCell 1 1 (game0\<lparr>e_state := StateBoard\<rparr>)))) 0 = 1"
proof -
  let ?g = "game0\<lparr>e_state := StateBoard\<rparr>"
  have "cellAt (e_heap ?g) (e_board ?g) 1 1 = Some 0" "\<not> Exhausted (e_heap ?g) 0" "TracksLeft (e_heap ?g) 0 = 2"
    "\<not> cDailyDouble (hCell (e_heap ?g) 0)" "distinct (cTracks (hCell (e_heap ?g) 0))"
    by code_simp+
  then show ?thesis using picked_track_is_fresh [of ?g 1 1 0, OF _ _ _ _ _ refl] by simp
qed

subsection \<open>A new game\<close>

lemma unplay_fold:
  "hCell (fold (\<lambda>c h. fold (\<lambda>t. updTrack t (\<lambda>x. x\<lparr>tPlayed := False\<rparr>)) (cTracks (hCell h c)) h) cs h) = hCell h \<and>
   hTrack (fold (\<lambda>c h. fold (\<lambda>t. updTrack t (\<lambda>x. x\<lparr>tPlayed := False\<rparr>)) (cTracks (hCell h c)) h) cs h) t =
     (if \<exists>c \<in> set cs. t \<in> set (cTracks (hCell h c)) then (hTrack h t)\<lparr>tPlayed := False\<rparr> else hTrack h t)"
proof (induction cs arbitrary: h)
  case (Cons c cs)
  have f: "hCell (fold (\<lambda>t. updTrack t (\<lambda>x. x\<lparr>tPlayed := False\<rparr>)) ts h) = hCell h \<and>
     hTrack (fold (\<lambda>t. updTrack t (\<lambda>x. x\<lparr>tPlayed := False\<rparr>)) ts h) u =
       (if u \<in> set ts then (hTrack h u)\<lparr>tPlayed := False\<rparr> else hTrack h u)" for ts u h
    by (induction ts arbitrary: h) (auto simp: updTrack_def)
  show ?case using Cons f by (auto simp: f)
qed simp

definition unplayed :: "heap \<Rightarrow> caddr list \<Rightarrow> heap" where
  "unplayed h cs = fold (\<lambda>c h. fold (\<lambda>t. updTrack t (\<lambda>x. x\<lparr>tPlayed := False\<rparr>)) (cTracks (hCell h c)) h) cs h"

definition cleanEngine :: "engine \<Rightarrow> engine" where
  "cleanEngine e = (let e1 = clearReveal e in e1\<lparr>e_curCell := None, e_curTrack := None, e_lastPlayback := None,
     e_curRow := 0, e_roundKey := '''', e_trackStartMs := 0, e_pausedAtMs := 0, e_buzzWinner := '''',
     e_buzzWindowOpen := False, e_buzzContenders := [], e_cellPicker := '''',
     e_votingPool := [], e_votes := [], e_ratingPool := [], e_ratings := [],
     e_lastScorer := '''', e_cellVisits := [], e_ddOffer := None,
     e_reg := mapPlayers (\<lambda>p. p\<lparr>pScore := 0, pGuessedThisTrack := False, pIdleRounds := 0\<rparr>) (e_reg e1),
     e_heap := unplayed (e_heap e1) (boardCells e1),
     e_board := map_option (\<lambda>b. b\<lparr>bDDBucket := e_ddBucketOriginal e1\<rparr>) (e_board e1)\<rparr>)"

lemma reset_is:
  "e_state e = StateGameOver \<Longrightarrow> ResetToLobby e =
     (None, broadcastBoard (broadcastScoreboard (transitionTo StateLobby (effect RepoClearPlayed (cleanEngine e)))))"
  by (simp add: ResetToLobby_def cleanEngine_def unplayAll_def setDDBucket_def unplayed_def boardCells_def Let_def)

lemma cleanEngine_fields [simp]:
  "e_reg (cleanEngine e) = mapPlayers (\<lambda>p. p\<lparr>pScore := 0, pGuessedThisTrack := False, pIdleRounds := 0\<rparr>) (e_reg e)"
  "e_heap (cleanEngine e) = unplayed (e_heap e) (boardCells e)"
  "e_board (cleanEngine e) = map_option (\<lambda>b. b\<lparr>bDDBucket := e_ddBucketOriginal e\<rparr>) (e_board e)"
  "e_curTrack (cleanEngine e) = None" "e_buzzWinner (cleanEngine e) = ''''"
  "e_buzzWindowOpen (cleanEngine e) = False" "e_votes (cleanEngine e) = []" "e_ratings (cleanEngine e) = []"
  "e_ddOffer (cleanEngine e) = None" "e_cellVisits (cleanEngine e) = []" "e_cellPicker (cleanEngine e) = ''''"
  "e_ddBucketOriginal (cleanEngine e) = e_ddBucketOriginal e"
  by (simp_all add: cleanEngine_def Let_def boardCells_def)

definition scored :: engine where
  "scored = game0\<lparr>e_heap := updTrack 0 (tPlayed_update (\<lambda>_. True)) (e_heap game0)\<rparr>"

text \<open>
  New Game is a clean slate. From GAME_OVER, and only from there, the reset puts every
  score to zero, every track of the board back into its pool, the Daily Double bucket back to
  what the board was loaded with, and forgets the round: no track, no buzz, no votes, no offer,
  no visits. From any other state it reports an error and changes nothing.
\<close>

theorem reset_is_clean:
  assumes "r = ResetToLobby e" and "e' = snd r"
  shows "(e_state e \<noteq> StateGameOver \<longrightarrow> fst r \<noteq> None \<and> e' = e) \<and>
    (e_state e = StateGameOver \<longrightarrow> fst r = None \<and> e_state e' = StateLobby \<and>
      (\<forall>q p. getPlayer (e_reg e') q = Some p \<longrightarrow> pScore p = 0 \<and> \<not> pGuessedThisTrack p) \<and>
      (\<forall>c \<in> set (boardCells e). \<forall>t \<in> set (cTracks (hCell (e_heap e) c)). \<not> tPlayed (hTrack (e_heap e') t)) \<and>
      (e_board e \<noteq> None \<longrightarrow> ddBucket e' = e_ddBucketOriginal e) \<and>
      e_curTrack e' = None \<and> e_buzzWinner e' = '''' \<and> \<not> e_buzzWindowOpen e' \<and> e_votes e' = [] \<and>
      e_ratings e' = [] \<and> e_ddOffer e' = None \<and> e_cellVisits e' = [] \<and> e_cellPicker e' = '''')"
proof (cases "e_state e = StateGameOver")
  case False
  then show ?thesis using assms by (simp add: ResetToLobby_def)
next
  case True
  then have r: "fst r = None"
    "e' = broadcastBoard (broadcastScoreboard (transitionTo StateLobby (effect RepoClearPlayed (cleanEngine e))))"
    using assms by (simp_all add: reset_is)
  have "\<forall>c \<in> set (boardCells e). \<forall>t \<in> set (cTracks (hCell (e_heap e) c)). \<not> tPlayed (hTrack (e_heap e') t)"
    using unplay_fold [of "boardCells e" "e_heap e"] by (auto simp: r(2) unplayed_def)
  moreover have "\<forall>q p. getPlayer (e_reg e') q = Some p \<longrightarrow> pScore p = 0 \<and> \<not> pGuessedThisTrack p"
    by (auto simp: r(2))
  moreover have "e_board e \<noteq> None \<longrightarrow> ddBucket e' = e_ddBucketOriginal e"
    by (auto simp: r(2) ddBucket_def)
  ultimately show ?thesis using True r(1) by (simp add: r(2))
qed

theorem reset_is_clean_witness:
  "e_state (snd (ResetToLobby (scored\<lparr>e_state := StateGameOver\<rparr>))) = StateLobby \<and>
   \<not> tPlayed (hTrack (e_heap (snd (ResetToLobby (scored\<lparr>e_state := StateGameOver\<rparr>)))) 0)"
proof -
  let ?g = "scored\<lparr>e_state := StateGameOver\<rparr>"
  have "tPlayed (hTrack (e_heap ?g) 0)" "0 \<in> set (boardCells ?g)" "0 \<in> set (cTracks (hCell (e_heap ?g) 0))"
    by code_simp+
  with reset_is_clean [OF refl refl, of ?g] show ?thesis by auto
qed

subsection \<open>The two modes\<close>

text \<open>A Solo Karaoke session that the admin started in the lobby.\<close>

definition soloStarted :: engine where
  "soloStarted = play [(atMs 1, CmdReloadQueue [2, 3]),
     (atMs 2, client ''c3'' RoleAdmin (CMsgSoloPlay ''2'') 0 2)] game0"

lemma reachable_soloStarted: "reachable soloStarted"
  unfolding soloStarted_def by (rule reachable_play [OF reachable_game0]) (simp add: client_def)

lemma soloStarted_facts:
  "sk_active (e_solo soloStarted)" "e_state soloStarted = StateLobby" "e_board soloStarted = Some sampleBoard"
  "cellAt (e_heap soloStarted) (e_board soloStarted) 1 1 = Some 0" "\<not> Exhausted (e_heap soloStarted) 0"
  "\<not> cDailyDouble (hCell (e_heap soloStarted) 0)"
  by code_simp+

text \<open>
  C28: The mode lock has a hole. The game does not start while Solo Karaoke is on; but the
  admin's cell selection checks neither the mode nor that a game was started, so from a lobby with
  a Solo Karaoke session on it the selection starts a trivia round while the session stays active.
\<close>

theorem mode_lock_bypassed:
  "fst (StartGame soloStarted) \<noteq> None \<and> modeLockOwner soloStarted = ''solo_karaoke'' \<and>
   (\<exists>e. reachable e \<and> e = runCommand (atMs 3) (client ''c3'' RoleAdmin (CMsgAdminSelect (Inr (1, 1))) 0 3) soloStarted \<and>
     e_state e = StateRoundActive \<and> sk_active (e_solo e))"
proof -
  let ?e0 = "soloStarted\<lparr>e_now := 3, e_audioErr := None, e_lockErr := False\<rparr>"
  obtain t e1 where s: "selectCell 1 1 ?e0 = startTrack 0 t e1" "e_solo e1 = e_solo ?e0"
    by (rule selectCell_starts [of ?e0 1 1 0]) (use soloStarted_facts in simp_all)
  let ?c = "client ''c3'' RoleAdmin (CMsgAdminSelect (Inr (1, 1))) 0 3"
  have "reachable (runCommand (atMs 3) ?c soloStarted)"
    by (rule reachable.command [OF reachable_soloStarted]) (simp add: client_def)
  moreover have "runCommand (atMs 3) ?c soloStarted = startTrack 0 t e1"
    using s(1) by (simp add: runCommand_def client_def dispatch_def onAdminSelect_def atMs_def)
  ultimately show ?thesis
    using soloStarted_facts(1,3) s(2) by (simp add: StartGame_def modeLockOwner_def)
qed

end
