(* ===== verification/Reveal_Rules.thy ===== *)
theory Reveal_Rules
  imports Frames
begin

section \<open>Reveal, handles, devices and the buzz lock\<close>

text \<open>
  What the letter reveal shows and hides, and the promises of the registry and of the anti-cheat
  parts, on the model's own definitions.
\<close>

subsection \<open>What the mask shows\<close>

lemma revealMany_frame:
  "rc_artistOrder (revealMany ds rc) = rc_artistOrder rc \<and> rc_songOrder (revealMany ds rc) = rc_songOrder rc \<and>
   rc_artist (revealMany ds rc) = rc_artist rc \<and> rc_song (revealMany ds rc) = rc_song rc \<and>
   rc_phase (revealMany ds rc) = rc_phase rc"
proof (induction ds arbitrary: rc)
  case (Cons d ds)
  then show ?case using revealOneLetter_frame [of d rc] by (simp add: revealMany_def)
qed (simp add: revealMany_def)

lemma revealOneLetter_mono:
  "rc_artistRevealed rc \<le> rc_artistRevealed (snd (revealOneLetter d rc)) \<and>
   rc_songRevealed rc \<le> rc_songRevealed (snd (revealOneLetter d rc))"
  by (cases rule: revealOneLetter_cases [where rc = rc and d = d]) auto

lemma revealMany_mono:
  "rc_artistRevealed rc \<le> rc_artistRevealed (revealMany ds rc) \<and>
   rc_songRevealed rc \<le> rc_songRevealed (revealMany ds rc)"
proof (induction ds arbitrary: rc)
  case (Cons d ds)
  show ?case using revealOneLetter_mono [of rc d] Cons [of "snd (revealOneLetter d rc)"]
    by (auto simp: revealMany_def)
qed (simp add: revealMany_def)

lemma byteString_ascii: "byte c < 128 \<Longrightarrow> byteString c = [c]"
  by (simp add: byteString_def encodeRune_def byte_def)

lemma byteString_space: "byteString CHR '' '' = '' ''"
  by (rule byteString_ascii) (simp add: byte_def)

text \<open>Mask \<open>m'\<close> shows at least what \<open>m\<close> shows.\<close>

definition showsMore :: "string list \<Rightarrow> string list \<Rightarrow> bool" where
  "showsMore m m' \<longleftrightarrow> length m = length m' \<and> (\<forall>i < length m. m ! i \<noteq> '''' \<longrightarrow> m' ! i = m ! i)"

lemma mask_mono:
  assumes "n \<le> n'"
  shows "showsMore (buildFieldMask field order n) (buildFieldMask field order n')"
proof -
  have "set (take n order) \<subseteq> set (take n' order)" using assms by (rule set_take_subset_set_take)
  then show ?thesis by (auto simp: showsMore_def nth_buildFieldMask byteString_space)
qed

text \<open>The positions of the letters of an ASCII field, and the finished mask.\<close>

lemma runes_from_ascii: "\<forall>b \<in> set bs. b < 128 \<Longrightarrow> runes_from i bs = zip [i..<i + length bs] bs"
proof (induction bs arbitrary: i)
  case (Cons b bs)
  then show ?case by (subst runes_from.simps) (simp add: upt_rec)
qed (simp add: runes_from.simps)

lemma runes_ascii: "\<forall>c \<in> set s. byte c < 128 \<Longrightarrow> runes s = zip [0..<length s] (map byte s)"
  by (simp add: runes_def runes_from_ascii)

lemma letterPositions_ascii:
  assumes "\<forall>c \<in> set s. byte c < 128"
  shows "set (letterPositions s) = {i. i < length s \<and> s ! i \<noteq> CHR '' ''}"
proof -
  have "byte c = 32 \<longleftrightarrow> c = CHR '' ''" for c
  proof -
    have "byte CHR '' '' = 32" by (simp add: byte_def)
    then show ?thesis by (metis byte_def of_char_eq_iff)
  qed
  then show ?thesis
    by (force simp: letterPositions_def runes_ascii [OF assms] set_zip image_iff)
qed

lemma mask_finished:
  assumes "\<forall>c \<in> set s. byte c < 128" and "length (buildRevealOrder prng s seed) \<le> n"
  shows "concat (buildFieldMask s (buildRevealOrder prng s seed) n) = s"
proof -
  have "buildFieldMask s (buildRevealOrder prng s seed) n = map (\<lambda>c. [c]) s"
  proof (rule nth_equalityI)
    fix i assume "i < length (buildFieldMask s (buildRevealOrder prng s seed) n)"
    then have i: "i < length s" by simp
    then have "s ! i \<in> set s" by simp
    with assms(1) have "byteString (s ! i) = [s ! i]" by (intro byteString_ascii) blast
    then show "buildFieldMask s (buildRevealOrder prng s seed) n ! i = map (\<lambda>c. [c]) s ! i"
      using i assms(2)
      by (auto simp: nth_buildFieldMask set_buildRevealOrder letterPositions_ascii [OF assms(1)])
  qed simp
  then show ?thesis by simp
qed


definition spelling :: revealClock where
  "spelling = zeroClock\<lparr>rc_artist := ''Ab'', rc_song := ''C d'', rc_artistOrder := buildRevealOrder (\<lambda>s i. i) ''Ab'' 1,
     rc_songOrder := buildRevealOrder (\<lambda>s i. i) ''C d'' 2, rc_phase := revealPhaseStream\<rparr>"

subsection \<open>What the mask hides\<close>

text \<open>Two answers look the same once the positions \<open>shown\<close> are shown.\<close>

definition sameLook :: "nat list \<Rightarrow> string \<Rightarrow> string \<Rightarrow> bool" where
  "sameLook shown s t \<longleftrightarrow> length s = length t \<and>
     (\<forall>i < length s. (s ! i = CHR '' '' \<longleftrightarrow> t ! i = CHR '' '') \<and> (i \<in> set shown \<longrightarrow> s ! i = t ! i))"

text \<open>
  The mask hides what is not shown. A frame of the block phase is the same for every artist
  and song whatever their length; a later frame is the same for all answers that agree in their
  length, their spaces and the letters shown so far, so it says nothing about the others.
\<close>

theorem mask_hides:
  assumes "rc' = rc\<lparr>rc_artist := a, rc_song := s\<rparr>"
    and "rc_phase rc = revealPhaseNoise \<or>
      sameLook (take (rc_artistRevealed rc) (rc_artistOrder rc)) (rc_artist rc) a \<and>
      sameLook (take (rc_songRevealed rc) (rc_songOrder rc)) (rc_song rc) s"
  shows "currentMask rc' = currentMask rc"
proof (cases "rc_phase rc = revealPhaseNoise")
  case True
  then show ?thesis by (simp add: assms(1) currentMask_def Let_def)
next
  case False
  with assms(2) have "sameLook (take (rc_artistRevealed rc) (rc_artistOrder rc)) (rc_artist rc) a"
    "sameLook (take (rc_songRevealed rc) (rc_songOrder rc)) (rc_song rc) s" by simp_all
  then have "buildFieldMask (rc_artist rc) (rc_artistOrder rc) (rc_artistRevealed rc) =
      buildFieldMask a (rc_artistOrder rc) (rc_artistRevealed rc)"
    "buildFieldMask (rc_song rc) (rc_songOrder rc) (rc_songRevealed rc) =
      buildFieldMask s (rc_songOrder rc) (rc_songRevealed rc)"
    "length (rc_artist rc) = length a" "length (rc_song rc) = length s"
    by (auto simp: sameLook_def intro!: buildFieldMask_secret)
  with False show ?thesis by (simp add: assms(1) currentMask_def Let_def)
qed

theorem mask_hides_witness:
  "currentMask (spelling\<lparr>rc_artist := ''Xy'', rc_song := ''P q''\<rparr>) = currentMask spelling"
  by (rule mask_hides [OF refl])
    (simp add: spelling_def zeroClock_def sameLook_def revealPhaseStream_def revealPhaseNoise_def
      less_Suc_eq numeral_2_eq_2 numeral_3_eq_3)

subsection \<open>Handles\<close>

definition cleanRunes :: "unicode \<Rightarrow> nat list \<Rightarrow> bool" where
  "cleanRunes U rs \<longleftrightarrow> (\<forall>r \<in> set rs. \<not> handleRuneDropped U r) \<and> (rs \<noteq> [] \<longrightarrow> \<not> u_M U (hd rs))"

lemma cleanRunes_snoc:
  "cleanRunes U (out @ [r]) \<longleftrightarrow> cleanRunes U out \<and> \<not> handleRuneDropped U r \<and> (out = [] \<longrightarrow> \<not> u_M U r)"
  by (cases out) (auto simp: cleanRunes_def)

lemma sanitizeRunes_clean:
  "cleanRunes U out \<Longrightarrow> length out < 24 \<Longrightarrow>
     cleanRunes U (sanitizeRunes U out rs) \<and> length (sanitizeRunes U out rs) \<le> 24"
proof (induction rs arbitrary: out)
  case (Cons r rs)
  from Cons.prems have n: "cleanRunes U (out @ [r]) \<longleftrightarrow> \<not> handleRuneDropped U r \<and> (out = [] \<longrightarrow> \<not> u_M U r)"
    by (simp add: cleanRunes_snoc)
  show ?case
  proof (cases "cleanRunes U (out @ [r])")
    case True
    with n Cons.prems(2) Cons.IH [OF True] show ?thesis by (cases "length out = 23") auto
  next
    case False
    with n have "sanitizeRunes U out (r # rs) = sanitizeRunes U out rs" by auto
    with Cons show ?thesis by simp
  qed
qed simp

lemma cleanRunes_append: "cleanRunes U (out @ rs) \<Longrightarrow> cleanRunes U out"
  by (cases out) (auto simp: cleanRunes_def)

lemma sanitizeRunes_id:
  "cleanRunes U (out @ rs) \<Longrightarrow> length (out @ rs) \<le> 24 \<Longrightarrow> sanitizeRunes U out rs = out @ rs"
proof (induction rs arbitrary: out)
  case (Cons r rs)
  have "cleanRunes U (out @ [r])" using Cons.prems(1) cleanRunes_append [of U "out @ [r]" rs] by simp
  then have keep: "\<not> handleRuneDropped U r" "\<not> (out = [] \<and> u_M U r)" by (auto simp: cleanRunes_snoc)
  show ?case
  proof (cases "length (out @ [r]) = 24")
    case True
    with Cons.prems(2) have "rs = []" by simp
    with True keep show ?thesis by simp
  next
    case False
    with keep Cons.IH [of "out @ [r]"] Cons.prems show ?thesis by auto
  qed
qed simp


subsection \<open>Devices\<close>

lemma removeConn_players [simp]:
  "r_players (fst (removeConn c r)) = r_players r" "r_byFP (fst (removeConn c r)) = r_byFP r"
  by (simp_all add: removeConn_def Let_def split: option.split)

lemma removeConn_getPlayer [simp]: "getPlayer (fst (removeConn c r)) q = getPlayer r q"
  by (simp add: getPlayer_def)

text \<open>A Hello from a device that is known binds to the player it had.\<close>

lemma resolve_known:
  assumes "hd_DeviceFP h \<noteq> ''''" and "map_of (r_byFP r) (hd_DeviceFP h) = Some q" and "getPlayer r q = Some p"
    and "pID p = q"
  shows "\<exists>r'. resolvePlayer U c h r = (r', q, False) \<and> r_byFP r' = r_byFP r \<and>
    (\<exists>hn. getPlayer r' q = Some (p\<lparr>pHandle := hn\<rparr>)) \<and> c \<in> set (connIDs r' q)"
proof -
  have "\<exists>hn. p = p\<lparr>pHandle := hn\<rparr>" by (rule exI [of _ "pHandle p"]) simp
  with assms show ?thesis
    by (auto simp: resolvePlayer_def Let_def getPlayer_updPlayer connIDs_def)
qed

lemma resolve_binds:
  assumes "keys_ok r" and "hd_DeviceFP h \<noteq> ''''" and "resolvePlayer U c h r = (r', pid, created)"
  shows "map_of (r_byFP r') (hd_DeviceFP h) = Some pid"
proof (cases "\<exists>q p. map_of (r_byFP r) (hd_DeviceFP h) = Some q \<and> getPlayer r q = Some p")
  case True
  then obtain q p where q: "map_of (r_byFP r) (hd_DeviceFP h) = Some q" "getPlayer r q = Some p" by blast
  from resolve_known [OF assms(2) q getPlayer_pID [OF assms(1) q(2)], of U c] assms(3) q(1)
  show ?thesis by auto
next
  case False
  then show ?thesis using assms(2,3) by (auto simp: resolvePlayer_def Let_def split: option.splits)
qed

text \<open>
  A device keeps its player. After a Hello with a device fingerprint, the disconnect of that
  connection and a new Hello with the same fingerprint on any other connection, the new connection
  belongs to the same player, which was not created anew and still has its score, its ban and
  its activity; only the handle may differ.
\<close>

theorem device_keeps_player:
  assumes "keys_ok r" and "hd_DeviceFP h \<noteq> ''''" and "hd_DeviceFP h' = hd_DeviceFP h"
    and "resolvePlayer U c h r = (r1, pid, created)"
    and "resolvePlayer U c' h' (fst (removeConn c r1)) = (r2, pid', created')"
  shows "pid' = pid \<and> \<not> created' \<and> c' \<in> set (connIDs r2 pid) \<and>
    (\<exists>p hn. getPlayer r1 pid = Some p \<and> getPlayer r2 pid = Some (p\<lparr>pHandle := hn\<rparr>))"
proof -
  have ok: "keys_ok r1" and "getPlayer r1 pid \<noteq> None"
    using resolvePlayer_ok [OF assms(1,4)] by simp_all
  then obtain p where p: "getPlayer r1 pid = Some p" by blast
  have "map_of (r_byFP (fst (removeConn c r1))) (hd_DeviceFP h') = Some pid"
    using resolve_binds [OF assms(1,2,4)] assms(3) by simp
  from resolve_known [OF _ this, of p U c'] p assms(2,3,5) getPlayer_pID [OF ok p] show ?thesis by auto
qed

definition annHello :: "string \<Rightarrow> helloData" where
  "annHello handle = \<lparr>hd_Role = RoleMobile, hd_Handle = handle, hd_DeviceFP = ''fp1'', hd_JoinToken = '''', hd_AdminSecret = ''''\<rparr>"

theorem device_keeps_player_witness:
  "fst (snd (resolvePlayer asciiTables ''c2'' (annHello ''Annie'')
     (fst (removeConn ''c1'' (fst (resolvePlayer asciiTables ''c1'' (annHello ''Ann'') newRegistry)))))) = ''fp1''"
proof -
  obtain r1 pid cr where a: "resolvePlayer asciiTables ''c1'' (annHello ''Ann'') newRegistry = (r1, pid, cr)"
    by (metis prod_cases3)
  obtain r2 pid' cr' where b: "resolvePlayer asciiTables ''c2'' (annHello ''Annie'') (fst (removeConn ''c1'' r1)) = (r2, pid', cr')"
    by (metis prod_cases3)
  have "pid = ''fp1''" using a by (auto simp: resolvePlayer_def Let_def annHello_def newRegistry_def)
  moreover have "pid' = pid"
    using device_keeps_player [OF keys_ok_new _ _ a b] by (simp add: annHello_def)
  ultimately show ?thesis using a b by simp
qed

subsection \<open>The buzz lock and the latency\<close>

text \<open>
  Compensation for latency is bounded and never reverses a clear lead: the effective time
  of a buzz lies at most 50 ms before its arrival and never after it, whatever round trip time
  the client claims; so a buzz that arrives more than 50 ms before another counts as
  earlier, and of two buzzes with the same claimed round trip time the first to arrive does.
\<close>

theorem latency_compensation_bounded:
  "arrival - 50 \<le> EffectiveBuzzTime arrival rtt \<and> EffectiveBuzzTime arrival rtt \<le> arrival \<and>
   (arrival + 50 < arrival' \<longrightarrow> EffectiveBuzzTime arrival rtt < EffectiveBuzzTime arrival' rtt') \<and>
   (arrival < arrival' \<longrightarrow> EffectiveBuzzTime arrival rtt < EffectiveBuzzTime arrival' rtt)"
  using EffectiveBuzzTime_bounds [of arrival rtt] EffectiveBuzzTime_bounds [of arrival' rtt']
  by (auto simp: EffectiveBuzzTime_def Let_def)

theorem latency_compensation_bounded_witness:
  "EffectiveBuzzTime 1000 0 < EffectiveBuzzTime 1051 4000"
  using latency_compensation_bounded [of 1000 0 1051 4000] by simp

text \<open>
  One winner a round. However many players race for the lock of a round and in whatever
  order, at most one acquire succeeds; if the round's key is free exactly one does, the first,
  and the lock then names that player.
\<close>

theorem one_winner:
  "count_list (acquire_all ml_TryAcquire key l ps) True \<le> 1 \<and>
   (ml_lookup l key = None \<and> ps \<noteq> [] \<longrightarrow> count_list (acquire_all ml_TryAcquire key l ps) True = 1 \<and>
     hd (acquire_all ml_TryAcquire key l ps) \<and> ml_Holder (snd (ml_TryAcquire l key (hd ps))) key = hd ps)"
proof -
  have "count_list (acquire_all ml_TryAcquire key l ps) True = 1 \<and> hd (acquire_all ml_TryAcquire key l ps) \<and>
      ml_Holder (snd (ml_TryAcquire l key (hd ps))) key = hd ps"
    if free: "ml_lookup l key = None" and "ps \<noteq> []"
  proof -
    from \<open>ps \<noteq> []\<close> obtain p qs where ps: "ps = p # qs" by (cases ps) auto
    have "ml_lookup (snd (ml_TryAcquire l key p)) key = Some p" using free by (simp add: ml.acquire_holder)
    then show ?thesis using free ml.acquire_all_taken [of "snd (ml_TryAcquire l key p)" key qs]
      by (simp add: ps ml.acquire_won ml_Holder_lookup)
  qed
  with ml.acquire_all_one_winner show ?thesis by blast
qed

theorem one_winner_witness:
  "count_list (acquire_all ml_TryAcquire ''r1'' NewMemLock [''p1'', ''p2'', ''p1'']) True = 1"
  using one_winner [of "''r1''" NewMemLock "[''p1'', ''p2'', ''p1'']"] by (simp add: ml_lookup_def NewMemLock_def del: acquire_all.simps count_list.simps)

end
