(* ===== verification/Wire_Rules.thy ===== *)
theory Wire_Rules
  imports Transport Lyrics "HOL-Library.Sublist"
begin

section \<open>The wire: frames in order, and texts that are read back\<close>

text \<open>
  What a connection's queue and writer promise about the frames they are given, the framing
  read back by the reader, and the lyrics parser on the documents it is made for.
\<close>

subsection \<open>One connection\<close>

datatype conn_event = Enqueue bool serverEnvelope | WriterTurns bool bool

fun connStep :: "(serverEnvelope \<Rightarrow> bytes option) \<Rightarrow> conn_event \<Rightarrow> hubConn \<Rightarrow> hubConn" where
  "connStep marshal (Enqueue pick m) c = enqueue pick m c"
| "connStep marshal (WriterTurns werr pick) c = writeStep marshal werr pick c"

fun enqueuedOf :: "conn_event list \<Rightarrow> serverEnvelope list" where
  "enqueuedOf [] = []"
| "enqueuedOf (Enqueue pick m # es) = m # enqueuedOf es"
| "enqueuedOf (WriterTurns werr pick # es) = enqueuedOf es"

lemma enqueuedOf_snoc [simp]:
  "enqueuedOf (es @ [Enqueue pick m]) = enqueuedOf es @ [m]"
  "enqueuedOf (es @ [WriterTurns werr pick]) = enqueuedOf es"
  by (induction es rule: enqueuedOf.induct) simp_all

definition freshConn :: hubConn where
  "freshConn = \<lparr>hc_role = RoleMobile, hc_out = [], hc_seq = 0, hc_closed = False, hc_wire = [],
     hc_returned = False\<rparr>"

text \<open>A frame without its number, and the frames numbered from 1 on.\<close>

definition bare :: "serverEnvelope \<Rightarrow> serverEnvelope" where
  "bare m = m\<lparr>ev_Seq := 0\<rparr>"

definition numbered :: "serverEnvelope list \<Rightarrow> bool" where
  "numbered ms \<longleftrightarrow> (\<forall>i < length ms. ev_Seq (ms ! i) = of_nat (Suc i))"

lemma bare_stamp [simp]: "bare (m\<lparr>ev_Seq := q\<rparr>) = bare m"
  by (simp add: bare_def)

lemma numbered_snoc: "numbered (ms @ [m]) \<longleftrightarrow> numbered ms \<and> ev_Seq m = of_nat (length ms) + 1"
  by (auto simp: numbered_def nth_append less_Suc_eq add.commute)

text \<open>The invariant of a connection that was given the frames \<open>given\<close> and wrote \<open>ms\<close>.\<close>

definition delivers :: "(serverEnvelope \<Rightarrow> bytes option) \<Rightarrow> serverEnvelope list \<Rightarrow> serverEnvelope list \<Rightarrow> hubConn \<Rightarrow> bool" where
  "delivers marshal given ms c \<longleftrightarrow> length (hc_out c) \<le> sendQueueDepth \<and> hc_wire c = wireOf marshal ms \<and>
     numbered ms \<and> subseq (map bare (ms @ hc_out c)) (map bare given) \<and>
     (\<not> hc_closed c \<longrightarrow> map bare (ms @ hc_out c) = map bare given \<and> \<not> hc_returned c) \<and>
     (\<not> hc_returned c \<longrightarrow> hc_seq c = of_nat (length ms))"

lemma delivers_enqueue:
  assumes "delivers marshal given ms c"
  shows "delivers marshal (given @ [m]) ms (enqueue pick m c)"
proof -
  have "subseq (map bare (ms @ hc_out c)) (map bare given @ [bare m])"
    using assms by (auto simp: delivers_def intro: subseq_order.trans [OF _ list_emb_append2])
  moreover have "subseq (map bare (ms @ hc_out c) @ [bare m]) (map bare given @ [bare m])"
    using assms by (auto simp: delivers_def simp flip: append_assoc)
  ultimately show ?thesis
    using assms by (auto simp: delivers_def enqueue_def conn_stop_def)
qed

lemma delivers_write:
  assumes "delivers marshal given ms c" and total: "\<And>m. marshal m \<noteq> None"
  shows "\<exists>ms'. delivers marshal given ms' (writeStep marshal werr pick c)"
proof (cases "hc_returned c \<or> hc_closed c \<and> pick \<or> hc_out c = []")
  case True
  with assms have "delivers marshal given ms (writeStep marshal werr pick c)"
    by (auto simp: delivers_def writeStep_def)
  then show ?thesis by blast
next
  case False
  then obtain m rest where out: "hc_out c = m # rest" by (cases "hc_out c") auto
  let ?m = "m\<lparr>ev_Seq := hc_seq c + 1\<rparr>"
  obtain body where body: "marshal ?m = Some body" using total by blast
  have seq: "hc_seq c = of_nat (length ms)" using False assms(1) by (simp add: delivers_def)
  show ?thesis
  proof (cases werr)
    case True
    have "subseq (map bare (ms @ rest)) (map bare (ms @ m # rest))"
      unfolding map_append list.map by (intro list_emb_append_mono list_emb.list_emb_Cons) simp_all
    then have "subseq (map bare (ms @ rest)) (map bare given)"
      using assms(1) out by (auto simp: delivers_def intro: subseq_order.trans)
    then have "delivers marshal given ms (writeStep marshal werr pick c)"
      using assms(1) False True out body by (auto simp: delivers_def writeStep_def Let_def conn_stop_def)
    then show ?thesis by blast
  next
    case no_err: False
    have "delivers marshal given (ms @ [?m]) (writeStep marshal werr pick c)"
      using assms(1) False no_err out body seq
      by (auto simp: delivers_def writeStep_def Let_def numbered_snoc wireOf_def)
    then show ?thesis by blast
  qed
qed

lemma delivers_run:
  assumes total: "\<And>m. marshal m \<noteq> None"
  shows "\<exists>ms. delivers marshal (enqueuedOf es) ms (fold (connStep marshal) es freshConn)"
proof (induction es rule: rev_induct)
  case Nil
  have "delivers marshal [] [] freshConn"
    by (simp add: delivers_def freshConn_def wireOf_def numbered_def)
  then show ?case by auto
next
  case (snoc e es)
  then obtain ms where "delivers marshal (enqueuedOf es) ms (fold (connStep marshal) es freshConn)" by blast
  then show ?case
    by (cases e) (auto intro: delivers_enqueue delivers_write [OF _ total])
qed

text \<open>
  C36: A connection delivers in order. However the sends and the turns of its writer interleave,
  the queue holds at most 64 frames; the wire is the framing of frames numbered 1, 2, 3, ...,
  which with the queued ones are given frames in the order in which they were given; and as
  long as the connection was not stopped they are all of them, none lost.
\<close>

theorem frames_in_order:
  assumes "\<And>m. marshal m \<noteq> None" and "c = fold (connStep marshal) es freshConn"
  shows "length (hc_out c) \<le> 64 \<and> (\<exists>ms. hc_wire c = wireOf marshal ms \<and> numbered ms \<and>
     subseq (map bare (ms @ hc_out c)) (map bare (enqueuedOf es)) \<and>
     (\<not> hc_closed c \<longrightarrow> map bare (ms @ hc_out c) = map bare (enqueuedOf es)))"
proof -
  obtain ms where "delivers marshal (enqueuedOf es) ms c"
    using delivers_run [of marshal es] assms by auto
  then show ?thesis by (auto simp: delivers_def sendQueueDepth_def)
qed

definition boardFrame :: serverEnvelope where
  "boardFrame = \<lparr>ev_msg = SMsgState StateBoard, ev_Nonce = 1, ev_Seq = 0\<rparr>"

theorem frames_in_order_witness:
  "\<exists>ms. hc_wire (fold (connStep (\<lambda>_. Some [1, 2])) [Enqueue False boardFrame, WriterTurns False False] freshConn) =
     wireOf (\<lambda>_. Some [1, 2]) ms \<and> numbered ms"
  using frames_in_order [of "\<lambda>_. Some [1, 2]", OF _ refl, of "[Enqueue False boardFrame, WriterTurns False False]"]
  by auto

text \<open>
  The framing is read back. What a peer reads from a stream of frames, cut into chunks in
  any way and possibly broken off inside a frame, is exactly the bodies of the whole frames, and
  then an end of file that is unexpected if and only if the stream broke off inside a frame.
\<close>

theorem frames_read_back:
  assumes "\<forall>b \<in> set bodies. length b \<le> maxFrameLen"
    and "length b \<le> maxFrameLen" and "encodeFrame b = p @ q" and "q \<noteq> []"
    and "concat chunks = concat (map encodeFrame bodies) @ p"
  shows "readLoop EOF chunks [] = (bodies, if p = [] then EOF else UnexpectedEOF)"
  using readLoop_frames [OF assms(1-4), of "[]" chunks] assms(5) by simp

theorem frames_read_back_witness:
  "readLoop EOF [[0, 0], [0, 2, 7], [8, 0, 0, 0]] [] = ([[7, 8]], UnexpectedEOF)"
  using frames_read_back [of "[[7, 8]]" "[]" "[0, 0, 0]" "[0]" "[[0, 0], [0, 2, 7], [8, 0, 0, 0]]"]
  by (simp add: encodeFrame_def PutUint32_def maxFrameLen_def)

end
