(* ===== verification/Lyrics_Rules.thy ===== *)
theory Lyrics_Rules
  imports Lyrics
begin

section \<open>Synced lyrics are read back\<close>

text \<open>
  The documents the parser is made for, written by a printer: each line has its time tags, its
  text and any number of carriage returns before the newline. Parsing such a document gives its
  lines, one for each tag, in the order of time.
\<close>

definition pad2 :: "nat \<Rightarrow> string" where
  "pad2 n = [char_of (48 + n div 10 mod 10), char_of (48 + n mod 10)]"

definition pad3 :: "nat \<Rightarrow> string" where
  "pad3 n = [char_of (48 + n div 100 mod 10), char_of (48 + n div 10 mod 10), char_of (48 + n mod 10)]"

definition lrcTag :: "nat \<Rightarrow> string" where
  "lrcTag t = ''['' @ digits (t div 60000) @ '':'' @ pad2 (t div 1000 mod 60) @ ''.'' @ pad3 (t mod 1000) @ '']''"

definition CR :: char where "CR = CHR 0x0D"
definition LF :: char where "LF = CHR 0x0A"

definition lrcLine :: "nat list \<times> string \<times> nat \<Rightarrow> string" where
  "lrcLine = (\<lambda>(ts, text, crs). concat (map lrcTag ts) @ text @ replicate crs CR)"

definition printLRC :: "(nat list \<times> string \<times> nat) list \<Rightarrow> string" where
  "printLRC doc = concat (map (\<lambda>l. lrcLine l @ [LF]) doc)"

subsection \<open>Digits\<close>

lemma byte_digit: "d < 10 \<Longrightarrow> byte (char_of (48 + d)) = 48 + d"
  by (simp add: byte_def)

lemma isDigit_digit: "(d::nat) < 10 \<Longrightarrow> isDigit (char_of (48 + d))"
  by (simp add: isDigit_def byte_digit)

lemma isDigit_digits: "c \<in> set (digits n) \<Longrightarrow> isDigit c"
proof (induction n rule: digits.induct)
  case (1 n)
  then show ?case
    by (subst (asm) digits.simps) (auto simp: isDigit_digit split: if_splits)
qed

lemma isDigit_pads: "c \<in> set (pad2 n) \<union> set (pad3 n) \<Longrightarrow> isDigit c"
  by (auto simp: pad2_def pad3_def isDigit_digit)

lemma digitsVal_snoc: "digitsVal (s @ [c]) = 10 * digitsVal s + int (byte c - 48)"
  by (simp add: digitsVal_def)

lemma digitsVal_digits: "digitsVal (digits n) = int n"
proof (induction n rule: digits.induct)
  case (1 n)
  show ?case
  proof (cases "n < 10")
    case True
    then show ?thesis by (subst digits.simps) (simp add: digitsVal_def byte_digit)
  next
    case False
    then show ?thesis using 1 by (subst digits.simps) (simp add: digitsVal_snoc byte_digit zdiv_int zmod_int)
  qed
qed

lemma digits_not_Nil [simp]: "digits n \<noteq> []"
  by (subst digits.simps) simp

lemma digitsVal_pad2: "n < 100 \<Longrightarrow> digitsVal (pad2 n) = int n"
  by (simp add: pad2_def digitsVal_def byte_digit zdiv_int zmod_int)

lemma digitsVal_pad3:
  assumes "n < 1000"
  shows "digitsVal (pad3 n) = int n"
proof -
  define a where "a = n div 10"
  have a: "a div 10 < 10" "n div 100 = a div 10" using assms by (simp_all add: a_def div_mult2_eq [symmetric])
  then have "digitsVal (pad3 n) = 10 * (10 * int (a div 10) + int (a mod 10)) + int (n mod 10)"
    by (simp add: pad3_def digitsVal_def byte_digit a_def)
  also have "\<dots> = 10 * int a + int (n mod 10)" by (simp add: zdiv_int zmod_int)
  also have "\<dots> = int n" by (simp add: a_def zdiv_int zmod_int)
  finally show ?thesis .
qed

lemma length_pads [simp]: "length (pad2 n) = 2" "length (pad3 n) = 3"
  by (simp_all add: pad2_def pad3_def)

lemma pads_not_Nil [simp]: "pad2 n \<noteq> []" "pad3 n \<noteq> []"
  by (simp_all add: pad2_def pad3_def)

lemma takeWhile_digits:
  assumes "\<And>c. c \<in> set ds \<Longrightarrow> isDigit c" and "\<not> isDigit x"
  shows "takeWhile isDigit (ds @ x # s) = ds" "dropWhile isDigit (ds @ x # s) = x # s"
  using assms by (simp_all add: takeWhile_append2 dropWhile_append2)

lemma takeWhile_fields [simp]:
  assumes "\<not> isDigit x"
  shows "takeWhile isDigit (digits n @ x # s) = digits n" "dropWhile isDigit (digits n @ x # s) = x # s"
    "takeWhile isDigit (pad2 n @ x # s) = pad2 n" "dropWhile isDigit (pad2 n @ x # s) = x # s"
    "takeWhile isDigit (pad3 n @ x # s) = pad3 n" "dropWhile isDigit (pad3 n @ x # s) = x # s"
  using assms takeWhile_digits [of "digits n"] takeWhile_digits [of "pad2 n"] takeWhile_digits [of "pad3 n"]
    isDigit_digits [of _ n] isDigit_pads [of _ n] by blast+

lemma not_digits [simp]: "\<not> isDigit CHR '':''" "\<not> isDigit CHR ''.''" "\<not> isDigit CHR '']''"
  by (simp_all add: isDigit_def byte_def)

subsection \<open>One line\<close>

lemma matchTag_lrcTag:
  "matchTag (lrcTag t @ s) = Some (digits (t div 60000), pad2 (t div 1000 mod 60), pad3 (t mod 1000), s)"
  by (simp add: matchTag_def lrcTag_def Let_def)

lemma lrcTime_lrcTag:
  assumes "t < 2 ^ 63"
  shows "lrcTimeMs (digits (t div 60000)) (pad2 (t div 1000 mod 60)) (pad3 (t mod 1000)) = int t"
proof -
  define m sec ms where "m = t div 60000" and "sec = t div 1000 mod 60" and "ms = t mod 1000"
  have "m * 60 + sec = t div 1000"
    using div_mult_mod_eq [of "t div 1000" 60] by (simp add: m_def sec_def div_mult2_eq [symmetric])
  then have "t = (m * 60 + sec) * 1000 + ms" by (simp add: ms_def div_mult_mod_eq)
  then have t: "int t = int m * 60000 + int sec * 1000 + int ms" by simp
  have "sec < 100" by (simp add: sec_def order.strict_trans1 [of _ 59])
  moreover have "ms < 1000" by (simp add: ms_def)
  moreover have "int t < 2 ^ 63" using assms by simp
  then have "int m < 2 ^ 63" using t by linarith
  ultimately have "atoi (digits m) = int m" "atoi (pad2 sec) = int sec" "atoi (pad3 ms) = int ms"
    by (simp_all add: atoi_def digitsVal_digits digitsVal_pad2 digitsVal_pad3)
  moreover have "wrap64 i = i" if "0 \<le> i" "i \<le> int t" for i
    using that assms by (simp add: wrap64_def)
  ultimately have "lrcTimeMs (digits m) (pad2 sec) (pad3 ms) = int t"
    using t by (simp add: lrcTimeMs_def Let_def)
  then show ?thesis by (simp only: m_def sec_def ms_def)
qed

lemma takeTags_lrcTags:
  assumes "\<forall>t \<in> set ts. t < 2 ^ 63" and "matchTag s = None"
  shows "takeTags (concat (map lrcTag ts) @ s) = (map int ts, s)"
  using assms(1)
proof (induction ts)
  case Nil
  then show ?case by (subst takeTags.simps) (simp add: assms(2))
next
  case (Cons t ts)
  then show ?case
    by (subst takeTags.simps) (simp add: matchTag_lrcTag lrcTime_lrcTag)
qed

lemma byte_CR: "byte CR = 13"
  by (simp add: CR_def byte_def)

lemma trimRightCR_id: "s = [] \<or> last s \<noteq> CR \<Longrightarrow> trimRightCR (s @ replicate k CR) = s"
proof -
  assume s: "s = [] \<or> last s \<noteq> CR"
  have "byte c = 13 \<longleftrightarrow> c = CR" for c
    by (metis (full_types) CR_def byte_CR byte_def of_char_eq_iff)
  then have "dropWhile (\<lambda>c. byte c = 13) (replicate k CR @ xs) = dropWhile (\<lambda>c. byte c = 13) xs" for xs
    by (intro dropWhile_append2) (auto dest: in_set_replicate [THEN iffD1])
  with s \<open>\<And>c. byte c = 13 \<longleftrightarrow> c = CR\<close> show ?thesis
    by (cases s rule: rev_cases) (simp_all add: trimRightCR_def)
qed

subsection \<open>A document\<close>

definition lineOk :: "nat list \<times> string \<times> nat \<Rightarrow> bool" where
  "lineOk = (\<lambda>(ts, text, crs). ts \<noteq> [] \<and> (\<forall>t \<in> set ts. t < 2 ^ 63) \<and> matchTag text = None \<and>
     LF \<notin> set text \<and> (text = [] \<or> last text \<noteq> CR))"

lemma splitLines_line:
  assumes "LF \<notin> set l"
  shows "splitLines (l @ LF # s) = l # splitLines s"
proof -
  have "byte c = 10 \<longleftrightarrow> c = LF" for c
  proof -
    have "byte LF = 10" by (simp add: LF_def byte_def)
    then show ?thesis by (metis byte_def of_char_eq_iff)
  qed
  with assms show ?thesis by (induction l) auto
qed

lemma no_LF_tags: "LF \<notin> set (lrcTag t)"
proof -
  have "\<not> isDigit LF" by (simp add: isDigit_def byte_def LF_def)
  then show ?thesis
    using isDigit_digits [of LF] isDigit_pads [of LF] by (auto simp: lrcTag_def LF_def)
qed

lemma last_tags: "ts \<noteq> [] \<Longrightarrow> last (concat (map lrcTag ts)) = CHR '']'' \<and> concat (map lrcTag ts) \<noteq> []"
  by (cases ts rule: rev_cases) (simp_all add: lrcTag_def)

lemma parseLine_lrcLine:
  assumes "lineOk (ts, text, crs)"
  shows "parseLine (lrcLine (ts, text, crs)) = map (\<lambda>t. \<lparr>ll_TimeMs = int t, ll_Text = trimSpace text\<rparr>) ts"
proof -
  let ?l = "concat (map lrcTag ts) @ text"
  have "?l = [] \<or> last ?l \<noteq> CR"
    using assms last_tags [of ts] by (auto simp: lineOk_def last_append CR_def)
  from trimRightCR_id [OF this, of crs] have "trimRightCR (lrcLine (ts, text, crs)) = ?l"
    by (simp add: lrcLine_def)
  moreover have "takeTags ?l = (map int ts, text)"
    using assms by (intro takeTags_lrcTags) (auto simp: lineOk_def)
  ultimately show ?thesis using assms by (simp add: parseLine_def lineOk_def comp_def)
qed

lemma no_LF_line: "lineOk l \<Longrightarrow> LF \<notin> set (lrcLine l)"
  using no_LF_tags by (cases l) (auto simp: lineOk_def lrcLine_def LF_def CR_def)

lemma splitLines_doc: "list_all lineOk doc \<Longrightarrow> splitLines (printLRC doc) = map lrcLine doc @ [[]]"
proof (induction doc)
  case (Cons l doc)
  then show ?case using splitLines_line [OF no_LF_line, of l "printLRC doc"] by (simp add: printLRC_def)
qed (simp add: printLRC_def)

text \<open>
  The lyrics parser reads LRC documents back. A document whose lines have one or more time
  tags (any times below 2^63 milliseconds, printed as minutes, seconds and milliseconds), a text
  that does not itself begin with a tag, and LF or CR LF line ends is parsed into one line for
  every tag, at exactly the tag's time and with the line's trimmed text, sorted by time, lines of
  equal time in the order of the document.
\<close>

theorem lyrics_read_back:
  assumes "list_all lineOk doc"
  shows "ParseLRC (printLRC doc) = sort_key ll_TimeMs
    (concat (map (\<lambda>(ts, text, crs). map (\<lambda>t. \<lparr>ll_TimeMs = int t, ll_Text = trimSpace text\<rparr>) ts) doc))"
proof -
  have "parseLine [] = []" by (simp add: parseLine_def trimRightCR_def takeTags.simps matchTag_def)
  moreover have "map (\<lambda>l. parseLine (lrcLine l)) doc =
      map (\<lambda>(ts, text, crs). map (\<lambda>t. \<lparr>ll_TimeMs = int t, ll_Text = trimSpace text\<rparr>) ts) doc"
    using assms by (induction doc) (auto simp: parseLine_lrcLine)
  ultimately show ?thesis by (simp add: ParseLRC_def splitLines_doc [OF assms] comp_def del: map_eq_conv)
qed

theorem lyrics_read_back_witness:
  "ParseLRC (printLRC [([61500, 2000], ''la la'', 1), ([30000], ''oh'', 0)]) =
     [\<lparr>ll_TimeMs = 2000, ll_Text = trimSpace ''la la''\<rparr>, \<lparr>ll_TimeMs = 30000, ll_Text = trimSpace ''oh''\<rparr>,
      \<lparr>ll_TimeMs = 61500, ll_Text = trimSpace ''la la''\<rparr>]"
proof -
  have "list_all lineOk [([61500, 2000], ''la la'', 1), ([30000], ''oh'', 0)]"
    by (simp add: lineOk_def matchTag_def LF_def CR_def)
  from lyrics_read_back [OF this] show ?thesis by simp
qed

end
