(* ===== verification/Db.thy ===== *)
theory Db
  imports Board "HOL-Library.State_Monad"
begin

section \<open>The database behind the stores: deploy/migrations and the pgx calls of server/internal/store\<close>

text \<open>
  The tables of the migrations as lists of rows in insertion order, and the SQL statements
  the stores run on them. A store method is a program in the state monad over \<open>db\<close>; its
  result is an error or a value.
  \<^item> A statement is \<open>stmt f\<close>: \<open>f\<close> is the effect the SQL text has on the tables, with the
    constraints of the migrations (primary keys, unique indexes, foreign keys with their
    cascades, checks) as its errors.
  \<^item> \<open>d_net\<close> says what the connection does to the next statements: the reply arrives, the
    statement never reaches the server, or it runs and the reply is lost. A fault also
    stands for what the tables cannot show, such as a NUL byte in a text parameter.
  \<^item> \<open>transact\<close> runs a program between Begin and Commit: an error rolls the tables back, and
    a Commit whose reply is lost has been done.
  \<^item> \<open>ORDER BY\<close> is a stable sort; SQL leaves the order of ties open, the model keeps the
    table's order.
  The columns no statement of the program reads are left out (\<open>checked_at\<close> and
  \<open>updated_at\<close> of the two caches, \<open>id\<close> of the event log); the clock is an argument.
\<close>

subsection \<open>Rows\<close>

record boardRow =
  br_id :: string
  br_name :: string
  br_cols :: int
  br_created :: int
  br_updated :: int
  br_ddCount :: int

record trackRow =
  bt_id :: string
  bt_board :: string
  bt_uri :: string
  bt_artist :: string
  bt_song :: string
  bt_art :: string
  bt_duration :: int
  bt_created :: int
  bt_override :: bool
  bt_year :: int
  bt_genre :: string

record cellRow =
  lc_board :: string
  lc_row :: int
  lc_col :: int
  lc_category :: string
  lc_dd :: bool

record placeRow =
  pl_board :: string
  pl_row :: int
  pl_col :: int
  pl_track :: string
  pl_pos :: int
  pl_played :: bool

record ddRow =
  dr_id :: string
  dr_board :: string
  dr_uri :: string
  dr_artist :: string
  dr_song :: string
  dr_art :: string
  dr_duration :: int
  dr_created :: int

record lyricsRow =
  ly_uri :: string
  ly_text :: "string option"
  ly_status :: string
  ly_source :: "string option"
  ly_error :: "string option"

record dropRow =
  dp_uri :: string
  dp_ms :: int
  dp_source :: string

record sessionRow =
  gs_id :: string
  gs_created :: int
  gs_skip :: int
  gs_state :: string
  gs_board :: "string option"

record scoreRow =
  sl_session :: string
  sl_player :: string
  sl_handle :: string
  sl_score :: int
  sl_updated :: int

record eventRow =
  ev_session :: string
  ev_kind :: string
  ev_detail :: string
  ev_created :: int

text \<open>One shape for the two Solo Karaoke tables; the library has no position column, its rows hold 0.\<close>

record skRow =
  sk_id :: string
  sk_uri :: string
  sk_artist :: string
  sk_song :: string
  sk_art :: string
  sk_duration :: int
  sk_created :: int
  sk_position :: int

record tables =
  tb_boards :: "boardRow list"
  tb_tracks :: "trackRow list"
  tb_cells :: "cellRow list"
  tb_places :: "placeRow list"
  tb_dd :: "ddRow list"
  tb_lyrics :: "lyricsRow list"
  tb_drops :: "dropRow list"
  tb_sessions :: "sessionRow list"
  tb_scores :: "scoreRow list"
  tb_events :: "eventRow list"
  tb_skLibrary :: "skRow list"
  tb_skPlaylist :: "skRow list"

datatype reply = Replied | NotSent | ReplyLost

record db =
  d_tab :: tables
  d_net :: "reply list"

subsection \<open>Errors and statements\<close>

datatype pgErr = ConnErr | EncodeErr | CheckViolation | UniqueViolation | ForeignKeyViolation | NoRows

datatype storeErr =
    StoreErr string pgErr
  | StoreMsg string
  | ErrDailyDoubleTrackExists
  | ErrDailyDoubleTrackNotFound
  | ErrSoloKaraokeLibraryTrackExists
  | ErrSoloKaraokeLibraryTrackNotFound
  | ErrSoloKaraokePlaylistTrackExists
  | ErrSoloKaraokePlaylistTrackNotFound

type_synonym 'a sql = "tables \<Rightarrow> pgErr + 'a \<times> tables"
type_synonym 'a pg = "(db, pgErr + 'a) state"
type_synonym 'a store = "(db, storeErr + 'a) state"

abbreviation ret :: "'a \<Rightarrow> ('s, 'a) state" where
  "ret \<equiv> State_Monad.return"

definition netHead :: "reply list \<Rightarrow> reply" where
  "netHead n = (case n of [] \<Rightarrow> Replied | r # _ \<Rightarrow> r)"

definition stmt :: "'a sql \<Rightarrow> 'a pg" where
  "stmt f = State (\<lambda>d.
     (let r = netHead (d_net d); d1 = d\<lparr>d_net := tl (d_net d)\<rparr>
      in if r = NotSent then (Inl ConnErr, d1)
         else case f (d_tab d) of
             Inl x \<Rightarrow> (Inl (if r = ReplyLost then ConnErr else x), d1)
           | Inr (a, t) \<Rightarrow> (if r = ReplyLost then Inl ConnErr else Inr a, d1\<lparr>d_tab := t\<rparr>)))"

text \<open>pgx refuses to encode a Go int outside the range of an INT column.\<close>

definition int4 :: "int \<Rightarrow> bool" where
  "int4 i \<longleftrightarrow> - 2147483648 \<le> i \<and> i \<le> 2147483647"

definition stmt4 :: "int list \<Rightarrow> 'a sql \<Rightarrow> 'a pg" where
  "stmt4 is f = (if list_all int4 is then stmt f else ret (Inl EncodeErr))"

text \<open>\<open>if err != nil { return fmt.Errorf("store: ...: %w", err) }\<close>\<close>

definition wrapped :: "string \<Rightarrow> 'a pg \<Rightarrow> 'a store" where
  "wrapped msg m = m \<bind> (\<lambda>r. ret (case r of Inl x \<Rightarrow> Inl (StoreErr msg x) | Inr a \<Rightarrow> Inr a))"

text \<open>\<open>if err != nil { return err }\<close>, then the rest of the method.\<close>

definition andThen :: "('s, 'e + 'a) state \<Rightarrow> ('a \<Rightarrow> ('s, 'e + 'b) state) \<Rightarrow> ('s, 'e + 'b) state" where
  "andThen m k = m \<bind> (\<lambda>r. case r of Inl x \<Rightarrow> ret (Inl x) | Inr a \<Rightarrow> k a)"

text \<open>\<open>QueryRow(...).Scan(...)\<close>: the absent row is \<open>pgx.ErrNoRows\<close>.\<close>

definition queryRow :: "(tables \<Rightarrow> 'a option) \<Rightarrow> 'a pg" where
  "queryRow f = stmt (\<lambda>t. case f t of None \<Rightarrow> Inl NoRows | Some a \<Rightarrow> Inr (a, t))"

definition query :: "(tables \<Rightarrow> 'a) \<Rightarrow> 'a pg" where
  "query f = stmt (\<lambda>t. Inr (f t, t))"

text \<open>\<open>if errors.Is(err, pgx.ErrNoRows) { return nil, nil }\<close>\<close>

definition rowOrNil :: "string \<Rightarrow> 'a pg \<Rightarrow> 'a option store" where
  "rowOrNil msg m = m \<bind> (\<lambda>r. ret (case r of
     Inl NoRows \<Rightarrow> Inr None | Inl x \<Rightarrow> Inl (StoreErr msg x) | Inr a \<Rightarrow> Inr (Some a)))"

definition begin_tx :: "unit pg" where
  "begin_tx = stmt (\<lambda>t. Inr ((), t))"

text \<open>
  \<open>transact wb wc m\<close>: Begin, then \<open>m\<close> on the transaction, then Commit, with the deferred
  Rollback for every other way out.
\<close>

definition transact :: "(pgErr \<Rightarrow> 'e) \<Rightarrow> (pgErr \<Rightarrow> 'e) \<Rightarrow> (db, 'e + 'a) state \<Rightarrow> (db, 'e + 'a) state" where
  "transact wb wc m = begin_tx \<bind> (\<lambda>b. case b of Inl x \<Rightarrow> ret (Inl (wb x))
     | Inr _ \<Rightarrow> State (\<lambda>d.
         (case run_state m d of
            (Inl x, d1) \<Rightarrow> (Inl x, d1\<lparr>d_tab := d_tab d\<rparr>)
          | (Inr a, d1) \<Rightarrow>
              (let r = netHead (d_net d1); d2 = d1\<lparr>d_net := tl (d_net d1)\<rparr>
               in case r of
                    Replied \<Rightarrow> (Inr a, d2)
                  | NotSent \<Rightarrow> (Inl (wc ConnErr), d2\<lparr>d_tab := d_tab d\<rparr>)
                  | ReplyLost \<Rightarrow> (Inl (wc ConnErr), d2)))))"

text \<open>\<open>UPDATE ... SET ... WHERE\<close> on one table.\<close>

definition updWhere :: "('r \<Rightarrow> bool) \<Rightarrow> ('r \<Rightarrow> 'r) \<Rightarrow> 'r list \<Rightarrow> 'r list" where
  "updWhere p f = map (\<lambda>r. if p r then f r else r)"

text \<open>A loop of statements in which the first error ends the method.\<close>

fun eachE :: "'x list \<Rightarrow> ('x \<Rightarrow> ('s, 'e + unit) state) \<Rightarrow> ('s, 'e + unit) state" where
  "eachE [] f = ret (Inr ())"
| "eachE (x # xs) f = andThen (f x) (\<lambda>_. eachE xs f)"

subsection \<open>Effects of the SQL statements on the tables\<close>

definition colsOk :: "int \<Rightarrow> bool" where
  "colsOk c \<longleftrightarrow> 1 \<le> c \<and> c \<le> 8"

definition insertBoard :: "boardRow \<Rightarrow> unit sql" where
  "insertBoard r t =
     (if \<not> colsOk (br_cols r) \<or> br_ddCount r < 0 then Inl CheckViolation
      else if br_id r \<in> br_id ` set (tb_boards t) then Inl UniqueViolation
      else Inr ((), t\<lparr>tb_boards := tb_boards t @ [r]\<rparr>))"

definition updateBoard :: "string \<Rightarrow> (boardRow \<Rightarrow> boardRow) \<Rightarrow> unit sql" where
  "updateBoard bid f t =
     (if \<forall>r \<in> set (tb_boards t). br_id r \<noteq> bid \<or> colsOk (br_cols (f r)) \<and> 0 \<le> br_ddCount (f r)
      then Inr ((), t\<lparr>tb_boards := updWhere (\<lambda>r. br_id r = bid) f (tb_boards t)\<rparr>)
      else Inl CheckViolation)"

text \<open>\<open>DELETE FROM boards\<close> with what hangs on it through \<open>ON DELETE CASCADE\<close> and \<open>SET NULL\<close>.\<close>

definition deleteBoardRow :: "string \<Rightarrow> unit sql" where
  "deleteBoardRow bid t = Inr ((),
     (let gone = bt_id ` {r \<in> set (tb_tracks t). bt_board r = bid}
      in t\<lparr>tb_boards := filter (\<lambda>r. br_id r \<noteq> bid) (tb_boards t),
           tb_tracks := filter (\<lambda>r. bt_board r \<noteq> bid) (tb_tracks t),
           tb_cells := filter (\<lambda>r. lc_board r \<noteq> bid) (tb_cells t),
           tb_places := filter (\<lambda>r. pl_board r \<noteq> bid \<and> pl_track r \<notin> gone) (tb_places t),
           tb_dd := filter (\<lambda>r. dr_board r \<noteq> bid) (tb_dd t),
           tb_sessions := updWhere (\<lambda>r. gs_board r = Some bid) (\<lambda>r. r\<lparr>gs_board := None\<rparr>) (tb_sessions t)\<rparr>))"

text \<open>\<open>INSERT ... ON CONFLICT DO NOTHING\<close>; the value is RowsAffected.\<close>

definition insertTrack :: "trackRow \<Rightarrow> nat sql" where
  "insertTrack r t =
     (if \<exists>x \<in> set (tb_tracks t). bt_board x = bt_board r \<and> bt_uri x = bt_uri r then Inr (0, t)
      else if bt_id r \<in> bt_id ` set (tb_tracks t) then Inl UniqueViolation
      else if bt_board r \<notin> br_id ` set (tb_boards t) then Inl ForeignKeyViolation
      else Inr (1, t\<lparr>tb_tracks := tb_tracks t @ [r]\<rparr>))"

definition insertDD :: "ddRow \<Rightarrow> nat sql" where
  "insertDD r t =
     (if \<exists>x \<in> set (tb_dd t). dr_board x = dr_board r \<and> dr_uri x = dr_uri r then Inr (0, t)
      else if dr_id r \<in> dr_id ` set (tb_dd t) then Inl UniqueViolation
      else if dr_board r \<notin> br_id ` set (tb_boards t) then Inl ForeignKeyViolation
      else Inr (1, t\<lparr>tb_dd := tb_dd t @ [r]\<rparr>))"

definition deleteDD :: "string \<Rightarrow> string \<Rightarrow> nat sql" where
  "deleteDD tid bid t =
     (let gone = (\<lambda>r. dr_id r = tid \<and> dr_board r = bid)
      in Inr (length (filter gone (tb_dd t)), t\<lparr>tb_dd := filter (\<lambda>r. \<not> gone r) (tb_dd t)\<rparr>))"

definition deleteTrackRow :: "string \<Rightarrow> unit sql" where
  "deleteTrackRow tid t = Inr ((),
     t\<lparr>tb_tracks := filter (\<lambda>r. bt_id r \<noteq> tid) (tb_tracks t),
       tb_places := filter (\<lambda>r. pl_track r \<noteq> tid) (tb_places t)\<rparr>)"

definition updateTracks :: "string \<Rightarrow> bool \<Rightarrow> unit sql" where
  "updateTracks tid b t = Inr ((),
     t\<lparr>tb_tracks := updWhere (\<lambda>r. bt_id r = tid) (\<lambda>r. r\<lparr>bt_override := b\<rparr>) (tb_tracks t)\<rparr>)"

definition sameCell :: "string \<Rightarrow> int \<Rightarrow> int \<Rightarrow> cellRow \<Rightarrow> bool" where
  "sameCell bid row col r \<longleftrightarrow> lc_board r = bid \<and> lc_row r = row \<and> lc_col r = col"

definition insertCell :: "cellRow \<Rightarrow> unit sql" where
  "insertCell r t =
     (if \<not> (1 \<le> lc_row r \<and> lc_row r \<le> 5) \<or> \<not> colsOk (lc_col r) then Inl CheckViolation
      else if \<exists>x \<in> set (tb_cells t). sameCell (lc_board r) (lc_row r) (lc_col r) x then Inr ((), t)
      else if lc_board r \<notin> br_id ` set (tb_boards t) then Inl ForeignKeyViolation
      else Inr ((), t\<lparr>tb_cells := tb_cells t @ [r]\<rparr>))"

text \<open>Deleting cells takes their placements along.\<close>

definition deleteCells :: "string \<Rightarrow> (int \<Rightarrow> bool) \<Rightarrow> unit sql" where
  "deleteCells bid p t = Inr ((),
     t\<lparr>tb_cells := filter (\<lambda>r. \<not> (lc_board r = bid \<and> p (lc_col r))) (tb_cells t),
       tb_places := filter (\<lambda>r. \<not> (pl_board r = bid \<and> p (pl_col r))) (tb_places t)\<rparr>)"

definition deletePlaces :: "(placeRow \<Rightarrow> bool) \<Rightarrow> unit sql" where
  "deletePlaces p t = Inr ((), t\<lparr>tb_places := filter (\<lambda>r. \<not> p r) (tb_places t)\<rparr>)"

definition updateCategory :: "string \<Rightarrow> int \<Rightarrow> string \<Rightarrow> unit sql" where
  "updateCategory bid col name t = Inr ((),
     t\<lparr>tb_cells := updWhere (\<lambda>r. lc_board r = bid \<and> lc_col r = col)
        (\<lambda>r. r\<lparr>lc_category := name\<rparr>) (tb_cells t)\<rparr>)"

text \<open>
  The upsert of a placement: on the unique index (board, track) the row moves and keeps
  its played flag. Both foreign keys are checked for the row written.
\<close>

definition upsertPlace :: "placeRow \<Rightarrow> unit sql" where
  "upsertPlace r t =
     (let old = (\<lambda>x. pl_board x = pl_board r \<and> pl_track x = pl_track r)
      in if \<not> (\<exists>x \<in> set (tb_cells t). sameCell (pl_board r) (pl_row r) (pl_col r) x) then Inl ForeignKeyViolation
         else if pl_track r \<notin> bt_id ` set (tb_tracks t) then Inl ForeignKeyViolation
         else Inr ((), t\<lparr>tb_places :=
           (if \<exists>x \<in> set (tb_places t). old x
            then updWhere old (\<lambda>x. x\<lparr>pl_row := pl_row r, pl_col := pl_col r, pl_pos := pl_pos r\<rparr>) (tb_places t)
            else tb_places t @ [r])\<rparr>))"

definition updatePlayed :: "(placeRow \<Rightarrow> bool) \<Rightarrow> bool \<Rightarrow> unit sql" where
  "updatePlayed p b t = Inr ((),
     t\<lparr>tb_places := updWhere p (\<lambda>r. r\<lparr>pl_played := b\<rparr>) (tb_places t)\<rparr>)"

definition findLyrics :: "string \<Rightarrow> tables \<Rightarrow> lyricsRow option" where
  "findLyrics uri t = find (\<lambda>r. ly_uri r = uri) (tb_lyrics t)"

text \<open>\<open>INSERT ... ON CONFLICT (spotify_uri) DO UPDATE\<close> on the lyrics cache.\<close>

definition upsertLyrics :: "lyricsRow \<Rightarrow> (lyricsRow \<Rightarrow> lyricsRow) \<Rightarrow> unit sql" where
  "upsertLyrics r f t = Inr ((),
     (case findLyrics (ly_uri r) t of
        None \<Rightarrow> t\<lparr>tb_lyrics := tb_lyrics t @ [r]\<rparr>
      | Some _ \<Rightarrow> t\<lparr>tb_lyrics := updWhere (\<lambda>x. ly_uri x = ly_uri r) f (tb_lyrics t)\<rparr>))"

definition upsertDrop :: "dropRow \<Rightarrow> unit sql" where
  "upsertDrop r t = Inr ((),
     (if dp_uri r \<in> dp_uri ` set (tb_drops t)
      then t\<lparr>tb_drops := updWhere (\<lambda>x. dp_uri x = dp_uri r \<and> (dp_source r = ''manual'' \<or> dp_source x \<noteq> ''manual''))
              (\<lambda>x. x\<lparr>dp_ms := dp_ms r, dp_source := dp_source r\<rparr>) (tb_drops t)\<rparr>
      else t\<lparr>tb_drops := tb_drops t @ [r]\<rparr>))"

definition insertSession :: "sessionRow \<Rightarrow> unit sql" where
  "insertSession r t =
     (if gs_id r \<in> gs_id ` set (tb_sessions t) then Inl UniqueViolation
      else Inr ((), t\<lparr>tb_sessions := tb_sessions t @ [r]\<rparr>))"

definition attachSession :: "string \<Rightarrow> string \<Rightarrow> unit sql" where
  "attachSession sid bid t =
     (if (\<exists>r \<in> set (tb_sessions t). gs_id r = sid) \<and> bid \<notin> br_id ` set (tb_boards t)
      then Inl ForeignKeyViolation
      else Inr ((), t\<lparr>tb_sessions := updWhere (\<lambda>r. gs_id r = sid)
             (\<lambda>r. r\<lparr>gs_board := Some bid\<rparr>) (tb_sessions t)\<rparr>))"

definition upsertScore :: "scoreRow \<Rightarrow> unit sql" where
  "upsertScore r t =
     (let old = (\<lambda>x. sl_session x = sl_session r \<and> sl_player x = sl_player r)
      in if \<exists>x \<in> set (tb_scores t). old x
         then Inr ((), t\<lparr>tb_scores := updWhere old (\<lambda>x. x\<lparr>sl_handle := sl_handle r, sl_score := sl_score r,
                sl_updated := sl_updated r\<rparr>) (tb_scores t)\<rparr>)
         else if sl_session r \<notin> gs_id ` set (tb_sessions t) then Inl ForeignKeyViolation
         else Inr ((), t\<lparr>tb_scores := tb_scores t @ [r]\<rparr>))"

definition insertEvent :: "eventRow \<Rightarrow> unit sql" where
  "insertEvent r t =
     (if ev_session r \<notin> gs_id ` set (tb_sessions t) then Inl ForeignKeyViolation
      else Inr ((), t\<lparr>tb_events := tb_events t @ [r]\<rparr>))"

definition insertSk :: "skRow \<Rightarrow> skRow list \<Rightarrow> pgErr + nat \<times> skRow list" where
  "insertSk r rows =
     (if sk_uri r \<in> sk_uri ` set rows then Inr (0, rows)
      else if sk_id r \<in> sk_id ` set rows then Inl UniqueViolation
      else Inr (1, rows @ [r]))"

definition deleteSk :: "string \<Rightarrow> skRow list \<Rightarrow> nat \<times> skRow list" where
  "deleteSk tid rows =
     (length (filter (\<lambda>r. sk_id r = tid) rows), filter (\<lambda>r. sk_id r \<noteq> tid) rows)"

definition emptyTables :: tables where
  "emptyTables = \<lparr>tb_boards = [], tb_tracks = [], tb_cells = [], tb_places = [], tb_dd = [],
     tb_lyrics = [], tb_drops = [], tb_sessions = [], tb_scores = [], tb_events = [],
     tb_skLibrary = [], tb_skPlaylist = []\<rparr>"

end
