(* ===== verification/Store.thy ===== *)
theory Store
  imports Db
begin

section \<open>The stores: server/internal/store/admin_store.go, repo_postgres.go and solo_karaoke_store.go\<close>

text \<open>
  One definition per method of \<open>PostgresRepo\<close>, in the order of the files. \<open>now\<close> is
  \<open>time.Now().UnixMilli()\<close> where a method reads the clock. The row records stand for the
  domain types of server/internal/admin/types.go; those types have the joined lyrics status
  as one field more, here the extensions \<open>adminTrack\<close>, \<open>ddTrack\<close> and \<open>skTrack\<close>.
\<close>

record adminTrack = trackRow +
  at_lyricsStatus :: string

record ddTrack = ddRow +
  dt_lyricsStatus :: string

record skTrack = skRow +
  st_lyricsStatus :: string

record lyricsRecord =
  lr_uri :: string
  lr_status :: string
  lr_source :: string
  lr_lastError :: string

record layoutCell =
  lo_row :: int
  lo_col :: int
  lo_category :: string
  lo_tracks :: "adminTrack list"

record layout =
  lo_cols :: int
  lo_cells :: "layoutCell list"

record layoutPlacement =
  lp_row :: int
  lp_col :: int
  lp_track :: string
  lp_pos :: int

record layoutColumn =
  lq_category :: string
  lq_placements :: "layoutPlacement list"

definition LyricsStatusPending :: string where "LyricsStatusPending = ''pending''"
definition LyricsStatusNotFound :: string where "LyricsStatusNotFound = ''not_found''"
definition LyricsStatusResolved :: string where "LyricsStatusResolved = ''resolved''"

definition deref :: "string option \<Rightarrow> string" where
  "deref p = (case p of None \<Rightarrow> '''' | Some s \<Rightarrow> s)"

text \<open>\<open>LEFT JOIN track_lyrics tl ON tl.spotify_uri = ...\<close>, the column \<open>tl.status\<close>.\<close>

definition joinStatus :: "tables \<Rightarrow> string \<Rightarrow> string option" where
  "joinStatus t uri = map_option ly_status (findLyrics uri t)"

definition trackWith :: "tables \<Rightarrow> trackRow \<Rightarrow> adminTrack" where
  "trackWith t r = trackRow.extend r (adminTrack.fields (deref (joinStatus t (bt_uri r))))"

definition ddWith :: "tables \<Rightarrow> ddRow \<Rightarrow> ddTrack" where
  "ddWith t r = ddRow.extend r (ddTrack.fields (deref (joinStatus t (dr_uri r))))"

definition skWith :: "tables \<Rightarrow> skRow \<Rightarrow> skTrack" where
  "skWith t r = skRow.extend r (skTrack.fields (deref (joinStatus t (sk_uri r))))"

subsection \<open>Boards\<close>

definition CreateBoard :: "int \<Rightarrow> string \<Rightarrow> string \<Rightarrow> unit store" where
  "CreateBoard now bid name =
     wrapped ''store: create board'' (stmt (insertBoard \<lparr>br_id = bid, br_name = name, br_cols = 1,
        br_created = now, br_updated = now, br_ddCount = 2\<rparr>))"

definition ListBoards :: "boardRow list store" where
  "ListBoards = wrapped ''store: list boards'' (query (\<lambda>t. sort_key (\<lambda>r. - br_updated r) (tb_boards t)))"

definition GetBoard :: "string \<Rightarrow> boardRow option store" where
  "GetBoard bid = rowOrNil (''store: get board '' @ bid) (queryRow (\<lambda>t. find (\<lambda>r. br_id r = bid) (tb_boards t)))"

definition RenameBoard :: "int \<Rightarrow> string \<Rightarrow> string \<Rightarrow> unit store" where
  "RenameBoard now bid name =
     wrapped ''store: rename board'' (stmt (updateBoard bid (\<lambda>r. r\<lparr>br_name := name, br_updated := now\<rparr>)))"

definition DeleteBoard :: "string \<Rightarrow> unit store" where
  "DeleteBoard bid = wrapped ''store: delete board'' (stmt (deleteBoardRow bid))"

definition UpdateBoardCols :: "int \<Rightarrow> string \<Rightarrow> int \<Rightarrow> unit store" where
  "UpdateBoardCols now bid cols =
     wrapped ''store: update board cols''
       (stmt4 [cols] (updateBoard bid (\<lambda>r. r\<lparr>br_cols := cols, br_updated := now\<rparr>)))"

definition SetDailyDoubleCount :: "int \<Rightarrow> string \<Rightarrow> int \<Rightarrow> unit store" where
  "SetDailyDoubleCount now bid n =
     wrapped ''store: set daily double count''
       (stmt4 [n] (updateBoard bid (\<lambda>r. r\<lparr>br_ddCount := n, br_updated := now\<rparr>)))"

subsection \<open>The Daily Double bucket\<close>

definition AddDailyDoubleTrack :: "ddTrack \<Rightarrow> unit store" where
  "AddDailyDoubleTrack t =
     andThen (wrapped ''store: add daily double track'' (stmt (insertDD (ddRow.truncate t))))
       (\<lambda>n. ret (if n = 0 then Inl ErrDailyDoubleTrackExists else Inr ()))"

definition ListDailyDoubleTracks :: "string \<Rightarrow> ddTrack list store" where
  "ListDailyDoubleTracks bid =
     wrapped ''store: list daily double tracks'' (query (\<lambda>t.
       map (ddWith t) (sort_key dr_created (filter (\<lambda>r. dr_board r = bid) (tb_dd t)))))"

definition RemoveDailyDoubleTrack :: "string \<Rightarrow> string \<Rightarrow> unit store" where
  "RemoveDailyDoubleTrack bid tid =
     andThen (wrapped ''store: remove daily double track'' (stmt (deleteDD tid bid)))
       (\<lambda>n. ret (if n = 0 then Inl ErrDailyDoubleTrackNotFound else Inr ()))"

subsection \<open>The track library\<close>

definition AddTrack :: "adminTrack \<Rightarrow> unit store" where
  "AddTrack t =
     andThen (wrapped ''store: add track'' (stmt4 [bt_year t] (insertTrack (trackRow.truncate t))))
       (\<lambda>_. ret (Inr ()))"

definition GetTrack :: "string \<Rightarrow> adminTrack option store" where
  "GetTrack tid =
     rowOrNil (''store: get track '' @ tid)
       (queryRow (\<lambda>t. map_option (trackWith t) (find (\<lambda>r. bt_id r = tid) (tb_tracks t))))"

definition SetTrackOverride :: "string \<Rightarrow> bool \<Rightarrow> unit store" where
  "SetTrackOverride tid b = wrapped ''store: set track override'' (stmt (updateTracks tid b))"

definition ListTracks :: "string \<Rightarrow> adminTrack list store" where
  "ListTracks bid =
     wrapped ''store: list tracks'' (query (\<lambda>t.
       map (trackWith t) (sort_key bt_created (filter (\<lambda>r. bt_board r = bid) (tb_tracks t)))))"

definition UnplacedTracks :: "string \<Rightarrow> adminTrack list store" where
  "UnplacedTracks bid =
     wrapped ''store: unplaced tracks'' (query (\<lambda>t.
       map (trackWith t) (sort_key bt_created (filter (\<lambda>r. bt_board r = bid \<and>
         bt_id r \<notin> pl_track ` {p \<in> set (tb_places t). pl_board p = bid}) (tb_tracks t)))))"

definition DeleteTrack :: "string \<Rightarrow> unit store" where
  "DeleteTrack tid = wrapped ''store: delete track'' (stmt (deleteTrackRow tid))"

subsection \<open>The lyrics cache\<close>

definition lyricsRecordOf :: "lyricsRow \<Rightarrow> lyricsRecord" where
  "lyricsRecordOf r = \<lparr>lr_uri = ly_uri r, lr_status = ly_status r, lr_source = deref (ly_source r),
     lr_lastError = deref (ly_error r)\<rparr>"

definition GetLyricsStatus :: "string \<Rightarrow> lyricsRecord option store" where
  "GetLyricsStatus uri =
     rowOrNil ''store: get lyrics status'' (queryRow (\<lambda>t. map_option lyricsRecordOf (findLyrics uri t)))"

text \<open>The Go map from URIs to records is a list of records, one per row found.\<close>

definition GetLyricsStatusesForURIs :: "string list \<Rightarrow> lyricsRecord list store" where
  "GetLyricsStatusesForURIs uris =
     (if uris = [] then ret (Inr [])
      else wrapped ''store: get lyrics statuses''
        (query (\<lambda>t. map lyricsRecordOf (filter (\<lambda>r. ly_uri r \<in> set uris) (tb_lyrics t)))))"

definition UpsertLyricsResolved :: "string \<Rightarrow> string \<Rightarrow> string \<Rightarrow> unit store" where
  "UpsertLyricsResolved uri text source =
     wrapped ''store: upsert lyrics resolved'' (stmt (upsertLyrics
       \<lparr>ly_uri = uri, ly_text = Some text, ly_status = ''resolved'', ly_source = Some source, ly_error = None\<rparr>
       (\<lambda>r. if source = ''manual'' \<or> ly_source r \<noteq> Some ''manual''
            then r\<lparr>ly_text := Some text, ly_status := ''resolved'', ly_source := Some source, ly_error := None\<rparr>
            else r)))"

definition UpsertLyricsNotFound :: "string \<Rightarrow> unit store" where
  "UpsertLyricsNotFound uri =
     wrapped ''store: upsert lyrics not found'' (stmt (upsertLyrics
       \<lparr>ly_uri = uri, ly_text = None, ly_status = ''not_found'', ly_source = None, ly_error = None\<rparr>
       (\<lambda>r. r\<lparr>ly_status := (if ly_status r = ''resolved'' then ly_status r else ''not_found''),
             ly_error := (if ly_status r = ''resolved'' then ly_error r else None)\<rparr>)))"

definition UpsertLyricsError :: "string \<Rightarrow> string \<Rightarrow> unit store" where
  "UpsertLyricsError uri msg =
     wrapped ''store: upsert lyrics error'' (stmt (upsertLyrics
       \<lparr>ly_uri = uri, ly_text = None, ly_status = ''pending'', ly_source = None, ly_error = Some msg\<rparr>
       (\<lambda>r. r\<lparr>ly_status := (if ly_status r \<in> {''resolved'', ''not_found''} then ly_status r else ''pending''),
             ly_error := (if ly_status r \<in> {''resolved'', ''not_found''} then ly_error r else Some msg)\<rparr>)))"

definition GetResolvedLyrics :: "string \<Rightarrow> string option store" where
  "GetResolvedLyrics uri =
     andThen (rowOrNil ''store: get resolved lyrics'' (queryRow (findLyrics uri)))
       (\<lambda>r. ret (Inr (case r of None \<Rightarrow> None
          | Some row \<Rightarrow> if ly_status row \<noteq> ''resolved'' then None else ly_text row)))"

subsection \<open>Drop points\<close>

definition GetDropPoint :: "string \<Rightarrow> int option store" where
  "GetDropPoint uri =
     rowOrNil ''store: get drop point''
       (queryRow (\<lambda>t. map_option dp_ms (find (\<lambda>r. dp_uri r = uri) (tb_drops t))))"

definition SetDropPoint :: "string \<Rightarrow> int \<Rightarrow> string \<Rightarrow> unit store" where
  "SetDropPoint uri ms source =
     wrapped ''store: set drop point'' (stmt (upsertDrop \<lparr>dp_uri = uri, dp_ms = ms, dp_source = source\<rparr>))"

subsection \<open>Layout\<close>

definition addCell :: "string \<Rightarrow> int \<Rightarrow> string \<Rightarrow> int \<Rightarrow> unit pg" where
  "addCell bid col category row =
     stmt4 [col] (insertCell \<lparr>lc_board = bid, lc_row = row, lc_col = col, lc_category = category, lc_dd = False\<rparr>)"

definition AddColumn :: "string \<Rightarrow> int \<Rightarrow> string \<Rightarrow> unit store" where
  "AddColumn bid col category =
     eachE [1..5] (\<lambda>row. wrapped (''store: add column cell row='' @ itoa row @ '' col='' @ itoa col)
       (addCell bid col category row))"

definition RemoveColumn :: "string \<Rightarrow> int \<Rightarrow> unit store" where
  "RemoveColumn bid col =
     wrapped ''store: remove column'' (stmt4 [col] (deleteCells bid (\<lambda>c. c = col)))"

definition placeStmt :: "string \<Rightarrow> int \<Rightarrow> int \<Rightarrow> string \<Rightarrow> int \<Rightarrow> unit pg" where
  "placeStmt bid row col tid pos =
     stmt4 [row, col, pos] (upsertPlace \<lparr>pl_board = bid, pl_row = row, pl_col = col, pl_track = tid,
       pl_pos = pos, pl_played = False\<rparr>)"

definition rebuildColumn :: "string \<Rightarrow> int \<Rightarrow> layoutColumn \<Rightarrow> unit store" where
  "rebuildColumn bid col c =
     andThen (eachE [1..5] (\<lambda>row.
         wrapped (''store: rebuild layout: add cell row='' @ itoa row @ '' col='' @ itoa col)
           (addCell bid col (lq_category c) row)))
       (\<lambda>_. eachE (lq_placements c) (\<lambda>p.
         wrapped (''store: rebuild layout: place track row='' @ itoa (lp_row p) @ '' col='' @ itoa (lp_col p))
           (placeStmt bid (lp_row p) (lp_col p) (lp_track p) (lp_pos p))))"

definition rebuildBody :: "int \<Rightarrow> string \<Rightarrow> int \<Rightarrow> layoutColumn list \<Rightarrow> unit store" where
  "rebuildBody now bid cols columns =
     andThen (wrapped ''store: rebuild layout: clear placements'' (stmt (deletePlaces (\<lambda>p. pl_board p = bid))))
    (\<lambda>_. andThen (wrapped ''store: rebuild layout: clear cells'' (stmt (deleteCells bid (\<lambda>_. True))))
    (\<lambda>_. andThen (wrapped ''store: rebuild layout: update cols''
           (stmt4 [cols] (updateBoard bid (\<lambda>r. r\<lparr>br_cols := cols, br_updated := now\<rparr>))))
    (\<lambda>_. eachE (enumerate 1 columns) (\<lambda>(i, c). rebuildColumn bid (int i) c))))"

definition RebuildLayout :: "int \<Rightarrow> string \<Rightarrow> int \<Rightarrow> layoutColumn list \<Rightarrow> unit store" where
  "RebuildLayout now bid cols columns =
     transact (StoreErr ''store: rebuild layout: begin'') (StoreErr ''store: rebuild layout: commit'')
       (rebuildBody now bid cols columns)"

definition RenameCategory :: "string \<Rightarrow> int \<Rightarrow> string \<Rightarrow> unit store" where
  "RenameCategory bid col name =
     wrapped ''store: rename category'' (stmt4 [col] (updateCategory bid col name))"

definition PlaceTrack :: "string \<Rightarrow> int \<Rightarrow> int \<Rightarrow> string \<Rightarrow> int \<Rightarrow> unit store" where
  "PlaceTrack bid row col tid pos = wrapped ''store: place track'' (placeStmt bid row col tid pos)"

definition UnplaceTrack :: "string \<Rightarrow> int \<Rightarrow> int \<Rightarrow> string \<Rightarrow> unit store" where
  "UnplaceTrack bid row col tid =
     wrapped ''store: unplace track'' (stmt4 [row, col] (deletePlaces (\<lambda>p.
       pl_board p = bid \<and> pl_row p = row \<and> pl_col p = col \<and> pl_track p = tid)))"


text \<open>
  The joins of the two loaders: a row per cell and placement, and one row for a cell with
  no placement. The track columns are the joined track and its lyrics status.
\<close>

type_synonym layoutRow = "cellRow \<times> (placeRow \<times> (trackRow \<times> string option) option) option"

definition placeJoin :: "tables \<Rightarrow> placeRow \<Rightarrow> (trackRow \<times> string option) option" where
  "placeJoin t p = map_option (\<lambda>r. (r, joinStatus t (bt_uri r))) (find (\<lambda>r. bt_id r = pl_track p) (tb_tracks t))"

definition cellJoin :: "tables \<Rightarrow> cellRow \<Rightarrow> layoutRow list" where
  "cellJoin t c =
     (let ps = sort_key pl_pos (filter (\<lambda>p. pl_board p = lc_board c \<and> pl_row p = lc_row c \<and> pl_col p = lc_col c)
                 (tb_places t))
      in if ps = [] then [(c, None)] else map (\<lambda>p. (c, Some (p, placeJoin t p))) ps)"

definition layoutRows :: "(cellRow \<Rightarrow> int) \<Rightarrow> (cellRow \<Rightarrow> int) \<Rightarrow> string \<Rightarrow> tables \<Rightarrow> layoutRow list" where
  "layoutRows k1 k2 bid t =
     concat (map (cellJoin t) (sort_key k1 (sort_key k2 (filter (\<lambda>c. lc_board c = bid) (tb_cells t)))))"

type_synonym coord = "int \<times> int"

text \<open>
  The loop over the rows: the Go map from coordinates to cells is an association list. Its
  iteration order, open in Go, is here the order of the first row of each cell.
\<close>

definition scanLayoutRow :: "layoutRow \<Rightarrow> (coord \<times> layoutCell) list \<Rightarrow> (coord \<times> layoutCell) list" where
  "scanLayoutRow r cells =
     (let c = fst r; key = (lc_row c, lc_col c);
          cl = (case map_of cells key of Some x \<Rightarrow> x
             | None \<Rightarrow> \<lparr>lo_row = lc_row c, lo_col = lc_col c, lo_category = lc_category c, lo_tracks = []\<rparr>);
          cl' = (case snd r of
               Some (_, Some (bt, status)) \<Rightarrow>
                 cl\<lparr>lo_tracks := lo_tracks cl @ [trackRow.extend bt (adminTrack.fields (deref status))]\<rparr>
             | _ \<Rightarrow> cl)
      in AList.update key cl' cells)"

definition GetLayout :: "string \<Rightarrow> layout option store" where
  "GetLayout bid =
     andThen (GetBoard bid) (\<lambda>bo. case bo of None \<Rightarrow> ret (Inr None)
       | Some board \<Rightarrow>
          andThen (wrapped ''store: get layout'' (query (layoutRows lc_col lc_row bid)))
            (\<lambda>rows. ret (Inr (Some \<lparr>lo_cols = br_cols board,
               lo_cells = map snd (fold scanLayoutRow rows [])\<rparr>))))"

subsection \<open>Loading a board for the engine\<close>

text \<open>
  The board the loader builds, as values: the tracks and cells are fresh objects that
  nothing else points to. \<open>Admin_Api\<close> allocates them when it hands the board to the engine.
\<close>

record gameCell =
  gc_row :: int
  gc_col :: int
  gc_category :: string
  gc_dd :: bool
  gc_tracks :: "track list"

record gameBoard =
  gb_rows :: int
  gb_cols :: int
  gb_cells :: "gameCell list list"
  gb_ddCount :: int
  gb_bucket :: "track list"

definition gameTrack :: "placeRow \<Rightarrow> trackRow \<Rightarrow> string option \<Rightarrow> track" where
  "gameTrack p r status =
     (let hasLyrics = (status = None \<or> status = Some LyricsStatusResolved)
      in \<lparr>tID = bt_id r, tSpotifyURI = bt_uri r, tArtist = bt_artist r, tSong = bt_song r,
          tAlbumArt = bt_art r, tDurationMs = bt_duration r, tPlayed = pl_played p,
          tPlayable = (hasLyrics \<or> bt_override r), tYear = bt_year r, tGenre = bt_genre r\<rparr>)"

definition scanBoardRow :: "layoutRow \<Rightarrow> (coord \<times> gameCell) list \<Rightarrow> (coord \<times> gameCell) list" where
  "scanBoardRow r cells =
     (let c = fst r; key = (lc_row c, lc_col c);
          cl = (case map_of cells key of Some x \<Rightarrow> x
             | None \<Rightarrow> \<lparr>gc_row = lc_row c, gc_col = lc_col c, gc_category = lc_category c,
                 gc_dd = lc_dd c, gc_tracks = []\<rparr>);
          cl' = (case snd r of
               Some (p, Some (bt, status)) \<Rightarrow> cl\<lparr>gc_tracks := gc_tracks cl @ [gameTrack p bt status]\<rparr>
             | _ \<Rightarrow> cl)
      in AList.update key cl' cells)"

definition maxOf :: "int list \<Rightarrow> int" where
  "maxOf xs = fold (\<lambda>x m. if m < x then x else m) xs 0"

definition newGridFromCells :: "(coord \<times> gameCell) list \<Rightarrow> int \<Rightarrow> int \<Rightarrow> gameBoard" where
  "newGridFromCells cells maxRow maxCol =
     \<lparr>gb_rows = maxRow, gb_cols = maxCol,
      gb_cells = map (\<lambda>r. map (\<lambda>c. case map_of cells (r, c) of Some x \<Rightarrow> x
          | None \<Rightarrow> \<lparr>gc_row = r, gc_col = c, gc_category = '''', gc_dd = False, gc_tracks = []\<rparr>)
        [1..maxCol]) [1..maxRow],
      gb_ddCount = 0, gb_bucket = []\<rparr>"

definition bucketTrack :: "ddRow \<Rightarrow> track" where
  "bucketTrack r = \<lparr>tID = dr_id r, tSpotifyURI = dr_uri r, tArtist = dr_artist r, tSong = dr_song r,
     tAlbumArt = dr_art r, tDurationMs = dr_duration r, tPlayed = False, tPlayable = True,
     tYear = 0, tGenre = ''''\<rparr>"

definition LoadBoardByID :: "string \<Rightarrow> gameBoard store" where
  "LoadBoardByID bid =
     andThen (wrapped (''store: load board by id '' @ bid) (query (layoutRows lc_row lc_col bid)))
    (\<lambda>rows.
       let cells = fold scanBoardRow rows [];
           maxRow = maxOf (map (\<lambda>r. lc_row (fst r)) rows);
           maxCol = maxOf (map (\<lambda>r. lc_col (fst r)) rows)
       in if cells = [] then ret (Inl (StoreMsg (''store: no layout for board '' @ bid)))
          else
            andThen (rowOrNil ''store: load board-by-id daily double count''
                (queryRow (\<lambda>t. map_option br_ddCount (find (\<lambda>r. br_id r = bid) (tb_boards t)))))
           (\<lambda>cnt. andThen (wrapped ''store: load board-by-id dd bucket'' (query (\<lambda>t.
                map bucketTrack (sort_key dr_created (filter (\<lambda>r. dr_board r = bid) (tb_dd t))))))
           (\<lambda>bucket. ret (Inr ((newGridFromCells cells maxRow maxCol)\<lparr>
                gb_ddCount := (case cnt of None \<Rightarrow> 0 | Some n \<Rightarrow> n), gb_bucket := bucket\<rparr>)))))"

definition AttachBoard :: "string \<Rightarrow> string \<Rightarrow> unit store" where
  "AttachBoard sid bid = wrapped ''store: attach board'' (stmt (attachSession sid bid))"

text \<open>\<open>board_id = (SELECT board_id FROM game_sessions WHERE id = $1)\<close>; no session and a NULL match nothing.\<close>

definition sessionBoard :: "string \<Rightarrow> tables \<Rightarrow> string option" where
  "sessionBoard sid t = (case find (\<lambda>r. gs_id r = sid) (tb_sessions t) of None \<Rightarrow> None | Some r \<Rightarrow> gs_board r)"

definition MarkTrackPlayed :: "string \<Rightarrow> string \<Rightarrow> unit store" where
  "MarkTrackPlayed sid tid =
     wrapped ''store: mark track played'' (stmt (\<lambda>t.
       updatePlayed (\<lambda>p. Some (pl_board p) = sessionBoard sid t \<and> pl_track p = tid) True t))"

definition ClearPlayed :: "string \<Rightarrow> unit store" where
  "ClearPlayed sid =
     wrapped ''store: clear played'' (stmt (\<lambda>t.
       updatePlayed (\<lambda>p. Some (pl_board p) = sessionBoard sid t) False t))"

subsection \<open>Sessions, scores and events: repo_postgres.go\<close>

definition CreateSession :: "int \<Rightarrow> string \<Rightarrow> int \<Rightarrow> string \<Rightarrow> unit store" where
  "CreateSession created sid skip state =
     wrapped (''store: create session '' @ sid) (stmt4 [skip] (insertSession
       \<lparr>gs_id = sid, gs_created = created, gs_skip = skip, gs_state = state, gs_board = None\<rparr>))"

definition SaveScore :: "int \<Rightarrow> string \<Rightarrow> string \<Rightarrow> string \<Rightarrow> int \<Rightarrow> unit store" where
  "SaveScore now sid pid handle score =
     wrapped (''store: save score '' @ sid @ ''/'' @ pid) (stmt4 [score] (upsertScore
       \<lparr>sl_session = sid, sl_player = pid, sl_handle = handle, sl_score = score, sl_updated = now\<rparr>))"

text \<open>\<open>detail\<close> is the marshalled JSON of the event's map.\<close>

definition LogEvent :: "int \<Rightarrow> string \<Rightarrow> string \<Rightarrow> string \<Rightarrow> unit store" where
  "LogEvent now sid kind detail =
     wrapped (''store: log event '' @ sid @ ''/'' @ kind) (stmt (insertEvent
       \<lparr>ev_session = sid, ev_kind = kind, ev_detail = detail, ev_created = now\<rparr>))"

definition LoadBoard :: "string \<Rightarrow> gameBoard store" where
  "LoadBoard sid =
     andThen (rowOrNil (''store: load board '' @ sid)
         (queryRow (\<lambda>t. map_option gs_board (find (\<lambda>r. gs_id r = sid) (tb_sessions t)))))
       (\<lambda>r. case r of
          Some (Some bid) \<Rightarrow> (if bid = '''' then ret (Inl (StoreMsg (''store: no board for session '' @ sid)))
                              else LoadBoardByID bid)
        | _ \<Rightarrow> ret (Inl (StoreMsg (''store: no board for session '' @ sid))))"

definition Leaderboard :: "int \<Rightarrow> (string \<times> string \<times> int) list store" where
  "Leaderboard limit0 =
     (let limit = (if limit0 \<le> 0 then 10 else limit0)
      in wrapped ''store: leaderboard'' (query (\<lambda>t.
           map (\<lambda>r. (sl_player r, sl_handle r, sl_score r))
             (take (nat limit) (sort_key (\<lambda>r. - sl_score r) (tb_scores t))))))"

subsection \<open>Solo Karaoke: solo_karaoke_store.go\<close>

definition onLibrary :: "(skRow list \<Rightarrow> pgErr + 'a \<times> skRow list) \<Rightarrow> 'a sql" where
  "onLibrary f t = (case f (tb_skLibrary t) of Inl x \<Rightarrow> Inl x | Inr (a, rows) \<Rightarrow> Inr (a, t\<lparr>tb_skLibrary := rows\<rparr>))"

definition onPlaylist :: "(skRow list \<Rightarrow> pgErr + 'a \<times> skRow list) \<Rightarrow> 'a sql" where
  "onPlaylist f t = (case f (tb_skPlaylist t) of Inl x \<Rightarrow> Inl x | Inr (a, rows) \<Rightarrow> Inr (a, t\<lparr>tb_skPlaylist := rows\<rparr>))"

definition AddSoloKaraokeLibraryTrack :: "skTrack \<Rightarrow> unit store" where
  "AddSoloKaraokeLibraryTrack t =
     andThen (wrapped ''store: add solo karaoke library track''
         (stmt (onLibrary (insertSk ((skRow.truncate t)\<lparr>sk_position := 0\<rparr>)))))
       (\<lambda>n. ret (if n = 0 then Inl ErrSoloKaraokeLibraryTrackExists else Inr ()))"

definition ListSoloKaraokeLibraryTracks :: "skTrack list store" where
  "ListSoloKaraokeLibraryTracks =
     wrapped ''store: list solo karaoke library tracks''
       (query (\<lambda>t. map (skWith t) (sort_key sk_created (tb_skLibrary t))))"

definition RemoveSoloKaraokeLibraryTrack :: "string \<Rightarrow> unit store" where
  "RemoveSoloKaraokeLibraryTrack tid =
     andThen (wrapped ''store: remove solo karaoke library track''
         (stmt (onLibrary (\<lambda>rows. Inr (deleteSk tid rows)))))
       (\<lambda>n. ret (if n = 0 then Inl ErrSoloKaraokeLibraryTrackNotFound else Inr ()))"

text \<open>\<open>COALESCE(MAX(position) + 1, 0)\<close>; past the INT range the insert fails.\<close>

definition nextPosition :: "skRow list \<Rightarrow> int" where
  "nextPosition rows = (if rows = [] then 0 else Max (set (map sk_position rows)) + 1)"

definition appendSk :: "skRow \<Rightarrow> skRow list \<Rightarrow> pgErr + nat \<times> skRow list" where
  "appendSk r rows =
     (if \<not> int4 (nextPosition rows) then Inl EncodeErr
      else insertSk (r\<lparr>sk_position := nextPosition rows\<rparr>) rows)"

text \<open>The advisory lock is a statement with no effect on the tables.\<close>

definition positionLock :: "unit pg" where
  "positionLock = query (\<lambda>_. ())"

definition AddSoloKaraokePlaylistTrack :: "skTrack \<Rightarrow> unit store" where
  "AddSoloKaraokePlaylistTrack t =
     transact (StoreErr ''store: add solo karaoke playlist track: begin'') (StoreErr '''')
       (andThen (wrapped ''store: add solo karaoke playlist track: lock'' positionLock)
       (\<lambda>_. andThen (wrapped ''store: add solo karaoke playlist track''
               (stmt (onPlaylist (appendSk (skRow.truncate t)))))
       (\<lambda>n. ret (if n = 0 then Inl ErrSoloKaraokePlaylistTrackExists else Inr ()))))"

definition ListSoloKaraokePlaylistTracks :: "skTrack list store" where
  "ListSoloKaraokePlaylistTracks =
     wrapped ''store: list solo karaoke playlist tracks''
       (query (\<lambda>t. map (skWith t) (sort_key sk_position (tb_skPlaylist t))))"

definition RemoveSoloKaraokePlaylistTrack :: "string \<Rightarrow> unit store" where
  "RemoveSoloKaraokePlaylistTrack tid =
     andThen (wrapped ''store: remove solo karaoke playlist track''
         (stmt (onPlaylist (\<lambda>rows. Inr (deleteSk tid rows)))))
       (\<lambda>n. ret (if n = 0 then Inl ErrSoloKaraokePlaylistTrackNotFound else Inr ()))"

text \<open>The order the renumbering follows: the two loops that build \<open>final\<close>.\<close>

definition pickOrdered :: "string list \<Rightarrow> string list \<Rightarrow> string list" where
  "pickOrdered existing ordered =
     fold (\<lambda>i final. if i \<notin> set existing \<or> i \<in> set final then final else final @ [i]) ordered []"

definition finalOrder :: "string list \<Rightarrow> string list \<Rightarrow> string list" where
  "finalOrder existing ordered =
     (let picked = pickOrdered existing ordered
      in picked @ filter (\<lambda>i. i \<notin> set picked) existing)"

definition setPosition :: "int \<Rightarrow> string \<Rightarrow> unit sql" where
  "setPosition i tid = onPlaylist (\<lambda>rows. Inr ((), updWhere (\<lambda>r. sk_id r = tid) (\<lambda>r. r\<lparr>sk_position := i\<rparr>) rows))"

definition ReorderSoloKaraokePlaylist :: "string list \<Rightarrow> unit store" where
  "ReorderSoloKaraokePlaylist ordered =
     transact (StoreErr ''store: reorder solo karaoke playlist: begin'')
        (StoreErr ''store: reorder solo karaoke playlist: commit'')
       (andThen (wrapped ''store: reorder solo karaoke playlist: lock'' positionLock)
       (\<lambda>_. andThen (wrapped ''store: reorder solo karaoke playlist: read existing''
               (query (\<lambda>t. map sk_id (sort_key sk_position (tb_skPlaylist t)))))
       (\<lambda>existing. eachE (enumerate 0 (finalOrder existing ordered)) (\<lambda>(i, tid).
           wrapped (''store: reorder solo karaoke playlist: update id='' @ tid)
             (stmt4 [int i] (setPosition (int i) tid))))))"

definition GetSoloKaraokeTrack :: "string \<Rightarrow> skTrack option store" where
  "GetSoloKaraokeTrack tid =
     andThen (rowOrNil (''store: get solo karaoke track '' @ tid @ '' (library)'')
         (queryRow (\<lambda>t. map_option (skWith t) (find (\<lambda>r. sk_id r = tid) (tb_skLibrary t)))))
       (\<lambda>r. case r of Some t \<Rightarrow> ret (Inr (Some t))
          | None \<Rightarrow> rowOrNil (''store: get solo karaoke track '' @ tid @ '' (playlist)'')
              (queryRow (\<lambda>t. map_option (skWith t) (find (\<lambda>r. sk_id r = tid) (tb_skPlaylist t)))))"

end
