(* ===== verification/Admin_Api.thy ===== *)
theory Admin_Api
  imports Store Engine_Admin
begin

section \<open>The admin REST API: server/internal/admin (boards, layout, tracks, Daily Double bucket)\<close>

text \<open>
  A handler is a program on \<open>api\<close>: the database connection, the live engine, and counters
  that number the calls to the outside, so that those may answer differently every time.
  Its value is what is written to the client. \<open>apiEnv\<close> holds what a handler gets from
  elsewhere: the clock, the random bytes behind the ids, the LRCLIB prober, the Spotify
  client, the categorizer, and whether the client has gone (\<open>r.Context().Err()\<close> at a turn of a
  loop). A request body is what
  \<open>json.NewDecoder(r.Body).Decode\<close> made of it. A handler that returns early is an
  \<open>if\<close> or a \<open>case\<close> whose other branch is the rest of it. Requests are taken one at a time.
\<close>

subsection \<open>Requests, responses and the outside\<close>

datatype 'a body = BadBody | EmptyBody | Body 'a

datatype probeResult = ProbeErr string | ProbeNone | ProbeText string

record spotifyResult =
  sr_URI :: string
  sr_Artist :: string
  sr_Song :: string
  sr_AlbumArt :: string
  sr_DurationMs :: int
  sr_Year :: int
  sr_Genre :: string

record aiCategory =
  ac_Name :: string
  ac_TrackIDs :: "string list"

datatype payload =
    PBoards "boardRow list"
  | PBoard "boardRow option"
  | PTracks "adminTrack list"
  | PTrack adminTrack
  | PDDTracks "ddTrack list"
  | PDDTrack ddTrack
  | PSkTracks "skTrack list"
  | PSkTrack skTrack
  | PLyrics "lyricsRecord option"
  | PLayout layout
  | PColumn int string
  | PCounts "(string \<times> int) list"
  | PRescan int int bool
  | PStatus string
  | PResults "spotifyResult list"
  | PToken "string option" bool

datatype resp = HttpError int string | Json int payload | NoContent

datatype bgJob = ProbeTracks "adminTrack list" | ProbeSolo "skTrack list"

record apiEnv =
  xe_now :: int
  xe_rand :: "nat \<Rightarrow> nat list"
  xe_probe :: "(nat \<Rightarrow> string \<Rightarrow> string \<Rightarrow> int \<Rightarrow> probeResult) option"
  xe_gone :: "nat \<Rightarrow> bool"
  xe_search :: "(string \<Rightarrow> int \<Rightarrow> spotifyResult list option) option"
  xe_playlist :: "string \<Rightarrow> spotifyResult list option"
  xe_token :: "string option"
  xe_ai :: "((string \<times> string \<times> string) list \<Rightarrow> int \<Rightarrow> int \<Rightarrow> aiCategory list option) option"
  xe_solo :: bool
  xe_secret :: string
  xe_sha :: "string \<Rightarrow> string"

record api =
  ap_db :: db
  ap_engine :: engine
  ap_probes :: nat
  ap_ids :: nat
  ap_jobs :: "bgJob list"

type_synonym handler = "(api, resp) state"

definition liftDb :: "(db, 'a) state \<Rightarrow> (api, 'a) state" where
  "liftDb m = State (\<lambda>s. case run_state m (ap_db s) of (a, d) \<Rightarrow> (a, s\<lparr>ap_db := d\<rparr>))"

definition onEngine :: "(engine \<Rightarrow> 'a \<times> engine) \<Rightarrow> (api, 'a) state" where
  "onEngine f = State (\<lambda>s. case f (ap_engine s) of (a, e) \<Rightarrow> (a, s\<lparr>ap_engine := e\<rparr>))"

definition gets :: "(api \<Rightarrow> 'a) \<Rightarrow> (api, 'a) state" where
  "gets f = State (\<lambda>s. (f s, s))"

definition writeJSON :: "int \<Rightarrow> payload \<Rightarrow> handler" where
  "writeJSON code p = ret (Json code p)"

definition httpError :: "int \<Rightarrow> string \<Rightarrow> handler" where
  "httpError code msg = ret (HttpError code msg)"

definition serverError :: "storeErr \<Rightarrow> handler" where
  "serverError x = httpError 500 ''internal error''"

text \<open>\<open>if err != nil { serverError(w, err); return }\<close>\<close>

definition orFail :: "'a store \<Rightarrow> ('a \<Rightarrow> handler) \<Rightarrow> handler" where
  "orFail m k = do { r \<leftarrow> liftDb m; case r of Inl x \<Rightarrow> serverError x | Inr a \<Rightarrow> k a }"

text \<open>
  \<open>generateID\<close>: twelve random bytes in hexadecimal. \<open>xe_rand k\<close> is the k-th read.
\<close>

definition hexByte :: "nat \<Rightarrow> string" where
  "hexByte b = [hexDigit (b div 16 mod 16), hexDigit (b mod 16)]"

definition generateID :: "apiEnv \<Rightarrow> string \<Rightarrow> (api, string) state" where
  "generateID v prefix = State (\<lambda>s.
     (prefix @ ''_'' @ concat (map hexByte (take 12 (xe_rand v (ap_ids s)))), s\<lparr>ap_ids := ap_ids s + 1\<rparr>))"

text \<open>\<open>strconv.Atoi\<close>: an optional sign, digits, the int64 range.\<close>

definition Atoi :: "string \<Rightarrow> int option" where
  "Atoi s =
     (let neg = (s \<noteq> [] \<and> hd s = CHR ''-'');
          ds = (if s \<noteq> [] \<and> (hd s = CHR ''-'' \<or> hd s = CHR ''+'') then tl s else s);
          n = (if neg then - digitsVal ds else digitsVal ds)
      in if ds = [] \<or> \<not> list_all isDigit ds \<or> n < - (2 ^ 63) \<or> 2 ^ 63 \<le> n then None else Some n)"

definition isAlnum :: "char \<Rightarrow> bool" where
  "isAlnum c \<longleftrightarrow> isDigit c \<or> 65 \<le> byte c \<and> byte c \<le> 90 \<or> 97 \<le> byte c \<and> byte c \<le> 122"

definition trackPrefix :: string where "trackPrefix = ''spotify:track:''"

definition spotifyURIPattern :: "string \<Rightarrow> bool" where
  "spotifyURIPattern s \<longleftrightarrow>
     take (length trackPrefix) s = trackPrefix \<and> length trackPrefix < length s \<and>
     list_all isAlnum (drop (length trackPrefix) s)"

subsection \<open>Handing a loaded board to the engine\<close>

text \<open>Every track and cell of the loaded board is a fresh object.\<close>

definition allocTrack :: "track \<Rightarrow> heap \<Rightarrow> taddr \<times> heap" where
  "allocTrack t h = (nextT h, h\<lparr>hTrack := (hTrack h)(nextT h := t), nextT := nextT h + 1\<rparr>)"

fun allocTracks :: "track list \<Rightarrow> heap \<Rightarrow> taddr list \<times> heap" where
  "allocTracks [] h = ([], h)"
| "allocTracks (t # ts) h =
     (case allocTrack t h of (a, h1) \<Rightarrow> case allocTracks ts h1 of (as, h2) \<Rightarrow> (a # as, h2))"

definition allocCell :: "gameCell \<Rightarrow> heap \<Rightarrow> caddr \<times> heap" where
  "allocCell c h =
     (case allocTracks (gc_tracks c) h of (ts, h1) \<Rightarrow>
        (nextC h1, h1\<lparr>hCell := (hCell h1)(nextC h1 :=
             \<lparr>cRow = gc_row c, cCol = gc_col c, cCategory = gc_category c, cTracks = ts,
              cDailyDouble = gc_dd c, cDDTriggerVisit = 0\<rparr>), nextC := nextC h1 + 1\<rparr>))"

fun allocRow :: "gameCell list \<Rightarrow> heap \<Rightarrow> caddr option list \<times> heap" where
  "allocRow [] h = ([], h)"
| "allocRow (c # cs) h =
     (case allocCell c h of (a, h1) \<Rightarrow> case allocRow cs h1 of (as, h2) \<Rightarrow> (Some a # as, h2))"

fun allocRows :: "gameCell list list \<Rightarrow> heap \<Rightarrow> caddr option list list \<times> heap" where
  "allocRows [] h = ([], h)"
| "allocRows (r # rs) h =
     (case allocRow r h of (a, h1) \<Rightarrow> case allocRows rs h1 of (as, h2) \<Rightarrow> (a # as, h2))"

definition allocBoard :: "gameBoard \<Rightarrow> heap \<Rightarrow> board \<times> heap" where
  "allocBoard b h =
     (case allocRows (gb_cells b) h of (cs, h1) \<Rightarrow>
      case allocTracks (gb_bucket b) h1 of (dd, h2) \<Rightarrow>
        (\<lparr>bRows = gb_rows b, bCols = gb_cols b, bCells = cs, bDailyDoubleCount = gb_ddCount b,
          bDDBucket = dd\<rparr>, h2))"

definition reloadBoard :: "gameBoard \<Rightarrow> engine \<Rightarrow> engine" where
  "reloadBoard gb e =
     (case allocBoard gb (e_heap e) of (b, h) \<Rightarrow> ReloadBoard (Some b) (e\<lparr>e_heap := h\<rparr>))"

definition reloadQueue :: "track list \<Rightarrow> engine \<Rightarrow> engine" where
  "reloadQueue ts e =
     (case allocTracks ts (e_heap e) of (as, h) \<Rightarrow> ReloadSoloKaraokeQueue as (e\<lparr>e_heap := h\<rparr>))"

subsection \<open>boards.go\<close>

definition boardRows :: int where "boardRows = 5"

definition listBoards :: handler where
  "listBoards = orFail ListBoards (\<lambda>bs. writeJSON 200 (PBoards bs))"

definition createBoard :: "apiEnv \<Rightarrow> string body \<Rightarrow> handler" where
  "createBoard v b = (case b of
     Body name \<Rightarrow>
       if name = '''' then httpError 400 ''name is required''
       else if 200 < length name then httpError 400 ''name too long (max 200)''
       else do {
         bid \<leftarrow> generateID v ''brd'';
         orFail (CreateBoard (xe_now v) bid name) (\<lambda>_.
         orFail (AddColumn bid 1 '''') (\<lambda>_.
         orFail (GetBoard bid) (\<lambda>board. writeJSON 201 (PBoard board))))
       }
   | _ \<Rightarrow> httpError 400 ''invalid JSON'')"

definition getBoard :: "string \<Rightarrow> handler" where
  "getBoard bid = orFail (GetBoard bid) (\<lambda>b. case b of
     None \<Rightarrow> httpError 404 ''board not found'' | Some r \<Rightarrow> writeJSON 200 (PBoard (Some r)))"

definition renameBoard :: "apiEnv \<Rightarrow> string \<Rightarrow> (string \<times> int option) body \<Rightarrow> handler" where
  "renameBoard v bid b = (case b of
     Body (name, dd) \<Rightarrow>
       if name = '''' \<and> dd = None then httpError 400 ''name or dailyDoubleCount is required''
       else if 200 < length name then httpError 400 ''name too long (max 200)''
       else
         let settings = (case dd of None \<Rightarrow> ret NoContent
               | Some n \<Rightarrow>
                   if n < 0 then httpError 400 ''dailyDoubleCount must be >= 0''
                   else orFail (GetBoard bid) (\<lambda>bo. case bo of
                       None \<Rightarrow> httpError 404 ''board not found''
                     | Some board \<Rightarrow>
                        let maxDD = boardRows * br_cols board
                        in if maxDD < n then httpError 400 (''dailyDoubleCount must be <= '' @ itoa maxDD
                             @ '' ('' @ itoa boardRows @ '' rows x '' @ itoa (br_cols board) @ '' cols)'')
                           else orFail (SetDailyDoubleCount (xe_now v) bid n) (\<lambda>_. ret NoContent)))
         in if name \<noteq> '''' then orFail (RenameBoard (xe_now v) bid name) (\<lambda>_. settings) else settings
   | _ \<Rightarrow> httpError 400 ''invalid JSON'')"

definition deleteBoard :: "string \<Rightarrow> handler" where
  "deleteBoard bid = orFail (DeleteBoard bid) (\<lambda>_. ret NoContent)"

subsection \<open>layout.go\<close>

definition getLayout :: "string \<Rightarrow> handler" where
  "getLayout bid = orFail (GetLayout bid) (\<lambda>l. case l of
     None \<Rightarrow> httpError 404 ''board not found'' | Some x \<Rightarrow> writeJSON 200 (PLayout x))"

definition addColumn :: "apiEnv \<Rightarrow> string \<Rightarrow> string body \<Rightarrow> handler" where
  "addColumn v bid b = (case b of
     Body category \<Rightarrow>
       if category = '''' then httpError 400 ''category is required''
       else if 100 < length category then httpError 400 ''category too long (max 100)''
       else orFail (GetBoard bid) (\<lambda>bo. case bo of
           None \<Rightarrow> httpError 404 ''board not found''
         | Some board \<Rightarrow>
             if 8 \<le> br_cols board then httpError 409 ''maximum 8 columns''
             else
               let newCol = br_cols board + 1
               in orFail (AddColumn bid newCol category) (\<lambda>_.
                  orFail (UpdateBoardCols (xe_now v) bid newCol) (\<lambda>_.
                  writeJSON 201 (PColumn newCol category))))
   | _ \<Rightarrow> httpError 400 ''invalid JSON'')"

definition removeColumn :: "apiEnv \<Rightarrow> string \<Rightarrow> string \<Rightarrow> handler" where
  "removeColumn v bid colStr = (case Atoi colStr of
     None \<Rightarrow> httpError 400 ''invalid column number''
   | Some col \<Rightarrow>
       if col < 1 then httpError 400 ''invalid column number''
       else orFail (GetBoard bid) (\<lambda>bo. case bo of
           None \<Rightarrow> httpError 404 ''board not found''
         | Some board \<Rightarrow>
             if br_cols board \<le> 1 then httpError 409 ''cannot remove the last column''
             else orFail (RemoveColumn bid col) (\<lambda>_.
                  orFail (UpdateBoardCols (xe_now v) bid (br_cols board - 1)) (\<lambda>_. ret NoContent))))"

definition renameCategory :: "string \<Rightarrow> string \<Rightarrow> string body \<Rightarrow> handler" where
  "renameCategory bid colStr b = (case Atoi colStr of
     None \<Rightarrow> httpError 400 ''invalid column number''
   | Some col \<Rightarrow>
       if col < 1 then httpError 400 ''invalid column number''
       else (case b of
           Body category \<Rightarrow>
             if category = '''' then httpError 400 ''category is required''
             else if 100 < length category then httpError 400 ''category too long (max 100)''
             else orFail (RenameCategory bid col category) (\<lambda>_. ret NoContent)
         | _ \<Rightarrow> httpError 400 ''invalid JSON''))"

text \<open>The row and column of a cell URL.\<close>

definition withCell :: "string \<Rightarrow> string \<Rightarrow> (int \<Rightarrow> int \<Rightarrow> handler) \<Rightarrow> handler" where
  "withCell rowStr colStr k = (case Atoi rowStr of
     None \<Rightarrow> httpError 400 ''row must be 1-5''
   | Some row \<Rightarrow>
       if row < 1 \<or> 5 < row then httpError 400 ''row must be 1-5''
       else (case Atoi colStr of
           None \<Rightarrow> httpError 400 ''col must be 1-8''
         | Some col \<Rightarrow> if col < 1 \<or> 8 < col then httpError 400 ''col must be 1-8'' else k row col))"

definition placeTrack :: "string \<Rightarrow> string \<Rightarrow> string \<Rightarrow> string \<Rightarrow> int body \<Rightarrow> handler" where
  "placeTrack bid rowStr colStr tid b = withCell rowStr colStr (\<lambda>row col.
     (let place = (\<lambda>pos. if pos < 0 \<or> 4 < pos then httpError 400 ''pos must be 0-4''
            else orFail (PlaceTrack bid row col tid pos) (\<lambda>_. ret NoContent))
      in case b of BadBody \<Rightarrow> httpError 400 ''bad request'' | EmptyBody \<Rightarrow> place 0 | Body pos \<Rightarrow> place pos))"

definition unplaceTrack :: "string \<Rightarrow> string \<Rightarrow> string \<Rightarrow> string \<Rightarrow> handler" where
  "unplaceTrack bid rowStr colStr tid = withCell rowStr colStr (\<lambda>row col.
     orFail (UnplaceTrack bid row col tid) (\<lambda>_. ret NoContent))"

definition attachBoard :: "string \<Rightarrow> string body \<Rightarrow> handler" where
  "attachBoard bid b = (case b of
     Body sid \<Rightarrow>
       if sid = '''' then httpError 400 ''sessionId is required''
       else orFail (LoadBoardByID bid) (\<lambda>gb.
            orFail (AttachBoard sid bid) (\<lambda>_. do {
              onEngine (\<lambda>e. ((), reloadBoard gb e));
              writeJSON 200 (PStatus ''attached'')
            }))
   | _ \<Rightarrow> httpError 400 ''invalid JSON'')"

definition startGame :: handler where
  "startGame = do {
     r \<leftarrow> onEngine StartGame;
     case r of Some msg \<Rightarrow> httpError 409 msg | None \<Rightarrow> writeJSON 200 (PStatus ''started'')
   }"

definition resetGame :: handler where
  "resetGame = do {
     r \<leftarrow> onEngine ResetToLobby;
     case r of Some msg \<Rightarrow> httpError 409 msg | None \<Rightarrow> writeJSON 200 (PStatus ''reset'')
   }"

end
