(* ===== verification/Admin_Tracks.thy ===== *)
theory Admin_Tracks
  imports Admin_Api
begin

section \<open>The admin REST API: track library, lyrics, Daily Double bucket, Solo Karaoke, imports, AI build\<close>

text \<open>
  The handlers of tracks.go, dailydouble.go, solokaraoke.go, spotify.go and aibuild.go and the
  background probes of the imports.
\<close>

subsection \<open>tracks.go\<close>

definition maxRescanTracksPerRequest :: int where "maxRescanTracksPerRequest = 100"

definition listTracks :: "string \<Rightarrow> handler" where
  "listTracks bid = orFail (ListTracks bid) (\<lambda>ts. writeJSON 200 (PTracks ts))"

definition unplacedTracks :: "string \<Rightarrow> handler" where
  "unplacedTracks bid = orFail (UnplacedTracks bid) (\<lambda>ts. writeJSON 200 (PTracks ts))"

text \<open>A probe and the write of its outcome, whose error is dropped; the value says whether it found lyrics.\<close>

definition probeOne :: "apiEnv \<Rightarrow> string \<Rightarrow> string \<Rightarrow> string \<Rightarrow> int \<Rightarrow> (api, bool) state" where
  "probeOne v uri artist song dur = (case xe_probe v of
     None \<Rightarrow> ret False
   | Some f \<Rightarrow> do {
       k \<leftarrow> State (\<lambda>s. (ap_probes s, s\<lparr>ap_probes := ap_probes s + 1\<rparr>));
       (case f k artist song dur of
          ProbeErr msg \<Rightarrow> do { r \<leftarrow> liftDb (UpsertLyricsError uri msg); ret False }
        | ProbeNone \<Rightarrow> do { r \<leftarrow> liftDb (UpsertLyricsNotFound uri); ret False }
        | ProbeText text \<Rightarrow> do { r \<leftarrow> liftDb (UpsertLyricsResolved uri text ''lrclib''); ret True })
     })"

text \<open>Only a song never attempted is probed.\<close>

definition probeLyrics :: "apiEnv \<Rightarrow> string \<Rightarrow> string \<Rightarrow> string \<Rightarrow> int \<Rightarrow> (api, unit) state" where
  "probeLyrics v uri artist song ms =
     (if xe_probe v = None then ret ()
      else do {
        r \<leftarrow> liftDb (GetLyricsStatus uri);
        (case r of Inr None \<Rightarrow> do { b \<leftarrow> probeOne v uri artist song (quot ms 1000); ret () }
         | _ \<Rightarrow> ret ())
      })"

text \<open>The status a fresh read of the cache gives a track just added; a failed read leaves it empty.\<close>

definition freshStatus :: "string \<Rightarrow> (api, string) state" where
  "freshStatus uri = do {
     r \<leftarrow> liftDb (GetLyricsStatus uri);
     ret (case r of Inr (Some rec) \<Rightarrow> lr_status rec | _ \<Rightarrow> '''')
   }"

record trackBody =
  tb_spotifyUri :: string
  tb_artist :: string
  tb_song :: string
  tb_albumArt :: string
  tb_durationMs :: int

text \<open>The validation the handlers that add a track share.\<close>

definition checkTrackBody :: "trackBody \<Rightarrow> string option" where
  "checkTrackBody b =
     (if \<not> spotifyURIPattern (tb_spotifyUri b) then Some ''spotifyUri must match spotify:track:<id>''
      else if tb_artist b = '''' \<or> tb_song b = '''' then Some ''artist and song are required''
      else if 200 < length (tb_artist b) \<or> 200 < length (tb_song b) then Some ''artist/song too long (max 200)''
      else if tb_durationMs b \<le> 0 \<or> 600000 < tb_durationMs b then Some ''durationMs must be 1-600000''
      else None)"

definition withTrackBody :: "trackBody body \<Rightarrow> (trackBody \<Rightarrow> handler) \<Rightarrow> handler" where
  "withTrackBody b k = (case b of
     Body x \<Rightarrow> (case checkTrackBody x of Some msg \<Rightarrow> httpError 400 msg | None \<Rightarrow> k x)
   | _ \<Rightarrow> httpError 400 ''invalid JSON'')"

definition newTrack :: "apiEnv \<Rightarrow> string \<Rightarrow> string \<Rightarrow> trackBody \<Rightarrow> adminTrack" where
  "newTrack v tid bid x = \<lparr>bt_id = tid, bt_board = bid, bt_uri = tb_spotifyUri x,
     bt_artist = tb_artist x, bt_song = tb_song x, bt_art = tb_albumArt x, bt_duration = tb_durationMs x,
     bt_created = xe_now v, bt_override = False, bt_year = 0, bt_genre = '''', at_lyricsStatus = ''''\<rparr>"

definition addTrack :: "apiEnv \<Rightarrow> string \<Rightarrow> trackBody body \<Rightarrow> handler" where
  "addTrack v bid b = withTrackBody b (\<lambda>x. do {
     tid \<leftarrow> generateID v ''trk'';
     let t = newTrack v tid bid x;
     probeLyrics v (bt_uri t) (bt_artist t) (bt_song t) (bt_duration t);
     orFail (AddTrack t) (\<lambda>_. do {
       st \<leftarrow> freshStatus (bt_uri t);
       writeJSON 201 (PTrack (t\<lparr>at_lyricsStatus := st\<rparr>))
     })
   })"

definition deleteTrack :: "string \<Rightarrow> handler" where
  "deleteTrack tid = orFail (DeleteTrack tid) (\<lambda>_. ret NoContent)"

definition setTrackOverride :: "string \<Rightarrow> bool body \<Rightarrow> handler" where
  "setTrackOverride tid b = (case b of
     Body x \<Rightarrow> orFail (SetTrackOverride tid x) (\<lambda>_. ret NoContent)
   | _ \<Rightarrow> httpError 400 ''invalid JSON'')"

text \<open>
  The loops over the library. \<open>i\<close> numbers the turns at which the context is asked; the
  counters are the probes attempted and the songs resolved; the value adds the truncation
  flag. The pauses between probes have no effect on the state.
\<close>

fun rescanLoop :: "apiEnv \<Rightarrow> string list \<Rightarrow> nat \<Rightarrow> adminTrack list \<Rightarrow> int \<Rightarrow> int \<Rightarrow> (api, int \<times> int \<times> bool) state" where
  "rescanLoop v existing i [] attempted resolved = ret (attempted, resolved, False)"
| "rescanLoop v existing i (t # ts) attempted resolved =
     (if xe_gone v i then ret (attempted, resolved, False)
      else if bt_uri t \<in> set existing then rescanLoop v existing (Suc i) ts attempted resolved
      else if maxRescanTracksPerRequest \<le> attempted then ret (attempted, resolved, True)
      else do {
        ok \<leftarrow> probeOne v (bt_uri t) (bt_artist t) (bt_song t) (quot (bt_duration t) 1000);
        rescanLoop v existing (Suc i) ts (attempted + 1) (if ok then resolved + 1 else resolved)
      })"

definition rescanLyrics :: "apiEnv \<Rightarrow> string \<Rightarrow> handler" where
  "rescanLyrics v bid =
     (if xe_probe v = None then httpError 503 ''lyrics prober not configured''
      else orFail (ListTracks bid) (\<lambda>tracks.
           orFail (GetLyricsStatusesForURIs (map bt_uri tracks)) (\<lambda>existing. do {
             r \<leftarrow> rescanLoop v (map lr_uri existing) 0 tracks 0 0;
             (case r of (attempted, resolved, truncated) \<Rightarrow> writeJSON 200 (PRescan attempted resolved truncated))
           })))"

definition hasStatus :: "lyricsRecord list \<Rightarrow> string \<Rightarrow> string \<Rightarrow> bool" where
  "hasStatus existing want uri \<longleftrightarrow> (\<exists>r \<in> set existing. lr_uri r = uri \<and> lr_status r = want)"

text \<open>One pass of \<open>requeryPendingLyrics\<close>; the truncation flag only ever goes up.\<close>

fun requeryPass :: "apiEnv \<Rightarrow> lyricsRecord list \<Rightarrow> string \<Rightarrow> nat \<Rightarrow> adminTrack list \<Rightarrow> int \<times> int \<times> bool \<Rightarrow>
    (api, int \<times> int \<times> bool) state" where
  "requeryPass v existing want i [] acc = ret acc"
| "requeryPass v existing want i (t # ts) acc =
     (case acc of (attempted, resolved, truncated) \<Rightarrow>
       if xe_gone v i then ret acc
       else if \<not> hasStatus existing want (bt_uri t) then requeryPass v existing want (Suc i) ts acc
       else if maxRescanTracksPerRequest \<le> attempted then ret (attempted, resolved, True)
       else do {
         ok \<leftarrow> probeOne v (bt_uri t) (bt_artist t) (bt_song t) (quot (bt_duration t) 1000);
         requeryPass v existing want (Suc i) ts (attempted + 1, if ok then resolved + 1 else resolved, truncated)
       })"

definition requeryPendingLyrics :: "apiEnv \<Rightarrow> string \<Rightarrow> handler" where
  "requeryPendingLyrics v bid =
     (if xe_probe v = None then httpError 503 ''lyrics prober not configured''
      else orFail (ListTracks bid) (\<lambda>tracks.
           orFail (GetLyricsStatusesForURIs (map bt_uri tracks)) (\<lambda>existing. do {
             acc \<leftarrow> requeryPass v existing ''pending'' 0 tracks (0, 0, False);
             r \<leftarrow> requeryPass v existing ''not_found'' (length tracks) tracks acc;
             (case r of (attempted, resolved, truncated) \<Rightarrow> writeJSON 200 (PRescan attempted resolved truncated))
           })))"

definition requeryLyrics :: "apiEnv \<Rightarrow> string \<Rightarrow> string \<Rightarrow> handler" where
  "requeryLyrics v bid tid =
     (if xe_probe v = None then httpError 503 ''lyrics prober not configured''
      else orFail (GetTrack tid) (\<lambda>to.
        (case to of None \<Rightarrow> httpError 404 ''track not found on this board''
         | Some t \<Rightarrow>
            if bt_board t \<noteq> bid then httpError 404 ''track not found on this board''
            else do {
              ok \<leftarrow> probeOne v (bt_uri t) (bt_artist t) (bt_song t) (quot (bt_duration t) 1000);
              orFail (GetLyricsStatus (bt_uri t)) (\<lambda>rec. writeJSON 200 (PLyrics rec))
            })))"

definition manualLyrics :: "string \<Rightarrow> string body \<Rightarrow> handler" where
  "manualLyrics uri b = (case b of
     Body text \<Rightarrow>
       if ParseLRC text = [] then httpError 400 ''lrcText did not parse into any timed lines''
       else orFail (UpsertLyricsResolved uri text ''manual'') (\<lambda>_.
            orFail (GetLyricsStatus uri) (\<lambda>rec. writeJSON 200 (PLyrics rec)))
   | _ \<Rightarrow> httpError 400 ''invalid JSON'')"

definition setLyricsManual :: "string \<Rightarrow> string \<Rightarrow> string body \<Rightarrow> handler" where
  "setLyricsManual bid tid b =
     orFail (GetTrack tid) (\<lambda>to. (case to of None \<Rightarrow> httpError 404 ''track not found on this board''
       | Some t \<Rightarrow> if bt_board t \<noteq> bid then httpError 404 ''track not found on this board''
                    else manualLyrics (bt_uri t) b))"

subsection \<open>dailydouble.go\<close>

definition listDailyDoubleTracks :: "string \<Rightarrow> handler" where
  "listDailyDoubleTracks bid = orFail (ListDailyDoubleTracks bid) (\<lambda>ts. writeJSON 200 (PDDTracks ts))"

definition noResolvedLyrics :: string where
  "noResolvedLyrics = ''this song has no resolved lyrics yet '' @ emDash @
     '' fetch, requery, or enter them manually in the holding area before adding it to Daily Double''"

definition addDailyDoubleTrack :: "apiEnv \<Rightarrow> string \<Rightarrow> trackBody body \<Rightarrow> handler" where
  "addDailyDoubleTrack v bid b = withTrackBody b (\<lambda>x.
     orFail (GetLyricsStatus (tb_spotifyUri x)) (\<lambda>ro.
       (case ro of
          Some rec \<Rightarrow>
            if lr_status rec \<noteq> LyricsStatusResolved then httpError 412 noResolvedLyrics
            else do {
              tid \<leftarrow> generateID v ''ddt'';
              let t = \<lparr>dr_id = tid, dr_board = bid, dr_uri = tb_spotifyUri x, dr_artist = tb_artist x,
                 dr_song = tb_song x, dr_art = tb_albumArt x, dr_duration = tb_durationMs x,
                 dr_created = xe_now v, dt_lyricsStatus = lr_status rec\<rparr>;
              r \<leftarrow> liftDb (AddDailyDoubleTrack t);
              (case r of
                 Inl ErrDailyDoubleTrackExists \<Rightarrow>
                   httpError 409 ''a daily double track with this spotifyUri already exists on this board''
               | Inl x \<Rightarrow> serverError x
               | Inr _ \<Rightarrow> writeJSON 201 (PDDTrack t))
            }
        | None \<Rightarrow> httpError 412 noResolvedLyrics)))"

definition deleteDailyDoubleTrack :: "string \<Rightarrow> string \<Rightarrow> handler" where
  "deleteDailyDoubleTrack bid tid = do {
     r \<leftarrow> liftDb (RemoveDailyDoubleTrack bid tid);
     (case r of
        Inl ErrDailyDoubleTrackNotFound \<Rightarrow> httpError 404 ''daily double track not found on this board''
      | Inl x \<Rightarrow> serverError x
      | Inr _ \<Rightarrow> ret NoContent)
   }"

subsection \<open>solokaraoke.go\<close>

definition queueTrack :: "skTrack \<Rightarrow> track" where
  "queueTrack t = \<lparr>tID = sk_id t, tSpotifyURI = sk_uri t, tArtist = sk_artist t, tSong = sk_song t,
     tAlbumArt = sk_art t, tDurationMs = sk_duration t, tPlayed = False, tPlayable = True, tYear = 0, tGenre = ''''\<rparr>"

definition reloadSoloKaraokeQueue :: "apiEnv \<Rightarrow> (api, unit) state" where
  "reloadSoloKaraokeQueue v =
     (if \<not> xe_solo v then ret ()
      else do {
        r \<leftarrow> liftDb ListSoloKaraokePlaylistTracks;
        (case r of Inl x \<Rightarrow> ret ()
         | Inr rows \<Rightarrow> onEngine (\<lambda>e. ((), reloadQueue (map queueTrack rows) e)))
      })"

definition decodeSoloKaraokeTrackBody :: "trackBody body \<Rightarrow> (skTrack \<Rightarrow> handler) \<Rightarrow> handler" where
  "decodeSoloKaraokeTrackBody b k = withTrackBody b (\<lambda>x. k
     \<lparr>sk_id = '''', sk_uri = tb_spotifyUri x, sk_artist = tb_artist x, sk_song = tb_song x,
      sk_art = tb_albumArt x, sk_duration = tb_durationMs x, sk_created = 0, sk_position = 0,
      st_lyricsStatus = ''''\<rparr>)"

definition probeSoloKaraokeLyrics :: "apiEnv \<Rightarrow> string \<Rightarrow> string \<Rightarrow> string \<Rightarrow> int \<Rightarrow> (api, unit) state" where
  "probeSoloKaraokeLyrics v uri artist song ms =
     (if xe_probe v = None then ret ()
      else do {
        r \<leftarrow> liftDb (GetLyricsStatus uri);
        (case r of Inr None \<Rightarrow> do { b \<leftarrow> probeOne v uri artist song (quot ms 1000); ret () }
         | _ \<Rightarrow> ret ())
      })"

definition listSoloKaraokeLibrary :: handler where
  "listSoloKaraokeLibrary = orFail ListSoloKaraokeLibraryTracks (\<lambda>ts. writeJSON 200 (PSkTracks ts))"

definition addSoloKaraokeLibraryTrack :: "apiEnv \<Rightarrow> trackBody body \<Rightarrow> handler" where
  "addSoloKaraokeLibraryTrack v b = decodeSoloKaraokeTrackBody b (\<lambda>x. do {
     tid \<leftarrow> generateID v ''sklib'';
     let t = x\<lparr>sk_id := tid, sk_created := xe_now v\<rparr>;
     probeSoloKaraokeLyrics v (sk_uri t) (sk_artist t) (sk_song t) (sk_duration t);
     r \<leftarrow> liftDb (AddSoloKaraokeLibraryTrack t);
     (case r of
        Inl ErrSoloKaraokeLibraryTrackExists \<Rightarrow>
          httpError 409 ''a solo karaoke library track with this spotifyUri already exists''
      | Inl x \<Rightarrow> serverError x
      | Inr _ \<Rightarrow> do {
          st \<leftarrow> freshStatus (sk_uri t);
          writeJSON 201 (PSkTrack (t\<lparr>st_lyricsStatus := st\<rparr>))
        })
   })"

definition deleteSoloKaraokeLibraryTrack :: "string \<Rightarrow> handler" where
  "deleteSoloKaraokeLibraryTrack tid = do {
     r \<leftarrow> liftDb (RemoveSoloKaraokeLibraryTrack tid);
     (case r of
        Inl ErrSoloKaraokeLibraryTrackNotFound \<Rightarrow> httpError 404 ''solo karaoke library track not found''
      | Inl x \<Rightarrow> serverError x
      | Inr _ \<Rightarrow> ret NoContent)
   }"

definition listSoloKaraokePlaylist :: handler where
  "listSoloKaraokePlaylist = orFail ListSoloKaraokePlaylistTracks (\<lambda>ts. writeJSON 200 (PSkTracks ts))"

definition addSoloKaraokePlaylistTrack :: "apiEnv \<Rightarrow> trackBody body \<Rightarrow> handler" where
  "addSoloKaraokePlaylistTrack v b = decodeSoloKaraokeTrackBody b (\<lambda>x. do {
     tid \<leftarrow> generateID v ''skpl'';
     let t = x\<lparr>sk_id := tid, sk_created := xe_now v\<rparr>;
     probeSoloKaraokeLyrics v (sk_uri t) (sk_artist t) (sk_song t) (sk_duration t);
     r \<leftarrow> liftDb (AddSoloKaraokePlaylistTrack t);
     (case r of
        Inl ErrSoloKaraokePlaylistTrackExists \<Rightarrow>
          httpError 409 ''a solo karaoke playlist track with this spotifyUri already exists''
      | Inl x \<Rightarrow> serverError x
      | Inr _ \<Rightarrow> do {
          st \<leftarrow> freshStatus (sk_uri t);
          reloadSoloKaraokeQueue v;
          writeJSON 201 (PSkTrack (t\<lparr>st_lyricsStatus := st\<rparr>))
        })
   })"

definition deleteSoloKaraokePlaylistTrack :: "apiEnv \<Rightarrow> string \<Rightarrow> handler" where
  "deleteSoloKaraokePlaylistTrack v tid = do {
     r \<leftarrow> liftDb (RemoveSoloKaraokePlaylistTrack tid);
     (case r of
        Inl ErrSoloKaraokePlaylistTrackNotFound \<Rightarrow> httpError 404 ''solo karaoke playlist track not found''
      | Inl x \<Rightarrow> serverError x
      | Inr _ \<Rightarrow> do { reloadSoloKaraokeQueue v; ret NoContent })
   }"

definition maxSoloKaraokeReorderIDs :: nat where "maxSoloKaraokeReorderIDs = 1000"

definition reorderSoloKaraokePlaylist :: "apiEnv \<Rightarrow> string list body \<Rightarrow> handler" where
  "reorderSoloKaraokePlaylist v b = (case b of
     Body ordered \<Rightarrow>
       if maxSoloKaraokeReorderIDs < length ordered
       then httpError 400 (''orderedIds too long (max '' @ itoa (int maxSoloKaraokeReorderIDs) @ '')'')
       else orFail (ReorderSoloKaraokePlaylist ordered) (\<lambda>_. do { reloadSoloKaraokeQueue v; ret NoContent })
   | _ \<Rightarrow> httpError 400 ''invalid JSON'')"

definition requerySoloKaraokeLyrics :: "apiEnv \<Rightarrow> string \<Rightarrow> handler" where
  "requerySoloKaraokeLyrics v tid =
     (if xe_probe v = None then httpError 503 ''lyrics prober not configured''
      else orFail (GetSoloKaraokeTrack tid) (\<lambda>to.
        (case to of None \<Rightarrow> httpError 404 ''track not found in either solo karaoke bucket''
         | Some t \<Rightarrow> do {
             ok \<leftarrow> probeOne v (sk_uri t) (sk_artist t) (sk_song t) (quot (sk_duration t) 1000);
             orFail (GetLyricsStatus (sk_uri t)) (\<lambda>rec. writeJSON 200 (PLyrics rec))
           })))"

definition setSoloKaraokeLyricsManual :: "string \<Rightarrow> string body \<Rightarrow> handler" where
  "setSoloKaraokeLyricsManual tid b =
     orFail (GetSoloKaraokeTrack tid) (\<lambda>to.
       (case to of None \<Rightarrow> httpError 404 ''track not found in either solo karaoke bucket''
        | Some t \<Rightarrow> manualLyrics (sk_uri t) b))"


subsection \<open>spotify.go and the playlist imports\<close>

definition playlistIDPattern :: "string \<Rightarrow> bool" where
  "playlistIDPattern s \<longleftrightarrow> s \<noteq> [] \<and> list_all isAlnum s"

text \<open>\<open>strings.Cut\<close>: the text before the first occurrence of a separator and, if there is one, after it.\<close>

fun cutAt :: "string \<Rightarrow> string \<Rightarrow> string \<times> string option" where
  "cutAt sep [] = (if sep = [] then ([], Some []) else ([], None))"
| "cutAt sep (c # cs) =
     (if take (length sep) (c # cs) = sep then ([], Some (drop (length sep) (c # cs)))
      else (case cutAt sep cs of (a, r) \<Rightarrow> (c # a, r)))"

definition extractPlaylistID :: "string \<Rightarrow> string" where
  "extractPlaylistID input0 =
     (let input = trimSpace input0; prefix = ''spotify:playlist:''; host = ''open.spotify.com/playlist/''
      in if take (length prefix) input = prefix then
           (let i = drop (length prefix) input in if playlistIDPattern i then i else '''')
         else (case snd (cutAt host input) of
             Some rest \<Rightarrow>
               (let i = fst (cutAt ''/'' (fst (cutAt ''?'' (fst (cutAt host rest)))))
                in if playlistIDPattern i then i else '''')
           | None \<Rightarrow> if playlistIDPattern input \<and> 10 \<le> length input then input else ''''))"

definition searchSpotify :: "apiEnv \<Rightarrow> string \<Rightarrow> string \<Rightarrow> handler" where
  "searchSpotify v q limitStr = (case xe_search v of
     None \<Rightarrow> httpError 503 ''Spotify not configured''
   | Some search \<Rightarrow>
       if q = '''' then httpError 400 ''q parameter required''
       else (let limit = (case Atoi limitStr of None \<Rightarrow> 10 | Some l \<Rightarrow> l)
             in case search q limit of
                  None \<Rightarrow> httpError 502 ''Spotify request failed''
                | Some rs \<Rightarrow> writeJSON 200 (PResults rs)))"

definition spotifyToken :: "apiEnv \<Rightarrow> handler" where
  "spotifyToken v =
     (if xe_search v = None then writeJSON 200 (PToken None False)
      else case xe_token v of
          None \<Rightarrow> writeJSON 200 (PToken None False)
        | Some t \<Rightarrow> writeJSON 200 (PToken (Some t) True))"

text \<open>A background job joins the list of the jobs that have been started.\<close>

definition spawnJob :: "bgJob \<Rightarrow> (api, unit) state" where
  "spawnJob j = State (\<lambda>s. ((), s\<lparr>ap_jobs := ap_jobs s @ [j]\<rparr>))"

definition withPlaylist :: "apiEnv \<Rightarrow> string body \<Rightarrow> (spotifyResult list \<Rightarrow> handler) \<Rightarrow> handler" where
  "withPlaylist v b k =
     (if xe_search v = None then httpError 503 ''Spotify not configured''
      else case b of
        Body uri \<Rightarrow>
          (let i = extractPlaylistID uri
           in if i = '''' then httpError 400 ''invalid playlist URI/URL''
              else case xe_playlist v i of
                  None \<Rightarrow> httpError 502 ''Spotify request failed''
                | Some rs \<Rightarrow> k rs)
      | _ \<Rightarrow> httpError 400 ''invalid JSON'')"

definition importedTrack :: "apiEnv \<Rightarrow> string \<Rightarrow> nat \<Rightarrow> string \<Rightarrow> spotifyResult \<Rightarrow> adminTrack" where
  "importedTrack v bid i tid r = \<lparr>bt_id = tid, bt_board = bid, bt_uri = sr_URI r, bt_artist = sr_Artist r,
     bt_song = sr_Song r, bt_art = sr_AlbumArt r, bt_duration = sr_DurationMs r,
     bt_created = xe_now v + int i, bt_override = False, bt_year = sr_Year r, bt_genre = sr_Genre r,
     at_lyricsStatus = ''''\<rparr>"

fun importLoop :: "apiEnv \<Rightarrow> string \<Rightarrow> nat \<Rightarrow> spotifyResult list \<Rightarrow> adminTrack list \<times> int \<Rightarrow>
    (api, adminTrack list \<times> int) state" where
  "importLoop v bid i [] acc = ret acc"
| "importLoop v bid i (r # rs) acc = do {
     tid \<leftarrow> generateID v ''trk'';
     let t = importedTrack v bid i tid r;
     e \<leftarrow> liftDb (AddTrack t);
     importLoop v bid (Suc i) rs (case e of Inl _ \<Rightarrow> (fst acc, snd acc + 1) | Inr _ \<Rightarrow> (fst acc @ [t], snd acc))
   }"

definition importPlaylist :: "apiEnv \<Rightarrow> string \<Rightarrow> string body \<Rightarrow> handler" where
  "importPlaylist v bid b = withPlaylist v b (\<lambda>rs. do {
     acc \<leftarrow> importLoop v bid 0 rs ([], 0);
     (if xe_probe v \<noteq> None \<and> fst acc \<noteq> [] then spawnJob (ProbeTracks (fst acc)) else ret ());
     writeJSON 200 (PCounts [(''imported'', int (length (fst acc))), (''skipped'', snd acc),
       (''total'', int (length rs))])
   })"

definition importedSkTrack :: "apiEnv \<Rightarrow> nat \<Rightarrow> string \<Rightarrow> spotifyResult \<Rightarrow> skTrack" where
  "importedSkTrack v i tid r = \<lparr>sk_id = tid, sk_uri = sr_URI r, sk_artist = sr_Artist r,
     sk_song = sr_Song r, sk_art = sr_AlbumArt r, sk_duration = sr_DurationMs r,
     sk_created = xe_now v + int i, sk_position = 0, st_lyricsStatus = ''''\<rparr>"

fun importSkLoop :: "apiEnv \<Rightarrow> nat \<Rightarrow> spotifyResult list \<Rightarrow> skTrack list \<times> int \<Rightarrow>
    (api, skTrack list \<times> int) state" where
  "importSkLoop v i [] acc = ret acc"
| "importSkLoop v i (r # rs) acc = do {
     tid \<leftarrow> generateID v ''sklib'';
     let t = importedSkTrack v i tid r;
     e \<leftarrow> liftDb (AddSoloKaraokeLibraryTrack t);
     importSkLoop v (Suc i) rs (case e of Inl _ \<Rightarrow> (fst acc, snd acc + 1) | Inr _ \<Rightarrow> (fst acc @ [t], snd acc))
   }"

definition importSoloKaraokePlaylist :: "apiEnv \<Rightarrow> string body \<Rightarrow> handler" where
  "importSoloKaraokePlaylist v b = withPlaylist v b (\<lambda>rs. do {
     acc \<leftarrow> importSkLoop v 0 rs ([], 0);
     (if xe_probe v \<noteq> None \<and> fst acc \<noteq> [] then spawnJob (ProbeSolo (fst acc)) else ret ());
     writeJSON 200 (PCounts [(''imported'', int (length (fst acc))), (''skipped'', snd acc),
       (''total'', int (length rs))])
   })"

text \<open>The background probes: \<open>probeLyricsBatch\<close> skips the songs with a row, the Solo Karaoke one does not.\<close>

fun probeEach :: "apiEnv \<Rightarrow> string list \<Rightarrow> (string \<times> string \<times> string \<times> int) list \<Rightarrow> (api, unit) state" where
  "probeEach v existing [] = ret ()"
| "probeEach v existing ((uri, artist, song, ms) # ts) =
     (if uri \<in> set existing then probeEach v existing ts
      else do { ok \<leftarrow> probeOne v uri artist song (quot ms 1000); probeEach v existing ts })"

definition probeLyricsBatch :: "apiEnv \<Rightarrow> adminTrack list \<Rightarrow> (api, unit) state" where
  "probeLyricsBatch v ts =
     (if xe_probe v = None then ret ()
      else do {
        r \<leftarrow> liftDb (GetLyricsStatusesForURIs (map bt_uri ts));
        probeEach v (case r of Inl _ \<Rightarrow> [] | Inr rs \<Rightarrow> map lr_uri rs)
          (map (\<lambda>t. (bt_uri t, bt_artist t, bt_song t, bt_duration t)) ts)
      })"

definition runBgJob :: "apiEnv \<Rightarrow> bgJob \<Rightarrow> (api, unit) state" where
  "runBgJob v j = (case j of
     ProbeTracks ts \<Rightarrow> probeLyricsBatch v ts
   | ProbeSolo ts \<Rightarrow> probeEach v [] (map (\<lambda>t. (sk_uri t, sk_artist t, sk_song t, sk_duration t)) ts))"

subsection \<open>aibuild.go\<close>

text \<open>The bytes outside the digits end the loop with 0; a multi-byte rune starts with such a byte.\<close>

fun atoiClampFrom :: "int \<Rightarrow> int \<Rightarrow> int \<Rightarrow> string \<Rightarrow> int" where
  "atoiClampFrom n lo hi [] = (if n < lo then 0 else n)"
| "atoiClampFrom n lo hi (c # cs) =
     (if \<not> isDigit c then 0
      else (let n' = n * 10 + int (byte c - 48) in if hi < n' then hi else atoiClampFrom n' lo hi cs))"

definition atoiClamp :: "string \<Rightarrow> int \<Rightarrow> int \<Rightarrow> int" where
  "atoiClamp s lo hi = atoiClampFrom 0 lo hi s"

definition sanitizeCategory :: "string \<Rightarrow> string" where
  "sanitizeCategory name =
     (let name = runesToString (filter (\<lambda>r. \<not> (r < 0x20 \<or> r = 0x7f)) (map snd (runes name)));
          rs = map snd (runes name)
      in if 100 < length rs then runesToString (take 100 rs) else name)"

text \<open>
  The inner loop: \<open>row\<close> is the next free row of the column and \<open>placed\<close> the ids used up.
\<close>

fun placeIds :: "string list \<Rightarrow> int \<Rightarrow> int \<Rightarrow> string list \<Rightarrow> string list \<Rightarrow> layoutPlacement list \<times> string list" where
  "placeIds known col row placed [] = ([], placed)"
| "placeIds known col row placed (tid # tids) =
     (if 5 < row \<or> tid \<notin> set known \<or> tid \<in> set placed then placeIds known col row placed tids
      else (case placeIds known col (row + 1) (placed @ [tid]) tids of (ps, pl) \<Rightarrow>
         (\<lparr>lp_row = row, lp_col = col, lp_track = tid, lp_pos = row - 1\<rparr> # ps, pl)))"

fun buildColumns :: "string list \<Rightarrow> int \<Rightarrow> string list \<Rightarrow> aiCategory list \<Rightarrow> layoutColumn list" where
  "buildColumns known col placed [] = []"
| "buildColumns known col placed (c # cs) =
     (case placeIds known col 1 placed (ac_TrackIDs c) of (ps, pl) \<Rightarrow>
        \<lparr>lq_category = sanitizeCategory (ac_Name c), lq_placements = ps\<rparr> # buildColumns known (col + 1) pl cs)"

definition aiCols :: "string \<Rightarrow> int" where
  "aiCols q = (if q = '''' then 6 else (let n = atoiClamp q 1 8 in if 0 < n then n else 6))"

definition aiBuild :: "apiEnv \<Rightarrow> string \<Rightarrow> string \<Rightarrow> handler" where
  "aiBuild v bid q = (case xe_ai v of
     None \<Rightarrow> httpError 503 ''AI builder not configured (set GEMINI_API_KEY)''
   | Some ai \<Rightarrow>
       (let cols = aiCols q
        in orFail (ListTracks bid) (\<lambda>tracks.
             if tracks = [] then httpError 400 ''board has no tracks to categorize''
             else (case ai (map (\<lambda>t. (bt_id t, bt_artist t, bt_song t)) tracks) 5 cols of
                 None \<Rightarrow> httpError 502 ''AI build failed''
               | Some proposal \<Rightarrow>
                   (let cats = take (nat cols) proposal;
                        columns = buildColumns (map bt_id tracks) 1 [] cats
                    in orFail (RebuildLayout (xe_now v) bid (int (length cats)) columns) (\<lambda>_.
                       writeJSON 200 (PCounts [(''categories'', int (length cats)),
                         (''placed'', int (sum_list (map (\<lambda>c. length (lq_placements c)) columns))),
                         (''total'', int (length tracks))])))))))"

end
