(* ===== verification/Admin_Server.thy ===== *)
theory Admin_Server
  imports Admin_Tracks
begin

section \<open>The routing table and the authentication of the admin API: handler.go and middleware.go\<close>

text \<open>The routes \<open>Register\<close> mounts, with the path values, the queries and the decoded bodies.\<close>

datatype (plugins only: code) route =
    RListBoards
  | RCreateBoard "string body"
  | RGetBoard string
  | RRenameBoard string "(string \<times> int option) body"
  | RDeleteBoard string
  | RListTracks string
  | RUnplacedTracks string
  | RAddTrack string "trackBody body"
  | RDeleteTrack string string
  | RSetTrackOverride string string "bool body"
  | RRescanLyrics string
  | RRequeryPendingLyrics string
  | RRequeryLyrics string string
  | RSetLyricsManual string string "string body"
  | RAiBuild string string
  | RListDailyDoubleTracks string
  | RAddDailyDoubleTrack string "trackBody body"
  | RDeleteDailyDoubleTrack string string
  | RGetLayout string
  | RAddColumn string "string body"
  | RRemoveColumn string string
  | RRenameCategory string string "string body"
  | RPlaceTrack string string string string "int body"
  | RUnplaceTrack string string string string
  | RAttachBoard string "string body"
  | RStartGame
  | RResetGame
  | RListSoloKaraokeLibrary
  | RAddSoloKaraokeLibraryTrack "trackBody body"
  | RDeleteSoloKaraokeLibraryTrack string
  | RListSoloKaraokePlaylist
  | RAddSoloKaraokePlaylistTrack "trackBody body"
  | RDeleteSoloKaraokePlaylistTrack string
  | RReorderSoloKaraokePlaylist "string list body"
  | RImportSoloKaraokePlaylist "string body"
  | RRequerySoloKaraokeLyrics string
  | RSetSoloKaraokeLyricsManual string "string body"
  | RSearchSpotify string string
  | RImportPlaylist string "string body"
  | RSpotifyToken

primrec handle :: "apiEnv \<Rightarrow> route \<Rightarrow> handler" where
  "handle v RListBoards = listBoards"
| "handle v (RCreateBoard b) = createBoard v b"
| "handle v (RGetBoard i) = getBoard i"
| "handle v (RRenameBoard i b) = renameBoard v i b"
| "handle v (RDeleteBoard i) = deleteBoard i"
| "handle v (RListTracks i) = listTracks i"
| "handle v (RUnplacedTracks i) = unplacedTracks i"
| "handle v (RAddTrack i b) = addTrack v i b"
| "handle v (RDeleteTrack i t) = deleteTrack t"
| "handle v (RSetTrackOverride i t b) = setTrackOverride t b"
| "handle v (RRescanLyrics i) = rescanLyrics v i"
| "handle v (RRequeryPendingLyrics i) = requeryPendingLyrics v i"
| "handle v (RRequeryLyrics i t) = requeryLyrics v i t"
| "handle v (RSetLyricsManual i t b) = setLyricsManual i t b"
| "handle v (RAiBuild i q) = aiBuild v i q"
| "handle v (RListDailyDoubleTracks i) = listDailyDoubleTracks i"
| "handle v (RAddDailyDoubleTrack i b) = addDailyDoubleTrack v i b"
| "handle v (RDeleteDailyDoubleTrack i t) = deleteDailyDoubleTrack i t"
| "handle v (RGetLayout i) = getLayout i"
| "handle v (RAddColumn i b) = addColumn v i b"
| "handle v (RRemoveColumn i c) = removeColumn v i c"
| "handle v (RRenameCategory i c b) = renameCategory i c b"
| "handle v (RPlaceTrack i r c t b) = placeTrack i r c t b"
| "handle v (RUnplaceTrack i r c t) = unplaceTrack i r c t"
| "handle v (RAttachBoard i b) = attachBoard i b"
| "handle v RStartGame = startGame"
| "handle v RResetGame = resetGame"
| "handle v RListSoloKaraokeLibrary = listSoloKaraokeLibrary"
| "handle v (RAddSoloKaraokeLibraryTrack b) = addSoloKaraokeLibraryTrack v b"
| "handle v (RDeleteSoloKaraokeLibraryTrack t) = deleteSoloKaraokeLibraryTrack t"
| "handle v RListSoloKaraokePlaylist = listSoloKaraokePlaylist"
| "handle v (RAddSoloKaraokePlaylistTrack b) = addSoloKaraokePlaylistTrack v b"
| "handle v (RDeleteSoloKaraokePlaylistTrack t) = deleteSoloKaraokePlaylistTrack v t"
| "handle v (RReorderSoloKaraokePlaylist b) = reorderSoloKaraokePlaylist v b"
| "handle v (RImportSoloKaraokePlaylist b) = importSoloKaraokePlaylist v b"
| "handle v (RRequerySoloKaraokeLyrics t) = requerySoloKaraokeLyrics v t"
| "handle v (RSetSoloKaraokeLyricsManual t b) = setSoloKaraokeLyricsManual t b"
| "handle v (RSearchSpotify q l) = searchSpotify v q l"
| "handle v (RImportPlaylist i b) = importPlaylist v i b"
| "handle v RSpotifyToken = spotifyToken v"

text \<open>
  \<open>AdminAuth\<close> around a handler: the SHA-256 digest of the presented token is compared with
  the digest of the secret.
\<close>

definition bearer :: string where "bearer = ''Bearer ''"

definition AdminAuth :: "apiEnv \<Rightarrow> handler \<Rightarrow> string \<Rightarrow> handler" where
  "AdminAuth v next auth =
     (if take (length bearer) auth \<noteq> bearer then httpError 401 ''unauthorized''
      else if xe_sha v (drop (length bearer) auth) \<noteq> xe_sha v (xe_secret v) then httpError 401 ''unauthorized''
      else next)"

definition serve :: "apiEnv \<Rightarrow> string \<Rightarrow> route \<Rightarrow> handler" where
  "serve v auth r = AdminAuth v (handle v r) auth"

end
