(* ===== verification/Admin_Inv.thy ===== *)
theory Admin_Inv
  imports Store_Inv
begin

section \<open>The admin API keeps what its statements keep\<close>

text \<open>
  The closure of the handlers under a stable relation, and the whole API in
  \<open>sql_stable_api\<close>. \<open>Store_Ok\<close> and \<open>Cache_Rules\<close> interpret the locales.
\<close>

context sql_stable begin

lemma api_bind: "apiR R m \<Longrightarrow> (\<And>a. apiR R (k a)) \<Longrightarrow> apiR R (m \<bind> k)"
  unfolding apiR_def by (auto split: prod.splits) (metis R_trans snd_conv)

lemma api_ret: "apiR R (ret a)"
  by (simp add: apiR_def R_refl)

lemma api_liftDb: "stR R m \<Longrightarrow> apiR R (liftDb m)"
  by (auto simp: apiR_def stR_def liftDb_def split: prod.splits) (metis snd_conv)

lemma api_state: "(\<And>s. ap_db (snd (f s)) = ap_db s) \<Longrightarrow> apiR R (State f)"
  by (simp add: apiR_def R_refl)

lemma api_onEngine: "apiR R (onEngine f)"
  unfolding onEngine_def by (rule api_state) (simp split: prod.split)

lemma api_generateID: "apiR R (generateID v p)"
  unfolding generateID_def by (rule api_state) simp

lemma api_spawn: "apiR R (spawnJob j)"
  unfolding spawnJob_def by (rule api_state) simp

lemma api_http: "apiR R (httpError c m)" "apiR R (writeJSON c p)" "apiR R (serverError x)"
  by (simp_all add: httpError_def writeJSON_def serverError_def api_ret)

lemma api_orFail: "stR R m \<Longrightarrow> (\<And>a. apiR R (k a)) \<Longrightarrow> apiR R (orFail m k)"
  unfolding orFail_def by (intro api_bind api_liftDb) (auto split: sum.split intro: api_http)

lemmas api_intros = api_bind api_ret api_liftDb api_onEngine api_generateID api_spawn api_http api_orFail
  boards_R bucket_R tracks_R lyrics_R layout_R rebuild_R load_R session_R solo_R

lemmas api_splits = body.split option.split sum.split storeErr.split prod.split

lemma api_boards:
  "apiR R listBoards" "apiR R (createBoard v b)" "apiR R (getBoard i)" "apiR R (renameBoard v i b')"
  "apiR R (deleteBoard i)"
  unfolding listBoards_def createBoard_def getBoard_def renameBoard_def deleteBoard_def Let_def
  by (auto intro!: api_intros split: api_splits)

lemma api_cell: "(\<And>r c. apiR R (k r c)) \<Longrightarrow> apiR R (withCell rs cs k)"
  unfolding withCell_def by (auto intro!: api_intros split: option.split)

lemma api_layout:
  "apiR R (getLayout i)" "apiR R (addColumn v i b)" "apiR R (removeColumn v i c)"
  "apiR R (renameCategory i c b)" "apiR R (placeTrack i r c t b')" "apiR R (unplaceTrack i r c t)"
  "apiR R (attachBoard i b)" "apiR R startGame" "apiR R resetGame"
  unfolding getLayout_def addColumn_def removeColumn_def renameCategory_def placeTrack_def unplaceTrack_def
    attachBoard_def startGame_def resetGame_def Let_def
  by (auto intro!: api_intros api_cell split: api_splits)

lemma api_probeOne: "apiR R (probeOne v uri artist song dur)"
  unfolding probeOne_def
  by (auto intro!: api_bind api_ret api_liftDb upserts_R api_state split: option.split probeResult.split)

lemma api_probeLyrics: "apiR R (probeLyrics v uri artist song ms)"
  unfolding probeLyrics_def by (auto intro!: api_intros api_probeOne split: api_splits)

lemma api_probeSolo: "apiR R (probeSoloKaraokeLyrics v uri artist song ms)"
  unfolding probeSoloKaraokeLyrics_def by (auto intro!: api_intros api_probeOne split: api_splits)

lemma api_freshStatus: "apiR R (freshStatus uri)"
  unfolding freshStatus_def by (auto intro!: api_intros)

lemma api_trackBody: "(\<And>x. apiR R (k x)) \<Longrightarrow> apiR R (withTrackBody b k)"
  unfolding withTrackBody_def by (auto intro!: api_intros split: body.split option.split)

lemma api_soloBody: "(\<And>x. apiR R (k x)) \<Longrightarrow> apiR R (decodeSoloKaraokeTrackBody b k)"
  unfolding decodeSoloKaraokeTrackBody_def by (rule api_trackBody)

lemma api_rescanLoop: "apiR R (rescanLoop v ex i ts a r)"
  by (induction v ex i ts a r rule: rescanLoop.induct) (auto intro!: api_intros api_probeOne)

lemma api_requeryPass: "apiR R (requeryPass v ex w i ts acc)"
proof (induction ts arbitrary: i acc)
  case (Cons t ts)
  then show ?case by (auto intro!: api_intros api_probeOne split: prod.split)
qed (simp add: api_ret)

lemma api_tracks:
  "apiR R (listTracks i)" "apiR R (unplacedTracks i)" "apiR R (addTrack v i tb)" "apiR R (deleteTrack t)"
  "apiR R (setTrackOverride t bb)" "apiR R (rescanLyrics v i)" "apiR R (requeryPendingLyrics v i)"
  "apiR R (requeryLyrics v i t)"
  unfolding listTracks_def unplacedTracks_def addTrack_def deleteTrack_def setTrackOverride_def
    rescanLyrics_def requeryPendingLyrics_def requeryLyrics_def Let_def
  by (auto intro!: api_intros api_probeOne api_probeLyrics api_freshStatus api_trackBody api_rescanLoop
      api_requeryPass split: api_splits)

lemma api_dd: "apiR R (listDailyDoubleTracks i)" "apiR R (deleteDailyDoubleTrack i t)"
  unfolding listDailyDoubleTracks_def deleteDailyDoubleTrack_def
  by (auto intro!: api_intros split: api_splits)

lemma api_reloadQueue: "apiR R (reloadSoloKaraokeQueue v)"
  unfolding reloadSoloKaraokeQueue_def by (auto intro!: api_intros split: sum.split)

lemma api_solo:
  "apiR R listSoloKaraokeLibrary" "apiR R (addSoloKaraokeLibraryTrack v tb)"
  "apiR R (deleteSoloKaraokeLibraryTrack t)" "apiR R listSoloKaraokePlaylist"
  "apiR R (addSoloKaraokePlaylistTrack v tb)" "apiR R (deleteSoloKaraokePlaylistTrack v t)"
  "apiR R (reorderSoloKaraokePlaylist v ids)" "apiR R (requerySoloKaraokeLyrics v t)"
  unfolding listSoloKaraokeLibrary_def addSoloKaraokeLibraryTrack_def deleteSoloKaraokeLibraryTrack_def
    listSoloKaraokePlaylist_def addSoloKaraokePlaylistTrack_def deleteSoloKaraokePlaylistTrack_def
    reorderSoloKaraokePlaylist_def requerySoloKaraokeLyrics_def Let_def
  by (auto intro!: api_intros api_probeOne api_probeSolo api_freshStatus api_soloBody api_reloadQueue
      split: api_splits)

lemma api_importLoops: "apiR R (importLoop v bid i rs acc)" "apiR R (importSkLoop v i rs acc')"
proof -
  show "apiR R (importLoop v bid i rs acc)"
    by (induction v bid i rs acc rule: importLoop.induct) (auto intro!: api_intros simp: Let_def)
  show "apiR R (importSkLoop v i rs acc')"
    by (induction v i rs acc' rule: importSkLoop.induct) (auto intro!: api_intros simp: Let_def)
qed

lemma api_playlist: "(\<And>rs. apiR R (k rs)) \<Longrightarrow> apiR R (withPlaylist v b k)"
  unfolding withPlaylist_def Let_def by (auto intro!: api_intros split: body.split option.split)

lemma api_spotify:
  "apiR R (searchSpotify v q l)" "apiR R (spotifyToken v)" "apiR R (importPlaylist v i b)"
  "apiR R (importSoloKaraokePlaylist v b)" "apiR R (aiBuild v i q)"
  unfolding searchSpotify_def spotifyToken_def importPlaylist_def importSoloKaraokePlaylist_def aiBuild_def Let_def
  by (auto intro!: api_intros api_importLoops api_playlist split: option.split)

lemma api_probeEach: "apiR R (probeEach v ex ts)"
  by (induction v ex ts rule: probeEach.induct) (auto intro!: api_intros api_probeOne)

lemma api_bgJob: "apiR R (runBgJob v j)"
  unfolding runBgJob_def probeLyricsBatch_def
  by (auto intro!: api_intros api_probeEach split: bgJob.split)

lemma api_auth: "apiR R m \<Longrightarrow> apiR R (AdminAuth v m auth)"
  by (simp add: AdminAuth_def api_http)

end

text \<open>The two routes that write lyrics an admin typed in.\<close>

definition writesLyrics :: "route \<Rightarrow> bool" where
  "writesLyrics r \<longleftrightarrow> (case r of RSetLyricsManual _ _ _ \<Rightarrow> True | RSetSoloKaraokeLyricsManual _ _ \<Rightarrow> True | _ \<Rightarrow> False)"

text \<open>Writing lyrics by hand.\<close>

definition manualRow :: "string \<Rightarrow> string \<Rightarrow> lyricsRow" where
  "manualRow uri text = \<lparr>ly_uri = uri, ly_text = Some text, ly_status = ''resolved'',
     ly_source = Some ''manual'', ly_error = None\<rparr>"

definition setManual :: "string \<Rightarrow> lyricsRow \<Rightarrow> lyricsRow" where
  "setManual text r = r\<lparr>ly_text := Some text, ly_status := ''resolved'', ly_source := Some ''manual'', ly_error := None\<rparr>"

lemma manual_upsert:
  "UpsertLyricsResolved uri text ''manual'' =
     wrapped ''store: upsert lyrics resolved'' (stmt (upsertLyrics (manualRow uri text) (setManual text)))"
  by (simp add: UpsertLyricsResolved_def manualRow_def setManual_def [abs_def])

locale sql_stable_bucket = sql_stable +
  assumes R_insertDD: "sqlR R (insertDD dr)"
begin

lemma api_addDD: "apiR R (addDailyDoubleTrack v i tb)"
proof -
  have "stR R (AddDailyDoubleTrack t)" for t
    unfolding AddDailyDoubleTrack_def by (intro st_intros R_insertDD)
  then show ?thesis
    unfolding addDailyDoubleTrack_def Let_def
    by (auto intro!: api_intros api_trackBody split: api_splits)
qed

lemma handle_auto: "\<not> writesLyrics r \<Longrightarrow> apiR R (handle v r)"
  by (cases r) (simp_all add: writesLyrics_def api_boards api_layout api_tracks api_dd api_addDD api_solo api_spotify)

end

locale sql_stable_api = sql_stable +
  assumes R_manual: "sqlR R (upsertLyrics (manualRow uri text) (setManual text))"
    and R_addDD: "apiR R (addDailyDoubleTrack v bid tb)"
begin

lemma api_manual: "apiR R (manualLyrics uri b)"
  unfolding manualLyrics_def manual_upsert
  by (auto intro!: api_intros wrapped_R stmt_R R_manual split: body.split)

lemma handle_R: "apiR R (handle v r)"
proof -
  have "apiR R (setLyricsManual i t b)" "apiR R (setSoloKaraokeLyricsManual t b)" for i t b
    unfolding setLyricsManual_def setSoloKaraokeLyricsManual_def
    by (auto intro!: api_intros api_manual split: option.split)
  then show ?thesis
    by (cases r) (simp_all add: api_boards api_layout api_tracks api_dd R_addDD api_solo api_spotify)
qed

lemma serve_R: "apiR R (serve v auth r)"
  by (simp add: serve_def api_auth handle_R)

end

end
