(* ===== verification/Store_Ok.thy ===== *)
theory Store_Ok
  imports Admin_Inv
begin

section \<open>The integrity of the tables, and what the caches promise\<close>

text \<open>
  \<open>tables_ok\<close> is the schema of the migrations as a predicate: keys, unique indexes, foreign
  keys and checks, and what the store methods add to it for the lyrics cache. The first
  interpretation shows that every statement keeps it.
\<close>

subsection \<open>The schema\<close>

definition keyed :: "('r \<Rightarrow> 'k) \<Rightarrow> 'r list \<Rightarrow> bool" where
  "keyed k rows \<longleftrightarrow> distinct (map k rows)"

type_synonym cellKey = "string \<times> int \<times> int"

definition boardsOk :: "boardRow list \<Rightarrow> bool" where
  "boardsOk rows \<longleftrightarrow> keyed br_id rows \<and> (\<forall>r \<in> set rows. colsOk (br_cols r) \<and> 0 \<le> br_ddCount r)"

definition tracksOk :: "string set \<Rightarrow> trackRow list \<Rightarrow> bool" where
  "tracksOk B rows \<longleftrightarrow> keyed bt_id rows \<and> keyed (\<lambda>r. (bt_board r, bt_uri r)) rows \<and> bt_board ` set rows \<subseteq> B"

definition cellKeyOf :: "cellRow \<Rightarrow> cellKey" where
  "cellKeyOf r = (lc_board r, lc_row r, lc_col r)"

definition cellsOk :: "string set \<Rightarrow> cellRow list \<Rightarrow> bool" where
  "cellsOk B rows \<longleftrightarrow> keyed cellKeyOf rows \<and> lc_board ` set rows \<subseteq> B \<and>
     (\<forall>r \<in> set rows. 1 \<le> lc_row r \<and> lc_row r \<le> 5 \<and> colsOk (lc_col r))"

definition placesOk :: "cellKey set \<Rightarrow> string set \<Rightarrow> placeRow list \<Rightarrow> bool" where
  "placesOk C T rows \<longleftrightarrow> keyed (\<lambda>r. (pl_board r, pl_track r)) rows \<and>
     (\<forall>r \<in> set rows. (pl_board r, pl_row r, pl_col r) \<in> C \<and> pl_track r \<in> T)"

definition ddOk :: "string set \<Rightarrow> ddRow list \<Rightarrow> bool" where
  "ddOk B rows \<longleftrightarrow> keyed dr_id rows \<and> keyed (\<lambda>r. (dr_board r, dr_uri r)) rows \<and> dr_board ` set rows \<subseteq> B"

definition lyricsRowOk :: "lyricsRow \<Rightarrow> bool" where
  "lyricsRowOk r \<longleftrightarrow> ly_status r \<in> {''pending'', ''not_found'', ''resolved''} \<and>
     (ly_status r = ''resolved'' \<longrightarrow> ly_text r \<noteq> None)"

definition lyricsOk :: "lyricsRow list \<Rightarrow> bool" where
  "lyricsOk rows \<longleftrightarrow> keyed ly_uri rows \<and> (\<forall>r \<in> set rows. lyricsRowOk r)"

definition sessionsOk :: "string set \<Rightarrow> sessionRow list \<Rightarrow> bool" where
  "sessionsOk B rows \<longleftrightarrow> keyed gs_id rows \<and> (\<forall>r \<in> set rows. \<forall>b. gs_board r = Some b \<longrightarrow> b \<in> B)"

lemma sessionsOk_code [code]:
  "sessionsOk B rows \<longleftrightarrow> keyed gs_id rows \<and> (\<forall>r \<in> set rows. case gs_board r of None \<Rightarrow> True | Some b \<Rightarrow> b \<in> B)"
  by (simp add: sessionsOk_def split: option.splits)

definition scoresOk :: "string set \<Rightarrow> scoreRow list \<Rightarrow> bool" where
  "scoresOk S rows \<longleftrightarrow> keyed (\<lambda>r. (sl_session r, sl_player r)) rows \<and> sl_session ` set rows \<subseteq> S"

definition eventsOk :: "string set \<Rightarrow> eventRow list \<Rightarrow> bool" where
  "eventsOk S rows \<longleftrightarrow> (\<forall>r \<in> set rows. ev_session r \<in> S)"

definition soloOk :: "skRow list \<Rightarrow> bool" where
  "soloOk rows \<longleftrightarrow> keyed sk_id rows \<and> keyed sk_uri rows"

definition tables_ok :: "tables \<Rightarrow> bool" where
  "tables_ok t \<longleftrightarrow>
     boardsOk (tb_boards t) \<and>
     tracksOk (br_id ` set (tb_boards t)) (tb_tracks t) \<and>
     cellsOk (br_id ` set (tb_boards t)) (tb_cells t) \<and>
     placesOk (cellKeyOf ` set (tb_cells t)) (bt_id ` set (tb_tracks t)) (tb_places t) \<and>
     ddOk (br_id ` set (tb_boards t)) (tb_dd t) \<and>
     lyricsOk (tb_lyrics t) \<and> keyed dp_uri (tb_drops t) \<and>
     sessionsOk (br_id ` set (tb_boards t)) (tb_sessions t) \<and>
     scoresOk (gs_id ` set (tb_sessions t)) (tb_scores t) \<and>
     eventsOk (gs_id ` set (tb_sessions t)) (tb_events t) \<and>
     soloOk (tb_skLibrary t) \<and> soloOk (tb_skPlaylist t)"

lemma emptyTables_ok: "tables_ok emptyTables"
  by (simp add: tables_ok_def boardsOk_def tracksOk_def cellsOk_def placesOk_def ddOk_def
      lyricsOk_def sessionsOk_def scoresOk_def eventsOk_def soloOk_def keyed_def emptyTables_def)

text \<open>Keys under the changes a statement makes.\<close>

lemma keyed_append [simp]: "keyed k (xs @ [r]) \<longleftrightarrow> keyed k xs \<and> k r \<notin> k ` set xs"
  by (auto simp: keyed_def)

lemma keyed_filter [simp]: "keyed k xs \<Longrightarrow> keyed k (filter p xs)"
  by (simp add: keyed_def distinct_map_filter)

lemma keyed_updWhere [simp]: "(\<And>r. k (f r) = k r) \<Longrightarrow> keyed k (updWhere p f xs) \<longleftrightarrow> keyed k xs"
proof -
  assume "\<And>r. k (f r) = k r"
  then have "map k (updWhere p f xs) = map k xs" by (simp add: updWhere_def)
  then show ?thesis by (simp add: keyed_def)
qed

lemma set_updWhere: "set (updWhere p f xs) = (\<lambda>r. if p r then f r else r) ` set xs"
  by (simp add: updWhere_def)

lemma image_updWhere [simp]:
  assumes "\<And>r. k (f r) = k r"
  shows "k ` set (updWhere p f xs) = k ` set xs"
proof -
  have "map k (updWhere p f xs) = map k xs" using assms by (simp add: updWhere_def)
  then show ?thesis by (metis set_map)
qed

lemma ball_updWhere: "(\<forall>r \<in> set (updWhere p f xs). P r) \<longleftrightarrow> (\<forall>r \<in> set xs. P (if p r then f r else r))"
  by (auto simp: set_updWhere)

lemma updWhereE:
  assumes "r \<in> set (updWhere p f xs)"
  obtains x where "x \<in> set xs" "r = (if p x then f x else x)"
  using assms by (auto simp: set_updWhere)

lemma ex_sameCell: "(\<exists>x \<in> set xs. sameCell bid row col x) \<longleftrightarrow> (bid, row, col) \<in> cellKeyOf ` set xs"
  by (force simp: sameCell_def cellKeyOf_def)

lemma cellsOk_append:
  "cellsOk B (xs @ [r]) \<longleftrightarrow> cellsOk B xs \<and> (lc_board r, lc_row r, lc_col r) \<notin> cellKeyOf ` set xs \<and>
     lc_board r \<in> B \<and> 1 \<le> lc_row r \<and> lc_row r \<le> 5 \<and> colsOk (lc_col r)"
  unfolding cellsOk_def cellKeyOf_def [of r, symmetric] by auto

lemma cellsOk_filter: "cellsOk B xs \<Longrightarrow> cellsOk B (filter p xs)"
  by (auto simp: cellsOk_def)

lemma cellsOk_category: "cellsOk B (updWhere p (\<lambda>r. r\<lparr>lc_category := name\<rparr>) xs) \<longleftrightarrow> cellsOk B xs"
proof -
  have "cellKeyOf (r\<lparr>lc_category := name\<rparr>) = cellKeyOf r" for r by (simp add: cellKeyOf_def)
  then show ?thesis by (simp add: cellsOk_def ball_updWhere if_distrib cong: if_cong)
qed

lemma scoresOk_upd:
  "scoresOk S (updWhere p (\<lambda>x. x\<lparr>sl_handle := h, sl_score := n, sl_updated := u\<rparr>) xs) \<longleftrightarrow> scoresOk S xs"
  unfolding scoresOk_def by simp

lemma scoresOk_append:
  "scoresOk S (xs @ [r]) \<longleftrightarrow> scoresOk S xs \<and> sl_session r \<in> S \<and>
     \<not> (\<exists>x \<in> set xs. sl_session x = sl_session r \<and> sl_player x = sl_player r)"
  unfolding scoresOk_def by (simp add: image_iff) (metis (no_types))

lemma sessionsOk_attach:
  assumes "sessionsOk B xs" and "(\<exists>r \<in> set xs. p r) \<longrightarrow> b \<in> B"
  shows "sessionsOk B (updWhere p (\<lambda>r. r\<lparr>gs_board := Some b\<rparr>) xs)"
  using assms by (auto simp: sessionsOk_def elim!: updWhereE split: if_splits)

text \<open>The foreign keys only need enough rows to point at.\<close>

lemma eventsOk_append: "eventsOk S (xs @ [r]) \<longleftrightarrow> eventsOk S xs \<and> ev_session r \<in> S"
  by (auto simp: eventsOk_def)

lemma sessionsOk_append:
  "sessionsOk B (xs @ [r]) \<longleftrightarrow> sessionsOk B xs \<and> gs_id r \<notin> gs_id ` set xs \<and> (\<forall>b. gs_board r = Some b \<longrightarrow> b \<in> B)"
  by (auto simp: sessionsOk_def)

lemma boardsOk_append:
  "boardsOk (xs @ [r]) \<longleftrightarrow> boardsOk xs \<and> br_id r \<notin> br_id ` set xs \<and> colsOk (br_cols r) \<and> 0 \<le> br_ddCount r"
  by (auto simp: boardsOk_def)

lemma boardsOk_upd:
  assumes "boardsOk xs" "\<And>r. br_id (f r) = br_id r"
    and "\<forall>r \<in> set xs. p r \<longrightarrow> colsOk (br_cols (f r)) \<and> 0 \<le> br_ddCount (f r)"
  shows "boardsOk (updWhere p f xs)"
  using assms by (auto simp: boardsOk_def ball_updWhere)

lemma tracksOk_mono: "tracksOk B rows \<Longrightarrow> B \<subseteq> B' \<Longrightarrow> tracksOk B' rows"
  by (auto simp: tracksOk_def)

lemma cellsOk_mono: "cellsOk B rows \<Longrightarrow> B \<subseteq> B' \<Longrightarrow> cellsOk B' rows"
  by (auto simp: cellsOk_def)

lemma placesOk_mono: "placesOk C T rows \<Longrightarrow> C \<subseteq> C' \<Longrightarrow> T \<subseteq> T' \<Longrightarrow> placesOk C' T' rows"
  by (auto simp: placesOk_def)

lemma ddOk_mono: "ddOk B rows \<Longrightarrow> B \<subseteq> B' \<Longrightarrow> ddOk B' rows"
  by (auto simp: ddOk_def)

lemma sessionsOk_mono: "sessionsOk B rows \<Longrightarrow> B \<subseteq> B' \<Longrightarrow> sessionsOk B' rows"
  by (auto simp: sessionsOk_def)

lemma scoresOk_mono: "scoresOk S rows \<Longrightarrow> S \<subseteq> S' \<Longrightarrow> scoresOk S' rows"
  by (auto simp: scoresOk_def)

lemma eventsOk_mono: "eventsOk S rows \<Longrightarrow> S \<subseteq> S' \<Longrightarrow> eventsOk S' rows"
  by (auto simp: eventsOk_def)

lemmas ok_monos = eventsOk_mono tracksOk_mono cellsOk_mono placesOk_mono ddOk_mono sessionsOk_mono scoresOk_mono

definition okR :: "tables \<Rightarrow> tables \<Rightarrow> bool" where
  "okR t t' \<longleftrightarrow> (tables_ok t \<longrightarrow> tables_ok t')"

lemma okRI: "(\<And>t a t'. f t = Inr (a, t') \<Longrightarrow> tables_ok t \<Longrightarrow> tables_ok t') \<Longrightarrow> sqlR okR f"
  by (auto simp: sqlR_def okR_def)

lemma ok_insertBoard: "sqlR okR (insertBoard r)"
  by (rule okRI) (clarsimp simp: insertBoard_def tables_ok_def boardsOk_append split: if_splits;
    meson ok_monos subset_insertI)

lemma ok_updateBoard: "(\<And>r. br_id (f r) = br_id r) \<Longrightarrow> sqlR okR (updateBoard bid f)"
  by (rule okRI) (clarsimp simp: updateBoard_def tables_ok_def split: if_splits; rule boardsOk_upd; blast)

lemma ok_insertTrack: "sqlR okR (insertTrack r)"
  by (rule okRI) (auto simp: insertTrack_def tables_ok_def tracksOk_def intro: placesOk_mono split: if_splits)

lemma ok_insertDD: "sqlR okR (insertDD r)"
  by (rule okRI) (auto simp: insertDD_def tables_ok_def ddOk_def split: if_splits)

lemma ok_deleteDD: "sqlR okR (deleteDD tid bid)"
  by (rule okRI) (auto simp: deleteDD_def tables_ok_def ddOk_def)

lemma ok_updateTracks: "sqlR okR (updateTracks tid b)"
  by (rule okRI) (auto simp: updateTracks_def tables_ok_def tracksOk_def)

lemma ok_insertCell: "sqlR okR (insertCell r)"
proof (rule okRI)
  fix t a t'
  assume i: "insertCell r t = Inr (a, t')" and ok: "tables_ok t"
  show "tables_ok t'"
  proof (cases "(lc_board r, lc_row r, lc_col r) \<in> cellKeyOf ` set (tb_cells t)")
    case True
    with i ok show ?thesis by (simp add: insertCell_def ex_sameCell split: if_splits)
  next
    case False
    with i have "t' = t\<lparr>tb_cells := tb_cells t @ [r]\<rparr>" "lc_board r \<in> br_id ` set (tb_boards t)"
        "1 \<le> lc_row r \<and> lc_row r \<le> 5 \<and> colsOk (lc_col r)"
      by (auto simp: insertCell_def ex_sameCell split: if_splits)
    with ok False show ?thesis by (auto simp: tables_ok_def cellsOk_append intro: placesOk_mono)
  qed
qed

lemma ok_deletePlaces: "sqlR okR (deletePlaces p)"
  by (rule okRI) (auto simp: deletePlaces_def tables_ok_def placesOk_def)

lemma ok_updateCategory: "sqlR okR (updateCategory bid col name)"
proof (rule okRI)
  have "cellKeyOf (r\<lparr>lc_category := name\<rparr>) = cellKeyOf r" for r by (simp add: cellKeyOf_def)
  then show "tables_ok t'" if "updateCategory bid col name t = Inr (a, t')" "tables_ok t" for t a t'
    using that by (auto simp: updateCategory_def tables_ok_def cellsOk_category)
qed

lemma ok_updatePlayed: "sqlR okR (\<lambda>t. updatePlayed (fp t) b t)"
  by (rule okRI) (auto simp: updatePlayed_def tables_ok_def placesOk_def elim!: updWhereE)

lemma ok_upsertDrop: "sqlR okR (upsertDrop r)"
  by (rule okRI) (auto simp: upsertDrop_def tables_ok_def split: if_splits)

lemma ok_insertSession: "gs_board r = None \<Longrightarrow> sqlR okR (insertSession r)"
  by (rule okRI) (clarsimp simp: insertSession_def tables_ok_def sessionsOk_append split: if_splits;
    meson ok_monos subset_insertI)

lemma ok_attachSession: "sqlR okR (attachSession sid bid)"
  by (rule okRI) (clarsimp simp: attachSession_def tables_ok_def split: if_splits; rule sessionsOk_attach; blast)

lemma ok_upsertScore: "sqlR okR (upsertScore r)"
  by (rule okRI) (clarsimp simp: upsertScore_def Let_def tables_ok_def scoresOk_upd scoresOk_append split: if_splits)

lemma ok_insertEvent: "sqlR okR (insertEvent r)"
  by (rule okRI) (clarsimp simp: insertEvent_def tables_ok_def eventsOk_append split: if_splits)

lemma placesOk_deleteCells:
  assumes "placesOk (cellKeyOf ` set cs) T ps"
  shows "placesOk (cellKeyOf ` {x \<in> set cs. lc_board x = bid \<longrightarrow> \<not> p (lc_col x)}) T
     (filter (\<lambda>r. pl_board r = bid \<longrightarrow> \<not> p (pl_col r)) ps)"
proof -
  have "(pl_board r, pl_row r, pl_col r) \<in> cellKeyOf ` {c \<in> set cs. lc_board c = bid \<longrightarrow> \<not> p (lc_col c)}"
    if r: "r \<in> set ps" "pl_board r = bid \<longrightarrow> \<not> p (pl_col r)" for r
  proof -
    obtain c where "c \<in> set cs" "cellKeyOf c = (pl_board r, pl_row r, pl_col r)"
      using assms r(1) by (force simp: placesOk_def)
    with r(2) show ?thesis by (force simp: cellKeyOf_def)
  qed
  with assms show ?thesis by (auto simp: placesOk_def)
qed

lemma ok_deleteCells: "sqlR okR (deleteCells bid p)"
  by (rule okRI) (auto simp: deleteCells_def tables_ok_def intro!: cellsOk_filter placesOk_deleteCells)

lemma ok_deleteTrackRow: "sqlR okR (deleteTrackRow tid)"
  by (rule okRI) (auto simp: deleteTrackRow_def tables_ok_def tracksOk_def placesOk_def image_iff)


lemma placesOk_upsert:
  assumes "placesOk C T xs" and "(pl_board r, pl_row r, pl_col r) \<in> C" and "pl_track r \<in> T"
  shows "placesOk C T (updWhere (\<lambda>x. pl_board x = pl_board r \<and> pl_track x = pl_track r)
     (\<lambda>x. x\<lparr>pl_row := pl_row r, pl_col := pl_col r, pl_pos := pl_pos r\<rparr>) xs)"
  using assms by (auto simp: placesOk_def elim!: updWhereE)

lemma placesOk_append:
  "placesOk C T (xs @ [r]) \<longleftrightarrow> placesOk C T xs \<and> (pl_board r, pl_row r, pl_col r) \<in> C \<and> pl_track r \<in> T \<and>
     (\<forall>x \<in> set xs. pl_board x = pl_board r \<longrightarrow> pl_track x \<noteq> pl_track r)"
  unfolding placesOk_def by (auto simp: image_iff)

lemma ok_upsertPlace: "sqlR okR (upsertPlace r)"
proof (rule okRI)
  fix t a t'
  assume u: "upsertPlace r t = Inr (a, t')" and ok: "tables_ok t"
  define ps where "ps = (if \<exists>x \<in> set (tb_places t). pl_board x = pl_board r \<and> pl_track x = pl_track r
      then updWhere (\<lambda>x. pl_board x = pl_board r \<and> pl_track x = pl_track r)
        (\<lambda>x. x\<lparr>pl_row := pl_row r, pl_col := pl_col r, pl_pos := pl_pos r\<rparr>) (tb_places t)
      else tb_places t @ [r])"
  have t': "t' = t\<lparr>tb_places := ps\<rparr>"
    and k: "(pl_board r, pl_row r, pl_col r) \<in> cellKeyOf ` set (tb_cells t)" "pl_track r \<in> bt_id ` set (tb_tracks t)"
    using u by (auto simp: upsertPlace_def Let_def ex_sameCell ps_def split: if_splits)
  have "placesOk (cellKeyOf ` set (tb_cells t)) (bt_id ` set (tb_tracks t)) (tb_places t)"
    using ok by (simp add: tables_ok_def)
  then have "placesOk (cellKeyOf ` set (tb_cells t)) (bt_id ` set (tb_tracks t)) ps"
    using k unfolding ps_def by (auto simp: placesOk_append intro: placesOk_upsert)
  then show "tables_ok t'" using ok by (simp add: t' tables_ok_def)
qed

lemma findLyrics_None: "findLyrics uri t = None \<longleftrightarrow> uri \<notin> ly_uri ` set (tb_lyrics t)"
  by (auto simp: findLyrics_def find_None_iff)

lemma findLyrics_Some: "findLyrics uri t = Some r \<Longrightarrow> r \<in> set (tb_lyrics t) \<and> ly_uri r = uri"
  by (auto simp: findLyrics_def find_Some_iff)

lemma lyricsOk_append:
  "lyricsOk (xs @ [r]) \<longleftrightarrow> lyricsOk xs \<and> ly_uri r \<notin> ly_uri ` set xs \<and>
     lyricsRowOk r"
  unfolding lyricsOk_def by auto

lemma lyricsOk_upd:
  assumes "lyricsOk xs" and "\<And>x. ly_uri (f x) = ly_uri x"
    and "\<And>x. lyricsRowOk x \<Longrightarrow> lyricsRowOk (f x)"
  shows "lyricsOk (updWhere p f xs)"
  using assms unfolding lyricsOk_def by (auto elim!: updWhereE split: if_splits)

lemma sparing_row:
  assumes "sparing r f" and "lyricsRowOk y"
  shows "lyricsRowOk (f y)"
proof -
  from assms(1) have st: "ly_status (f y) = ly_status y \<or> ly_status (f y) \<in> {''pending'', ''not_found'', ''resolved''}"
    and tx: "ly_status (f y) = ''resolved'' \<Longrightarrow> ly_status y = ''resolved'' \<and> ly_text (f y) = ly_text y \<or> ly_text (f y) \<noteq> None"
    unfolding sparing_def by blast+
  have "ly_status (f y) \<in> {''pending'', ''not_found'', ''resolved''}"
    using st assms(2) unfolding lyricsRowOk_def by metis
  moreover have "ly_text (f y) \<noteq> None" if "ly_status (f y) = ''resolved''"
    using tx [OF that] assms(2) unfolding lyricsRowOk_def by metis
  ultimately show ?thesis unfolding lyricsRowOk_def by blast
qed

lemma ok_upsertLyrics:
  assumes "sparing r f"
  shows "sqlR okR (upsertLyrics r f)"
proof (rule okRI)
  fix t a t'
  assume u: "upsertLyrics r f t = Inr (a, t')" and ok: "tables_ok t"
  have ly: "lyricsOk (tb_lyrics t)" using ok by (simp add: tables_ok_def)
  show "tables_ok t'"
  proof (cases "findLyrics (ly_uri r) t")
    case None
    with u have "t' = t\<lparr>tb_lyrics := tb_lyrics t @ [r]\<rparr>" by (simp add: upsertLyrics_def)
    moreover have "lyricsOk (tb_lyrics t @ [r])"
      using ly None assms by (simp add: lyricsOk_append findLyrics_None sparing_def lyricsRowOk_def)
    ultimately show ?thesis using ok by (simp add: tables_ok_def)
  next
    case (Some x)
    have "lyricsOk (updWhere (\<lambda>x. ly_uri x = ly_uri r) f (tb_lyrics t))"
      using ly
    proof (rule lyricsOk_upd)
      show "ly_uri (f y) = ly_uri y" for y using assms by (simp add: sparing_def)
      show "lyricsRowOk (f y)" if "lyricsRowOk y" for y
        using sparing_row [OF assms that] .
    qed
    with Some u ok show ?thesis by (auto simp: upsertLyrics_def tables_ok_def)
  qed
qed

lemma ok_manual: "sqlR okR (upsertLyrics (manualRow uri text) (setManual text))"
proof (rule okRI)
  fix t a t'
  assume u: "upsertLyrics (manualRow uri text) (setManual text) t = Inr (a, t')" and ok: "tables_ok t"
  have ly: "lyricsOk (tb_lyrics t)" using ok by (simp add: tables_ok_def)
  have "lyricsOk (updWhere (\<lambda>x. ly_uri x = uri) (setManual text) (tb_lyrics t))"
    using ly by (rule lyricsOk_upd) (simp_all add: setManual_def lyricsRowOk_def)
  moreover have "lyricsOk (tb_lyrics t @ [manualRow uri text])" if "findLyrics uri t = None"
    using ly that by (simp add: lyricsOk_append findLyrics_None manualRow_def lyricsRowOk_def)
  ultimately show "tables_ok t'"
    using u ok by (auto simp: upsertLyrics_def manualRow_def tables_ok_def split: option.splits)
qed

lemma soloOk_insert: "soloOk rows \<Longrightarrow> insertSk r rows = Inr (n, rows') \<Longrightarrow> soloOk rows'"
  by (auto simp: insertSk_def soloOk_def split: if_splits)

lemma soloOk_append: "soloOk rows \<Longrightarrow> appendSk r rows = Inr (n, rows') \<Longrightarrow> soloOk rows'"
  by (auto simp: appendSk_def dest: soloOk_insert split: if_splits)

lemma soloOk_delete: "soloOk rows \<Longrightarrow> soloOk (snd (deleteSk tid rows))"
  by (simp add: deleteSk_def soloOk_def)

lemma soloOk_position: "soloOk (updWhere p (\<lambda>r. r\<lparr>sk_position := i\<rparr>) rows) \<longleftrightarrow> soloOk rows"
  by (simp add: soloOk_def)

lemma ok_onLibrary:
  "(\<And>rows n rows'. soloOk rows \<Longrightarrow> f rows = Inr (n, rows') \<Longrightarrow> soloOk rows') \<Longrightarrow> sqlR okR (onLibrary f)"
  by (rule okRI) (auto simp: onLibrary_def tables_ok_def split: sum.splits)

lemma ok_onPlaylist:
  "(\<And>rows n rows'. soloOk rows \<Longrightarrow> f rows = Inr (n, rows') \<Longrightarrow> soloOk rows') \<Longrightarrow> sqlR okR (onPlaylist f)"
  by (rule okRI) (auto simp: onPlaylist_def tables_ok_def split: sum.splits)

lemma ok_deleteBoardRow: "sqlR okR (deleteBoardRow bid)"
proof (rule okRI)
  fix t a t'
  assume d: "deleteBoardRow bid t = Inr (a, t')" and ok: "tables_ok t"
  let ?B = "br_id ` set (filter (\<lambda>r. br_id r \<noteq> bid) (tb_boards t))"
  let ?gone = "bt_id ` {r \<in> set (tb_tracks t). bt_board r = bid}"
  have B: "b \<in> ?B" if "b \<in> br_id ` set (tb_boards t)" "b \<noteq> bid" for b using that by auto
  have "boardsOk (filter (\<lambda>r. br_id r \<noteq> bid) (tb_boards t))"
    using ok by (auto simp: tables_ok_def boardsOk_def)
  moreover have "tracksOk ?B (filter (\<lambda>r. bt_board r \<noteq> bid) (tb_tracks t))"
    using ok B by (auto simp: tables_ok_def tracksOk_def)
  moreover have "cellsOk ?B (filter (\<lambda>r. lc_board r \<noteq> bid) (tb_cells t))"
    using ok B by (auto simp: tables_ok_def cellsOk_def)
  moreover have "ddOk ?B (filter (\<lambda>r. dr_board r \<noteq> bid) (tb_dd t))"
    using ok B by (auto simp: tables_ok_def ddOk_def)
  moreover have "sessionsOk ?B (updWhere (\<lambda>r. gs_board r = Some bid) (\<lambda>r. r\<lparr>gs_board := None\<rparr>) (tb_sessions t))"
    using ok B by (auto simp: tables_ok_def sessionsOk_def elim!: updWhereE split: if_splits)
  moreover have "placesOk (cellKeyOf ` set (filter (\<lambda>r. lc_board r \<noteq> bid) (tb_cells t)))
      (bt_id ` set (filter (\<lambda>r. bt_board r \<noteq> bid) (tb_tracks t)))
      (filter (\<lambda>r. pl_board r \<noteq> bid \<and> pl_track r \<notin> ?gone) (tb_places t))"
    using ok unfolding tables_ok_def placesOk_def by (force simp: cellKeyOf_def)
  moreover have "t' = t\<lparr>tb_boards := filter (\<lambda>r. br_id r \<noteq> bid) (tb_boards t),
           tb_tracks := filter (\<lambda>r. bt_board r \<noteq> bid) (tb_tracks t),
           tb_cells := filter (\<lambda>r. lc_board r \<noteq> bid) (tb_cells t),
           tb_places := filter (\<lambda>r. pl_board r \<noteq> bid \<and> pl_track r \<notin> ?gone) (tb_places t),
           tb_dd := filter (\<lambda>r. dr_board r \<noteq> bid) (tb_dd t),
           tb_sessions := updWhere (\<lambda>r. gs_board r = Some bid) (\<lambda>r. r\<lparr>gs_board := None\<rparr>) (tb_sessions t)\<rparr>"
    using d by (simp add: deleteBoardRow_def Let_def)
  ultimately show "tables_ok t'"
    using ok unfolding tables_ok_def by simp
qed

lemmas ok_laws = ok_insertBoard ok_updateBoard ok_deleteBoardRow ok_insertTrack ok_insertDD ok_deleteDD
  ok_deleteTrackRow ok_updateTracks ok_insertCell ok_deleteCells ok_deletePlaces ok_updateCategory
  ok_upsertPlace ok_updatePlayed ok_upsertLyrics ok_upsertDrop ok_insertSession ok_attachSession
  ok_upsertScore ok_insertEvent

interpretation okb: sql_stable_bucket okR
proof unfold_locales
  show "okR t t" for t by (simp add: okR_def)
  show "okR t t2" if "okR t t1" "okR t1 t2" for t t1 t2 using that by (simp add: okR_def)
  show "sqlR okR (onLibrary (insertSk sk))" for sk
    by (rule ok_onLibrary) (rule soloOk_insert)
  show "sqlR okR (onPlaylist (appendSk sk))" for sk
    by (rule ok_onPlaylist) (rule soloOk_append)
  show "sqlR okR (onLibrary (\<lambda>rows. Inr (deleteSk tid rows)))" for tid
    by (rule ok_onLibrary) (metis Inr_inject snd_conv soloOk_delete)
  show "sqlR okR (onPlaylist (\<lambda>rows. Inr (deleteSk tid rows)))" for tid
    by (rule ok_onPlaylist) (metis Inr_inject snd_conv soloOk_delete)
  show "sqlR okR (setPosition i tid)" for i tid
    unfolding setPosition_def by (rule ok_onPlaylist) (auto simp: soloOk_position)
qed (blast intro: ok_laws)+

interpretation ok: sql_stable_api okR
  by unfold_locales (rule ok_manual, rule okb.api_addDD)

end
