(* ===== verification/Admin_Sample.thy ===== *)
theory Admin_Sample
  imports Store_Ok Sample
begin

section \<open>A small database and environment for the examples of the admin API\<close>

text \<open>
  One board with two columns, two tracks in its library, lyrics typed in for the first, and
  an environment whose prober never finds anything. The examples of the following theories
  run requests on them.
\<close>

definition demoEnv :: apiEnv where
  "demoEnv = \<lparr>xe_now = 1000, xe_rand = (\<lambda>k. replicate 12 k),
     xe_probe = Some (\<lambda>k artist song dur. ProbeNone), xe_gone = (\<lambda>k. False), xe_search = None,
     xe_playlist = (\<lambda>i. None), xe_token = None, xe_ai = None, xe_solo = True, xe_secret = ''s3cret'',
     xe_sha = (\<lambda>x. x)\<rparr>"

definition demoTrack :: "string \<Rightarrow> string \<Rightarrow> int \<Rightarrow> trackRow" where
  "demoTrack i uri created = \<lparr>bt_id = i, bt_board = ''b'', bt_uri = uri, bt_artist = ''A'', bt_song = ''S'',
     bt_art = '''', bt_duration = 1000, bt_created = created, bt_override = False, bt_year = 0, bt_genre = ''''\<rparr>"

definition demoCells :: "int list \<Rightarrow> cellRow list" where
  "demoCells cols = concat (map (\<lambda>c. map (\<lambda>r. \<lparr>lc_board = ''b'', lc_row = r, lc_col = c,
     lc_category = ''C'', lc_dd = False\<rparr>) [1, 2, 3, 4, 5]) cols)"

definition demoTables :: tables where
  "demoTables = emptyTables\<lparr>
     tb_boards := [\<lparr>br_id = ''b'', br_name = ''Demo'', br_cols = 2, br_created = 1, br_updated = 1, br_ddCount = 2\<rparr>],
     tb_tracks := [demoTrack ''t1'' ''spotify:track:a'' 1, demoTrack ''t2'' ''spotify:track:b'' 2],
     tb_cells := demoCells [1, 2],
     tb_places := [\<lparr>pl_board = ''b'', pl_row = 1, pl_col = 1, pl_track = ''t1'', pl_pos = 0, pl_played = True\<rparr>],
     tb_lyrics := [\<lparr>ly_uri = ''spotify:track:a'', ly_text = Some ''[00:01]la'', ly_status = ''resolved'',
        ly_source = Some ''manual'', ly_error = None\<rparr>],
     tb_sessions := [\<lparr>gs_id = ''g'', gs_created = 1, gs_skip = 50, gs_state = '''', gs_board = Some ''b''\<rparr>]\<rparr>"

definition demoApi :: api where
  "demoApi = \<lparr>ap_db = \<lparr>d_tab = demoTables, d_net = []\<rparr>, ap_engine = game0, ap_probes = 0, ap_ids = 0,
     ap_jobs = []\<rparr>"

lemma demo_ok: "tables_ok demoTables"
  by code_simp

end
