(* ===== verification/Cache_Rules.thy ===== *)
theory Cache_Rules
  imports Admin_Sample
begin

section \<open>Any sequence of admin requests: integrity, the lyrics cache and the Daily Double bucket\<close>

text \<open>
  The life of the admin API: requests with any header and body, the background probes they
  started, and the calls the engine makes to the store, in any order and under any faults
  of the connection. Proved here: the tables stay consistent, lyrics once resolved are never
  lost and lyrics typed in by an admin are never replaced by an automatic probe, and every
  song in a Daily Double bucket has resolved lyrics.
\<close>

subsection \<open>Runs\<close>

datatype engineCall =
    ECreateSession int string int string
  | ESaveScore int string string string int
  | ELogEvent int string string string
  | EMarkPlayed string string
  | EClearPlayed string
  | ESetDropPoint string int string

primrec callStore :: "engineCall \<Rightarrow> unit store" where
  "callStore (ECreateSession created sid skip st) = CreateSession created sid skip st"
| "callStore (ESaveScore now sid pid h n) = SaveScore now sid pid h n"
| "callStore (ELogEvent now sid kind detail) = LogEvent now sid kind detail"
| "callStore (EMarkPlayed sid tid) = MarkTrackPlayed sid tid"
| "callStore (EClearPlayed sid) = ClearPlayed sid"
| "callStore (ESetDropPoint uri ms src) = SetDropPoint uri ms src"

datatype api_event = Request apiEnv string route | Background apiEnv | EngineCall engineCall

text \<open>\<open>Background\<close> runs the job started first.\<close>

primrec apiStep :: "api_event \<Rightarrow> api \<Rightarrow> api" where
  "apiStep (Request v auth r) s = snd (run_state (serve v auth r) s)"
| "apiStep (Background v) s =
     (case ap_jobs s of [] \<Rightarrow> s | j # js \<Rightarrow> snd (run_state (runBgJob v j) (s\<lparr>ap_jobs := js\<rparr>)))"
| "apiStep (EngineCall c) s = snd (run_state (liftDb (callStore c)) s)"

definition runEvents :: "api_event list \<Rightarrow> api \<Rightarrow> api" where
  "runEvents evs s = fold apiStep evs s"

abbreviation tabOf :: "api \<Rightarrow> tables" where
  "tabOf s \<equiv> d_tab (ap_db s)"

definition startApi :: "reply list \<Rightarrow> engine \<Rightarrow> api" where
  "startApi net e = \<lparr>ap_db = \<lparr>d_tab = emptyTables, d_net = net\<rparr>, ap_engine = e, ap_probes = 0,
     ap_ids = 0, ap_jobs = []\<rparr>"

definition typesLyrics :: "api_event \<Rightarrow> bool" where
  "typesLyrics ev \<longleftrightarrow> (case ev of Request _ _ r \<Rightarrow> writesLyrics r | _ \<Rightarrow> False)"

lemma apiR_D: "apiR R m \<Longrightarrow> R (tabOf s) (tabOf (snd (run_state m s)))"
  by (simp add: apiR_def)

context sql_stable begin

lemma call_R: "stR R (callStore c)"
  by (cases c) (simp_all add: session_R lyrics_R)

lemma background_R: "R (tabOf s) (tabOf (apiStep (Background v) s))"
proof (cases "ap_jobs s")
  case (Cons j js)
  then show ?thesis using apiR_D [OF api_bgJob, of "s\<lparr>ap_jobs := js\<rparr>" v j] by simp
qed (simp add: R_refl)

lemma engineCall_R: "R (tabOf s) (tabOf (apiStep (EngineCall c) s))"
  using apiR_D [OF api_liftDb [OF call_R]] by simp

lemma events_R:
  assumes "\<And>v auth r s. Request v auth r \<in> set evs \<Longrightarrow> R (tabOf s) (tabOf (apiStep (Request v auth r) s))"
  shows "R (tabOf s) (tabOf (runEvents evs s))"
  unfolding runEvents_def using assms
proof (induction evs arbitrary: s)
  case (Cons ev evs)
  have "R (tabOf s) (tabOf (apiStep ev s))"
    using Cons.prems by (cases ev) (auto simp: background_R engineCall_R simp del: apiStep.simps)
  moreover have "R (tabOf (apiStep ev s)) (tabOf (fold apiStep evs (apiStep ev s)))"
    using Cons by simp
  ultimately show ?case using R_trans by simp
qed (simp add: R_refl)

end

context sql_stable_bucket begin

lemma auto_events_R:
  assumes "\<forall>ev \<in> set evs. \<not> typesLyrics ev"
  shows "R (tabOf s) (tabOf (runEvents evs s))"
proof (rule events_R)
  fix v auth r s
  assume "Request v auth r \<in> set evs"
  with assms have "\<not> writesLyrics r" by (auto simp: typesLyrics_def)
  then have "apiR R (serve v auth r)" by (simp add: serve_def api_auth handle_auto)
  then show "R (tabOf s) (tabOf (apiStep (Request v auth r) s))" by (simp add: apiR_D)
qed

end

context sql_stable_api begin

lemma all_events_R: "R (tabOf s) (tabOf (runEvents evs s))"
  by (rule events_R) (simp add: apiR_D serve_R)

end

subsection \<open>What holds of every relation on the lyrics cache\<close>

text \<open>Statements other than the lyrics upserts leave the cache alone.\<close>

lemma upsertLyrics_find:
  assumes "upsertLyrics r f t = Inr (a, t')" and "\<And>x. ly_uri (f x) = ly_uri x"
  shows "findLyrics uri t' = (if uri = ly_uri r
           then Some (case findLyrics uri t of None \<Rightarrow> r | Some x \<Rightarrow> f x) else findLyrics uri t)"
proof -
  have app: "find P (xs @ [y]) = (case find P xs of None \<Rightarrow> if P y then Some y else None | Some z \<Rightarrow> Some z)"
    for P :: "lyricsRow \<Rightarrow> bool" and xs y by (induction xs) auto
  have upd: "find (\<lambda>x. ly_uri x = uri) (updWhere (\<lambda>x. ly_uri x = ly_uri r) f xs) =
     map_option (\<lambda>x. if ly_uri x = ly_uri r then f x else x) (find (\<lambda>x. ly_uri x = uri) xs)" for xs
    using assms(2) by (induction xs) (auto simp: updWhere_def)
  show ?thesis
  proof (cases "findLyrics (ly_uri r) t")
    case None
    with assms(1) have "t' = t\<lparr>tb_lyrics := tb_lyrics t @ [r]\<rparr>" by (simp add: upsertLyrics_def)
    with None show ?thesis by (auto simp: findLyrics_def app split: option.split)
  next
    case (Some y)
    with assms(1) have "t' = t\<lparr>tb_lyrics := updWhere (\<lambda>x. ly_uri x = ly_uri r) f (tb_lyrics t)\<rparr>"
      by (simp add: upsertLyrics_def)
    then have "findLyrics uri t' = map_option (\<lambda>x. if ly_uri x = ly_uri r then f x else x) (findLyrics uri t)"
      by (simp add: findLyrics_def upd)
    with Some show ?thesis by (cases "findLyrics uri t") (auto dest: findLyrics_Some)
  qed
qed

text \<open>
  A relation that only looks at the cache is stable as soon as the sparing upserts keep it.
\<close>

locale cache_relation =
  fixes K :: "tables \<Rightarrow> tables \<Rightarrow> bool"
  assumes K_same: "tb_lyrics t' = tb_lyrics t \<Longrightarrow> K t t'"
    and K_trans: "K t t1 \<Longrightarrow> K t1 t2 \<Longrightarrow> K t t2"
    and K_sparing: "sparing r f \<Longrightarrow> sqlR K (upsertLyrics r f)"
begin

lemma K_frame: "(\<And>t a t'. f t = Inr (a, t') \<Longrightarrow> tb_lyrics t' = tb_lyrics t) \<Longrightarrow> sqlR K f"
  by (auto simp: sqlR_def intro: K_same)

lemma K_lib: "sqlR K (onLibrary f)" "sqlR K (onPlaylist f)"
  by (rule K_frame, auto simp: onLibrary_def onPlaylist_def split: sum.splits)+

sublocale sql_stable_bucket K
proof unfold_locales
  show "K t t" for t by (rule K_same) simp
  show "K t t2" if "K t t1" "K t1 t2" for t t1 t2 using that by (rule K_trans)
  show "sqlR K (setPosition i tid)" for i tid unfolding setPosition_def by (rule K_lib)
  show "sqlR K (\<lambda>t. updatePlayed (fp t) b t)" for fp b by (rule K_frame) (auto simp: updatePlayed_def)
qed ((rule K_sparing, assumption) | rule K_lib | (rule K_frame,
    auto simp: insertBoard_def updateBoard_def deleteBoardRow_def insertTrack_def deleteDD_def deleteTrackRow_def
      updateTracks_def insertCell_def deleteCells_def deletePlaces_def updateCategory_def upsertPlace_def
      upsertDrop_def insertSession_def attachSession_def upsertScore_def insertEvent_def insertDD_def Let_def
    split: if_splits) [1])+

end


subsection \<open>The promises of the cache\<close>

definition resolved :: "string \<Rightarrow> tables \<Rightarrow> bool" where
  "resolved uri t \<longleftrightarrow> (\<exists>r. findLyrics uri t = Some r \<and> ly_status r = ''resolved'')"

definition typedIn :: "string \<Rightarrow> string option \<Rightarrow> tables \<Rightarrow> bool" where
  "typedIn uri text t \<longleftrightarrow> (\<exists>r. findLyrics uri t = Some r \<and> ly_source r = Some ''manual'' \<and> ly_text r = text)"

definition keptR :: "tables \<Rightarrow> tables \<Rightarrow> bool" where
  "keptR t t' \<longleftrightarrow> (\<forall>uri. resolved uri t \<longrightarrow> resolved uri t')"

definition typedR :: "tables \<Rightarrow> tables \<Rightarrow> bool" where
  "typedR t t' \<longleftrightarrow> (\<forall>uri text. typedIn uri text t \<longrightarrow> typedIn uri text t')"

lemma same_find: "tb_lyrics t' = tb_lyrics t \<Longrightarrow> findLyrics uri t' = findLyrics uri t"
  by (simp add: findLyrics_def)

lemma sparing_uri: "sparing r f \<Longrightarrow> ly_uri (f x) = ly_uri x"
  by (simp add: sparing_def)

interpretation kept: cache_relation keptR
proof
  show "keptR t t'" if "tb_lyrics t' = tb_lyrics t" for t t'
    by (simp add: keptR_def resolved_def same_find [OF that])
  show "keptR t t2" if "keptR t t1" "keptR t1 t2" for t t1 t2
    using that by (simp add: keptR_def)
  show "sqlR keptR (upsertLyrics r f)" if sp: "sparing r f" for r f
  proof (rule sqlRI)
    fix t a t'
    assume u: "upsertLyrics r f t = Inr (a, t')"
    have keep: "ly_status x = ''resolved'' \<Longrightarrow> ly_status (f x) = ''resolved''" for x
      using sp unfolding sparing_def by blast
    have "findLyrics uri t' = (if uri = ly_uri r then Some (case findLyrics uri t of None \<Rightarrow> r | Some x \<Rightarrow> f x)
        else findLyrics uri t)" for uri
      by (rule upsertLyrics_find [OF u]) (rule sparing_uri [OF sp])
    then show "keptR t t'" unfolding keptR_def resolved_def by (auto simp: keep)
  qed
qed

interpretation typed: cache_relation typedR
proof
  show "typedR t t'" if "tb_lyrics t' = tb_lyrics t" for t t'
    by (simp add: typedR_def typedIn_def same_find [OF that])
  show "typedR t t2" if "typedR t t1" "typedR t1 t2" for t t1 t2
    using that by (simp add: typedR_def)
  show "sqlR typedR (upsertLyrics r f)" if sp: "sparing r f" for r f
  proof (rule sqlRI)
    fix t a t'
    assume u: "upsertLyrics r f t = Inr (a, t')"
    have keep: "ly_source x = Some ''manual'' \<Longrightarrow> ly_source (f x) = Some ''manual'' \<and> ly_text (f x) = ly_text x" for x
      using sp unfolding sparing_def by blast
    have "findLyrics uri t' = (if uri = ly_uri r then Some (case findLyrics uri t of None \<Rightarrow> r | Some x \<Rightarrow> f x)
        else findLyrics uri t)" for uri
      by (rule upsertLyrics_find [OF u]) (rule sparing_uri [OF sp])
    then show "typedR t t'" unfolding typedR_def typedIn_def by (auto simp: keep)
  qed
qed

lemma manual_find:
  assumes "upsertLyrics (manualRow uri text) (setManual text) t = Inr (a, t')"
  shows "findLyrics u t' = (if u = uri
     then Some (case findLyrics uri t of None \<Rightarrow> manualRow uri text | Some x \<Rightarrow> setManual text x)
     else findLyrics u t)"
  using upsertLyrics_find [OF assms] by (simp add: setManual_def manualRow_def)

interpretation kept_all: sql_stable_api keptR
proof unfold_locales
  show "sqlR keptR (upsertLyrics (manualRow uri lrc) (setManual lrc))" for uri lrc
  proof (rule sqlRI)
    fix t a t'
    assume "upsertLyrics (manualRow uri lrc) (setManual lrc) t = Inr (a, t')"
    from manual_find [OF this] show "keptR t t'"
      unfolding keptR_def resolved_def by (auto simp: manualRow_def setManual_def split: option.split)
  qed
qed (rule kept.api_addDD)

subsection \<open>The Daily Double bucket\<close>

definition bucketOk :: "tables \<Rightarrow> bool" where
  "bucketOk t \<longleftrightarrow> (\<forall>r \<in> set (tb_dd t). resolved (dr_uri r) t)"

definition bucketR :: "tables \<Rightarrow> tables \<Rightarrow> bool" where
  "bucketR t t' \<longleftrightarrow> (bucketOk t \<longrightarrow> bucketOk t')"

lemma bucket_smaller: "keptR t t' \<Longrightarrow> set (tb_dd t') \<subseteq> set (tb_dd t) \<Longrightarrow> bucketR t t'"
  by (auto simp: bucketR_def bucketOk_def keptR_def)

lemma bucket_sql:
  assumes "sqlR keptR f" and "\<And>t a t'. f t = Inr (a, t') \<Longrightarrow> set (tb_dd t') \<subseteq> set (tb_dd t)"
  shows "sqlR bucketR f"
  using assms(1) by (auto simp: sqlR_def intro!: bucket_smaller dest: assms(2))

lemma bucket_solo: "sqlR bucketR (onLibrary f)" "sqlR bucketR (onPlaylist f)"
  by (rule bucket_sql, rule kept.K_lib, auto simp: onLibrary_def onPlaylist_def split: sum.splits)+

lemma upsertLyrics_dd: "upsertLyrics r f t = Inr (a, t') \<Longrightarrow> tb_dd t' = tb_dd t"
  by (auto simp: upsertLyrics_def split: option.splits)

interpretation bucket: sql_stable bucketR
proof unfold_locales
  show "bucketR t t" for t by (simp add: bucketR_def)
  show "bucketR t t2" if "bucketR t t1" "bucketR t1 t2" for t t1 t2 using that by (simp add: bucketR_def)
  show "sqlR bucketR (setPosition i tid)" for i tid unfolding setPosition_def by (rule bucket_solo)
  show "sqlR bucketR (\<lambda>t. updatePlayed (fp t) b t)" for fp b
    by (rule bucket_sql, rule kept.R_updatePlayed) (auto simp: updatePlayed_def)
  show "sqlR bucketR (upsertLyrics ly fl)" if "sparing ly fl" for ly fl
    by (rule bucket_sql, rule kept.K_sparing [OF that]) (simp add: upsertLyrics_dd)
qed (rule bucket_solo | (rule bucket_sql, rule kept.R_insertBoard kept.R_updateBoard kept.R_deleteBoardRow
      kept.R_insertTrack kept.R_deleteDD kept.R_deleteTrackRow kept.R_updateTracks kept.R_insertCell
      kept.R_deleteCells kept.R_deletePlaces kept.R_updateCategory kept.R_upsertPlace kept.R_upsertDrop
      kept.R_insertSession kept.R_attachSession kept.R_upsertScore kept.R_insertEvent, assumption?,
    auto simp: insertBoard_def updateBoard_def deleteBoardRow_def insertTrack_def deleteDD_def deleteTrackRow_def
      updateTracks_def insertCell_def deleteCells_def deletePlaces_def updateCategory_def upsertPlace_def
      upsertDrop_def insertSession_def attachSession_def upsertScore_def insertEvent_def Let_def
    split: if_splits) [1])+

text \<open>A read of the cache changes nothing and tells the truth.\<close>

lemma GetLyricsStatus_run:
  "run_state (GetLyricsStatus uri) d = (r, d') \<Longrightarrow> d_tab d' = d_tab d \<and>
     (\<forall>rec. r = Inr (Some rec) \<longrightarrow> (\<exists>x. findLyrics uri (d_tab d) = Some x \<and> rec = lyricsRecordOf x))"
  by (auto simp: GetLyricsStatus_def rowOrNil_def queryRow_def stmt_def Let_def
      split: if_splits option.splits sum.splits pgErr.splits)

lemma bucket_insert:
  assumes "resolved (dr_uri t) (d_tab d)"
  shows "bucketR (d_tab d) (d_tab (snd (run_state (AddDailyDoubleTrack t) d)))"
proof -
  have "bucketR (d_tab d) t'" if "insertDD (ddRow.truncate t) (d_tab d) = Inr (n, t')" for n t'
    using assms that
    by (auto simp: bucketR_def bucketOk_def insertDD_def resolved_def findLyrics_def ddRow.defs split: if_splits)
  then show ?thesis
    by (auto simp: AddDailyDoubleTrack_def andThen_def wrapped_def stmt_def Let_def bucketR_def
        split: sum.splits prod.splits if_splits)
qed

lemma bucket_add: "apiR bucketR (addDailyDoubleTrack v bid b)"
proof -
  have refl: "apiR bucketR (httpError c m)" for c m by (rule bucket.api_http)
  have frame: "tabOf (snd (run_state (generateID v p) s)) = tabOf s" for p s
    by (simp add: generateID_def)
  have wr: "bucketR (tabOf s) (tabOf (snd (run_state (liftDb (AddDailyDoubleTrack t) \<bind>
      (\<lambda>r. case r of Inl ErrDailyDoubleTrackExists \<Rightarrow> httpError c m | Inl x \<Rightarrow> serverError x
         | Inr _ \<Rightarrow> writeJSON k pl)) s)))"
    if "resolved (dr_uri t) (tabOf s)" for t s c m k pl
    using bucket_insert [OF that]
    by (auto simp: liftDb_def httpError_def serverError_def writeJSON_def split: prod.splits sum.splits storeErr.splits)
  have run: "bucketR (tabOf s) (tabOf (snd (run_state (addDailyDoubleTrack v bid b) s)))" for s
  proof (cases "\<exists>x. b = Body x \<and> checkTrackBody x = None")
    case False
    then show ?thesis
      by (auto simp: addDailyDoubleTrack_def withTrackBody_def httpError_def bucketR_def
          split: body.split option.split)
  next
    case True
    then obtain x where b: "b = Body x" "checkTrackBody x = None" by blast
    obtain r d where g: "run_state (GetLyricsStatus (tb_spotifyUri x)) (ap_db s) = (r, d)" by fastforce
    note spec = GetLyricsStatus_run [OF g]
    show ?thesis
    proof (cases "\<exists>rec. r = Inr (Some rec) \<and> lr_status rec = LyricsStatusResolved")
      case False
      with g spec b show ?thesis
        by (auto simp: addDailyDoubleTrack_def withTrackBody_def orFail_def liftDb_def httpError_def
            serverError_def bucketR_def split: sum.splits option.splits)
    next
      case True
      then obtain rec where rec: "r = Inr (Some rec)" "lr_status rec = LyricsStatusResolved" by blast
      then have res: "resolved (tb_spotifyUri x) (tabOf s)"
        using spec by (auto simp: resolved_def lyricsRecordOf_def LyricsStatusResolved_def)
      obtain tid s1 where i: "run_state (generateID v ''ddt'') (s\<lparr>ap_db := d\<rparr>) = (tid, s1)" by fastforce
      have t1: "tabOf s1 = tabOf s"
        using frame [of "''ddt''" "s\<lparr>ap_db := d\<rparr>"] i spec by simp
      have run: "run_state (addDailyDoubleTrack v bid b) s =
        run_state (liftDb (AddDailyDoubleTrack \<lparr>dr_id = tid, dr_board = bid, dr_uri = tb_spotifyUri x,
            dr_artist = tb_artist x, dr_song = tb_song x, dr_art = tb_albumArt x, dr_duration = tb_durationMs x,
            dr_created = xe_now v, dt_lyricsStatus = lr_status rec\<rparr>) \<bind>
          (\<lambda>r. case r of Inl ErrDailyDoubleTrackExists \<Rightarrow>
              httpError 409 ''a daily double track with this spotifyUri already exists on this board''
            | Inl x \<Rightarrow> serverError x
            | Inr _ \<Rightarrow> writeJSON 201 (PDDTrack \<lparr>dr_id = tid, dr_board = bid, dr_uri = tb_spotifyUri x,
            dr_artist = tb_artist x, dr_song = tb_song x, dr_art = tb_albumArt x, dr_duration = tb_durationMs x,
            dr_created = xe_now v, dt_lyricsStatus = lr_status rec\<rparr>))) s1"
        using g rec b i by (simp add: addDailyDoubleTrack_def withTrackBody_def orFail_def liftDb_def Let_def split_def cong: sum.case_cong storeErr.case_cong)
      show ?thesis unfolding run t1 [symmetric] by (rule wr) (simp add: t1 res)
    qed
  qed
  then show ?thesis by (simp add: apiR_def)
qed


interpretation bucket_all: sql_stable_api bucketR
proof unfold_locales
  show "sqlR bucketR (upsertLyrics (manualRow uri lrc) (setManual lrc))" for uri lrc
    by (rule bucket_sql, rule kept_all.R_manual) (simp add: upsertLyrics_dd)
qed (rule bucket_add)

subsection \<open>Properties\<close>


text \<open>
  C9: lyrics are never lost. A song that has resolved lyrics keeps them through any
  sequence of requests, probes and failures; and as long as no admin types in new ones, lyrics
  that were typed in stay exactly as they are, in spite of every automatic probe, rescan and
  requery of the same song.
\<close>

theorem lyrics_never_lost:
  "resolved uri (tabOf s) \<Longrightarrow> resolved uri (tabOf (runEvents evs s)) \<and>
     (typedIn uri lrc (tabOf s) \<and> (\<forall>ev \<in> set evs. \<not> typesLyrics ev) \<longrightarrow> typedIn uri lrc (tabOf (runEvents evs s)))"
  using kept_all.all_events_R [of s evs] typed.auto_events_R [of evs s]
  by (auto simp: keptR_def typedR_def)

theorem lyrics_never_lost_witness:
  "typedIn ''spotify:track:a'' (Some ''[00:01]la'') (tabOf (runEvents
     [Request demoEnv ''Bearer s3cret'' (RRequeryLyrics ''b'' ''t1''), EngineCall (EMarkPlayed ''g'' ''t1'')] demoApi))"
proof -
  have "resolved ''spotify:track:a'' (tabOf demoApi) \<and> typedIn ''spotify:track:a'' (Some ''[00:01]la'') (tabOf demoApi)"
    by (simp add: resolved_def typedIn_def demoApi_def demoTables_def findLyrics_def emptyTables_def)
  then show ?thesis
    using lyrics_never_lost [of "''spotify:track:a''" demoApi
        "[Request demoEnv ''Bearer s3cret'' (RRequeryLyrics ''b'' ''t1''), EngineCall (EMarkPlayed ''g'' ''t1'')]"
        "Some ''[00:01]la''"]
    by (simp add: typesLyrics_def writesLyrics_def)
qed

text \<open>
  C10: every song in a Daily Double bucket has resolved lyrics. If it is so in a state (in
  the empty database it is), then it is so after any sequence of requests, probes, engine
  calls and faults: the check at insertion is enough because resolved lyrics are never lost.
\<close>

theorem bucket_has_lyrics:
  assumes "\<forall>r \<in> set (tb_dd (tabOf s)). resolved (dr_uri r) (tabOf s)"
    and "r \<in> set (tb_dd (tabOf (runEvents evs s)))"
  shows "resolved (dr_uri r) (tabOf (runEvents evs s))"
  using bucket_all.all_events_R [of s evs] assms by (simp add: bucketR_def bucketOk_def)

text \<open>
  The library entry of a song in the bucket is deleted and another is marked as played; the
  song stays in the bucket, with its lyrics.
\<close>

definition demoBucket :: "engine \<Rightarrow> api" where
  "demoBucket e = \<lparr>ap_db = \<lparr>d_tab = demoTables\<lparr>tb_dd := [\<lparr>dr_id = ''d1'', dr_board = ''b'', dr_uri = ''spotify:track:a'',
       dr_artist = ''A'', dr_song = ''S'', dr_art = '''', dr_duration = 1000, dr_created = 5\<rparr>]\<rparr>, d_net = []\<rparr>,
     ap_engine = e, ap_probes = 0, ap_ids = 0, ap_jobs = []\<rparr>"

definition demoAfter :: "api_event list" where
  "demoAfter = [Request demoEnv ''Bearer s3cret'' (RDeleteTrack ''b'' ''t1''), EngineCall (EMarkPlayed ''g'' ''t2'')]"

lemma demo_after: "map dr_uri (tb_dd (tabOf (runEvents demoAfter (demoBucket e)))) = [''spotify:track:a'']"
  by code_simp

theorem bucket_has_lyrics_witness:
  "\<forall>e. resolved ''spotify:track:a'' (tabOf (runEvents demoAfter (demoBucket e)))"
proof
  fix e
  obtain r where "r \<in> set (tb_dd (tabOf (runEvents demoAfter (demoBucket e))))" and "dr_uri r = ''spotify:track:a''"
    using demo_after [of e] by (auto simp: map_eq_Cons_conv)
  moreover have "\<forall>r \<in> set (tb_dd (tabOf (demoBucket e))). resolved (dr_uri r) (tabOf (demoBucket e))"
    by (simp add: demoBucket_def demoTables_def emptyTables_def resolved_def findLyrics_def)
  ultimately show "resolved ''spotify:track:a'' (tabOf (runEvents demoAfter (demoBucket e)))"
    using bucket_has_lyrics [of "demoBucket e" r demoAfter] by simp
qed

end
