(* ===== verification/Layout_Rules.thy ===== *)
theory Layout_Rules
  imports Admin_Sample
begin

section \<open>Requests that change the layout: authentication, moving tracks, new columns\<close>

text \<open>
  What a run of a store method says about the tables, which the following theories share, and
  from it: a token that is not the secret changes nothing; placing a track moves it and
  keeps its played flag; a new column after a removal may be lost.
\<close>

subsection \<open>Reading off a successful run\<close>

lemma run_stmt_Inr: "run_state (stmt f) d = (Inr a, d') \<Longrightarrow> f (d_tab d) = Inr (a, d_tab d')"
  by (auto simp: stmt_def Let_def split: if_splits sum.splits)

lemma run_stmt4_Inr: "run_state (stmt4 is f) d = (Inr a, d') \<Longrightarrow> list_all int4 is \<and> f (d_tab d) = Inr (a, d_tab d')"
  by (auto simp: stmt4_def dest: run_stmt_Inr split: if_splits)

lemma run_query_Inr: "run_state (query f) d = (Inr a, d') \<Longrightarrow> a = f (d_tab d) \<and> d_tab d' = d_tab d"
  unfolding query_def by (auto dest: run_stmt_Inr)

lemma run_wrapped_Inr: "run_state (wrapped msg m) d = (Inr a, d') \<Longrightarrow> run_state m d = (Inr a, d')"
  by (auto simp: wrapped_def split: prod.splits sum.splits)

lemma run_andThen_Inr:
  assumes "run_state (andThen m k) d = (Inr b, d')"
  obtains a d1 where "run_state m d = (Inr a, d1)" "run_state (k a) d1 = (Inr b, d')"
  using assms by (auto simp: andThen_def split: prod.splits sum.splits)

lemma run_rowOrNil_Inr:
  assumes "run_state (rowOrNil msg (queryRow f)) d = (Inr r, d')"
  shows "r = f (d_tab d) \<and> d_tab d' = d_tab d"
  using assms by (auto simp: rowOrNil_def queryRow_def stmt_def Let_def
      split: prod.splits sum.splits if_splits option.splits pgErr.splits)

lemma run_orFail:
  "run_state (orFail m k) s = (case run_state m (ap_db s) of
     (Inl x, d) \<Rightarrow> (HttpError 500 ''internal error'', s\<lparr>ap_db := d\<rparr>)
   | (Inr a, d) \<Rightarrow> run_state (k a) (s\<lparr>ap_db := d\<rparr>))"
  by (simp add: orFail_def liftDb_def serverError_def httpError_def split: prod.split sum.split)

lemma run_orFail_ok:
  assumes "run_state (orFail m k) s = (r, s')" and "r \<noteq> HttpError 500 ''internal error''"
  obtains a d where "run_state m (ap_db s) = (Inr a, d)" "run_state (k a) (s\<lparr>ap_db := d\<rparr>) = (r, s')"
  using assms by (auto simp: run_orFail split: prod.splits sum.splits)

lemma run_eachE_Inr:
  assumes "run_state (eachE xs f) d = (Inr (), d')"
    and "\<And>x d d'. x \<in> set xs \<Longrightarrow> run_state (f x) d = (Inr (), d') \<Longrightarrow> d_tab d' = g x (d_tab d)"
  shows "d_tab d' = fold g xs (d_tab d)"
  using assms
proof (induction xs arbitrary: d)
  case (Cons x xs)
  from Cons.prems(1) obtain d1 where d1: "run_state (f x) d = (Inr (), d1)"
      "run_state (eachE xs f) d1 = (Inr (), d')"
    by (auto elim: run_andThen_Inr)
  from Cons.IH [OF d1(2)] Cons.prems(2) have "d_tab d' = fold g xs (d_tab d1)" by auto
  with Cons.prems(2) [of x, OF _ d1(1)] show ?case by simp
qed simp

lemma run_transact:
  "run_state (transact wb wc m) d =
     (let d0 = d\<lparr>d_net := tl (d_net d)\<rparr>
      in if netHead (d_net d) \<noteq> Replied then (Inl (wb ConnErr), d0)
         else case run_state m d0 of
            (Inl x, d1) \<Rightarrow> (Inl x, d1\<lparr>d_tab := d_tab d\<rparr>)
          | (Inr a, d1) \<Rightarrow>
              (case netHead (d_net d1) of
                 Replied \<Rightarrow> (Inr a, d1\<lparr>d_net := tl (d_net d1)\<rparr>)
               | NotSent \<Rightarrow> (Inl (wc ConnErr), d1\<lparr>d_net := tl (d_net d1), d_tab := d_tab d\<rparr>)
               | ReplyLost \<Rightarrow> (Inl (wc ConnErr), d1\<lparr>d_net := tl (d_net d1)\<rparr>)))"
  by (cases "netHead (d_net d)") (simp_all add: transact_def begin_tx_def stmt_def Let_def split: prod.split sum.split reply.split)

lemma run_transact_Inr:
  assumes "run_state (transact wb wc m) d = (Inr a, d')"
  obtains d0 d1 where "d_tab d0 = d_tab d" "run_state m d0 = (Inr a, d1)" "d_tab d' = d_tab d1"
proof -
  have "d_tab (d\<lparr>d_net := tl (d_net d)\<rparr>) = d_tab d \<and>
      (\<exists>d1. run_state m (d\<lparr>d_net := tl (d_net d)\<rparr>) = (Inr a, d1) \<and> d_tab d' = d_tab d1)"
    using assms by (auto simp: run_transact Let_def split: prod.splits sum.splits if_splits reply.splits)
  then show thesis using that by blast
qed

text \<open>A transaction that fails changed nothing, except when only the reply to Commit was lost.\<close>

lemma run_transact_Inl:
  assumes "run_state (transact wb wc m) d = (Inl x, d')"
  shows "d_tab d' = d_tab d \<or> x = wc ConnErr \<and>
    (\<exists>d0 d1 a. d_tab d0 = d_tab d \<and> run_state m d0 = (Inr a, d1) \<and> d_tab d' = d_tab d1)"
proof -
  let ?d0 = "d\<lparr>d_net := tl (d_net d)\<rparr>"
  have "d_tab d' = d_tab d \<or> x = wc ConnErr \<and> (\<exists>d1 a. run_state m ?d0 = (Inr a, d1) \<and> d_tab d' = d_tab d1)"
    using assms by (auto simp: run_transact Let_def split: prod.splits sum.splits if_splits reply.splits)
  moreover have "d_tab ?d0 = d_tab d" by simp
  ultimately show ?thesis by blast
qed

lemmas run_writes = writeJSON_def httpError_def

subsection \<open>Authentication\<close>

text \<open>
  A request whose Authorization header is not the secret is answered 401 and changes
  nothing: neither the database, nor the engine, nor the background jobs. The hypothesis
  is that no other token has the digest of the secret.
\<close>

theorem wrong_token_refused:
  assumes "auth \<noteq> bearer @ xe_secret v" and "\<And>x. xe_sha v x = xe_sha v (xe_secret v) \<Longrightarrow> x = xe_secret v"
  shows "run_state (serve v auth r) s = (HttpError 401 ''unauthorized'', s)"
proof (cases "take (length bearer) auth = bearer")
  case True
  then have "auth = bearer @ drop (length bearer) auth" by (metis append_take_drop_id)
  with assms(1) have "drop (length bearer) auth \<noteq> xe_secret v" by auto
  with assms(2) have "xe_sha v (drop (length bearer) auth) \<noteq> xe_sha v (xe_secret v)" by blast
  with True show ?thesis by (simp add: serve_def AdminAuth_def httpError_def)
qed (simp add: serve_def AdminAuth_def httpError_def)

theorem wrong_token_refused_witness:
  "run_state (serve demoEnv ''Bearer guess'' (RDeleteBoard ''b'')) demoApi = (HttpError 401 ''unauthorized'', demoApi)"
  by (rule wrong_token_refused) (simp_all add: demoEnv_def bearer_def)

subsection \<open>Placing a track\<close>

definition placedAs :: "string \<Rightarrow> string \<Rightarrow> placeRow \<Rightarrow> bool" where
  "placedAs bid tid p \<longleftrightarrow> pl_board p = bid \<and> pl_track p = tid"

lemma filter_updWhere_other:
  "(\<And>r. p r \<Longrightarrow> q (f r)) \<Longrightarrow> filter (\<lambda>r. \<not> q r) (updWhere p f xs) = filter (\<lambda>r. \<not> q r) (filter (\<lambda>r. \<not> p r) xs)"
  by (induction xs) (auto simp: updWhere_def)

lemma keyed_single:
  assumes "keyed k xs" and "x \<in> set xs"
  shows "filter (\<lambda>y. k y = k x) xs = [x]"
  using assms by (induction xs) (auto simp: keyed_def filter_empty_conv rev_image_eqI)

lemma upsertPlace_moves:
  assumes "upsertPlace r t = Inr (a, t')" and "tables_ok t" and "\<not> pl_played r"
  shows "filter (placedAs (pl_board r) (pl_track r)) (tb_places t') =
           [r\<lparr>pl_played := (\<exists>p \<in> set (tb_places t). placedAs (pl_board r) (pl_track r) p \<and> pl_played p)\<rparr>] \<and>
         filter (\<lambda>p. \<not> placedAs (pl_board r) (pl_track r) p) (tb_places t') =
           filter (\<lambda>p. \<not> placedAs (pl_board r) (pl_track r) p) (tb_places t)"
proof -
  let ?q = "placedAs (pl_board r) (pl_track r)"
  let ?f = "\<lambda>x. x\<lparr>pl_row := pl_row r, pl_col := pl_col r, pl_pos := pl_pos r\<rparr>"
  have q: "?q = (\<lambda>x. pl_board x = pl_board r \<and> pl_track x = pl_track r)"
    by (auto simp: placedAs_def)
  have ky: "keyed (\<lambda>r. (pl_board r, pl_track r)) (tb_places t)"
    using assms(2) by (simp add: tables_ok_def placesOk_def)
  show ?thesis
  proof (cases "\<exists>x \<in> set (tb_places t). ?q x")
    case False
    with assms have app: "tb_places t' = tb_places t @ [r]"
      by (auto simp: upsertPlace_def Let_def q split: if_splits)
    have none: "(\<exists>p \<in> set (tb_places t). ?q p \<and> pl_played p) = False" using False by blast
    have "filter ?q (tb_places t) = []" using False by (auto simp: filter_empty_conv)
    moreover have "r\<lparr>pl_played := False\<rparr> = r" using assms(3) by (cases r) simp
    ultimately show ?thesis unfolding none app by (simp add: placedAs_def)
  next
    case True
    then obtain x where x: "x \<in> set (tb_places t)" "?q x" by blast
    have t': "tb_places t' = updWhere ?q ?f (tb_places t)"
      using assms True by (auto simp: upsertPlace_def Let_def q split: if_splits)
    have one: "filter ?q (tb_places t) = [x]"
      using keyed_single [OF ky x(1)] x(2) unfolding q by simp
    have upd: "filter ?q (updWhere ?q ?f xs) = map ?f (filter ?q xs)" for xs
      by (induction xs) (auto simp: updWhere_def q)
    have other: "filter (\<lambda>p. \<not> ?q p) (updWhere ?q ?f (tb_places t)) = filter (\<lambda>p. \<not> ?q p) (tb_places t)"
      by (subst filter_updWhere_other) (auto simp: q)
    have "{p \<in> set (tb_places t). ?q p} = {x}" using one by (metis set_filter list.simps(15) list.set(1))
    then have played: "(\<exists>p \<in> set (tb_places t). ?q p \<and> pl_played p) = pl_played x" by fastforce
    show ?thesis unfolding played t' upd one other using x(2) by (cases x) (simp add: placedAs_def)
  qed
qed

text \<open>
  Placing a track moves it. After a 204 the track is in exactly one cell of the board,
  the one of the request, it is still marked played if it was, and no other placement
  has changed.
\<close>

theorem placing_moves:
  assumes "run_state (placeTrack bid rowStr colStr tid b) s = (NoContent, s')"
    and "tables_ok (d_tab (ap_db s))"
  shows "\<exists>row col pos. Atoi rowStr = Some row \<and> Atoi colStr = Some col \<and>
     pos = (case b of Body p \<Rightarrow> p | _ \<Rightarrow> 0) \<and> 0 \<le> pos \<and> pos \<le> 4 \<and>
     filter (placedAs bid tid) (tb_places (d_tab (ap_db s'))) =
       [\<lparr>pl_board = bid, pl_row = row, pl_col = col, pl_track = tid, pl_pos = pos,
         pl_played = (\<exists>p \<in> set (tb_places (d_tab (ap_db s))). placedAs bid tid p \<and> pl_played p)\<rparr>] \<and>
     filter (\<lambda>p. \<not> placedAs bid tid p) (tb_places (d_tab (ap_db s'))) =
       filter (\<lambda>p. \<not> placedAs bid tid p) (tb_places (d_tab (ap_db s)))"
proof -
  let ?pos = "case b of Body p \<Rightarrow> p | _ \<Rightarrow> 0"
  have "\<exists>row col. Atoi rowStr = Some row \<and> Atoi colStr = Some col \<and> 0 \<le> ?pos \<and> ?pos \<le> 4 \<and>
      run_state (orFail (PlaceTrack bid row col tid ?pos) (\<lambda>_. ret NoContent)) s = (NoContent, s')"
    using assms(1)
    by (fastforce simp: placeTrack_def withCell_def Let_def run_writes not_less
        split: option.splits if_splits body.splits)
  then obtain row col where
      rc: "Atoi rowStr = Some row" "Atoi colStr = Some col" and pos: "0 \<le> ?pos" "?pos \<le> 4"
      and run: "run_state (orFail (PlaceTrack bid row col tid ?pos) (\<lambda>_. ret NoContent)) s = (NoContent, s')"
    by blast
  from run obtain d where d: "run_state (PlaceTrack bid row col tid ?pos) (ap_db s) = (Inr (), d)" and s': "ap_db s' = d"
    by (auto elim!: run_orFail_ok)
  have "upsertPlace \<lparr>pl_board = bid, pl_row = row, pl_col = col, pl_track = tid, pl_pos = ?pos, pl_played = False\<rparr>
      (d_tab (ap_db s)) = Inr ((), d_tab d)"
    using d unfolding PlaceTrack_def placeStmt_def by (auto dest!: run_wrapped_Inr run_stmt4_Inr)
  from upsertPlace_moves [OF this assms(2)] rc pos s' show ?thesis by auto
qed

lemma demo_tables: "d_tab (ap_db demoApi) = demoTables"
  by (simp add: demoApi_def)

definition movedApi :: api where
  "movedApi = snd (run_state (placeTrack ''b'' ''2'' ''2'' ''t1'' (Body 1)) demoApi)"

lemma moving:
  "fst (run_state (placeTrack ''b'' ''2'' ''2'' ''t1'' (Body 1)) demoApi) = NoContent" "Atoi ''2'' = Some 2"
  by code_simp+

theorem placing_moves_witness:
  "filter (placedAs ''b'' ''t1'') (tb_places (d_tab (ap_db movedApi))) =
     [\<lparr>pl_board = ''b'', pl_row = 2, pl_col = 2, pl_track = ''t1'', pl_pos = 1, pl_played = True\<rparr>]"
proof -
  have ok: "tables_ok (d_tab (ap_db demoApi))" by (simp add: demo_tables demo_ok)
  have "run_state (placeTrack ''b'' ''2'' ''2'' ''t1'' (Body 1)) demoApi = (NoContent, movedApi)"
    unfolding movedApi_def moving(1) [symmetric] by simp
  from placing_moves [OF this ok] show ?thesis
    by (auto simp: moving(2) demo_tables demoTables_def emptyTables_def placedAs_def)
qed


subsection \<open>What goes wrong\<close>

lemma eachE_keeps:
  assumes "\<And>x d. x \<in> set xs \<Longrightarrow> d_tab d = t \<Longrightarrow> d_tab (snd (run_state (f x) d)) = t" and "d_tab d = t"
  shows "d_tab (snd (run_state (eachE xs f) d)) = t"
  using assms
proof (induction xs arbitrary: d)
  case (Cons x xs)
  have "d_tab (snd (run_state (f x) d)) = t" using Cons.prems by simp
  with Cons.IH Cons.prems(1) show ?case
    by (auto simp: andThen_def split: prod.split sum.split)
qed simp

lemma wrapped_stmt_keeps:
  assumes "\<And>a t'. f (d_tab d) = Inr (a, t') \<Longrightarrow> t' = d_tab d"
  shows "d_tab (snd (run_state (wrapped msg (stmt4 is f)) d)) = d_tab d"
  using assms by (auto simp: wrapped_def stmt4_def stmt_def Let_def split: prod.splits sum.splits)

lemma AddColumn_keeps:
  assumes "\<forall>row \<in> {1..5}. (bid, row, col) \<in> cellKeyOf ` set (tb_cells (d_tab d))"
  shows "d_tab (snd (run_state (AddColumn bid col category) d)) = d_tab d"
  unfolding AddColumn_def
proof (rule eachE_keeps [OF _ refl])
  fix row and d1 :: db
  assume "row \<in> set [1..5]" and d1: "d_tab d1 = d_tab d"
  then have "\<exists>x \<in> set (tb_cells (d_tab d1)). sameCell bid row col x"
    using assms by (simp add: ex_sameCell)
  then show "d_tab (snd (run_state (wrapped (''store: add column cell row='' @ itoa row @ '' col='' @ itoa col)
      (addCell bid col category row)) d1)) = d_tab d"
    unfolding addCell_def d1 [symmetric] by (intro wrapped_stmt_keeps) (auto simp: insertCell_def split: if_splits)
qed

lemma GetBoard_run:
  "run_state (GetBoard bid) d = (r, d') \<Longrightarrow> d_tab d' = d_tab d \<and>
     (\<forall>x. r = Inr x \<longrightarrow> x = find (\<lambda>b. br_id b = bid) (tb_boards (d_tab d)))"
  by (auto simp: GetBoard_def rowOrNil_def queryRow_def stmt_def Let_def
      split: prod.splits sum.splits if_splits option.splits pgErr.splits)

lemma UpdateBoardCols_cells: "tb_cells (d_tab (snd (run_state (UpdateBoardCols now bid n) d))) = tb_cells (d_tab d)"
  by (auto simp: UpdateBoardCols_def wrapped_def stmt4_def stmt_def updateBoard_def Let_def split: prod.splits sum.splits)

text \<open>
  C27: removing a column leaves a gap in the numbering, and the next new column takes a number
  that may be in use. Then the request adds nothing: whenever the column after the counted
  ones exists already, a request for a new column leaves the cells as they are, also when it
  is answered 201. The witness removes the first of two columns and asks for a new one; the
  answer names the category asked for, which no cell of the board has.
\<close>

theorem column_lost:
  assumes "find (\<lambda>b. br_id b = bid) (tb_boards (d_tab (ap_db s))) = Some board"
    and "\<forall>row \<in> {1..5}. (bid, row, br_cols board + 1) \<in> cellKeyOf ` set (tb_cells (d_tab (ap_db s)))"
  shows "tb_cells (d_tab (ap_db (snd (run_state (addColumn v bid b) s)))) = tb_cells (d_tab (ap_db s))"
proof -
  obtain r d where get: "run_state (GetBoard bid) (ap_db s) = (r, d)" by fastforce
  note board = GetBoard_run [OF get]
  show ?thesis
  proof (cases b)
    case (Body c)
    obtain a2 d2 where add: "run_state (AddColumn bid (br_cols board + 1) c) d = (a2, d2)" by fastforce
    obtain a3 d3 where up: "run_state (UpdateBoardCols (xe_now v) bid (br_cols board + 1)) d2 = (a3, d3)" by fastforce
    have cells: "tb_cells (d_tab d) = tb_cells (d_tab (ap_db s))" "tb_cells (d_tab d2) = tb_cells (d_tab (ap_db s))"
        "tb_cells (d_tab d3) = tb_cells (d_tab (ap_db s))"
      using board AddColumn_keeps [of bid "br_cols board + 1" d c] assms(2) add
        UpdateBoardCols_cells [of "xe_now v" bid "br_cols board + 1" d2] up
      by simp_all
    have r: "r = Inr x \<Longrightarrow> x = Some board" for x using board assms(1) by simp
    show ?thesis
      by (cases r; cases a2; cases a3; cases "c = [] \<or> 100 < length c"; cases "8 \<le> br_cols board")
        (auto simp: addColumn_def Body Let_def run_orFail get add up run_writes cells dest!: r)
  qed (simp_all add: addColumn_def run_writes)
qed

definition removedFirst :: api where
  "removedFirst = snd (run_state (removeColumn demoEnv ''b'' ''1'') demoApi)"

theorem column_lost_witness:
  "fst (run_state (removeColumn demoEnv ''b'' ''1'') demoApi) = NoContent \<and>
   fst (run_state (addColumn demoEnv ''b'' (Body ''New'')) removedFirst) = Json 201 (PColumn 2 ''New'') \<and>
   tb_cells (d_tab (ap_db (snd (run_state (addColumn demoEnv ''b'' (Body ''New'')) removedFirst)))) = demoCells [2]"
proof -
  have "find (\<lambda>b. br_id b = ''b'') (tb_boards (d_tab (ap_db removedFirst))) =
      Some \<lparr>br_id = ''b'', br_name = ''Demo'', br_cols = 1, br_created = 1, br_updated = 1000, br_ddCount = 2\<rparr>"
    "\<forall>row \<in> set [1..5]. (''b'', row, 2) \<in> cellKeyOf ` set (tb_cells (d_tab (ap_db removedFirst)))"
    by code_simp+
  moreover have "tb_cells (d_tab (ap_db removedFirst)) = demoCells [2]"
    "fst (run_state (removeColumn demoEnv ''b'' ''1'') demoApi) = NoContent"
    "fst (run_state (addColumn demoEnv ''b'' (Body ''New'')) removedFirst) = Json 201 (PColumn 2 ''New'')"
    by code_simp+
  ultimately show ?thesis
    using column_lost [of "''b''" removedFirst] by simp
qed

end
