(* ===== verification/Order_Rules.thy ===== *)
theory Order_Rules
  imports Layout_Rules
begin

section \<open>Reordering the Solo Karaoke playlist\<close>

text \<open>
  \<open>ReorderSoloKaraokePlaylist\<close> against its abstract description: the requested songs that
  exist, first mention first, then the others in their old order, with the positions
  renumbered from 0.
\<close>

subsection \<open>The order\<close>

lemma pickOrdered_step:
  "distinct acc \<Longrightarrow> set acc \<subseteq> E \<Longrightarrow>
   distinct (fold (\<lambda>i fin. if i \<notin> E \<or> i \<in> set fin then fin else fin @ [i]) xs acc) \<and>
   set (fold (\<lambda>i fin. if i \<notin> E \<or> i \<in> set fin then fin else fin @ [i]) xs acc) = set acc \<union> (set xs \<inter> E)"
proof (induction xs arbitrary: acc)
  case (Cons x xs)
  show ?case using Cons.prems Cons.IH [of acc] Cons.IH [of "acc @ [x]"] by (auto split: if_splits)
qed simp

lemma pickOrdered_set: "set (pickOrdered existing ordered) = set ordered \<inter> set existing"
  and pickOrdered_distinct: "distinct (pickOrdered existing ordered)"
  using pickOrdered_step [of "[]" "set existing" ordered] by (simp_all add: pickOrdered_def)

lemma finalOrder_set: "set (finalOrder existing ordered) = set existing"
  by (auto simp: finalOrder_def Let_def pickOrdered_set)

lemma finalOrder_distinct: "distinct existing \<Longrightarrow> distinct (finalOrder existing ordered)"
  by (auto simp: finalOrder_def Let_def pickOrdered_distinct)

text \<open>The same order without the accumulator.\<close>

definition firstMentions :: "string list \<Rightarrow> string list" where
  "firstMentions xs = rev (remdups (rev xs))"

lemma firstMentions_snoc: "firstMentions (xs @ [x]) = (if x \<in> set xs then firstMentions xs else firstMentions xs @ [x])"
  by (simp add: firstMentions_def)

lemma firstMentions_set [simp]: "set (firstMentions xs) = set xs"
  by (simp add: firstMentions_def)

lemma pickOrdered_first: "pickOrdered existing ordered = filter (\<lambda>i. i \<in> set existing) (firstMentions ordered)"
proof (induction ordered rule: rev_induct)
  case Nil
  show ?case by (simp add: pickOrdered_def firstMentions_def)
next
  case (snoc x xs)
  have "pickOrdered existing (xs @ [x]) =
      (if x \<notin> set existing \<or> x \<in> set (pickOrdered existing xs) then pickOrdered existing xs
       else pickOrdered existing xs @ [x])"
    by (simp add: pickOrdered_def)
  with snoc show ?case by (auto simp: firstMentions_snoc)
qed

lemma finalOrder_alt:
  "finalOrder existing ordered =
     filter (\<lambda>i. i \<in> set existing) (firstMentions ordered) @ filter (\<lambda>i. i \<notin> set ordered) existing"
proof -
  have "filter (\<lambda>i. i \<notin> set (pickOrdered existing ordered)) existing = filter (\<lambda>i. i \<notin> set ordered) existing"
    by (rule filter_cong) (simp_all add: pickOrdered_set)
  then show ?thesis by (simp add: finalOrder_def Let_def pickOrdered_first [symmetric])
qed

subsection \<open>The renumbering\<close>

text \<open>What the loop of updates leaves in a row: the last position given to its id.\<close>

definition renumber :: "(nat \<times> string) list \<Rightarrow> skRow list \<Rightarrow> skRow list" where
  "renumber ps rows = fold (\<lambda>(i, tid). updWhere (\<lambda>r. sk_id r = tid) (\<lambda>r. r\<lparr>sk_position := int i\<rparr>)) ps rows"

lemma renumber_map:
  "renumber ps rows = map (\<lambda>r. case map_of (rev (map (\<lambda>(i, t). (t, i)) ps)) (sk_id r) of
      None \<Rightarrow> r | Some i \<Rightarrow> r\<lparr>sk_position := int i\<rparr>) rows"
proof (induction ps rule: rev_induct)
  case (snoc p ps)
  then show ?case
    by (cases p) (auto simp: renumber_def updWhere_def split: option.split)
qed (simp add: renumber_def)

lemma map_of_rev_distinct: "distinct (map fst m) \<Longrightarrow> map_of (rev m) = map_of m"
  by (intro map_of_inject_set [THEN iffD2]) (simp_all add: rev_map [symmetric])

lemma swap_fst: "map fst (map (\<lambda>(i, t). (t, i)) (enumerate 0 order)) = order"
  by (simp add: comp_def case_prod_unfold)

lemma swap_known: "x \<in> set order \<Longrightarrow> \<exists>k. map_of (map (\<lambda>(i, t). (t, i)) (enumerate 0 order)) x = Some k"
  by (subst (asm) swap_fst [symmetric]) (metis list.set_map map_of_eq_None_iff not_None_eq)

lemma renumber_positions:
  assumes "distinct order" and "set order = sk_id ` set rows"
  shows "renumber (enumerate 0 order) rows =
    map (\<lambda>r. r\<lparr>sk_position := int (the (map_of (map (\<lambda>(i, t). (t, i)) (enumerate 0 order)) (sk_id r)))\<rparr>) rows"
proof -
  let ?m = "map (\<lambda>(i, t). (t, i)) (enumerate 0 order)"
  have "map_of (rev ?m) = map_of ?m"
    using swap_fst [of order] assms(1) by (metis map_of_rev_distinct)
  moreover have "\<exists>k. map_of ?m (sk_id r) = Some k" if "r \<in> set rows" for r
    using swap_known [of "sk_id r" order] assms(2) that by blast
  ultimately show ?thesis unfolding renumber_map by (fastforce split: option.split)
qed

lemma sorted_int: "sorted (map int [0..<n])"
  by (induction n) (auto simp: sorted_append)

text \<open>A list sorted by positions that are a numbering of \<open>order\<close> lists the ids in that order.\<close>

lemma sorted_numbering:
  assumes "distinct order" and "set order = sk_id ` set rows" and "keyed sk_id rows"
  shows "map (\<lambda>r. (sk_id r, sk_position r)) (sort_key sk_position (renumber (enumerate 0 order) rows)) =
    map (\<lambda>(i, t). (t, int i)) (enumerate 0 order)"
proof -
  let ?m = "map (\<lambda>(i, t). (t, i)) (enumerate 0 order)"
  let ?S = "sort_key sk_position (renumber (enumerate 0 order) rows)"
  have at: "k < length order \<and> order ! k = sk_id r" if "map_of ?m (sk_id r) = Some k" for r :: skRow and k
    using map_of_SomeD [OF that] by (auto simp: in_set_enumerate_eq)
  have pos: "0 \<le> sk_position r \<and> nat (sk_position r) < length order \<and> order ! nat (sk_position r) = sk_id r"
    if r: "r \<in> set ?S" for r
  proof -
    from r obtain r0 where r0: "r0 \<in> set rows" "r = r0\<lparr>sk_position := int (the (map_of ?m (sk_id r0)))\<rparr>"
      unfolding set_sort renumber_positions [OF assms(1,2)] by auto
    obtain k where "map_of ?m (sk_id r0) = Some k"
      using swap_known [of "sk_id r0" order] r0(1) assms(2) by blast
    with at [of r0 k] r0(2) show ?thesis by simp
  qed
  have len: "length ?S = length order"
    using assms distinct_card [of order] distinct_card [of "map sk_id rows"] by (simp add: renumber_map keyed_def)
  have ids: "sk_id ` set ?S = set order"
    using assms(2) by (auto simp: renumber_positions [OF assms(1,2)] image_image)
  have "set (map sk_position ?S) = set (map int [0..<length order])"
  proof
    show "set (map sk_position ?S) \<subseteq> set (map int [0..<length order])"
      using pos by (force simp: image_iff)
    show "set (map int [0..<length order]) \<subseteq> set (map sk_position ?S)"
    proof
      fix p assume "p \<in> set (map int [0..<length order])"
      then obtain k where k: "p = int k" "k < length order" by auto
      then obtain r where r: "r \<in> set ?S" "sk_id r = order ! k" using ids by (metis imageE nth_mem)
      with pos [OF r(1)] assms(1) k(2) have "nat (sk_position r) = k"
        by (metis nth_eq_iff_index_eq)
      with pos [OF r(1)] k r(1) show "p \<in> set (map sk_position ?S)" by force
    qed
  qed
  moreover have "distinct (map sk_position ?S)"
    using calculation len by (metis (no_types) card_distinct diff_zero distinct_card distinct_map
        distinct_upt inj_on_of_nat length_map length_upt)
  ultimately have "map sk_position ?S = map int [0..<length order]"
    by (intro sorted_distinct_set_unique sorted_sort_key sorted_int) (simp_all only: distinct_map distinct_upt inj_on_of_nat simp_thms)
  moreover have "map (\<lambda>r. (sk_id r, sk_position r)) ?S = map (\<lambda>p. (order ! nat p, p)) (map sk_position ?S)"
    using pos by simp
  moreover have "map (\<lambda>p. (order ! nat p, p)) (map int [0..<length order]) = map (\<lambda>(i, t). (t, int i)) (enumerate 0 order)"
    by (rule nth_equalityI) (simp_all add: nth_enumerate_eq)
  ultimately show ?thesis by (simp only:)
qed

text \<open>The playlist in the order the queue is built from.\<close>

definition playlistOrder :: "tables \<Rightarrow> (string \<times> int) list" where
  "playlistOrder t = map (\<lambda>r. (sk_id r, sk_position r)) (sort_key sk_position (tb_skPlaylist t))"

lemma playlist_ids: "map fst (playlistOrder t) = map sk_id (sort_key sk_position (tb_skPlaylist t))"
  by (simp add: playlistOrder_def)

lemma renumber_tables:
  "tb_skPlaylist (fold (\<lambda>(i, tid) t. t\<lparr>tb_skPlaylist :=
      updWhere (\<lambda>r. sk_id r = tid) (\<lambda>r. r\<lparr>sk_position := int i\<rparr>) (tb_skPlaylist t)\<rparr>) ps t) =
   renumber ps (tb_skPlaylist t)"
  by (induction ps arbitrary: t) (auto simp: renumber_def)

text \<open>What the transaction does when none of its statements fails.\<close>

lemma reorder_body:
  assumes "run_state (andThen (wrapped m1 positionLock)
       (\<lambda>_. andThen (wrapped m2 (query (\<lambda>t. map sk_id (sort_key sk_position (tb_skPlaylist t)))))
       (\<lambda>existing. eachE (enumerate 0 (finalOrder existing ordered)) (\<lambda>(i, tid).
           wrapped (m3 tid) (stmt4 [int i] (setPosition (int i) tid)))))) d = (Inr (), d')"
  shows "tb_skPlaylist (d_tab d') = renumber (enumerate 0 (finalOrder
     (map sk_id (sort_key sk_position (tb_skPlaylist (d_tab d)))) ordered)) (tb_skPlaylist (d_tab d))"
proof -
  let ?ex = "map sk_id (sort_key sk_position (tb_skPlaylist (d_tab d)))"
  let ?ps = "enumerate 0 (finalOrder ?ex ordered)"
  obtain d1 where run: "run_state (eachE ?ps (\<lambda>(i, tid).
           wrapped (m3 tid) (stmt4 [int i] (setPosition (int i) tid)))) d1 = (Inr (), d')" and d1: "d_tab d1 = d_tab d"
    using assms unfolding positionLock_def
    by (auto elim!: run_andThen_Inr dest!: run_wrapped_Inr run_query_Inr)
  have "d_tab d' = fold (\<lambda>(i, tid) t. t\<lparr>tb_skPlaylist :=
      updWhere (\<lambda>r. sk_id r = tid) (\<lambda>r. r\<lparr>sk_position := int i\<rparr>) (tb_skPlaylist t)\<rparr>) ?ps (d_tab d1)"
    by (rule run_eachE_Inr [OF run])
      (auto dest!: run_wrapped_Inr run_stmt4_Inr simp: setPosition_def onPlaylist_def)
  with d1 show ?thesis by (simp add: renumber_tables)
qed

lemma reorder_run:
  assumes "run_state (ReorderSoloKaraokePlaylist ordered) d = (r, d')"
  shows "(\<exists>x. r = Inl x) \<and> d_tab d' = d_tab d \<or>
    (r = Inr () \<or> r = Inl (StoreErr ''store: reorder solo karaoke playlist: commit'' ConnErr)) \<and>
    tb_skPlaylist (d_tab d') = renumber (enumerate 0 (finalOrder (map fst (playlistOrder (d_tab d))) ordered))
      (tb_skPlaylist (d_tab d))"
proof (cases r)
  case (Inl x)
  from run_transact_Inl [OF assms [unfolded ReorderSoloKaraokePlaylist_def Inl]] Inl show ?thesis
    unfolding playlist_ids using reorder_body by fastforce
next
  case (Inr u)
  then have "run_state (ReorderSoloKaraokePlaylist ordered) d = (Inr (), d')" using assms by simp
  then show ?thesis
    unfolding ReorderSoloKaraokePlaylist_def playlist_ids using Inr
    by (elim run_transact_Inr) (drule reorder_body, simp)
qed

lemma order_of_ids:
  assumes "soloOk (tb_skPlaylist t)"
    and "tb_skPlaylist t' = renumber (enumerate 0 (finalOrder (map fst (playlistOrder t)) ordered)) (tb_skPlaylist t)"
  shows "playlistOrder t' = map (\<lambda>(i, tid). (tid, int i)) (enumerate 0 (finalOrder (map fst (playlistOrder t)) ordered))"
proof -
  have ids: "distinct (map fst (playlistOrder t))" "set (map fst (playlistOrder t)) = sk_id ` set (tb_skPlaylist t)"
    using assms(1) unfolding playlist_ids by (simp_all add: soloOk_def keyed_def distinct_map)
  show ?thesis unfolding playlistOrder_def assms(2)
    using sorted_numbering [OF finalOrder_distinct [OF ids(1), of ordered], of "tb_skPlaylist t"] ids(2) assms(1)
    by (simp add: finalOrder_set soloOk_def playlistOrder_def)
qed

text \<open>
  Reordering the Solo Karaoke playlist, for every list of ids. When the method returns
  without error the playlist holds the same songs with positions 0, 1, 2, ... in this order:
  the requested ids that exist, by first mention, then the others as they were; unknown and
  repeated ids are ignored. When it fails, the old order stays, or only the reply to Commit
  was lost and the new order is in place: never a mixture.
\<close>

theorem reorder_total:
  assumes "soloOk (tb_skPlaylist (d_tab d))"
    and "run_state (ReorderSoloKaraokePlaylist ordered) d = (r, d')"
  shows "let old = map fst (playlistOrder (d_tab d));
             new = filter (\<lambda>i. i \<in> set old) (firstMentions ordered) @ filter (\<lambda>i. i \<notin> set ordered) old;
             moved = playlistOrder (d_tab d') = map (\<lambda>(i, tid). (tid, int i)) (enumerate 0 new) \<and>
               map (\<lambda>x. x\<lparr>sk_position := 0\<rparr>) (tb_skPlaylist (d_tab d')) =
                 map (\<lambda>x. x\<lparr>sk_position := 0\<rparr>) (tb_skPlaylist (d_tab d))
         in (r = Inr () \<longrightarrow> moved) \<and>
            (r \<noteq> Inr () \<longrightarrow> d_tab d' = d_tab d \<or>
               r = Inl (StoreErr ''store: reorder solo karaoke playlist: commit'' ConnErr) \<and> moved)"
proof -
  let ?old = "map fst (playlistOrder (d_tab d))"
  let ?fin = "enumerate 0 (finalOrder ?old ordered)"
  have fields: "map (\<lambda>x. x\<lparr>sk_position := 0\<rparr>) (renumber ps rows) = map (\<lambda>x. x\<lparr>sk_position := 0\<rparr>) rows" for ps rows
    by (simp add: renumber_map split: option.split)
  have *: "tb_skPlaylist t' = renumber ?fin (tb_skPlaylist (d_tab d)) \<Longrightarrow>
      playlistOrder t' = map (\<lambda>(i, tid). (tid, int i)) ?fin \<and>
      map (\<lambda>x. x\<lparr>sk_position := 0\<rparr>) (tb_skPlaylist t') = map (\<lambda>x. x\<lparr>sk_position := 0\<rparr>) (tb_skPlaylist (d_tab d))" for t'
    using order_of_ids [OF assms(1), of t' ordered] fields by simp
  from reorder_run [OF assms(2)] show ?thesis
    unfolding Let_def finalOrder_alt [symmetric] using * by blast
qed


definition demoSong :: "string \<Rightarrow> int \<Rightarrow> skRow" where
  "demoSong i pos = \<lparr>sk_id = i, sk_uri = ''spotify:track:'' @ i, sk_artist = ''A'', sk_song = ''S'', sk_art = '''',
     sk_duration = 1000, sk_created = 1, sk_position = pos\<rparr>"

definition demoPlaylist :: db where
  "demoPlaylist = \<lparr>d_tab = demoTables\<lparr>tb_skPlaylist := [demoSong ''a'' 0, demoSong ''b'' 4, demoSong ''c'' 7]\<rparr>,
     d_net = []\<rparr>"

lemma reordering: "fst (run_state (ReorderSoloKaraokePlaylist [''c'', ''x'', ''a'', ''c'']) demoPlaylist) = Inr ()"
  by code_simp

theorem reorder_total_witness:
  "playlistOrder (d_tab (snd (run_state (ReorderSoloKaraokePlaylist [''c'', ''x'', ''a'', ''c'']) demoPlaylist))) =
     [(''c'', 0), (''a'', 1), (''b'', 2)]"
proof -
  have ok: "soloOk (tb_skPlaylist (d_tab demoPlaylist))" by code_simp
  have old: "map fst (playlistOrder (d_tab demoPlaylist)) = [''a'', ''b'', ''c'']" by code_simp
  have "map (\<lambda>(i, tid). (tid, int i)) (enumerate 0 (
      filter (\<lambda>i. i \<in> set [''a'', ''b'', ''c'']) (firstMentions [''c'', ''x'', ''a'', ''c'']) @
      filter (\<lambda>i. i \<notin> set [''c'', ''x'', ''a'', ''c'']) [''a'', ''b'', ''c''])) = [(''c'', 0), (''a'', 1), (''b'', 2)]"
    by code_simp
  with reorder_total [OF ok prod.collapse [symmetric], of "[''c'', ''x'', ''a'', ''c'']"]
  show ?thesis unfolding Let_def old reordering by simp
qed

end
