(* ===== verification/Rebuild_Rules.thy ===== *)
theory Rebuild_Rules
  imports Layout_Rules
begin

section \<open>Rebuilding a board's layout\<close>

text \<open>
  \<open>RebuildLayout\<close> against its abstract effect, a replacement of the whole layout of one board,
  and the columns the AI build makes of what the categorizer proposes.
\<close>

subsection \<open>The abstract effect\<close>

definition newCell :: "string \<Rightarrow> int \<Rightarrow> string \<Rightarrow> int \<Rightarrow> cellRow" where
  "newCell bid col category row =
     \<lparr>lc_board = bid, lc_row = row, lc_col = col, lc_category = category, lc_dd = False\<rparr>"

definition newPlace :: "string \<Rightarrow> layoutPlacement \<Rightarrow> placeRow" where
  "newPlace bid p = \<lparr>pl_board = bid, pl_row = lp_row p, pl_col = lp_col p, pl_track = lp_track p,
     pl_pos = lp_pos p, pl_played = False\<rparr>"

lemma newCell_sel [simp]:
  "lc_board (newCell bid col category row) = bid" "lc_row (newCell bid col category row) = row"
  "lc_col (newCell bid col category row) = col"
  by (simp_all add: newCell_def)

lemma newPlace_sel [simp]: "pl_board (newPlace bid p) = bid" "pl_track (newPlace bid p) = lp_track p"
  by (simp_all add: newPlace_def)

lemma newCell_D: "y = newCell bid col category row \<Longrightarrow> lc_board y = bid \<and> lc_row y = row \<and> lc_col y = col"
  by simp

lemma newPlace_D: "y = newPlace bid p \<Longrightarrow> pl_board y = bid \<and> pl_track y = lp_track p"
  by simp

definition columnCells :: "string \<Rightarrow> nat \<times> layoutColumn \<Rightarrow> cellRow list" where
  "columnCells bid = (\<lambda>(i, c). map (newCell bid (int i) (lq_category c)) [1..5])"

definition columnPlaces :: "string \<Rightarrow> nat \<times> layoutColumn \<Rightarrow> placeRow list" where
  "columnPlaces bid = (\<lambda>(i, c). map (newPlace bid) (lq_placements c))"

definition replaceLayout :: "int \<Rightarrow> string \<Rightarrow> int \<Rightarrow> layoutColumn list \<Rightarrow> tables \<Rightarrow> tables" where
  "replaceLayout now bid cols columns t = t\<lparr>
     tb_boards := updWhere (\<lambda>r. br_id r = bid) (\<lambda>r. r\<lparr>br_cols := cols, br_updated := now\<rparr>) (tb_boards t),
     tb_cells := filter (\<lambda>r. lc_board r \<noteq> bid) (tb_cells t) @ concat (map (columnCells bid) (enumerate 1 columns)),
     tb_places := filter (\<lambda>r. pl_board r \<noteq> bid) (tb_places t) @
       concat (map (columnPlaces bid) (enumerate 1 columns))\<rparr>"

definition placedOnce :: "layoutColumn list \<Rightarrow> bool" where
  "placedOnce columns \<longleftrightarrow> distinct (map lp_track (concat (map lq_placements columns)))"

subsection \<open>The loops\<close>

lemma run_eachE_inv:
  assumes "run_state (eachE xs f) d = (Inr (), d')" and "J [] (d_tab d)"
    and "\<And>ys x zs d d'. xs = ys @ x # zs \<Longrightarrow> J ys (d_tab d) \<Longrightarrow> run_state (f x) d = (Inr (), d') \<Longrightarrow>
        J (ys @ [x]) (d_tab d')"
  shows "J xs (d_tab d')"
proof -
  have "J (ws @ us) (d_tab d')" if "run_state (eachE us f) d = (Inr (), d')" "xs = ws @ us" "J ws (d_tab d)"
    for ws us d using that
  proof (induction us arbitrary: ws d)
    case (Cons u us)
    from Cons.prems(1) obtain d1 where d1: "run_state (f u) d = (Inr (), d1)"
        "run_state (eachE us f) d1 = (Inr (), d')"
      by (auto elim: run_andThen_Inr)
    from assms(3) [OF Cons.prems(2,3) d1(1)] Cons.IH [of d1 "ws @ [u]"] d1(2) Cons.prems(2) show ?case by simp
  qed simp
  from this [of xs d "[]"] assms show ?thesis by simp
qed

lemma cells_loop:
  assumes "run_state (eachE [1..5] (\<lambda>row. wrapped (m row) (addCell bid col category row))) d = (Inr (), d')"
    and "\<forall>x \<in> set (tb_cells (d_tab d)). lc_board x \<noteq> bid \<or> lc_col x \<noteq> col"
  shows "d_tab d' = (d_tab d)\<lparr>tb_cells := tb_cells (d_tab d) @ map (newCell bid col category) [1..5]\<rparr>"
proof (rule run_eachE_inv [OF assms(1), of "\<lambda>rows t. t = (d_tab d)\<lparr>tb_cells := tb_cells (d_tab d) @ map (newCell bid col category) rows\<rparr>"])
  fix ys x zs e e'
  assume xs: "[1..5] = ys @ x # zs" and e: "d_tab e = (d_tab d)\<lparr>tb_cells := tb_cells (d_tab d) @ map (newCell bid col category) ys\<rparr>"
    and run: "run_state (wrapped (m x) (addCell bid col category x)) e = (Inr (), e')"
  have "x \<notin> set ys" using distinct_upto [of 1 5] unfolding xs by simp
  then have "\<not> (\<exists>y \<in> set (tb_cells (d_tab e)). sameCell bid x col y)"
    using assms(2) by (auto simp: e sameCell_def dest!: newCell_D)
  with run have "d_tab e' = (d_tab e)\<lparr>tb_cells := tb_cells (d_tab e) @ [newCell bid col category x]\<rparr>"
    by (auto simp: addCell_def insertCell_def newCell_def dest!: run_wrapped_Inr run_stmt4_Inr split: if_splits)
  then show "d_tab e' = (d_tab d)\<lparr>tb_cells := tb_cells (d_tab d) @ map (newCell bid col category) (ys @ [x])\<rparr>"
    by (simp add: e)
qed simp

lemma places_loop:
  assumes "run_state (eachE ps (\<lambda>p. wrapped (m p) (placeStmt bid (lp_row p) (lp_col p) (lp_track p) (lp_pos p)))) d = (Inr (), d')"
    and "distinct (map lp_track ps)"
    and "\<forall>x \<in> set (tb_places (d_tab d)). pl_board x = bid \<longrightarrow> pl_track x \<notin> lp_track ` set ps"
  shows "d_tab d' = (d_tab d)\<lparr>tb_places := tb_places (d_tab d) @ map (newPlace bid) ps\<rparr>"
proof (rule run_eachE_inv [OF assms(1), of "\<lambda>qs t. t = (d_tab d)\<lparr>tb_places := tb_places (d_tab d) @ map (newPlace bid) qs\<rparr>"])
  fix ys x zs e e'
  assume xs: "ps = ys @ x # zs" and e: "d_tab e = (d_tab d)\<lparr>tb_places := tb_places (d_tab d) @ map (newPlace bid) ys\<rparr>"
    and run: "run_state (wrapped (m x) (placeStmt bid (lp_row x) (lp_col x) (lp_track x) (lp_pos x))) e = (Inr (), e')"
  have "\<not> (\<exists>y \<in> set (tb_places (d_tab e)). pl_board y = bid \<and> pl_track y = lp_track x)"
    using assms(2,3) by (auto simp: e xs image_iff dest!: newPlace_D)
  with run have "d_tab e' = (d_tab e)\<lparr>tb_places := tb_places (d_tab e) @ [newPlace bid x]\<rparr>"
    by (auto simp: placeStmt_def upsertPlace_def Let_def newPlace_def dest!: run_wrapped_Inr run_stmt4_Inr split: if_splits)
  then show "d_tab e' = (d_tab d)\<lparr>tb_places := tb_places (d_tab d) @ map (newPlace bid) (ys @ [x])\<rparr>"
    by (simp add: e)
qed simp


lemma column_step:
  assumes "run_state (rebuildColumn bid col c) d = (Inr (), d')"
    and "\<forall>x \<in> set (tb_cells (d_tab d)). lc_board x \<noteq> bid \<or> lc_col x \<noteq> col"
    and "distinct (map lp_track (lq_placements c))"
    and "\<forall>x \<in> set (tb_places (d_tab d)). pl_board x = bid \<longrightarrow> pl_track x \<notin> lp_track ` set (lq_placements c)"
  shows "d_tab d' = (d_tab d)\<lparr>tb_cells := tb_cells (d_tab d) @ map (newCell bid col (lq_category c)) [1..5],
     tb_places := tb_places (d_tab d) @ map (newPlace bid) (lq_placements c)\<rparr>"
proof -
  from assms(1) obtain d1 where
      1: "run_state (eachE [1..5] (\<lambda>row.
            wrapped (''store: rebuild layout: add cell row='' @ itoa row @ '' col='' @ itoa col)
              (addCell bid col (lq_category c) row))) d = (Inr (), d1)"
      and 2: "run_state (eachE (lq_placements c) (\<lambda>p.
            wrapped (''store: rebuild layout: place track row='' @ itoa (lp_row p) @ '' col='' @ itoa (lp_col p))
              (placeStmt bid (lp_row p) (lp_col p) (lp_track p) (lp_pos p)))) d1 = (Inr (), d')"
    unfolding rebuildColumn_def by (auto elim!: run_andThen_Inr)
  note d1 = cells_loop [OF 1 assms(2)]
  with places_loop [OF 2 assms(3)] assms(4) show ?thesis by simp
qed

text \<open>The loop over the columns appends a block of cells and of placements for each of them.\<close>

definition withColumns :: "string \<Rightarrow> (nat \<times> layoutColumn) list \<Rightarrow> tables \<Rightarrow> tables" where
  "withColumns bid ics t = t\<lparr>tb_cells := tb_cells t @ concat (map (columnCells bid) ics),
     tb_places := tb_places t @ concat (map (columnPlaces bid) ics)\<rparr>"

lemma columns_loop:
  assumes "run_state (eachE ics (\<lambda>(i, c). rebuildColumn bid (int i) c)) d = (Inr (), d')"
    and "distinct (map fst ics)" and "placedOnce (map snd ics)"
    and "\<forall>x \<in> set (tb_cells (d_tab d)). lc_board x \<noteq> bid" and "\<forall>x \<in> set (tb_places (d_tab d)). pl_board x \<noteq> bid"
  shows "d_tab d' = withColumns bid ics (d_tab d)"
proof (rule run_eachE_inv [OF assms(1), of "\<lambda>ys t. t = withColumns bid ys (d_tab d)"])
  fix ys x zs e e'
  assume xs: "ics = ys @ x # zs" and e: "d_tab e = withColumns bid ys (d_tab d)"
    and run: "run_state (case x of (i, c) \<Rightarrow> rebuildColumn bid (int i) c) e = (Inr (), e')"
  obtain i c where x: "x = (i, c)" by (cases x)
  have "\<forall>y \<in> set (tb_cells (d_tab e)). lc_board y \<noteq> bid \<or> lc_col y \<noteq> int i"
    using assms(2,4) by (auto simp: e xs x withColumns_def columnCells_def rev_image_eqI dest!: newCell_D)
  moreover have "distinct (map lp_track (lq_placements c))"
    using assms(3) by (auto simp: placedOnce_def xs x)
  moreover have "\<forall>y \<in> set (tb_places (d_tab e)). pl_board y = bid \<longrightarrow> pl_track y \<notin> lp_track ` set (lq_placements c)"
  proof (intro ballI impI)
    fix y assume y: "y \<in> set (tb_places (d_tab e))" "pl_board y = bid"
    then obtain j b p where "(j, b) \<in> set ys" "p \<in> set (lq_placements b)" "pl_track y = lp_track p"
      using assms(5) by (auto simp: e withColumns_def columnPlaces_def dest!: newPlace_D)
    then have "pl_track y \<in> lp_track ` set (concat (map lq_placements (map snd ys)))" by force
    moreover have "lp_track ` set (concat (map lq_placements (map snd ys))) \<inter> lp_track ` set (lq_placements c) = {}"
      using assms(3) unfolding placedOnce_def xs x
      by (simp only: map_append list.map concat_append concat.simps distinct_append set_append set_map snd_conv) blast
    ultimately show "pl_track y \<notin> lp_track ` set (lq_placements c)" by blast
  qed
  ultimately show "d_tab e' = withColumns bid (ys @ [x]) (d_tab d)"
    using column_step [of bid "int i" c e e'] run
    by (simp add: x e withColumns_def columnCells_def columnPlaces_def)
qed (simp add: withColumns_def)

lemma rebuild_body:
  assumes "run_state (rebuildBody now bid cols columns) d = (Inr (), d')" and "placedOnce columns"
  shows "d_tab d' = replaceLayout now bid cols columns (d_tab d)"
proof -
  let ?t = "(d_tab d)\<lparr>
     tb_boards := updWhere (\<lambda>r. br_id r = bid) (\<lambda>r. r\<lparr>br_cols := cols, br_updated := now\<rparr>) (tb_boards (d_tab d)),
     tb_cells := filter (\<lambda>r. lc_board r \<noteq> bid) (tb_cells (d_tab d)),
     tb_places := filter (\<lambda>r. pl_board r \<noteq> bid) (tb_places (d_tab d))\<rparr>"
  from assms(1) obtain d1 d2 d3 where
      1: "run_state (stmt (deletePlaces (\<lambda>p. pl_board p = bid))) d = (Inr (), d1)"
      and 2: "run_state (stmt (deleteCells bid (\<lambda>_. True))) d1 = (Inr (), d2)"
      and 3: "run_state (stmt4 [cols] (updateBoard bid (\<lambda>r. r\<lparr>br_cols := cols, br_updated := now\<rparr>))) d2 = (Inr (), d3)"
      and run: "run_state (eachE (enumerate 1 columns) (\<lambda>(i, c). rebuildColumn bid (int i) c)) d3 = (Inr (), d')"
    unfolding rebuildBody_def by (auto elim!: run_andThen_Inr dest!: run_wrapped_Inr)
  have "d_tab d1 = (d_tab d)\<lparr>tb_places := filter (\<lambda>r. pl_board r \<noteq> bid) (tb_places (d_tab d))\<rparr>"
    using run_stmt_Inr [OF 1] by (simp add: deletePlaces_def)
  moreover have "d_tab d2 = (d_tab d1)\<lparr>tb_cells := filter (\<lambda>r. lc_board r \<noteq> bid) (tb_cells (d_tab d1)),
      tb_places := filter (\<lambda>r. pl_board r \<noteq> bid) (tb_places (d_tab d1))\<rparr>"
    using run_stmt_Inr [OF 2] by (simp add: deleteCells_def)
  moreover have "d_tab d3 = (d_tab d2)\<lparr>tb_boards :=
      updWhere (\<lambda>r. br_id r = bid) (\<lambda>r. r\<lparr>br_cols := cols, br_updated := now\<rparr>) (tb_boards (d_tab d2))\<rparr>"
    using run_stmt4_Inr [OF 3] by (auto simp: updateBoard_def split: if_splits)
  ultimately have d3: "d_tab d3 = ?t" by simp
  have "d_tab d' = withColumns bid (enumerate 1 columns) (d_tab d3)"
    using assms(2) by (intro columns_loop [OF run]) (auto simp: d3)
  then show ?thesis by (simp add: d3 withColumns_def replaceLayout_def)
qed

lemma rebuild_run:
  assumes "run_state (RebuildLayout now bid cols columns) d = (r, d')" and "placedOnce columns"
  shows "(\<exists>x. r = Inl x) \<and> d_tab d' = d_tab d \<or>
    (r = Inr () \<or> r = Inl (StoreErr ''store: rebuild layout: commit'' ConnErr)) \<and>
    d_tab d' = replaceLayout now bid cols columns (d_tab d)"
proof (cases r)
  case (Inl x)
  from run_transact_Inl [OF assms(1) [unfolded RebuildLayout_def Inl]] assms(2) Inl show ?thesis
    by (auto dest!: rebuild_body)
next
  case (Inr u)
  with assms show ?thesis unfolding RebuildLayout_def by (auto elim!: run_transact_Inr dest!: rebuild_body)
qed


subsection \<open>The AI build\<close>

text \<open>
  A well-formed proposal: every track is one of the board and used once, column i holds at
  most five tracks, from row 1 downwards without a gap.
\<close>

definition wellPlaced :: "string list \<Rightarrow> layoutColumn list \<Rightarrow> bool" where
  "wellPlaced known columns \<longleftrightarrow> placedOnce columns \<and>
     (\<forall>(i, c) \<in> set (enumerate 1 columns). length (lq_placements c) \<le> 5 \<and>
        (\<forall>(k, p) \<in> set (enumerate 0 (lq_placements c)).
           lp_row p = int k + 1 \<and> lp_col p = int i \<and> lp_pos p = int k \<and> lp_track p \<in> set known))"

lemma placeIds_spec:
  assumes "placeIds known col row placed ids = (ps, pl)" and "distinct placed" and "row \<le> 6"
  shows "pl = placed @ map lp_track ps \<and> distinct pl \<and> row + int (length ps) \<le> 6 \<and>
    (\<forall>(k, p) \<in> set (enumerate n ps). lp_row p = row + int (k - n) \<and> lp_col p = col \<and>
        lp_pos p = row + int (k - n) - 1 \<and> lp_track p \<in> set known)"
  using assms
proof (induction known col row placed ids arbitrary: ps pl n rule: placeIds.induct)
  case (2 known col row placed tid tids)
  show ?case
  proof (cases "5 < row \<or> tid \<notin> set known \<or> tid \<in> set placed")
    case True
    with 2(3) have q: "placeIds known col row placed tids = (ps, pl)" by simp
    from 2(1) [OF True q 2(4,5)] show ?thesis .
  next
    case False
    obtain qs ql where q: "placeIds known col (row + 1) (placed @ [tid]) tids = (qs, ql)" by fastforce
    with 2(3) False have ps: "ps = \<lparr>lp_row = row, lp_col = col, lp_track = tid, lp_pos = row - 1\<rparr> # qs" "pl = ql" by auto
    have "distinct (placed @ [tid])" "row + 1 \<le> 6" using 2(4) False by simp_all
    note rest = 2(2) [OF False q this, of "Suc n"]
    have IH: "ql = placed @ tid # map lp_track qs" "distinct ql" "row + 1 + int (length qs) \<le> 6"
      using rest by (simp, blast, simp)
    have IH4: "\<And>k p. (k, p) \<in> set (enumerate (Suc n) qs) \<Longrightarrow> lp_row p = row + 1 + int (k - Suc n) \<and> lp_col p = col \<and>
        lp_pos p = row + 1 + int (k - Suc n) - 1 \<and> lp_track p \<in> set known"
      using rest by blast
    have "lp_row p = row + int (k - n) \<and> lp_col p = col \<and> lp_pos p = row + int (k - n) - 1 \<and> lp_track p \<in> set known"
      if k: "(k, p) \<in> set (enumerate (Suc n) qs)" for k p
    proof -
      have "Suc n \<le> k" using k by (simp add: in_set_enumerate_eq)
      then have "int (k - n) = 1 + int (k - Suc n)" by simp
      with IH4 [OF k] show ?thesis by simp
    qed
    then have "\<forall>(k, p) \<in> set (enumerate (Suc n) qs). lp_row p = row + int (k - n) \<and> lp_col p = col \<and>
        lp_pos p = row + int (k - n) - 1 \<and> lp_track p \<in> set known" by blast
    moreover have "pl = placed @ map lp_track ps" "distinct pl" "row + int (length ps) \<le> 6"
      using IH(1-3) by (simp_all add: ps)
    ultimately show ?thesis using False by (simp add: ps)
  qed
qed simp

lemma buildColumns_spec:
  assumes "distinct placed"
  shows "distinct (placed @ map lp_track (concat (map lq_placements (buildColumns known (int n) placed cats)))) \<and>
    (\<forall>(i, c) \<in> set (enumerate n (buildColumns known (int n) placed cats)). length (lq_placements c) \<le> 5 \<and>
        (\<forall>(k, p) \<in> set (enumerate 0 (lq_placements c)).
           lp_row p = int k + 1 \<and> lp_col p = int i \<and> lp_pos p = int k \<and> lp_track p \<in> set known))"
  using assms
proof (induction cats arbitrary: n placed)
  case (Cons c cs)
  obtain ps pl where p: "placeIds known (int n) 1 placed (ac_TrackIDs c) = (ps, pl)" by fastforce
  have "(1::int) \<le> 6" by simp
  note spec = placeIds_spec [OF p Cons.prems this, of 0]
  have sp: "pl = placed @ map lp_track ps" "distinct pl" "length ps \<le> 5"
    using spec by (blast, blast, simp)
  have "\<forall>(k, q) \<in> set (enumerate 0 ps). lp_row q = int k + 1 \<and> lp_col q = int n \<and> lp_pos q = int k \<and> lp_track q \<in> set known"
    using spec by (simp add: add.commute)
  moreover from Cons.IH [OF sp(2), of "Suc n"] sp(1) have
    "distinct (placed @ map lp_track (ps @ concat (map lq_placements (buildColumns known (int (Suc n)) pl cs))))"
    by simp
  moreover note Cons.IH [OF sp(2), of "Suc n", THEN conjunct2]
  ultimately show ?case
    using sp(3) by (simp add: p add.commute)
qed simp

lemma proposal_wellPlaced: "wellPlaced known (buildColumns known 1 [] cats)"
  using buildColumns_spec [of "[]" known 1 cats] by (simp add: wellPlaced_def placedOnce_def)

lemma aiCols_bounds: "1 \<le> aiCols q \<and> aiCols q \<le> 8"
proof -
  have "atoiClampFrom n 1 8 ds \<le> 8" if "n \<le> 8" for n ds
    using that by (induction n "1::int" "8::int" ds rule: atoiClampFrom.induct) (auto simp: Let_def)
  then show ?thesis by (auto simp: aiCols_def atoiClamp_def Let_def)
qed

lemma buildColumns_length [simp]: "length (buildColumns known col placed cats) = length cats"
  by (induction known col placed cats rule: buildColumns.induct) (auto split: prod.splits)

lemma ListTracks_run:
  "run_state (ListTracks bid) d = (r, d') \<Longrightarrow> d_tab d' = d_tab d \<and>
     (\<forall>tracks. r = Inr tracks \<longrightarrow> map bt_id tracks =
        map bt_id (sort_key bt_created (filter (\<lambda>t. bt_board t = bid) (tb_tracks (d_tab d)))))"
  by (auto simp: ListTracks_def wrapped_def query_def stmt_def Let_def trackWith_def trackRow.defs split: if_splits sum.splits)

text \<open>
  C26: an AI build request, whatever the categorizer answers and whatever the connection does.
  Afterwards the tables are the old ones, or the layout of this board and nothing else has been
  replaced by at most eight columns that are well formed: known tracks, each at most once,
  at most five in a column and packed from the top. On 200 the replacement has happened.
\<close>

theorem ai_build_all_or_nothing:
  assumes "run_state (aiBuild v bid q) s = (r, s')"
  shows "let old = d_tab (ap_db s); new = d_tab (ap_db s');
             known = map bt_id (sort_key bt_created (filter (\<lambda>t. bt_board t = bid) (tb_tracks old)));
             rebuilt = (\<exists>columns. length columns \<le> 8 \<and> wellPlaced known columns \<and>
               new = replaceLayout (xe_now v) bid (int (length columns)) columns old)
         in (new = old \<or> rebuilt) \<and> ((\<exists>p. r = Json 200 p) \<longrightarrow> rebuilt)"
proof -
  let ?old = "d_tab (ap_db s)"
  let ?known = "map bt_id (sort_key bt_created (filter (\<lambda>t. bt_board t = bid) (tb_tracks ?old)))"
  let ?rebuilt = "\<exists>columns. length columns \<le> 8 \<and> wellPlaced ?known columns \<and>
     d_tab (ap_db s') = replaceLayout (xe_now v) bid (int (length columns)) columns ?old"
  have "d_tab (ap_db s') = ?old \<and> (\<forall>p. r \<noteq> Json 200 p) \<or> ?rebuilt"
  proof (cases "xe_ai v")
    case None
    with assms show ?thesis by (auto simp: aiBuild_def run_writes)
  next
    case (Some ai)
    obtain lr d where list: "run_state (ListTracks bid) (ap_db s) = (lr, d)" by fastforce
    note tracks = ListTracks_run [OF list]
    show ?thesis
    proof (cases "\<exists>tracks proposal. lr = Inr tracks \<and> tracks \<noteq> [] \<and>
        ai (map (\<lambda>t. (bt_id t, bt_artist t, bt_song t)) tracks) 5 (aiCols q) = Some proposal")
      case False
      with assms list tracks Some show ?thesis
        by (auto simp: aiBuild_def Let_def run_orFail run_writes split: sum.splits if_splits option.splits)
    next
      case True
      then obtain ts proposal where pr: "lr = Inr ts" "ts \<noteq> []"
        "ai (map (\<lambda>t. (bt_id t, bt_artist t, bt_song t)) ts) 5 (aiCols q) = Some proposal" by blast
      let ?cats = "take (nat (aiCols q)) proposal"
      let ?columns = "buildColumns ?known 1 [] ?cats"
      obtain rr d1 where rebuild: "run_state (RebuildLayout (xe_now v) bid (int (length ?cats)) ?columns) d = (rr, d1)"
        by fastforce
      have out: "ap_db s' = d1" "rr \<noteq> Inr () \<longrightarrow> (\<forall>p. r \<noteq> Json 200 p)"
        using assms list tracks Some pr rebuild
        by (auto simp: aiBuild_def Let_def run_orFail run_writes split: sum.splits)
      have "nat (aiCols q) \<le> 8" using aiCols_bounds [of q] by linarith
      then have "wellPlaced ?known ?columns" "length ?columns \<le> 8"
        using proposal_wellPlaced by (simp_all add: min.coboundedI2)
      moreover have "placedOnce ?columns" using calculation(1) by (simp add: wellPlaced_def)
      note run = rebuild_run [OF rebuild this, folded out(1), unfolded conjunct1 [OF tracks]]
      have "d_tab (ap_db s') = replaceLayout (xe_now v) bid (int (length ?cats)) ?columns ?old \<Longrightarrow> ?rebuilt"
        using calculation by (intro exI [of _ ?columns]) simp
      with run out(2) show ?thesis by blast
    qed
  qed
  then show ?thesis unfolding Let_def by blast
qed


text \<open>A categorizer that repeats a track, invents one and leaves a column empty.\<close>

definition demoAi :: apiEnv where
  "demoAi = demoEnv\<lparr>xe_ai := Some (\<lambda>ts rows cols. Some
     [\<lparr>ac_Name = ''X'', ac_TrackIDs = [''t2'', ''zz'', ''t1'', ''t2'']\<rparr>, \<lparr>ac_Name = ''Y'', ac_TrackIDs = [''t1'']\<rparr>])\<rparr>"

lemma building: "fst (run_state (aiBuild demoAi ''b'' '''') demoApi) =
    Json 200 (PCounts [(''categories'', 2), (''placed'', 2), (''total'', 2)])"
  by code_simp

theorem ai_build_all_or_nothing_witness:
  "\<exists>columns. length columns \<le> 8 \<and> wellPlaced [''t1'', ''t2''] columns \<and>
     d_tab (ap_db (snd (run_state (aiBuild demoAi ''b'' '''') demoApi))) =
       replaceLayout 1000 ''b'' (int (length columns)) columns demoTables"
proof -
  have known: "map bt_id (sort_key bt_created (filter (\<lambda>t. bt_board t = ''b'') (tb_tracks demoTables))) = [''t1'', ''t2'']"
    by code_simp
  have now: "xe_now demoAi = 1000" by (simp add: demoAi_def demoEnv_def)
  have "run_state (aiBuild demoAi ''b'' '''') demoApi = (Json 200 (PCounts [(''categories'', 2), (''placed'', 2),
      (''total'', 2)]), snd (run_state (aiBuild demoAi ''b'' '''') demoApi))"
    unfolding building [symmetric] by simp
  from ai_build_all_or_nothing [OF this] show ?thesis
    unfolding Let_def demo_tables known now by blast
qed

definition demoColumns :: "layoutColumn list" where
  "demoColumns = [\<lparr>lq_category = ''X'', lq_placements =
      [\<lparr>lp_row = 1, lp_col = 1, lp_track = ''t2'', lp_pos = 0\<rparr>]\<rparr>]"


end
