(* ===== verification/Attach_Rules.thy ===== *)
theory Attach_Rules
  imports Layout_Rules Engine_Props
begin

section \<open>Loading a board into the engine\<close>

text \<open>
  The loader against a description of the board that reads the tables cell by cell, and the
  board the engine holds after an attach against the one that was loaded.
\<close>

subsection \<open>The layout of a board, read off the tables\<close>

definition cellPlaces :: "tables \<Rightarrow> string \<Rightarrow> int \<Rightarrow> int \<Rightarrow> placeRow list" where
  "cellPlaces t bid row col =
     sort_key pl_pos (filter (\<lambda>p. pl_board p = bid \<and> pl_row p = row \<and> pl_col p = col) (tb_places t))"

text \<open>A placement whose track exists, as the engine sees it.\<close>

definition placedTrack :: "tables \<Rightarrow> placeRow \<Rightarrow> track option" where
  "placedTrack t p = map_option (\<lambda>(r, status). gameTrack p r status) (placeJoin t p)"

definition layoutTracks :: "tables \<Rightarrow> string \<Rightarrow> int \<Rightarrow> int \<Rightarrow> track list" where
  "layoutTracks t bid row col = List.map_filter (placedTrack t) (cellPlaces t bid row col)"

definition layoutCellAt :: "tables \<Rightarrow> string \<Rightarrow> int \<Rightarrow> int \<Rightarrow> gameCell" where
  "layoutCellAt t bid row col =
     (case find (sameCell bid row col) (tb_cells t) of
        None \<Rightarrow> \<lparr>gc_row = row, gc_col = col, gc_category = '''', gc_dd = False, gc_tracks = []\<rparr>
      | Some c \<Rightarrow> \<lparr>gc_row = row, gc_col = col, gc_category = lc_category c, gc_dd = lc_dd c,
                 gc_tracks = layoutTracks t bid row col\<rparr>)"

definition boardCellRows :: "tables \<Rightarrow> string \<Rightarrow> cellRow list" where
  "boardCellRows t bid = filter (\<lambda>c. lc_board c = bid) (tb_cells t)"

definition layoutBoard :: "tables \<Rightarrow> string \<Rightarrow> gameBoard" where
  "layoutBoard t bid =
     (let rows = Max (lc_row ` set (boardCellRows t bid)); cols = Max (lc_col ` set (boardCellRows t bid))
      in \<lparr>gb_rows = rows, gb_cols = cols,
          gb_cells = map (\<lambda>r. map (layoutCellAt t bid r) [1..cols]) [1..rows],
          gb_ddCount = (case find (\<lambda>r. br_id r = bid) (tb_boards t) of None \<Rightarrow> 0 | Some b \<Rightarrow> br_ddCount b),
          gb_bucket = map bucketTrack (sort_key dr_created (filter (\<lambda>r. dr_board r = bid) (tb_dd t)))\<rparr>)"

subsection \<open>The scan of the joined rows\<close>

abbreviation keyOf :: "cellRow \<Rightarrow> coord" where
  "keyOf c \<equiv> (lc_row c, lc_col c)"

definition scannedCell :: "tables \<Rightarrow> cellRow \<Rightarrow> gameCell" where
  "scannedCell t c = \<lparr>gc_row = lc_row c, gc_col = lc_col c, gc_category = lc_category c, gc_dd = lc_dd c,
     gc_tracks = layoutTracks t (lc_board c) (lc_row c) (lc_col c)\<rparr>"

lemma scan_places:
  assumes "map_of acc (keyOf c) = Some cl"
  shows "map_of (fold scanBoardRow (map (\<lambda>p. (c, Some (p, placeJoin t p))) ps) acc) =
    (map_of acc)(keyOf c \<mapsto> cl\<lparr>gc_tracks := gc_tracks cl @ List.map_filter (placedTrack t) ps\<rparr>)"
  using assms
proof (induction ps arbitrary: acc cl)
  case Nil
  then show ?case by (auto simp: List.map_filter_def)
next
  case (Cons p ps)
  let ?cl = "cl\<lparr>gc_tracks := gc_tracks cl @ List.map_filter (placedTrack t) [p]\<rparr>"
  have "scanBoardRow (c, Some (p, placeJoin t p)) acc = AList.update (keyOf c) ?cl acc"
    using Cons.prems by (auto simp: scanBoardRow_def Let_def placedTrack_def List.map_filter_def split: option.split)
  with Cons.IH [of "AList.update (keyOf c) ?cl acc" ?cl] show ?case
    by (auto simp: update_conv' List.map_filter_def split: option.splits)
qed

lemma scan_cell:
  assumes "map_of acc (keyOf c) = None"
  shows "map_of (fold scanBoardRow (cellJoin t c) acc) = (map_of acc)(keyOf c \<mapsto> scannedCell t c)"
proof -
  let ?ps = "cellPlaces t (lc_board c) (lc_row c) (lc_col c)"
  let ?c0 = "\<lparr>gc_row = lc_row c, gc_col = lc_col c, gc_category = lc_category c, gc_dd = lc_dd c, gc_tracks = []\<rparr>"
  show ?thesis
  proof (cases ?ps)
    case Nil
    then have "cellJoin t c = [(c, None)]" by (simp add: cellJoin_def cellPlaces_def)
    with assms Nil show ?thesis
      by (simp add: scanBoardRow_def Let_def update_conv' scannedCell_def layoutTracks_def List.map_filter_def)
  next
    case (Cons p ps)
    then have join: "cellJoin t c = map (\<lambda>p. (c, Some (p, placeJoin t p))) (p # ps)"
      by (simp add: cellJoin_def cellPlaces_def Let_def)
    let ?cl = "?c0\<lparr>gc_tracks := List.map_filter (placedTrack t) [p]\<rparr>"
    have "scanBoardRow (c, Some (p, placeJoin t p)) acc = AList.update (keyOf c) ?cl acc"
      using assms by (auto simp: scanBoardRow_def Let_def placedTrack_def List.map_filter_def split: option.split)
    with scan_places [of "AList.update (keyOf c) ?cl acc" c ?cl t ps] Cons show ?thesis
      by (auto simp: join update_conv' scannedCell_def layoutTracks_def List.map_filter_def split: option.splits)
  qed
qed

lemma find_hit: "find P xs = Some x \<Longrightarrow> P x \<and> x \<in> set xs"
  by (auto simp: find_Some_iff)

lemma scan_cells:
  assumes "distinct (map keyOf cs)" and "\<forall>c \<in> set cs. map_of acc (keyOf c) = None"
  shows "map_of (fold scanBoardRow (concat (map (cellJoin t) cs)) acc) (r, c) =
    (case find (\<lambda>x. keyOf x = (r, c)) cs of None \<Rightarrow> map_of acc (r, c) | Some x \<Rightarrow> Some (scannedCell t x))"
  using assms
proof (induction cs arbitrary: acc)
  case (Cons x cs)
  have "map_of (fold scanBoardRow (cellJoin t x) acc) = (map_of acc)(keyOf x \<mapsto> scannedCell t x)"
    using Cons.prems by (intro scan_cell) simp
  moreover have "\<forall>y \<in> set cs. keyOf y \<noteq> keyOf x" using Cons.prems(1) by (auto simp: image_iff)
  ultimately show ?case
    using Cons.prems Cons.IH [of "fold scanBoardRow (cellJoin t x) acc"]
    by (auto split: option.split dest: find_hit simp: find_None_iff)
qed simp


subsection \<open>The loader computes the layout\<close>

lemma maxOf_Max: "xs \<noteq> [] \<Longrightarrow> \<forall>x \<in> set xs. 0 \<le> x \<Longrightarrow> maxOf xs = Max (set xs)"
proof -
  have "(\<lambda>x m. if m < x then x else m) = (max :: int \<Rightarrow> int \<Rightarrow> int)" by (auto simp: fun_eq_iff max_def)
  then have "maxOf xs = Max (set (0 # xs))" unfolding Max.set_eq_fold by (simp add: maxOf_def)
  moreover assume "xs \<noteq> []" "\<forall>x \<in> set xs. 0 \<le> x"
  then have "0 \<le> Max (set xs)" by (meson List.finite_set Max_in set_empty)
  ultimately show ?thesis using \<open>xs \<noteq> []\<close> by simp
qed

lemma cellJoin_fst: "fst ` set (cellJoin t c) = {c}"
  by (simp add: cellJoin_def Let_def image_image image_constant_conv del: set_sort)

lemma rows_fst: "fst ` set (layoutRows k1 k2 bid t) = set (boardCellRows t bid)"
  by (simp add: layoutRows_def boardCellRows_def image_UN cellJoin_fst)

lemma find_sameCell:
  assumes "keyed cellKeyOf (tb_cells t)"
  shows "find (\<lambda>x. keyOf x = (r, c)) (sort_key k1 (sort_key k2 (boardCellRows t bid))) =
    find (sameCell bid r c) (tb_cells t)"
proof (cases "find (sameCell bid r c) (tb_cells t)")
  case None
  then have "find (\<lambda>x. keyOf x = (r, c)) (sort_key k1 (sort_key k2 (boardCellRows t bid))) = None"
    by (auto simp: find_None_iff sameCell_def boardCellRows_def)
  with None show ?thesis by simp
next
  case (Some x)
  then have x: "x \<in> set (tb_cells t)" "lc_board x = bid" "keyOf x = (r, c)"
    by (auto dest: find_hit simp: sameCell_def)
  have uniq: "y = x" if "y \<in> set (tb_cells t)" "lc_board y = bid" "keyOf y = (r, c)" for y
    using assms that x by (auto simp: keyed_def distinct_map cellKeyOf_def inj_on_def)
  obtain y where "find (\<lambda>x. keyOf x = (r, c)) (sort_key k1 (sort_key k2 (boardCellRows t bid))) = Some y"
    using x by (cases "find (\<lambda>x. keyOf x = (r, c)) (sort_key k1 (sort_key k2 (boardCellRows t bid)))")
      (auto simp: find_None_iff boardCellRows_def)
  with uniq [of y] Some show ?thesis by (auto dest!: find_hit simp: boardCellRows_def)
qed

lemma grid_of_rows:
  assumes "tables_ok t" and "boardCellRows t bid \<noteq> []"
  shows "(newGridFromCells (fold scanBoardRow (layoutRows lc_row lc_col bid t) [])
       (maxOf (map (\<lambda>r. lc_row (fst r)) (layoutRows lc_row lc_col bid t)))
       (maxOf (map (\<lambda>r. lc_col (fst r)) (layoutRows lc_row lc_col bid t))))
     \<lparr>gb_ddCount := (case find (\<lambda>r. br_id r = bid) (tb_boards t) of None \<Rightarrow> 0 | Some b \<Rightarrow> br_ddCount b),
      gb_bucket := map bucketTrack (sort_key dr_created (filter (\<lambda>r. dr_board r = bid) (tb_dd t)))\<rparr> =
     layoutBoard t bid"
proof -
  let ?rows = "layoutRows lc_row lc_col bid t"
  let ?cs = "sort_key lc_row (sort_key lc_col (boardCellRows t bid))"
  have cells: "cellsOk (br_id ` set (tb_boards t)) (tb_cells t)" using assms(1) by (simp add: tables_ok_def)
  have dist: "distinct (map keyOf ?cs)"
    using cells by (auto simp: cellsOk_def keyed_def distinct_map boardCellRows_def cellKeyOf_def inj_on_def)
  have at: "(case map_of (fold scanBoardRow ?rows []) (r, c) of Some x \<Rightarrow> x
      | None \<Rightarrow> \<lparr>gc_row = r, gc_col = c, gc_category = '''', gc_dd = False, gc_tracks = []\<rparr>) = layoutCellAt t bid r c" for r c
  proof -
    have "map_of (fold scanBoardRow ?rows []) (r, c) = map_option (scannedCell t) (find (sameCell bid r c) (tb_cells t))"
      using scan_cells [OF dist, of "[]" t r c] find_sameCell [of t r c lc_row lc_col bid] cells
      by (cases "find (sameCell bid r c) (tb_cells t)")
        (simp_all add: layoutRows_def boardCellRows_def [symmetric] cellsOk_def)
    moreover have "scannedCell t x = layoutCellAt t bid r c" if f: "find (sameCell bid r c) (tb_cells t) = Some x" for x
      using find_hit [OF f] by (simp add: layoutCellAt_def f scannedCell_def sameCell_def)
    ultimately show ?thesis
      by (cases "find (sameCell bid r c) (tb_cells t)") (simp_all add: layoutCellAt_def)
  qed
  have pos: "\<forall>x \<in> set (boardCellRows t bid). 0 \<le> lc_row x \<and> 0 \<le> lc_col x"
    using cells by (auto simp: cellsOk_def boardCellRows_def colsOk_def)
  have ne: "?rows \<noteq> []" using assms(2) rows_fst [of lc_row lc_col bid t] by auto
  have mx: "maxOf (map (\<lambda>r. f (fst r)) ?rows) = Max (f ` set (boardCellRows t bid))"
    if "\<forall>x \<in> set (boardCellRows t bid). 0 \<le> f x" for f :: "cellRow \<Rightarrow> int"
  proof -
    have "set (map (\<lambda>r. f (fst r)) ?rows) = f ` set (boardCellRows t bid)"
      unfolding rows_fst [of lc_row lc_col bid t, symmetric] by (simp add: image_image)
    moreover from this that have "\<forall>x \<in> set (map (\<lambda>r. f (fst r)) ?rows). 0 \<le> x" by auto
    ultimately show ?thesis using maxOf_Max [of "map (\<lambda>r. f (fst r)) ?rows"] ne by simp
  qed
  have "maxOf (map (\<lambda>r. lc_row (fst r)) ?rows) = Max (lc_row ` set (boardCellRows t bid))"
    "maxOf (map (\<lambda>r. lc_col (fst r)) ?rows) = Max (lc_col ` set (boardCellRows t bid))"
    using mx [of lc_row] mx [of lc_col] pos by blast+
  then show ?thesis by (simp only: newGridFromCells_def layoutBoard_def Let_def at gameBoard.simps)
qed


lemma loaded_board:
  assumes "run_state (LoadBoardByID bid) d = (Inr gb, d')" and "tables_ok (d_tab d)"
  shows "gb = layoutBoard (d_tab d) bid \<and> d_tab d' = d_tab d \<and> boardCellRows (d_tab d) bid \<noteq> []"
proof -
  let ?rows = "layoutRows lc_row lc_col bid (d_tab d)"
  from assms(1) obtain d1 d2 d3 rows cnt bucket where
      1: "run_state (query (layoutRows lc_row lc_col bid)) d = (Inr rows, d1)"
      and ne: "fold scanBoardRow rows [] \<noteq> []"
      and 2: "run_state (rowOrNil ''store: load board-by-id daily double count''
                (queryRow (\<lambda>t. map_option br_ddCount (find (\<lambda>r. br_id r = bid) (tb_boards t))))) d1 = (Inr cnt, d2)"
      and 3: "run_state (query (\<lambda>t.
                map bucketTrack (sort_key dr_created (filter (\<lambda>r. dr_board r = bid) (tb_dd t))))) d2 = (Inr bucket, d3)"
      and gb: "gb = (newGridFromCells (fold scanBoardRow rows [])
          (maxOf (map (\<lambda>r. lc_row (fst r)) rows)) (maxOf (map (\<lambda>r. lc_col (fst r)) rows)))\<lparr>
                gb_ddCount := (case cnt of None \<Rightarrow> 0 | Some n \<Rightarrow> n), gb_bucket := bucket\<rparr>" and d': "d' = d3"
    unfolding LoadBoardByID_def Let_def
    by (auto elim!: run_andThen_Inr dest!: run_wrapped_Inr split: if_splits)
  have r: "rows = ?rows" "d_tab d1 = d_tab d" using run_query_Inr [OF 1] by auto
  have c: "cnt = map_option br_ddCount (find (\<lambda>r. br_id r = bid) (tb_boards (d_tab d)))" "d_tab d2 = d_tab d"
    using run_rowOrNil_Inr [OF 2] r(2) by auto
  have b: "bucket = map bucketTrack (sort_key dr_created (filter (\<lambda>r. dr_board r = bid) (tb_dd (d_tab d))))"
    "d_tab d3 = d_tab d"
    using run_query_Inr [OF 3] c(2) by auto
  have cells: "boardCellRows (d_tab d) bid \<noteq> []"
    using ne rows_fst [of lc_row lc_col bid "d_tab d"] unfolding r by (cases ?rows) auto
  have "(case cnt of None \<Rightarrow> 0 | Some n \<Rightarrow> n) =
      (case find (\<lambda>r. br_id r = bid) (tb_boards (d_tab d)) of None \<Rightarrow> 0 | Some x \<Rightarrow> br_ddCount x)"
    unfolding c(1) by (simp split: option.split)
  with grid_of_rows [OF assms(2) cells] gb b cells show ?thesis
    unfolding r b(1) d' by simp
qed

subsection \<open>Reading a board back from the heap\<close>

definition readCell :: "heap \<Rightarrow> caddr \<Rightarrow> gameCell" where
  "readCell h a = \<lparr>gc_row = cRow (hCell h a), gc_col = cCol (hCell h a), gc_category = cCategory (hCell h a),
     gc_dd = cDailyDouble (hCell h a), gc_tracks = map (hTrack h) (cTracks (hCell h a))\<rparr>"

definition readBoard :: "heap \<Rightarrow> board \<Rightarrow> gameBoard" where
  "readBoard h b = \<lparr>gb_rows = bRows b, gb_cols = bCols b, gb_cells = map (map (\<lambda>a. readCell h (the a))) (bCells b),
     gb_ddCount = bDailyDoubleCount b, gb_bucket = map (hTrack h) (bDDBucket b)\<rparr>"

text \<open>Allocation keeps every object that was there.\<close>

definition grows :: "heap \<Rightarrow> heap \<Rightarrow> bool" where
  "grows h h' \<longleftrightarrow> nextT h \<le> nextT h' \<and> nextC h \<le> nextC h' \<and>
     (\<forall>a < nextT h. hTrack h' a = hTrack h a) \<and> (\<forall>c < nextC h. hCell h' c = hCell h c)"

definition cellIn :: "heap \<Rightarrow> caddr \<Rightarrow> bool" where
  "cellIn h c \<longleftrightarrow> c < nextC h \<and> (\<forall>t \<in> set (cTracks (hCell h c)). t < nextT h)"

lemma grows_refl [simp]: "grows h h"
  by (simp add: grows_def)

lemma grows_trans: "grows h h1 \<Longrightarrow> grows h1 h2 \<Longrightarrow> grows h h2"
  by (auto simp: grows_def)

lemma grows_cell: "grows h h' \<Longrightarrow> cellIn h c \<Longrightarrow> cellIn h' c \<and> readCell h' c = readCell h c"
  by (auto simp: grows_def cellIn_def readCell_def)

lemma grows_tracks: "grows h h' \<Longrightarrow> \<forall>t \<in> set ts. t < nextT h \<Longrightarrow> map (hTrack h') ts = map (hTrack h) ts"
  by (simp add: grows_def)

lemma allocTracks_spec:
  "allocTracks ts h = (as, h') \<Longrightarrow>
     grows h h' \<and> map (hTrack h') as = ts \<and> (\<forall>a \<in> set as. nextT h \<le> a \<and> a < nextT h') \<and>
     hCell h' = hCell h \<and> nextC h' = nextC h"
proof (induction ts arbitrary: h as h')
  case (Cons t ts)
  obtain bs h2 where rest: "allocTracks ts (h\<lparr>hTrack := (hTrack h)(nextT h := t), nextT := nextT h + 1\<rparr>) = (bs, h2)"
    by fastforce
  with Cons.prems have "as = nextT h # bs" "h' = h2" by (auto simp: allocTrack_def)
  with Cons.IH [OF rest] show ?case by (auto simp: grows_def)
qed simp

lemma allocCell_spec:
  assumes "allocCell c h = (a, h')"
  shows "grows h h' \<and> cellIn h' a \<and> readCell h' a = c"
proof -
  obtain ts h1 where ts: "allocTracks (gc_tracks c) h = (ts, h1)" by fastforce
  from allocTracks_spec [OF ts] assms show ?thesis
    by (auto simp: allocCell_def ts grows_def cellIn_def readCell_def)
qed

lemma allocRow_spec:
  "allocRow cs h = (as, h') \<Longrightarrow>
     grows h h' \<and> (\<forall>a \<in> set as. a \<noteq> None \<and> cellIn h' (the a)) \<and> map (\<lambda>a. readCell h' (the a)) as = cs"
proof (induction cs arbitrary: h as h')
  case (Cons c cs)
  obtain a h1 where c: "allocCell c h = (a, h1)" by fastforce
  obtain bs h2 where r: "allocRow cs h1 = (bs, h2)" by fastforce
  have "as = Some a # bs" "h' = h2" using Cons.prems c r by auto
  with allocCell_spec [OF c] Cons.IH [OF r] grows_cell [of h1 h2 a] show ?case by (auto intro: grows_trans)
qed simp

lemma allocRows_spec:
  "allocRows rs h = (as, h') \<Longrightarrow>
     grows h h' \<and> (\<forall>row \<in> set as. \<forall>a \<in> set row. a \<noteq> None \<and> cellIn h' (the a)) \<and>
     map (map (\<lambda>a. readCell h' (the a))) as = rs"
proof (induction rs arbitrary: h as h')
  case (Cons r rs)
  obtain a h1 where c: "allocRow r h = (a, h1)" by fastforce
  obtain bs h2 where rest: "allocRows rs h1 = (bs, h2)" by fastforce
  have "as = a # bs" "h' = h2" using Cons.prems c rest by auto
  moreover have "\<forall>x \<in> set a. x \<noteq> None \<and> cellIn h2 (the x) \<and> readCell h2 (the x) = readCell h1 (the x)"
    using allocRow_spec [OF c] Cons.IH [OF rest] grows_cell by blast
  ultimately show ?case
    using allocRow_spec [OF c] Cons.IH [OF rest] by (auto intro: grows_trans)
qed simp

lemma allocBoard_spec:
  assumes "allocBoard gb h = (b, h')"
  shows "grows h h' \<and> readBoard h' b = gb \<and> (\<forall>row \<in> set (bCells b). None \<notin> set row)"
proof -
  obtain cs h1 where cs: "allocRows (gb_cells gb) h = (cs, h1)" by fastforce
  obtain dd h2 where dd: "allocTracks (gb_bucket gb) h1 = (dd, h2)" by fastforce
  have b: "b = \<lparr>bRows = gb_rows gb, bCols = gb_cols gb, bCells = cs, bDailyDoubleCount = gb_ddCount gb,
          bDDBucket = dd\<rparr>" "h' = h2"
    using assms cs dd by (auto simp: allocBoard_def)
  have g: "grows h h1" "grows h1 h2" using allocRows_spec [OF cs] allocTracks_spec [OF dd] by auto
  have "map (map (\<lambda>a. readCell h2 (the a))) cs = map (map (\<lambda>a. readCell h1 (the a))) cs"
    by (intro map_cong refl) (use allocRows_spec [OF cs] grows_cell [OF g(2)] in blast)
  with allocRows_spec [OF cs] allocTracks_spec [OF dd] g show ?thesis
    by (auto simp: b readBoard_def intro: grows_trans)
qed


lemma broadcastBoard_board:
  "e_board (broadcastBoard e) = e_board e \<and> e_heap (broadcastBoard e) = e_heap e"
  by (simp add: broadcastBoard_def emit_def)

lemma reloadBoard_holds:
  "\<exists>b. e_board (reloadBoard gb e) = Some b \<and> readBoard (e_heap (reloadBoard gb e)) b = gb \<and>
     grows (e_heap e) (e_heap (reloadBoard gb e))"
proof -
  obtain b h where al: "allocBoard gb (e_heap e) = (b, h)" by fastforce
  with allocBoard_spec [OF al] show ?thesis
    by (simp add: reloadBoard_def ReloadBoard_def snapshotDDBucket_def broadcastBoard_board)
qed

subsection \<open>Attaching a board\<close>

lemma attach_effect:
  assumes "attachSession sid bid t = Inr ((), t')" and "x \<in> set (tb_sessions t')" and "gs_id x = sid"
  shows "gs_board x = Some bid"
proof -
  have "t' = t\<lparr>tb_sessions := updWhere (\<lambda>r. gs_id r = sid) (\<lambda>r. r\<lparr>gs_board := Some bid\<rparr>) (tb_sessions t)\<rparr>"
    using assms(1) by (simp add: attachSession_def split: if_splits)
  then obtain y where y: "x = (if gs_id y = sid then y\<lparr>gs_board := Some bid\<rparr> else y)"
    using assms(2) by (auto elim: updWhereE)
  show ?thesis
  proof (cases "gs_id y = sid")
    case False
    with y assms(3) show ?thesis by simp
  qed (simp add: y)
qed

text \<open>
  C24: after a successful attach the engine plays the stored layout. The board it holds, read
  through its heap, is the layout of the tables: every cell with its category and with the
  tracks placed there in order of position, played and playable as stored, the Daily Double
  count and bucket. The session now points to this board, and no object that was on the heap
  has changed, so a track that is playing goes on. A refused or failed attach leaves the engine
  as it was.
\<close>

theorem attach_loads_layout:
  assumes "run_state (attachBoard bid b) s = (r, s')" and "tables_ok (d_tab (ap_db s))"
  shows "(r = Json 200 (PStatus ''attached'') \<longrightarrow>
       (\<exists>bd sid. b = Body sid \<and> e_board (ap_engine s') = Some bd \<and>
          readBoard (e_heap (ap_engine s')) bd = layoutBoard (d_tab (ap_db s)) bid \<and>
          grows (e_heap (ap_engine s)) (e_heap (ap_engine s')) \<and>
          (\<forall>x \<in> set (tb_sessions (d_tab (ap_db s'))). gs_id x = sid \<longrightarrow> gs_board x = Some bid))) \<and>
     (r \<noteq> Json 200 (PStatus ''attached'') \<longrightarrow> ap_engine s' = ap_engine s)"
proof (cases "\<exists>sid. b = Body sid \<and> sid \<noteq> ''''")
  case False
  with assms(1) show ?thesis by (auto simp: attachBoard_def run_writes split: body.splits)
next
  case True
  then obtain sid where sid: "b = Body sid" "sid \<noteq> ''''" by blast
  obtain lr d where load: "run_state (LoadBoardByID bid) (ap_db s) = (lr, d)" by fastforce
  obtain ar d1 where att: "run_state (AttachBoard sid bid) d = (ar, d1)" by fastforce
  show ?thesis
  proof (cases "\<exists>gb. lr = Inr gb \<and> ar = Inr ()")
    case False
    with assms(1) sid load att show ?thesis
      by (auto simp: attachBoard_def run_orFail split: sum.splits)
  next
    case True
    then obtain gb where ok: "lr = Inr gb" "ar = Inr ()" by blast
    have gb: "gb = layoutBoard (d_tab (ap_db s)) bid" using loaded_board load ok(1) assms(2) by blast
    have e: "r = Json 200 (PStatus ''attached'')" "ap_engine s' = reloadBoard gb (ap_engine s)" "ap_db s' = d1"
      using assms(1) sid load att ok
      by (auto simp: attachBoard_def run_orFail onEngine_def run_writes)
    have "attachSession sid bid (d_tab d) = Inr ((), d_tab d1)"
      using att ok(2) unfolding AttachBoard_def by (auto dest!: run_wrapped_Inr run_stmt_Inr)
    then have "\<forall>x \<in> set (tb_sessions (d_tab d1)). gs_id x = sid \<longrightarrow> gs_board x = Some bid"
      using attach_effect by blast
    with reloadBoard_holds [of gb "ap_engine s"] e sid(1) gb show ?thesis by auto
  qed
qed


theorem attach_loads_layout_witness:
  "\<exists>bd. e_board (ap_engine (snd (run_state (attachBoard ''b'' (Body ''g'')) demoApi))) = Some bd \<and>
     readBoard (e_heap (ap_engine (snd (run_state (attachBoard ''b'' (Body ''g'')) demoApi)))) bd =
       layoutBoard demoTables ''b''"
proof -
  have "\<not> isl (fst (run_state (LoadBoardByID ''b'') (ap_db demoApi)))" by code_simp
  then obtain gb d where load: "run_state (LoadBoardByID ''b'') (ap_db demoApi) = (Inr gb, d)"
    by (metis isl_def obj_sumE prod.collapse)
  have "fst (run_state (AttachBoard ''g'' ''b'') (snd (run_state (LoadBoardByID ''b'') (ap_db demoApi)))) = Inr ()"
    by code_simp
  then obtain d1 where "run_state (AttachBoard ''g'' ''b'') d = (Inr (), d1)"
    using load by (metis prod.collapse snd_conv)
  with load have st: "fst (run_state (attachBoard ''b'' (Body ''g'')) demoApi) = Json 200 (PStatus ''attached'')"
    by (simp add: attachBoard_def run_orFail onEngine_def run_writes)
  have "run_state (attachBoard ''b'' (Body ''g'')) demoApi =
      (Json 200 (PStatus ''attached''), snd (run_state (attachBoard ''b'' (Body ''g'')) demoApi))"
    unfolding st [symmetric] by simp
  from attach_loads_layout [OF this] demo_ok show ?thesis unfolding demo_tables by blast
qed

subsection \<open>A restart\<close>

lemma map_filter_in: "x \<in> set (List.map_filter f xs) \<longleftrightarrow> (\<exists>y \<in> set xs. f y = Some x)"
  by (induction xs) (auto simp: List.map_filter_def split: option.splits)

lemma placedTrack_Some: "placedTrack t p = Some x \<Longrightarrow> tID x = pl_track p \<and> tPlayed x = pl_played p"
  by (auto simp: placedTrack_def placeJoin_def gameTrack_def Let_def dest!: find_hit)

lemma placed_track:
  assumes "x \<in> set (layoutTracks t bid row col)"
  obtains p where "p \<in> set (tb_places t)" "pl_board p = bid" "pl_track p = tID x" "pl_played p = tPlayed x"
  using assms
  by (auto simp: layoutTracks_def map_filter_in cellPlaces_def dest!: placedTrack_Some)

lemma layoutBoard_tracks:
  assumes "cs \<in> set (gb_cells (layoutBoard t bid))" and "c \<in> set cs" and "x \<in> set (gc_tracks c)"
  obtains row col where "x \<in> set (layoutTracks t bid row col)"
  using assms by (auto simp: layoutBoard_def Let_def layoutCellAt_def split: option.splits)

lemma run_LoadBoard_Inr:
  assumes "run_state (LoadBoard sid) d = (Inr gb, d')"
  obtains bid d1 where "sessionBoard sid (d_tab d) = Some bid" "d_tab d1 = d_tab d"
    "run_state (LoadBoardByID bid) d1 = (Inr gb, d')"
  using assms unfolding LoadBoard_def
  by (fastforce elim!: run_andThen_Inr dest!: run_rowOrNil_Inr simp: sessionBoard_def
      split: option.splits if_splits)

text \<open>
  What has been played stays played across a restart. After \<open>MarkTrackPlayed\<close> for a track
  of the session's board, the board that \<open>LoadBoard\<close> builds from the tables has exactly these
  tracks played: this one, and those that were marked before.
\<close>

theorem played_survives_restart:
  assumes "run_state (MarkTrackPlayed sid tid) d = (Inr (), d1)" and "tables_ok (d_tab d)"
    and "run_state (LoadBoard sid) d1 = (Inr gb, d2)"
  shows "\<forall>cs \<in> set (gb_cells gb). \<forall>c \<in> set cs. \<forall>x \<in> set (gc_tracks c).
     tPlayed x \<longleftrightarrow> tID x = tid \<or> (\<exists>p \<in> set (tb_places (d_tab d)).
       Some (pl_board p) = sessionBoard sid (d_tab d) \<and> pl_track p = tID x \<and> pl_played p)"
proof (intro ballI)
  fix cs c x
  assume cs: "cs \<in> set (gb_cells gb)" and c: "c \<in> set cs" and x: "x \<in> set (gc_tracks c)"
  let ?mine = "\<lambda>p. Some (pl_board p) = sessionBoard sid (d_tab d) \<and> pl_track p = tid"
  have upd: "updatePlayed ?mine True (d_tab d) = Inr ((), d_tab d1)"
    using assms(1) unfolding MarkTrackPlayed_def by (auto dest!: run_wrapped_Inr run_stmt_Inr)
  then have t1: "d_tab d1 = (d_tab d)\<lparr>tb_places := updWhere ?mine (\<lambda>r. r\<lparr>pl_played := True\<rparr>) (tb_places (d_tab d))\<rparr>"
    by (simp add: updatePlayed_def)
  have ok: "tables_ok (d_tab d1)"
    using ok_updatePlayed [of "\<lambda>_. ?mine" True] upd assms(2) by (auto simp: sqlR_def okR_def)
  obtain bid d3 where sb: "sessionBoard sid (d_tab d1) = Some bid" and d3: "d_tab d3 = d_tab d1"
      and load: "run_state (LoadBoardByID bid) d3 = (Inr gb, d2)"
    by (rule run_LoadBoard_Inr [OF assms(3)])
  have bid: "sessionBoard sid (d_tab d) = Some bid" using sb by (simp add: t1 sessionBoard_def)
  have "gb = layoutBoard (d_tab d1) bid" using loaded_board [OF load] ok d3 by simp
  with cs c x obtain row col where "x \<in> set (layoutTracks (d_tab d1) bid row col)"
    using layoutBoard_tracks by metis
  then obtain p where p: "p \<in> set (tb_places (d_tab d1))" "pl_board p = bid" "pl_track p = tID x" "pl_played p = tPlayed x"
    by (rule placed_track)
  have "tb_places (d_tab d1) = map (\<lambda>q. if ?mine q then q\<lparr>pl_played := True\<rparr> else q) (tb_places (d_tab d))"
    by (simp add: t1 updWhere_def)
  with p(1) obtain q where q0: "q \<in> set (tb_places (d_tab d))" and pq: "p = (if ?mine q then q\<lparr>pl_played := True\<rparr> else q)"
    by auto
  have q: "q \<in> set (tb_places (d_tab d))" "pl_board q = bid" "pl_track q = tID x"
      and played: "tPlayed x = (tID x = tid \<or> pl_played q)"
    using q0 p(2-4) unfolding pq bid by (simp_all split: if_splits)
  have "q' = q" if "q' \<in> set (tb_places (d_tab d))" "pl_board q' = bid" "pl_track q' = tID x" for q'
  proof -
    have "inj_on (\<lambda>r. (pl_board r, pl_track r)) (set (tb_places (d_tab d)))"
      using assms(2) by (simp add: tables_ok_def placesOk_def keyed_def distinct_map)
    moreover have "(pl_board q', pl_track q') = (pl_board q, pl_track q)" using that(2,3) q(2,3) by simp
    ultimately show ?thesis using that(1) q(1) by (rule inj_onD)
  qed
  with q played show "tPlayed x \<longleftrightarrow> tID x = tid \<or> (\<exists>p \<in> set (tb_places (d_tab d)).
       Some (pl_board p) = sessionBoard sid (d_tab d) \<and> pl_track p = tID x \<and> pl_played p)"
    unfolding bid by blast
qed


definition markedDb :: db where
  "markedDb = snd (run_state (MarkTrackPlayed ''g'' ''t2'') (ap_db demoApi))"

definition reloadedBoard :: "storeErr + gameBoard" where
  "reloadedBoard = fst (run_state (LoadBoard ''g'') markedDb)"

theorem played_survives_restart_witness:
  "\<exists>gb. reloadedBoard = Inr gb \<and> (\<forall>cs \<in> set (gb_cells gb). \<forall>c \<in> set cs. \<forall>x \<in> set (gc_tracks c).
     tPlayed x \<longleftrightarrow> tID x = ''t2'' \<or> tID x = ''t1'')"
proof -
  have st: "fst (run_state (MarkTrackPlayed ''g'' ''t2'') (ap_db demoApi)) = Inr ()" by code_simp
  have 1: "run_state (MarkTrackPlayed ''g'' ''t2'') (ap_db demoApi) = (Inr (), markedDb)"
    unfolding st [symmetric] markedDb_def by simp
  have "\<not> isl reloadedBoard" by code_simp
  then obtain gb where gb: "reloadedBoard = Inr gb" by (metis isl_def obj_sumE)
  then have 2: "run_state (LoadBoard ''g'') markedDb = (Inr gb, snd (run_state (LoadBoard ''g'') markedDb))"
    unfolding reloadedBoard_def by (metis prod.collapse)
  have ok: "tables_ok (d_tab (ap_db demoApi))" by (simp add: demo_tables demo_ok)
  have t1: "(\<exists>p \<in> set (tb_places demoTables). Some (pl_board p) = sessionBoard ''g'' demoTables \<and>
      pl_track p = i \<and> pl_played p) \<longleftrightarrow> i = ''t1''" for i
    by (auto simp: demoTables_def emptyTables_def sessionBoard_def)
  from played_survives_restart [OF 1 ok 2] gb show ?thesis unfolding demo_tables t1 by blast
qed

end
