(* ===== verification/Http.thy ===== *)
theory Http
  imports Admin_Api "HOL-Library.List_Lexorder" "HOL-Library.Char_ord"
begin

section \<open>Outgoing HTTP requests: what the clients use of net/http, net/url and encoding/json\<close>

text \<open>
  The Spotify, LRCLIB and Gemini clients build requests and send them through an injected
  \<open>HTTPClient\<close>. A request is its method, its URL, its headers and its body. \<open>net k r\<close> is
  what the k-th \<open>Do\<close> returns for request \<open>r\<close>: an error of the transport, or a response. The
  client states extend \<open>web\<close>, which logs the requests sent and counts the readings of the
  clock, so that every call may be answered differently. The escaping of query parameters,
  of a path segment and of JSON strings is written out, with a reader of query strings to
  state that nothing can be smuggled into a request.
\<close>

subsection \<open>Requests and responses\<close>

record httpReq =
  rq_method :: string
  rq_url :: string
  rq_headers :: "(string \<times> string) list"
  rq_body :: "string option"

text \<open>
  \<open>rs_body\<close> is what can be read of the body before it ends or before the error \<open>rs_readErr\<close>.
\<close>

record httpResp =
  rs_status :: int
  rs_retryAfter :: string
  rs_body :: string
  rs_readErr :: "string option"

type_synonym net = "nat \<Rightarrow> httpReq \<Rightarrow> string + httpResp"

record web =
  wb_sent :: "httpReq list"
  wb_clock :: nat

definition doRequest :: "net \<Rightarrow> httpReq \<Rightarrow> ('a web_scheme, string + httpResp) state" where
  "doRequest net r = State (\<lambda>s. (net (length (wb_sent s)) r, s\<lparr>wb_sent := wb_sent s @ [r]\<rparr>))"

definition readClock :: "(nat \<Rightarrow> int) \<Rightarrow> ('a web_scheme, int) state" where
  "readClock now = State (\<lambda>s. (now (wb_clock s), s\<lparr>wb_clock := wb_clock s + 1\<rparr>))"

definition readField :: "('s \<Rightarrow> 'b) \<Rightarrow> ('s, 'b) state" where
  "readField f = State (\<lambda>s. (f s, s))"

definition writeFields :: "('s \<Rightarrow> 's) \<Rightarrow> ('s, unit) state" where
  "writeFields f = State (\<lambda>s. ((), f s))"

text \<open>\<open>return fmt.Errorf("...: %w", err)\<close>\<close>

definition wrapErr :: "string \<Rightarrow> ('s, string + 'b) state \<Rightarrow> ('s, string + 'b) state" where
  "wrapErr msg m = m \<bind> (\<lambda>r. ret (case r of Inl e \<Rightarrow> Inl (msg @ e) | Inr a \<Rightarrow> Inr a))"

text \<open>\<open>io.ReadAll(resp.Body)\<close>, and the same through \<open>io.LimitReader\<close>.\<close>

definition readAll :: "httpResp \<Rightarrow> string + string" where
  "readAll r = (case rs_readErr r of None \<Rightarrow> Inr (rs_body r) | Some e \<Rightarrow> Inl e)"

definition readLimited :: "nat \<Rightarrow> httpResp \<Rightarrow> string + string" where
  "readLimited n r =
     (if n \<le> length (rs_body r) then Inr (take n (rs_body r)) else readAll r)"

subsection \<open>net/url\<close>

definition unreserved :: "char \<Rightarrow> bool" where
  "unreserved c \<longleftrightarrow> isAlnum c \<or> c \<in> {CHR ''-'', CHR ''_'', CHR ''.'', CHR ''~''}"

definition upperHex :: "nat \<Rightarrow> char" where
  "upperHex d = char_of (if d < 10 then 48 + d else 55 + d)"

definition percentByte :: "char \<Rightarrow> string" where
  "percentByte c = [CHR ''%'', upperHex (byte c div 16), upperHex (byte c mod 16)]"

definition queryChar :: "char \<Rightarrow> string" where
  "queryChar c = (if unreserved c then [c] else if byte c = 32 then ''+'' else percentByte c)"

definition queryEscape :: "string \<Rightarrow> string" where
  "queryEscape s = concat (map queryChar s)"

text \<open>In a path segment the reserved characters other than \<open>/\<close>, \<open>;\<close>, \<open>,\<close> and \<open>?\<close> stay.\<close>

definition pathChar :: "char \<Rightarrow> string" where
  "pathChar c = (if unreserved c \<or> c \<in> {CHR ''$'', CHR ''&'', CHR ''+'', CHR '':'', CHR ''='', CHR ''@''}
     then [c] else percentByte c)"

definition pathEscape :: "string \<Rightarrow> string" where
  "pathEscape s = concat (map pathChar s)"

text \<open>\<open>url.Values\<close>: the pairs in the order in which they were put in.\<close>

type_synonym url_values = "(string \<times> string) list"

definition valAdd :: "string \<Rightarrow> string \<Rightarrow> url_values \<Rightarrow> url_values" where
  "valAdd k v q = q @ [(k, v)]"

definition valSet :: "string \<Rightarrow> string \<Rightarrow> url_values \<Rightarrow> url_values" where
  "valSet k v q = filter (\<lambda>p. fst p \<noteq> k) q @ [(k, v)]"

fun joinWith :: "string \<Rightarrow> string list \<Rightarrow> string" where
  "joinWith sep [] = []"
| "joinWith sep [x] = x"
| "joinWith sep (x # y # ys) = x @ sep @ joinWith sep (y # ys)"

definition encodeValues :: "url_values \<Rightarrow> string" where
  "encodeValues q = joinWith ''&'' (map (\<lambda>(k, v). queryEscape k @ ''='' @ queryEscape v) (sort_key fst q))"

subsection \<open>Basic authentication\<close>

definition b64Digit :: "nat \<Rightarrow> char" where
  "b64Digit d = char_of (if d < 26 then 65 + d else if d < 52 then 71 + d else if d < 62 then d - 4
     else if d = 62 then 43 else (47 :: nat))"

fun base64 :: "nat list \<Rightarrow> string" where
  "base64 [] = []"
| "base64 [a] = [b64Digit (a div 4), b64Digit (16 * (a mod 4)), CHR ''='', CHR ''='']"
| "base64 [a, b] = [b64Digit (a div 4), b64Digit (16 * (a mod 4) + b div 16), b64Digit (4 * (b mod 16)), CHR ''='']"
| "base64 (a # b # c # bs) =
     [b64Digit (a div 4), b64Digit (16 * (a mod 4) + b div 16), b64Digit (4 * (b mod 16) + c div 64),
      b64Digit (c mod 64)] @ base64 bs"

definition basicAuth :: "string \<Rightarrow> string \<Rightarrow> string" where
  "basicAuth user password = ''Basic '' @ base64 (map byte (user @ '':'' @ password))"

subsection \<open>JSON strings as encoding/json writes them\<close>

definition jsonRune :: "nat \<Rightarrow> nat \<Rightarrow> string" where
  "jsonRune r w =
     (let bs = CHR 0x5C
      in if w = 1 \<and> r = runeError then [bs, CHR ''u''] @ hexDigits 4 r
         else if r = 0x22 \<or> r = 0x5C then [bs, char_of r]
         else if r = 8 then [bs, CHR ''b''] else if r = 12 then [bs, CHR ''f'']
         else if r = 10 then [bs, CHR ''n''] else if r = 13 then [bs, CHR ''r'']
         else if r = 9 then [bs, CHR ''t'']
         else if r < 0x20 \<or> r = 0x3C \<or> r = 0x3E \<or> r = 0x26 \<or> r = 0x2028 \<or> r = 0x2029
              then [bs, CHR ''u''] @ hexDigits 4 r
         else encodeRune r)"

function jsonBytes :: "nat list \<Rightarrow> string" where
  "jsonBytes bs =
     (if bs = [] then []
      else case decodeRune bs of (r, w) \<Rightarrow> jsonRune r w @ jsonBytes (drop w bs))"
  by pat_completeness auto
termination
proof (relation "measure length", goal_cases)
  case (2 bs x y)
  then show ?case using decodeRune_size_pos [of bs] by (cases "decodeRune bs") auto
qed simp

declare jsonBytes.simps [simp del]

definition jsonString :: "string \<Rightarrow> string" where
  "jsonString s = [CHR 0x22] @ jsonBytes (map byte s) @ [CHR 0x22]"


subsection \<open>Reading a query string back\<close>

text \<open>
  What a server does with a query string: it is split at \<open>&\<close>, each piece at its first \<open>=\<close>,
  and \<open>+\<close> and the percentByte sequences are undone.
\<close>

definition hexVal :: "char \<Rightarrow> nat" where
  "hexVal c = (if isDigit c then byte c - 48 else byte c - 55)"

fun unescape :: "string \<Rightarrow> string" where
  "unescape [] = []"
| "unescape (c # cs) =
     (if c = CHR ''%'' then
        (case cs of a # b # ds \<Rightarrow> char_of (16 * hexVal a + hexVal b) # unescape ds | _ \<Rightarrow> [])
      else if c = CHR ''+'' then CHR '' '' # unescape cs else c # unescape cs)"

fun splitOn :: "char \<Rightarrow> string \<Rightarrow> string list" where
  "splitOn d [] = [[]]"
| "splitOn d (c # cs) =
     (if c = d then [] # splitOn d cs else (case splitOn d cs of w # ws \<Rightarrow> (c # w) # ws | [] \<Rightarrow> [[c]]))"

definition readPair :: "string \<Rightarrow> string \<times> string" where
  "readPair s = (unescape (takeWhile (\<lambda>c. c \<noteq> CHR ''='') s), unescape (tl (dropWhile (\<lambda>c. c \<noteq> CHR ''='') s)))"

definition readQuery :: "string \<Rightarrow> url_values" where
  "readQuery s = (if s = [] then [] else map readPair (splitOn (CHR ''&'') s))"

definition plainChar :: "char \<Rightarrow> bool" where
  "plainChar c \<longleftrightarrow> unreserved c \<or> c = CHR ''+'' \<or> c = CHR ''%''"

lemma byte_less: "byte c < 256"
  by (simp add: byte_def)

lemma upperHex_alnum: "d < 16 \<Longrightarrow> isAlnum (upperHex d)"
  by (auto simp: upperHex_def isAlnum_def isDigit_def byte_def)

lemma hexVal_upperHex: "d < 16 \<Longrightarrow> hexVal (upperHex d) = d"
  by (auto simp: upperHex_def hexVal_def isDigit_def byte_def)

lemma unreserved_not: "unreserved c \<Longrightarrow> c \<noteq> CHR ''%'' \<and> c \<noteq> CHR ''+'' \<and> c \<noteq> CHR ''='' \<and> c \<noteq> CHR ''&''"
  by (auto simp: unreserved_def isAlnum_def isDigit_def byte_def)

lemma plainChar_not: "plainChar c \<Longrightarrow> c \<noteq> CHR ''='' \<and> c \<noteq> CHR ''&''"
  using unreserved_not by (auto simp: plainChar_def)

lemma byte_parts: "char_of (16 * (byte c div 16) + byte c mod 16) = c"
  by (simp add: byte_def)

lemma byte_32: "byte c = 32 \<Longrightarrow> c = CHR '' ''"
proof -
  assume "byte c = 32"
  then have "c = char_of (32::nat)" by (metis byte_def char_of_char)
  then show "c = CHR '' ''" by (simp add: char_of_def bit_0)
qed

lemma unescape_percent: "unescape (percentByte c @ cs) = c # unescape cs"
proof -
  have "byte c div 16 < 16" using byte_less [of c] by (simp add: less_mult_imp_div_less)
  then show ?thesis using byte_parts [of c] by (simp add: percentByte_def hexVal_upperHex)
qed

lemma unescape_queryChar: "unescape (queryChar c @ cs) = c # unescape cs"
  using unreserved_not [of c] byte_32 [of c] by (auto simp: queryChar_def unescape_percent)

lemma unescape_queryEscape: "unescape (queryEscape s) = s"
  by (induction s) (simp_all add: queryEscape_def unescape_queryChar)

lemma queryEscape_plain: "list_all plainChar (queryEscape s)"
proof (induction s)
  case (Cons c s)
  have "byte c div 16 < 16" using byte_less [of c] by (simp add: less_mult_imp_div_less)
  then have "list_all plainChar (queryChar c)"
    using upperHex_alnum [of "byte c div 16"] upperHex_alnum [of "byte c mod 16"]
    by (auto simp: queryChar_def percentByte_def plainChar_def unreserved_def)
  with Cons show ?case by (simp add: queryEscape_def)
qed (simp add: queryEscape_def)

lemma splitOn_plain: "d \<notin> set s \<Longrightarrow> splitOn d s = [s]"
  by (induction s) auto

lemma splitOn_append: "d \<notin> set s \<Longrightarrow> splitOn d (s @ d # t) = s # splitOn d t"
  by (induction s) auto

lemma splitOn_joinWith:
  "ws \<noteq> [] \<Longrightarrow> (\<And>w. w \<in> set ws \<Longrightarrow> d \<notin> set w) \<Longrightarrow> splitOn d (joinWith [d] ws) = ws"
  by (induction "[d]" ws rule: joinWith.induct) (simp_all add: splitOn_plain splitOn_append)

definition writePair :: "string \<times> string \<Rightarrow> string" where
  "writePair p = queryEscape (fst p) @ ''='' @ queryEscape (snd p)"

lemma readPair_writePair: "readPair (writePair p) = p"
proof -
  have "\<forall>c \<in> set (queryEscape (fst p)). c \<noteq> CHR ''=''"
    using queryEscape_plain [of "fst p"] plainChar_not by (auto simp: list_all_iff)
  then have "takeWhile (\<lambda>c. c \<noteq> CHR ''='') (writePair p) = queryEscape (fst p)"
    "dropWhile (\<lambda>c. c \<noteq> CHR ''='') (writePair p) = ''='' @ queryEscape (snd p)"
    by (simp_all add: writePair_def takeWhile_append2 dropWhile_append2)
  then show ?thesis by (simp add: readPair_def unescape_queryEscape)
qed

lemma readQuery_encodeValues: "readQuery (encodeValues q) = sort_key fst q"
proof (cases "q = []")
  case False
  have enc: "encodeValues q = joinWith [CHR ''&''] (map writePair (sort_key fst q))"
    by (simp add: encodeValues_def writePair_def [abs_def] split_def)
  have amp: "CHR ''&'' \<notin> set (writePair p)" for p
    using queryEscape_plain plainChar_not unfolding writePair_def list_all_iff by fastforce
  have ne: "map writePair (sort_key fst q) \<noteq> []" using False by (metis map_is_Nil_conv set_empty set_sort)
  have split: "splitOn (CHR ''&'') (encodeValues q) = map writePair (sort_key fst q)"
    unfolding enc by (rule splitOn_joinWith [OF ne]) (use amp in auto)
  then have "encodeValues q \<noteq> []"
    using amp by (cases "sort_key fst q") (auto simp: writePair_def)
  with split show ?thesis by (simp add: readQuery_def readPair_writePair o_def)
qed (simp add: encodeValues_def readQuery_def)

end
