(* ===== verification/Spotify.thy ===== *)
theory Spotify
  imports Http
begin

section \<open>The Spotify client: server/internal/spotify\<close>

text \<open>
  The OAuth client behind the game's audio device and the Board Builder's search: the tokens
  and the device (\<open>spotifyClient\<close>), the token grants, the refresh that all callers share, the
  player commands with one retry after a 401, search, and the paginated playlist import. A
  method is a program on the client's state; its value is the method's error text or result.
  \<open>spotifyEnv\<close> holds the configuration, the clock (nanoseconds; \<open>sx_now k\<close> is reading \<open>k\<close>),
  the injected HTTP client, and what encoding/json makes of the three kinds of response body.
  The URLs are constants followed by escaped text, so building a request does not fail.
  How calls of different goroutines interleave is in Spotify\_Rules.
\<close>

subsection \<open>Configuration, state, wire types\<close>

record tokenResponse =
  tk_AccessToken :: string
  tk_RefreshToken :: string
  tk_ExpiresIn :: int

record searchTrackItem =
  st_URI :: string
  st_Name :: string
  st_DurationMs :: int
  st_Artists :: "string list"
  st_Images :: "string list"
  st_ReleaseDate :: string

record playlistPage =
  pg_Items :: "searchTrackItem list"
  pg_Next :: string

record searchResult =
  se_URI :: string
  se_Artist :: string
  se_Song :: string
  se_AlbumArt :: string
  se_DurationMs :: int
  se_Year :: int
  se_Genre :: string

record spotifyEnv =
  sx_clientID :: string
  sx_clientSecret :: string
  sx_redirectURI :: string
  sx_now :: "nat \<Rightarrow> int"
  sx_net :: net
  sx_token :: "string \<Rightarrow> string + tokenResponse"
  sx_search :: "string \<Rightarrow> string + searchTrackItem list"
  sx_page :: "string \<Rightarrow> string + playlistPage"

record spotifyClient = web +
  sp_accessToken :: string
  sp_refreshToken :: string
  sp_expiresAt :: int
  sp_deviceID :: string

type_synonym 'a spotify = "(spotifyClient, string + 'a) state"

definition authorizeURL :: string where "authorizeURL = ''https://accounts.spotify.com/authorize''"
definition tokenURL :: string where "tokenURL = ''https://accounts.spotify.com/api/token''"
definition apiBase :: string where "apiBase = ''https://api.spotify.com/v1''"

definition scopes :: "string list" where
  "scopes = [''streaming'', ''user-read-email'', ''user-read-private'', ''user-read-playback-state'',
     ''user-modify-playback-state'', ''user-read-currently-playing'', ''playlist-read-private'',
     ''playlist-read-collaborative'']"

definition second :: int where "second = 1000000000"

definition skew :: int where "skew = 120 * second"

text \<open>The zero \<open>time.Time\<close> lies before every reading of a clock.\<close>

definition zeroTime :: int where "zeroTime = - 62135596800 * second"

definition newSpotify :: spotifyClient where
  "newSpotify = \<lparr>wb_sent = [], wb_clock = 0, sp_accessToken = '''', sp_refreshToken = '''',
     sp_expiresAt = zeroTime, sp_deviceID = ''''\<rparr>"

definition RefreshToken :: "spotifyClient \<Rightarrow> string" where
  "RefreshToken c = sp_refreshToken c"

definition RestoreRefreshToken :: "string \<Rightarrow> spotifyClient \<Rightarrow> spotifyClient" where
  "RestoreRefreshToken rt c = (if rt = '''' then c else c\<lparr>sp_refreshToken := rt\<rparr>)"

definition SetDevice :: "string \<Rightarrow> spotifyClient \<Rightarrow> spotifyClient" where
  "SetDevice d c = c\<lparr>sp_deviceID := d\<rparr>"

definition authValues :: "spotifyEnv \<Rightarrow> string \<Rightarrow> url_values" where
  "authValues v st = valSet ''show_dialog'' ''true'' (valSet ''state'' st (valSet ''scope'' (joinWith '' '' scopes)
     (valSet ''redirect_uri'' (sx_redirectURI v) (valSet ''response_type'' ''code''
     (valSet ''client_id'' (sx_clientID v) [])))))"

definition AuthURL :: "spotifyEnv \<Rightarrow> string \<Rightarrow> string" where
  "AuthURL v st = authorizeURL @ ''?'' @ encodeValues (authValues v st)"

subsection \<open>Token grants\<close>

definition tokenRequest :: "spotifyEnv \<Rightarrow> url_values \<Rightarrow> httpReq" where
  "tokenRequest v form = \<lparr>rq_method = ''POST'', rq_url = tokenURL,
     rq_headers = [(''Content-Type'', ''application/x-www-form-urlencoded''),
       (''Authorization'', basicAuth (sx_clientID v) (sx_clientSecret v))],
     rq_body = Some (encodeValues form)\<rparr>"

definition tokenAnswer :: "spotifyEnv \<Rightarrow> string + httpResp \<Rightarrow> string + tokenResponse" where
  "tokenAnswer v r = (case r of
     Inl e \<Rightarrow> Inl (''request: '' @ e)
   | Inr resp \<Rightarrow> (case readAll resp of
       Inl e \<Rightarrow> Inl (''read body: '' @ e)
     | Inr body \<Rightarrow>
         if rs_status resp \<noteq> 200 then
           Inl (''token endpoint status '' @ itoa (rs_status resp) @ '': '' @ trimSpace body)
         else (case sx_token v body of
             Inl e \<Rightarrow> Inl (''decode token: '' @ e)
           | Inr tok \<Rightarrow>
               if tk_AccessToken tok = '''' then Inl ''token endpoint returned no access_token'' else Inr tok)))"

definition postToken :: "spotifyEnv \<Rightarrow> url_values \<Rightarrow> tokenResponse spotify" where
  "postToken v form = doRequest (sx_net v) (tokenRequest v form) \<bind> (\<lambda>r. ret (tokenAnswer v r))"

definition expiryFrom :: "int \<Rightarrow> int \<Rightarrow> int" where
  "expiryFrom now expiresIn = now + wrap64 ((if expiresIn \<le> 0 then 3600 else expiresIn) * second)"

definition ExchangeToken :: "spotifyEnv \<Rightarrow> string \<Rightarrow> string spotify" where
  "ExchangeToken v code =
     andThen (wrapErr ''spotify: exchange code: '' (postToken v
       (valSet ''redirect_uri'' (sx_redirectURI v) (valSet ''code'' code (valSet ''grant_type'' ''authorization_code'' [])))))
     (\<lambda>tok. do {
        now \<leftarrow> readClock (sx_now v);
        writeFields (\<lambda>c. c\<lparr>sp_accessToken := tk_AccessToken tok, sp_refreshToken := tk_RefreshToken tok,
          sp_expiresAt := expiryFrom now (tk_ExpiresIn tok)\<rparr>);
        ret (Inr (tk_AccessToken tok))
      })"

definition Exchange :: "spotifyEnv \<Rightarrow> string \<Rightarrow> unit spotify" where
  "Exchange v code = andThen (ExchangeToken v code) (\<lambda>_. ret (Inr ()))"

subsection \<open>Refresh\<close>

text \<open>
  What \<open>refresh\<close> decides under \<open>refreshMu\<close>, from one reading of the fields (and of the clock,
  when it is not forced): reuse the token at hand, give up, or post a grant with the refresh
  token read.
\<close>

datatype refreshChoice = Reuse | NoRefreshToken | PostGrant string

definition refreshPlan :: "bool \<Rightarrow> string \<Rightarrow> int \<Rightarrow> spotifyClient \<Rightarrow> refreshChoice" where
  "refreshPlan force failedToken now c =
     (let cur = sp_accessToken c in
      if force \<and> cur \<noteq> '''' \<and> cur \<noteq> failedToken then Reuse
      else if \<not> force \<and> cur \<noteq> '''' \<and> now < sp_expiresAt c - skew then Reuse
      else if sp_refreshToken c = '''' then NoRefreshToken
      else PostGrant (sp_refreshToken c))"

definition refreshForm :: "string \<Rightarrow> url_values" where
  "refreshForm rt = valSet ''refresh_token'' rt (valSet ''grant_type'' ''refresh_token'' [])"

definition storeGrant :: "tokenResponse \<Rightarrow> int \<Rightarrow> spotifyClient \<Rightarrow> spotifyClient" where
  "storeGrant tok now c = c\<lparr>sp_accessToken := tk_AccessToken tok,
     sp_refreshToken := (if tk_RefreshToken tok \<noteq> '''' then tk_RefreshToken tok else sp_refreshToken c),
     sp_expiresAt := expiryFrom now (tk_ExpiresIn tok)\<rparr>"

definition refresh :: "spotifyEnv \<Rightarrow> bool \<Rightarrow> string \<Rightarrow> unit spotify" where
  "refresh v force failedToken = do {
     c \<leftarrow> readField id;
     now \<leftarrow> (if \<not> force \<and> sp_accessToken c \<noteq> '''' then readClock (sx_now v) else ret 0);
     (case refreshPlan force failedToken now c of
        Reuse \<Rightarrow> ret (Inr ())
      | NoRefreshToken \<Rightarrow> ret (Inl ''spotify: no refresh token; re-authenticate'')
      | PostGrant rt \<Rightarrow>
          andThen (wrapErr ''spotify: refresh token: '' (postToken v (refreshForm rt)))
            (\<lambda>tok. do {
               now \<leftarrow> readClock (sx_now v);
               writeFields (storeGrant tok now);
               ret (Inr ())
             }))
   }"

definition ValidToken :: "spotifyEnv \<Rightarrow> string spotify" where
  "ValidToken v = do {
     c \<leftarrow> readField id;
     let tok = sp_accessToken c;
     live \<leftarrow> (if tok \<noteq> '''' then readClock (sx_now v) \<bind> (\<lambda>now. ret (now < sp_expiresAt c - skew)) else ret False);
     if live then ret (Inr tok)
     else if sp_refreshToken c = '''' then do {
       unexpired \<leftarrow> (if tok \<noteq> '''' then readClock (sx_now v) \<bind> (\<lambda>now. ret (\<not> sp_expiresAt c < now)) else ret False);
       ret (if unexpired then Inr tok
            else if tok \<noteq> '''' then Inl ''spotify: token expired, re-auth required''
            else Inl ''spotify: not authenticated'')
     }
     else andThen (refresh v False '''') (\<lambda>_. readField sp_accessToken \<bind> (\<lambda>t. ret (Inr t)))
   }"

subsection \<open>One retry after a 401\<close>

text \<open>
  The block that \<open>playerCommand\<close>, \<open>Search\<close> and \<open>GetPlaylistTracks\<close> share: the request, and
  after a 401 a forced refresh and the request again.
\<close>

definition retry401 :: "spotifyEnv \<Rightarrow> string \<Rightarrow> httpResp spotify \<Rightarrow> httpResp spotify" where
  "retry401 v lbl send =
     andThen (wrapErr (lbl @ '': '') send) (\<lambda>resp.
       if rs_status resp = 401 then do {
         failed \<leftarrow> readField sp_accessToken;
         andThen (wrapErr (lbl @ '': '') (refresh v True failed))
           (\<lambda>_. wrapErr (lbl @ '' (after refresh): '') send)
       }
       else ret (Inr resp))"

definition notAuthenticated :: string where "notAuthenticated = ''not authenticated with Spotify''"

definition bearerHeader :: "string \<Rightarrow> string \<times> string" where
  "bearerHeader token = (''Authorization'', ''Bearer '' @ token)"

subsection \<open>Player commands\<close>

definition playerRequest :: "string \<Rightarrow> string \<Rightarrow> string \<Rightarrow> string option \<Rightarrow> url_values \<Rightarrow> httpReq" where
  "playerRequest token device action body extra =
     (let q = fold (\<lambda>(k, x). valAdd k x) extra [];
          q = (if device \<noteq> '''' then valSet ''device_id'' device q else q);
          endpoint = apiBase @ ''/me/player/'' @ action @ (if q \<noteq> [] then ''?'' @ encodeValues q else '''')
      in \<lparr>rq_method = ''PUT'', rq_url = endpoint,
          rq_headers = bearerHeader token # (if body \<noteq> None then [(''Content-Type'', ''application/json'')] else []),
          rq_body = body\<rparr>)"

definition doPlayer :: "spotifyEnv \<Rightarrow> string \<Rightarrow> string option \<Rightarrow> url_values \<Rightarrow> httpResp spotify" where
  "doPlayer v action body extra = do {
     c \<leftarrow> readField id;
     if sp_accessToken c = '''' then ret (Inl notAuthenticated)
     else doRequest (sx_net v) (playerRequest (sp_accessToken c) (sp_deviceID c) action body extra)
   }"

definition playerCommand :: "spotifyEnv \<Rightarrow> string \<Rightarrow> string option \<Rightarrow> url_values \<Rightarrow> unit spotify" where
  "playerCommand v action body extra =
     andThen (retry401 v (''spotify: '' @ action) (doPlayer v action body extra)) (\<lambda>resp.
       ret (if rs_status resp \<noteq> 204 \<and> rs_status resp \<noteq> 200 \<and> rs_status resp \<noteq> 202 then
              Inl (''spotify: '' @ action @ '': unexpected status '' @ itoa (rs_status resp) @ '': '' @
                trimSpace (rs_body resp))
            else Inr ()))"

definition playBody :: "string \<Rightarrow> int \<Rightarrow> string" where
  "playBody trackURI positionMs =
     ''{'' @ jsonString ''position_ms'' @ '':'' @ itoa positionMs @ '','' @
     jsonString ''uris'' @ '':['' @ jsonString trackURI @ '']}''"

definition Play :: "spotifyEnv \<Rightarrow> string \<Rightarrow> int \<Rightarrow> unit spotify" where
  "Play v trackURI positionMs = playerCommand v ''play'' (Some (playBody trackURI positionMs)) []"

definition Pause :: "spotifyEnv \<Rightarrow> unit spotify" where
  "Pause v = playerCommand v ''pause'' None []"

definition Resume :: "spotifyEnv \<Rightarrow> unit spotify" where
  "Resume v = playerCommand v ''play'' None []"

definition SetVolume :: "spotifyEnv \<Rightarrow> int \<Rightarrow> unit spotify" where
  "SetVolume v percent = playerCommand v ''volume'' None
     (valSet ''volume_percent'' (itoa (if percent < 0 then 0 else if 100 < percent then 100 else percent)) [])"

subsection \<open>Search\<close>

definition yearFromReleaseDate :: "string \<Rightarrow> int" where
  "yearFromReleaseDate rd =
     (if length rd < 4 then 0 else case Atoi (take 4 rd) of None \<Rightarrow> 0 | Some y \<Rightarrow> y)"

definition firstOr :: "string list \<Rightarrow> string" where
  "firstOr xs = (case xs of [] \<Rightarrow> '''' | x # _ \<Rightarrow> x)"

definition resultOf :: "searchTrackItem \<Rightarrow> searchResult" where
  "resultOf i = \<lparr>se_URI = st_URI i, se_Artist = firstOr (st_Artists i), se_Song = st_Name i,
     se_AlbumArt = firstOr (st_Images i), se_DurationMs = st_DurationMs i,
     se_Year = yearFromReleaseDate (st_ReleaseDate i), se_Genre = ''''\<rparr>"

definition getRequest :: "string \<Rightarrow> string \<Rightarrow> httpReq" where
  "getRequest token endpoint = \<lparr>rq_method = ''GET'', rq_url = endpoint, rq_headers = [bearerHeader token], rq_body = None\<rparr>"

definition searchURL :: "string \<Rightarrow> int \<Rightarrow> string" where
  "searchURL q limit = apiBase @ ''/search?'' @
     encodeValues (valSet ''limit'' (itoa limit) (valSet ''type'' ''track'' (valSet ''q'' q [])))"

definition doGet :: "spotifyEnv \<Rightarrow> string \<Rightarrow> httpResp spotify" where
  "doGet v endpoint = do {
     token \<leftarrow> readField sp_accessToken;
     if token = '''' then ret (Inl notAuthenticated)
     else doRequest (sx_net v) (getRequest token endpoint)
   }"

definition doSearch :: "spotifyEnv \<Rightarrow> string \<Rightarrow> int \<Rightarrow> httpResp spotify" where
  "doSearch v q limit = doGet v (searchURL q limit)"

text \<open>The checks on a response whose body is decoded.\<close>

definition decodeOK :: "string \<Rightarrow> (string \<Rightarrow> string + 'a) \<Rightarrow> httpResp \<Rightarrow> string + 'a" where
  "decodeOK lbl decode resp =
     (if rs_status resp \<noteq> 200 then
        Inl (lbl @ '': status '' @ itoa (rs_status resp) @ '': '' @ trimSpace (rs_body resp))
      else case readAll resp of
          Inl e \<Rightarrow> Inl (lbl @ '': read body: '' @ e)
        | Inr body \<Rightarrow> (case decode body of Inl e \<Rightarrow> Inl (lbl @ '': decode: '' @ e) | Inr a \<Rightarrow> Inr a))"

definition Search :: "spotifyEnv \<Rightarrow> string \<Rightarrow> int \<Rightarrow> searchResult list spotify" where
  "Search v q limit =
     (let limit = (if limit < 1 then 10 else limit);
          limit = (if 50 < limit then 50 else limit)
      in andThen (retry401 v ''spotify: search'' (doSearch v q limit)) (\<lambda>resp.
           ret (map_sum id (map resultOf) (decodeOK ''spotify: search'' (sx_search v) resp))))"

subsection \<open>Playlist import\<close>

definition playlistURL :: "string \<Rightarrow> int \<Rightarrow> int \<Rightarrow> string" where
  "playlistURL pid offset limit = apiBase @ ''/playlists/'' @ pathEscape pid @ ''/items?'' @
     encodeValues (valSet ''market'' ''from_token''
       (valSet ''fields'' ''items(item(uri,name,duration_ms,artists(name),album(images(url),release_date))),next''
       (valSet ''limit'' (itoa limit) (valSet ''offset'' (itoa offset) []))))"

definition doPlaylistFetch :: "spotifyEnv \<Rightarrow> string \<Rightarrow> int \<Rightarrow> int \<Rightarrow> httpResp spotify" where
  "doPlaylistFetch v pid offset limit = doGet v (playlistURL pid offset limit)"

definition playlistLimit :: int where "playlistLimit = 100"

definition fetchPage :: "spotifyEnv \<Rightarrow> string \<Rightarrow> int \<Rightarrow> playlistPage spotify" where
  "fetchPage v pid offset =
     andThen (retry401 v ''spotify: playlist'' (doPlaylistFetch v pid offset playlistLimit)) (\<lambda>resp.
       ret (decodeOK ''spotify: playlist'' (sx_page v) resp))"

definition pageResults :: "playlistPage \<Rightarrow> searchResult list" where
  "pageResults p = map resultOf (filter (\<lambda>i. st_URI i \<noteq> '''') (pg_Items p))"

text \<open>The loop over the pages has no bound; a run that never ends has the value \<open>None\<close>.\<close>

partial_function (option) playlistLoop ::
  "spotifyEnv \<Rightarrow> string \<Rightarrow> int \<Rightarrow> searchResult list \<Rightarrow> spotifyClient \<Rightarrow>
     ((string + searchResult list) \<times> spotifyClient) option" where
  "playlistLoop v pid offset all s =
     (case run_state (fetchPage v pid offset) s of
        (Inl e, s1) \<Rightarrow> Some (Inl e, s1)
      | (Inr page, s1) \<Rightarrow>
          let all = all @ pageResults page
          in if pg_Next page = '''' then Some (Inr all, s1)
             else playlistLoop v pid (offset + playlistLimit) all s1)"

definition GetPlaylistTracks :: "spotifyEnv \<Rightarrow> string \<Rightarrow> spotifyClient \<Rightarrow>
     ((string + searchResult list) \<times> spotifyClient) option" where
  "GetPlaylistTracks v pid s =
     (case run_state (wrapErr ''spotify: playlist: '' (ValidToken v)) s of
        (Inl e, s1) \<Rightarrow> Some (Inl e, s1)
      | (Inr _, s1) \<Rightarrow> playlistLoop v pid 0 [] s1)"

subsection \<open>The adapter of the admin package (spotify\_adapter.go)\<close>

definition adaptResult :: "searchResult \<Rightarrow> spotifyResult" where
  "adaptResult r = \<lparr>sr_URI = se_URI r, sr_Artist = se_Artist r, sr_Song = se_Song r, sr_AlbumArt = se_AlbumArt r,
     sr_DurationMs = se_DurationMs r, sr_Year = se_Year r, sr_Genre = se_Genre r\<rparr>"

definition adapter_Search :: "spotifyEnv \<Rightarrow> string \<Rightarrow> int \<Rightarrow> spotifyResult list spotify" where
  "adapter_Search v q limit = andThen (Search v q limit) (\<lambda>rs. ret (Inr (map adaptResult rs)))"

definition adapter_GetPlaylistTracks :: "spotifyEnv \<Rightarrow> string \<Rightarrow> spotifyClient \<Rightarrow>
     ((string + spotifyResult list) \<times> spotifyClient) option" where
  "adapter_GetPlaylistTracks v pid s =
     map_option (map_prod (map_sum id (map adaptResult)) id) (GetPlaylistTracks v pid s)"

end
