(* ===== verification/Spotify_Flight.thy ===== *)
theory Spotify_Flight
  imports Spotify
begin

section \<open>Concurrent callers of the Spotify client\<close>

text \<open>
  The engine's goroutines, the admin API and the OAuth callback share one client. Its fields
  are read and written in short critical sections of \<open>mu\<close>, which are single steps here; a
  refresh holds \<open>refreshMu\<close> from its decision to its last write. Each caller is a thread with
  a phase; next to the client stands the authorization server, with the refresh token it
  honours and the access tokens it has minted. A grant for any other refresh token is
  refused; a grant may rotate the refresh token; every access token is new. Once granted, an
  answer is not lost on the way: that would cost the refresh token whatever the client does.
\<close>

subsection \<open>Threads, states and steps\<close>

datatype phase =
    Idle
  | Sent string
  | Waiting bool string
  | Posting string
  | Granted tokenResponse

record flight =
  fl_client :: spotifyClient
  fl_holder :: "nat option"
  fl_phase :: "nat \<Rightarrow> phase"
  fl_honoured :: string
  fl_minted :: "string list"

datatype flight_label =
    LSend nat
  | LAnswered nat
  | LUnauthorized nat
  | LExpiring nat
  | LReuse nat int
  | LPost nat int
  | LRefused nat
  | LGrant nat tokenResponse
  | LStore nat int
  | LDevice string
  | LExchange tokenResponse int

text \<open>
  A caller sends a request with the token of the moment (\<open>LSend\<close>) and is answered; after a 401
  it reads the token again, as \<open>failed\<close>, and asks for a forced refresh. \<open>LExpiring\<close> is
  \<open>ValidToken\<close> near the deadline. \<open>LReuse\<close> and \<open>LPost\<close> are the decision of \<open>refresh\<close> once it
  holds the lock, \<open>LGrant\<close> the server's answer, \<open>LStore\<close> the write that ends the refresh.
  \<open>LExchange\<close> is the callback's code exchange, which does not take the lock.
\<close>

inductive flightStep :: "flight_label \<Rightarrow> flight \<Rightarrow> flight \<Rightarrow> bool" where
  send: "\<lbrakk>fl_phase s t = Idle; sp_accessToken (fl_client s) \<noteq> ''''\<rbrakk> \<Longrightarrow>
    flightStep (LSend t) s (s\<lparr>fl_phase := (fl_phase s)(t := Sent (sp_accessToken (fl_client s)))\<rparr>)"
| answered: "fl_phase s t = Sent tok \<Longrightarrow>
    flightStep (LAnswered t) s (s\<lparr>fl_phase := (fl_phase s)(t := Idle)\<rparr>)"
| unauthorized: "fl_phase s t = Sent tok \<Longrightarrow>
    flightStep (LUnauthorized t) s
      (s\<lparr>fl_phase := (fl_phase s)(t := Waiting True (sp_accessToken (fl_client s)))\<rparr>)"
| expiring: "fl_phase s t = Idle \<Longrightarrow>
    flightStep (LExpiring t) s (s\<lparr>fl_phase := (fl_phase s)(t := Waiting False '''')\<rparr>)"
| reuse: "\<lbrakk>fl_phase s t = Waiting force failed; fl_holder s = None;
     refreshPlan force failed now (fl_client s) \<in> {Reuse, NoRefreshToken}\<rbrakk> \<Longrightarrow>
    flightStep (LReuse t now) s (s\<lparr>fl_phase := (fl_phase s)(t := Idle)\<rparr>)"
| post: "\<lbrakk>fl_phase s t = Waiting force failed; fl_holder s = None;
     refreshPlan force failed now (fl_client s) = PostGrant rt\<rbrakk> \<Longrightarrow>
    flightStep (LPost t now) s (s\<lparr>fl_phase := (fl_phase s)(t := Posting rt), fl_holder := Some t\<rparr>)"
| refused: "fl_phase s t = Posting rt \<Longrightarrow>
    flightStep (LRefused t) s (s\<lparr>fl_phase := (fl_phase s)(t := Idle), fl_holder := None\<rparr>)"
| grant: "\<lbrakk>fl_phase s t = Posting rt; rt = fl_honoured s; tk_AccessToken tok \<noteq> '''';
     tk_AccessToken tok \<notin> set (fl_minted s)\<rbrakk> \<Longrightarrow>
    flightStep (LGrant t tok) s (s\<lparr>fl_phase := (fl_phase s)(t := Granted tok),
      fl_honoured := (if tk_RefreshToken tok \<noteq> '''' then tk_RefreshToken tok else rt),
      fl_minted := tk_AccessToken tok # fl_minted s\<rparr>)"
| store: "fl_phase s t = Granted tok \<Longrightarrow>
    flightStep (LStore t now) s (s\<lparr>fl_phase := (fl_phase s)(t := Idle), fl_holder := None,
      fl_client := storeGrant tok now (fl_client s)\<rparr>)"
| device: "flightStep (LDevice d) s (s\<lparr>fl_client := SetDevice d (fl_client s)\<rparr>)"
| exchange: "\<lbrakk>tk_AccessToken tok \<noteq> ''''; tk_AccessToken tok \<notin> set (fl_minted s)\<rbrakk> \<Longrightarrow>
    flightStep (LExchange tok now) s (s\<lparr>fl_client := (fl_client s)\<lparr>sp_accessToken := tk_AccessToken tok,
        sp_refreshToken := tk_RefreshToken tok, sp_expiresAt := expiryFrom now (tk_ExpiresIn tok)\<rparr>,
      fl_honoured := tk_RefreshToken tok, fl_minted := tk_AccessToken tok # fl_minted s\<rparr>)"

inductive flightRun :: "flight_label list \<Rightarrow> flight \<Rightarrow> flight \<Rightarrow> bool" where
  done_run: "flightRun [] s s"
| more: "flightStep l s s1 \<Longrightarrow> flightRun ls s1 s2 \<Longrightarrow> flightRun (l # ls) s s2"

inductive_cases flightRunE: "flightRun (l # ls) s s'"
inductive_cases flightNilE: "flightRun [] s s'"

text \<open>The steps as a function, to run concrete schedules.\<close>

definition setPhase :: "nat \<Rightarrow> phase \<Rightarrow> flight \<Rightarrow> flight" where
  "setPhase t p s = s\<lparr>fl_phase := (fl_phase s)(t := p)\<rparr>"

primrec perform :: "flight_label \<Rightarrow> flight \<Rightarrow> flight option" where
  "perform (LSend t) s = (if fl_phase s t = Idle \<and> sp_accessToken (fl_client s) \<noteq> ''''
     then Some (setPhase t (Sent (sp_accessToken (fl_client s))) s) else None)"
| "perform (LAnswered t) s = (case fl_phase s t of Sent _ \<Rightarrow> Some (setPhase t Idle s) | _ \<Rightarrow> None)"
| "perform (LUnauthorized t) s =
     (case fl_phase s t of Sent _ \<Rightarrow> Some (setPhase t (Waiting True (sp_accessToken (fl_client s))) s) | _ \<Rightarrow> None)"
| "perform (LExpiring t) s = (if fl_phase s t = Idle then Some (setPhase t (Waiting False '''') s) else None)"
| "perform (LReuse t now) s =
     (case fl_phase s t of
        Waiting force failed \<Rightarrow>
          (if fl_holder s = None \<and> refreshPlan force failed now (fl_client s) \<in> {Reuse, NoRefreshToken}
           then Some (setPhase t Idle s) else None)
      | _ \<Rightarrow> None)"
| "perform (LPost t now) s =
     (case fl_phase s t of
        Waiting force failed \<Rightarrow>
          (case refreshPlan force failed now (fl_client s) of
             PostGrant rt \<Rightarrow>
               (if fl_holder s = None then Some ((setPhase t (Posting rt) s)\<lparr>fl_holder := Some t\<rparr>) else None)
           | _ \<Rightarrow> None)
      | _ \<Rightarrow> None)"
| "perform (LRefused t) s =
     (case fl_phase s t of Posting rt \<Rightarrow> Some ((setPhase t Idle s)\<lparr>fl_holder := None\<rparr>) | _ \<Rightarrow> None)"
| "perform (LGrant t tok) s =
     (case fl_phase s t of
        Posting rt \<Rightarrow>
          (if rt = fl_honoured s \<and> tk_AccessToken tok \<noteq> '''' \<and> tk_AccessToken tok \<notin> set (fl_minted s)
           then Some ((setPhase t (Granted tok) s)\<lparr>
             fl_honoured := (if tk_RefreshToken tok \<noteq> '''' then tk_RefreshToken tok else rt),
             fl_minted := tk_AccessToken tok # fl_minted s\<rparr>)
           else None)
      | _ \<Rightarrow> None)"
| "perform (LStore t now) s =
     (case fl_phase s t of
        Granted tok \<Rightarrow> Some ((setPhase t Idle s)\<lparr>fl_holder := None, fl_client := storeGrant tok now (fl_client s)\<rparr>)
      | _ \<Rightarrow> None)"
| "perform (LDevice d) s = Some (s\<lparr>fl_client := SetDevice d (fl_client s)\<rparr>)"
| "perform (LExchange tok now) s =
     (if tk_AccessToken tok \<noteq> '''' \<and> tk_AccessToken tok \<notin> set (fl_minted s)
      then Some (s\<lparr>fl_client := (fl_client s)\<lparr>sp_accessToken := tk_AccessToken tok,
          sp_refreshToken := tk_RefreshToken tok, sp_expiresAt := expiryFrom now (tk_ExpiresIn tok)\<rparr>,
        fl_honoured := tk_RefreshToken tok, fl_minted := tk_AccessToken tok # fl_minted s\<rparr>)
      else None)"

fun performs :: "flight_label list \<Rightarrow> flight \<Rightarrow> flight option" where
  "performs [] s = Some s"
| "performs (l # ls) s = (case perform l s of None \<Rightarrow> None | Some s1 \<Rightarrow> performs ls s1)"

lemma perform_step: "perform l s = Some s' \<Longrightarrow> flightStep l s s'"
proof (cases l)
  case (LGrant t tok)
  then show "perform l s = Some s' \<Longrightarrow> flightStep l s s'"
    using flightStep.grant [of s t "fl_honoured s" tok]
    by (auto simp: setPhase_def split: if_splits phase.splits)
qed (auto simp: setPhase_def split: if_splits phase.splits refreshChoice.splits intro!: flightStep.intros)

lemma performs_run: "performs ls s = Some s' \<Longrightarrow> flightRun ls s s'"
  by (induction ls arbitrary: s) (auto split: option.splits intro: flightRun.intros perform_step)

lemma performs_run_with: "case performs ls s of None \<Rightarrow> False | Some s' \<Rightarrow> P s' \<Longrightarrow> \<exists>s'. flightRun ls s s' \<and> P s'"
  by (auto split: option.splits intro: performs_run)

definition noExchange :: "flight_label \<Rightarrow> bool" where
  "noExchange l \<longleftrightarrow> (case l of LExchange _ _ \<Rightarrow> False | _ \<Rightarrow> True)"

primrec busy :: "phase \<Rightarrow> bool" where
  "busy Idle = False"
| "busy (Sent _) = False"
| "busy (Waiting _ _) = False"
| "busy (Posting _) = True"
| "busy (Granted _) = True"

text \<open>
  The start: nobody is calling, and the client holds the refresh token the server honours.
\<close>

definition flightStart :: "spotifyClient \<Rightarrow> string list \<Rightarrow> flight" where
  "flightStart c minted = \<lparr>fl_client = c, fl_holder = None, fl_phase = (\<lambda>t. Idle),
     fl_honoured = sp_refreshToken c, fl_minted = minted\<rparr>"

subsection \<open>The invariant of the lock\<close>

primrec phaseInv :: "string \<Rightarrow> string \<Rightarrow> phase \<Rightarrow> bool" where
  "phaseInv honoured mine Idle = True"
| "phaseInv honoured mine (Sent tok) = True"
| "phaseInv honoured mine (Waiting force failed) = True"
| "phaseInv honoured mine (Posting rt) = (rt = honoured \<and> mine = honoured)"
| "phaseInv honoured mine (Granted tok) =
     (honoured = (if tk_RefreshToken tok \<noteq> '''' then tk_RefreshToken tok else mine))"

definition flightInv :: "flight \<Rightarrow> bool" where
  "flightInv s \<longleftrightarrow>
     (\<forall>t. busy (fl_phase s t) \<longleftrightarrow> fl_holder s = Some t) \<and>
     (case fl_holder s of
        None \<Rightarrow> sp_refreshToken (fl_client s) = fl_honoured s
      | Some h \<Rightarrow> phaseInv (fl_honoured s) (sp_refreshToken (fl_client s)) (fl_phase s h))"

lemma refreshPlan_PostGrant: "refreshPlan force failed now c = PostGrant rt \<Longrightarrow> rt = sp_refreshToken c"
  by (auto simp: refreshPlan_def Let_def split: if_splits)

lemma refreshPlan_client:
  "sp_refreshToken (storeGrant tok now c) = (if tk_RefreshToken tok \<noteq> '''' then tk_RefreshToken tok else sp_refreshToken c)"
  "sp_accessToken (storeGrant tok now c) = tk_AccessToken tok"
  by (simp_all add: storeGrant_def)

lemma flightInv_start: "flightInv (flightStart c minted)"
  by (simp add: flightInv_def flightStart_def)

text \<open>Outside the critical section a thread's phase does not matter.\<close>

lemma flightInv_quiet:
  assumes "flightInv s" "\<not> busy (fl_phase s t)" "\<not> busy p"
  shows "flightInv (s\<lparr>fl_phase := (fl_phase s)(t := p)\<rparr>)"
proof -
  have "fl_holder s \<noteq> Some t" using assms(1,2) by (simp add: flightInv_def)
  then show ?thesis
    using assms unfolding flightInv_def by (cases "fl_holder s") simp_all
qed

lemma flightInv_busy: "flightInv s \<Longrightarrow> busy (fl_phase s t) \<Longrightarrow> fl_holder s = Some t"
  by (simp add: flightInv_def)

lemma flightInv_others: "flightInv s \<Longrightarrow> fl_holder s = Some t \<Longrightarrow> u \<noteq> t \<Longrightarrow> \<not> busy (fl_phase s u)"
  by (simp add: flightInv_def)

lemma flightInv_step: "flightStep l s s' \<Longrightarrow> noExchange l \<Longrightarrow> flightInv s \<Longrightarrow> flightInv s'"
proof (induction rule: flightStep.induct)
  case (post s t force failed now rt)
  with refreshPlan_PostGrant [OF post(3)] show ?case by (simp add: flightInv_def)
next
  case (refused s t rt)
  then have "fl_holder s = Some t" by (auto intro: flightInv_busy)
  with refused show ?case by (simp add: flightInv_def)
next
  case (grant s t rt tok)
  then have "fl_holder s = Some t" by (auto intro: flightInv_busy)
  with grant show ?case by (auto simp: flightInv_def)
next
  case (store s t tok now)
  then have "fl_holder s = Some t" by (auto intro: flightInv_busy)
  with store show ?case by (simp add: flightInv_def refreshPlan_client)
next
  case (device d s)
  then show ?case by (cases "fl_holder s") (simp_all add: flightInv_def SetDevice_def)
next
  case (exchange tok s now)
  then show ?case by (simp add: noExchange_def)
qed (auto intro!: flightInv_quiet)

lemma flightInv_run: "flightRun ls s s' \<Longrightarrow> list_all noExchange ls \<Longrightarrow> flightInv s \<Longrightarrow> flightInv s'"
  by (induction rule: flightRun.induct) (auto dest: flightInv_step)

subsection \<open>A token that was rejected is replaced once\<close>

text \<open>
  The callers that were answered 401 and hold \<open>refreshMu\<close> back: all of them ask for a forced
  refresh of the same token.
\<close>

primrec queued :: "string \<Rightarrow> phase \<Rightarrow> bool" where
  "queued failed Idle = True"
| "queued failed (Sent tok) = False"
| "queued failed (Waiting force tok) = (force \<and> tok = failed)"
| "queued failed (Posting rt) = True"
| "queued failed (Granted tok) = True"

primrec newcomer :: "flight_label \<Rightarrow> bool" where
  "newcomer (LSend t) = True"
| "newcomer (LAnswered t) = False"
| "newcomer (LUnauthorized t) = False"
| "newcomer (LExpiring t) = True"
| "newcomer (LReuse t now) = False"
| "newcomer (LPost t now) = False"
| "newcomer (LRefused t) = False"
| "newcomer (LGrant t tok) = False"
| "newcomer (LStore t now) = False"
| "newcomer (LDevice d) = False"
| "newcomer (LExchange tok now) = True"

primrec grantOf :: "phase \<Rightarrow> string option" where
  "grantOf Idle = None"
| "grantOf (Sent tok) = None"
| "grantOf (Waiting force tok) = None"
| "grantOf (Posting rt) = None"
| "grantOf (Granted tok) = Some (tk_AccessToken tok)"

definition stampede :: "string \<Rightarrow> string list \<Rightarrow> flight \<Rightarrow> bool" where
  "stampede failed old s \<longleftrightarrow> flightInv s \<and> (\<forall>t. queued failed (fl_phase s t)) \<and>
     (fl_minted s = old \<and> (\<forall>t. grantOf (fl_phase s t) = None) \<or>
      (\<exists>new. fl_minted s = new # old \<and> new \<noteq> failed \<and> new \<noteq> '''' \<and>
         (case fl_holder s of None \<Rightarrow> sp_accessToken (fl_client s) = new
          | Some h \<Rightarrow> grantOf (fl_phase s h) = Some new)))"

lemma stampede_step:
  "flightStep l s s' \<Longrightarrow> failed \<in> set old \<Longrightarrow> \<not> newcomer l \<Longrightarrow> stampede failed old s \<Longrightarrow> stampede failed old s'"
proof (induction rule: flightStep.induct)
  case (answered s t tok)
  then show ?case unfolding stampede_def by (metis queued.simps(2))
next
  case (unauthorized s t tok)
  then show ?case unfolding stampede_def by (metis queued.simps(2))
next
  case (reuse s t force failed' now)
  then have "flightInv (s\<lparr>fl_phase := (fl_phase s)(t := Idle)\<rparr>)"
    by (intro flightInv_quiet) (auto simp: stampede_def)
  with reuse show ?case by (auto simp: stampede_def)
next
  case (post s t force failed' now rt)
  then have w: "force" "failed' = failed" by (auto simp: stampede_def dest: spec [of _ t])
  have inv: "flightInv (s\<lparr>fl_phase := (fl_phase s)(t := Posting rt), fl_holder := Some t\<rparr>)"
    using flightInv_step [OF flightStep.post [OF post(1-3)]] post(6) by (simp add: noExchange_def stampede_def)
  have "fl_minted s = old"
    using post w by (auto simp: stampede_def refreshPlan_def Let_def)
  with inv post show ?case by (auto simp: stampede_def)
next
  case (refused s t rt)
  then have inv: "flightInv s" and h: "fl_holder s = Some t" by (auto simp: stampede_def intro: flightInv_busy)
  have "flightInv (s\<lparr>fl_phase := (fl_phase s)(t := Idle), fl_holder := None\<rparr>)"
    using flightInv_step [OF flightStep.refused [OF refused(1)] _ inv] by (simp add: noExchange_def)
  with refused h show ?case by (auto simp: stampede_def)
next
  case (grant s t rt tok)
  then have inv: "flightInv s" and h: "fl_holder s = Some t" by (auto simp: stampede_def intro: flightInv_busy)
  have "flightInv (s\<lparr>fl_phase := (fl_phase s)(t := Granted tok),
      fl_honoured := (if tk_RefreshToken tok \<noteq> '''' then tk_RefreshToken tok else rt),
      fl_minted := tk_AccessToken tok # fl_minted s\<rparr>)"
    using flightInv_step [OF flightStep.grant [OF grant(1-4)] _ inv] by (simp add: noExchange_def)
  with grant h show ?case by (auto simp: stampede_def)
next
  case (store s t tok now)
  then have inv: "flightInv s" and h: "fl_holder s = Some t" by (auto simp: stampede_def intro: flightInv_busy)
  have "flightInv (s\<lparr>fl_phase := (fl_phase s)(t := Idle), fl_holder := None,
      fl_client := storeGrant tok now (fl_client s)\<rparr>)"
    using flightInv_step [OF flightStep.store [OF store(1)] _ inv] by (simp add: noExchange_def)
  with store h show ?case by (auto simp: stampede_def refreshPlan_client dest: spec [of _ t])
next
  case (device d s)
  then have "flightInv (s\<lparr>fl_client := SetDevice d (fl_client s)\<rparr>)"
    using flightInv_step [OF flightStep.device] by (simp add: noExchange_def stampede_def)
  with device show ?case by (cases "fl_holder s") (auto simp: stampede_def SetDevice_def)
qed auto

lemma stampede_run:
  "flightRun ls s s' \<Longrightarrow> failed \<in> set old \<Longrightarrow> list_all (\<lambda>l. \<not> newcomer l) ls \<Longrightarrow> stampede failed old s \<Longrightarrow> stampede failed old s'"
  by (induction rule: flightRun.induct) (auto dest: stampede_step)

subsection \<open>Properties\<close>


text \<open>Three callers; the first posts, the server rotates the refresh token.\<close>

definition demoClient :: spotifyClient where
  "demoClient = newSpotify\<lparr>sp_accessToken := ''T0'', sp_refreshToken := ''R0''\<rparr>"

definition demoGrant :: "string \<Rightarrow> string \<Rightarrow> tokenResponse" where
  "demoGrant a r = \<lparr>tk_AccessToken = a, tk_RefreshToken = r, tk_ExpiresIn = 3600\<rparr>"

lemma demo_rotation:
  "\<exists>s. flightRun [LSend 0, LSend 1, LUnauthorized 0, LUnauthorized 1, LPost 0 0, LGrant 0 (demoGrant ''T1'' ''R1'')]
     (flightStart demoClient [''T0'']) s \<and> busy (fl_phase s 0)"
  by (rule performs_run_with) code_simp



definition demoWaiting :: flight where
  "demoWaiting = (flightStart demoClient [''T0''])\<lparr>fl_phase := (\<lambda>t. if t < 2 then Waiting True ''T0'' else Idle)\<rparr>"

lemma demo_waiting_run:
  "\<exists>s. flightRun [LPost 0 0, LGrant 0 (demoGrant ''T1'' ''''), LStore 0 5, LReuse 1 6] demoWaiting s \<and> True"
  by (rule performs_run_with) code_simp


text \<open>
  The token a caller passes as rejected is read after the 401, not the one its request
  carried: when another caller's refresh ends between the two, the fresh token is taken for
  the rejected one and a second grant is posted.
\<close>

lemma redundant_grant:
  "\<exists>s. flightRun [LSend 0, LSend 1, LUnauthorized 0, LPost 0 0, LGrant 0 (demoGrant ''T1'' ''''), LStore 0 5,
       LUnauthorized 1, LPost 1 6, LGrant 1 (demoGrant ''T2'' '''')] (flightStart demoClient [''T0'']) s \<and>
     fl_minted s = [''T2'', ''T1'', ''T0'']"
  by (rule performs_run_with) code_simp

text \<open>
  A code exchange does not take \<open>refreshMu\<close>: a refresh under way overwrites the tokens of the
  new authorization with those of the old one.
\<close>

lemma exchange_overwritten:
  "\<exists>s. flightRun [LSend 0, LUnauthorized 0, LPost 0 0, LGrant 0 (demoGrant ''T1'' ''R1''),
       LExchange (demoGrant ''N'' ''NR'') 5, LStore 0 6] (flightStart demoClient [''T0'']) s \<and>
     sp_refreshToken (fl_client s) = ''R1'' \<and> fl_honoured s = ''NR''"
  by (rule performs_run_with) code_simp

end
