(* ===== verification/Spotify_Rules.thy ===== *)
theory Spotify_Rules
  imports Spotify
begin

section \<open>What the Spotify client does with the answers it gets\<close>

text \<open>
  The request log of a call, run by itself: a player command that is rejected refreshes once
  and repeats itself once; the playlist import asks page after page and returns all of them,
  and it does not return when the service never names a last page.
\<close>

subsection \<open>Running the steps\<close>

named_theorems sprun

lemma run_andThen_web [sprun]:
  "run_state (andThen m k) s = (case run_state m s of (Inl e, s') \<Rightarrow> (Inl e, s') | (Inr a, s') \<Rightarrow> run_state (k a) s')"
  by (simp add: andThen_def split: prod.split sum.split)

lemma run_wrapErr [sprun]:
  "run_state (wrapErr msg m) s = (case run_state m s of (r, s') \<Rightarrow> (case r of Inl e \<Rightarrow> Inl (msg @ e) | Inr a \<Rightarrow> Inr a, s'))"
  by (simp add: wrapErr_def split: prod.split)

lemma run_doRequest [sprun]:
  "run_state (doRequest net r) s = (net (length (wb_sent s)) r, s\<lparr>wb_sent := wb_sent s @ [r]\<rparr>)"
  by (simp add: doRequest_def)

lemma run_readClock [sprun]: "run_state (readClock now) s = (now (wb_clock s), s\<lparr>wb_clock := wb_clock s + 1\<rparr>)"
  by (simp add: readClock_def)

lemma run_readField [sprun]: "run_state (readField f) s = (f s, s)"
  by (simp add: readField_def)

lemma run_writeFields [sprun]: "run_state (writeFields f) s = ((), f s)"
  by (simp add: writeFields_def)

lemma run_postToken [sprun]:
  "run_state (postToken v form) s = (tokenAnswer v (sx_net v (length (wb_sent s)) (tokenRequest v form)),
     s\<lparr>wb_sent := wb_sent s @ [tokenRequest v form]\<rparr>)"
  by (simp add: postToken_def sprun)

text \<open>The refresh after a 401: one grant, and the tokens change only when it is granted.\<close>

lemma run_refresh_forced:
  assumes "sp_refreshToken c \<noteq> ''''"
  shows "run_state (refresh v True (sp_accessToken c)) c =
    (let g = tokenRequest v (refreshForm (sp_refreshToken c));
         c1 = c\<lparr>wb_sent := wb_sent c @ [g]\<rparr>
     in case tokenAnswer v (sx_net v (length (wb_sent c)) g) of
          Inl e \<Rightarrow> (Inl (''spotify: refresh token: '' @ e), c1)
        | Inr tok \<Rightarrow> (Inr (), storeGrant tok (sx_now v (wb_clock c)) (c1\<lparr>wb_clock := wb_clock c + 1\<rparr>)))"
  using assms by (simp add: refresh_def refreshPlan_def sprun Let_def split: sum.split)

lemma run_doPlayer [sprun]:
  "run_state (doPlayer v action body extra) c =
    (if sp_accessToken c = '''' then (Inl notAuthenticated, c)
     else (sx_net v (length (wb_sent c)) (playerRequest (sp_accessToken c) (sp_deviceID c) action body extra),
           c\<lparr>wb_sent := wb_sent c @ [playerRequest (sp_accessToken c) (sp_deviceID c) action body extra]\<rparr>))"
  by (simp add: doPlayer_def sprun)

lemma storeGrant_fields [simp]:
  "sp_accessToken (storeGrant tok now c) = tk_AccessToken tok"
  "sp_deviceID (storeGrant tok now c) = sp_deviceID c"
  "wb_sent (storeGrant tok now c) = wb_sent c"
  by (simp_all add: storeGrant_def)

lemma tokenAnswer_token: "tokenAnswer v r = Inr tok \<Longrightarrow> tk_AccessToken tok \<noteq> ''''"
  by (auto simp: tokenAnswer_def split: sum.splits if_splits)

definition accepted :: "string + httpResp \<Rightarrow> bool" where
  "accepted a \<longleftrightarrow> (case a of Inl _ \<Rightarrow> False | Inr resp \<Rightarrow> rs_status resp \<in> {200, 202, 204})"

subsection \<open>One page of a playlist\<close>

text \<open>The service answers the request for a page with a page that can be decoded.\<close>

definition pageAnswered :: "spotifyEnv \<Rightarrow> string \<Rightarrow> string \<Rightarrow> nat \<Rightarrow> int \<Rightarrow> playlistPage \<Rightarrow> bool" where
  "pageAnswered v token pid k offset page \<longleftrightarrow>
     (case sx_net v k (getRequest token (playlistURL pid offset playlistLimit)) of
        Inl _ \<Rightarrow> False
      | Inr resp \<Rightarrow> rs_status resp = 200 \<and> rs_readErr resp = None \<and> sx_page v (rs_body resp) = Inr page)"

definition askPage :: "string \<Rightarrow> int \<Rightarrow> spotifyClient \<Rightarrow> spotifyClient" where
  "askPage pid offset c =
     c\<lparr>wb_sent := wb_sent c @ [getRequest (sp_accessToken c) (playlistURL pid offset playlistLimit)]\<rparr>"

lemma askPage_fields [simp]:
  "sp_accessToken (askPage pid offset c) = sp_accessToken c"
  "length (wb_sent (askPage pid offset c)) = length (wb_sent c) + 1"
  by (simp_all add: askPage_def)

lemma run_fetchPage:
  assumes "sp_accessToken c \<noteq> ''''" and "pageAnswered v (sp_accessToken c) pid (length (wb_sent c)) offset page"
  shows "run_state (fetchPage v pid offset) c = (Inr page, askPage pid offset c)"
  using assms
  by (auto simp: fetchPage_def retry401_def doPlaylistFetch_def doGet_def sprun pageAnswered_def decodeOK_def
      readAll_def askPage_def split: sum.splits)

fun pagesOf :: "(nat \<Rightarrow> playlistPage) \<Rightarrow> nat \<Rightarrow> nat \<Rightarrow> searchResult list" where
  "pagesOf page i 0 = pageResults (page i)"
| "pagesOf page i (Suc n) = pageResults (page i) @ pagesOf page (Suc i) n"

lemma pagesOf_concat: "pagesOf page i n = concat (map (pageResults \<circ> page) [i..<i + n + 1])"
  by (induction n arbitrary: i) (simp_all add: upt_rec)

lemma playlistLoop_pages:
  assumes "sp_accessToken c \<noteq> ''''"
    and "\<And>j. i \<le> j \<Longrightarrow> j \<le> i + n \<Longrightarrow>
      pageAnswered v (sp_accessToken c) pid (length (wb_sent c) + (j - i)) (100 * int j) (page j)"
    and "\<And>j. i \<le> j \<Longrightarrow> j < i + n \<Longrightarrow> pg_Next (page j) \<noteq> ''''" and "pg_Next (page (i + n)) = ''''"
  shows "\<exists>c'. playlistLoop v pid (100 * int i) all c = Some (Inr (all @ pagesOf page i n), c') \<and>
    length (wb_sent c') = length (wb_sent c) + n + 1"
  using assms
proof (induction n arbitrary: i c all)
  case 0
  then have "run_state (fetchPage v pid (100 * int i)) c = (Inr (page i), askPage pid (100 * int i) c)"
    using 0(2) [of i] by (intro run_fetchPage) simp_all
  with 0 show ?case by (simp add: playlistLoop.simps Let_def)
next
  case (Suc n)
  let ?c = "askPage pid (100 * int i) c"
  have page: "run_state (fetchPage v pid (100 * int i)) c = (Inr (page i), ?c)"
    using Suc.prems(1) Suc.prems(2) [of i] by (intro run_fetchPage) simp_all
  have next_off: "100 * int i + playlistLimit = 100 * int (Suc i)" by (simp add: playlistLimit_def)
  have "pageAnswered v (sp_accessToken ?c) pid (length (wb_sent ?c) + (j - Suc i)) (100 * int j) (page j)"
    if "Suc i \<le> j" "j \<le> Suc i + n" for j
  proof -
    have "length (wb_sent c) + 1 + (j - Suc i) = length (wb_sent c) + (j - i)" using that by simp
    then show ?thesis using Suc.prems(2) [of j] that by simp
  qed
  then obtain c' where "playlistLoop v pid (100 * int (Suc i)) (all @ pageResults (page i)) ?c =
      Some (Inr ((all @ pageResults (page i)) @ pagesOf page (Suc i) n), c')"
    and "length (wb_sent c') = length (wb_sent ?c) + n + 1"
    using Suc.IH [of ?c "Suc i" "all @ pageResults (page i)"] Suc.prems(1,3,4) by auto
  moreover have "pg_Next (page i) \<noteq> ''''" using Suc.prems(3) [of i] by simp
  ultimately show ?case
    unfolding playlistLoop.simps [of v pid "100 * int i" all c] page next_off [symmetric] by (simp add: Let_def)
qed

lemma playlistLoop_unbounded:
  assumes "\<And>k offset. \<exists>page. pageAnswered v token pid k offset page \<and> pg_Next page \<noteq> ''''" and "token \<noteq> ''''"
    and "sp_accessToken c = token"
  shows "playlistLoop v pid offset all c = None"
proof -
  have "v' = v \<longrightarrow> pid' = pid \<longrightarrow> sp_accessToken c \<noteq> token"
    if "playlistLoop v' pid' offset all c = Some out" for v' pid' offset all c out
  proof (rule playlistLoop.raw_induct [OF _ that])
    fix loop v' pid' offset all c out
    assume loop: "\<And>v' pid' offset all c out. loop v' pid' offset all c = Some out \<Longrightarrow>
        v' = v \<longrightarrow> pid' = pid \<longrightarrow> sp_accessToken c \<noteq> token"
      and body: "(case run_state (fetchPage v' pid' offset) c of
          (Inl e, s1) \<Rightarrow> Some (Inl e, s1)
        | (Inr page, s1) \<Rightarrow>
            let all = all @ pageResults page
            in if pg_Next page = '''' then Some (Inr all, s1)
               else loop v' pid' (offset + playlistLimit) all s1) = Some out"
    show "v' = v \<longrightarrow> pid' = pid \<longrightarrow> sp_accessToken c \<noteq> token"
    proof (intro impI notI)
      assume eq: "v' = v" "pid' = pid" "sp_accessToken c = token"
      obtain page where "pageAnswered v token pid (length (wb_sent c)) offset page" and more: "pg_Next page \<noteq> ''''"
        using assms(1) by blast
      then have "run_state (fetchPage v pid offset) c = (Inr page, askPage pid offset c)"
        using eq assms(2) by (intro run_fetchPage) simp_all
      with body eq(1,2) more
      have "loop v pid (offset + playlistLimit) (all @ pageResults page) (askPage pid offset c) = Some out"
        by (simp add: Let_def)
      from loop [OF this] eq show False by simp
    qed
  qed
  then show ?thesis using assms(3) by (cases "playlistLoop v pid offset all c") auto
qed

subsection \<open>Properties\<close>

text \<open>
  C32: a player command rejected with a 401 costs one refresh and one repetition. The grant
  posts the refresh token at hand; if it is refused the command ends there, with the tokens
  as they were; otherwise the same command is sent once more with the new token, and its
  answer, whatever it is, decides: a second 401 is an error, not another round.
\<close>

theorem unauthorized_retried_once:
  fixes v :: spotifyEnv and c :: spotifyClient and action :: string and body :: "string option" and extra :: url_values
  defines "first \<equiv> playerRequest (sp_accessToken c) (sp_deviceID c) action body extra"
    and "grant \<equiv> tokenRequest v (refreshForm (sp_refreshToken c))"
    and "k \<equiv> length (wb_sent c)"
    and "out \<equiv> run_state (playerCommand v action body extra) c"
  assumes "sp_accessToken c \<noteq> ''''" and "sp_refreshToken c \<noteq> ''''"
    and "sx_net v k first = Inr resp" and "rs_status resp = 401"
  shows "case tokenAnswer v (sx_net v (k + 1) grant) of
      Inl e \<Rightarrow> wb_sent (snd out) = wb_sent c @ [first, grant] \<and> fst out \<noteq> Inr () \<and>
        sp_accessToken (snd out) = sp_accessToken c \<and> sp_refreshToken (snd out) = sp_refreshToken c
    | Inr tok \<Rightarrow>
        (let again = playerRequest (tk_AccessToken tok) (sp_deviceID c) action body extra
         in wb_sent (snd out) = wb_sent c @ [first, grant, again] \<and>
            sp_accessToken (snd out) = tk_AccessToken tok \<and>
            (fst out = Inr () \<longleftrightarrow> accepted (sx_net v (k + 2) again)))"
proof -
  define c1 where "c1 = c\<lparr>wb_sent := wb_sent c @ [first]\<rparr>"
  have tok: "sp_accessToken c1 = sp_accessToken c" "sp_refreshToken c1 \<noteq> ''''" using assms by (simp_all add: c1_def)
  note ref = run_refresh_forced [OF tok(2), of v]
  show ?thesis
    using assms(5-8) ref tokenAnswer_token [of v "sx_net v (k + 1) grant"]
    by (auto simp: out_def first_def grant_def k_def playerCommand_def retry401_def sprun c1_def Let_def accepted_def
        split: sum.splits)
qed

text \<open>
  C33: the playlist import is complete and ends with the last page. When the access token is
  live and the service answers page \<open>i\<close> at offset \<open>100 i\<close>, the pages before the n-th naming a
  successor and the n-th none, the import returns, after exactly \<open>n + 1\<close> requests, the songs of
  all pages in order, except the entries without a URI.
\<close>

theorem playlist_complete:
  assumes "sp_accessToken c \<noteq> ''''" and "sx_now v (wb_clock c) < sp_expiresAt c - skew"
    and "\<forall>i \<le> n. pageAnswered v (sp_accessToken c) pid (length (wb_sent c) + i) (100 * int i) (page i)"
    and "\<forall>i < n. pg_Next (page i) \<noteq> ''''" and "pg_Next (page n) = ''''"
  shows "\<exists>c'. GetPlaylistTracks v pid c = Some (Inr (concat (map (pageResults \<circ> page) [0..<n + 1])), c') \<and>
    length (wb_sent c') = length (wb_sent c) + n + 1"
proof -
  let ?c = "c\<lparr>wb_clock := wb_clock c + 1\<rparr>"
  have "run_state (ValidToken v) c = (Inr (sp_accessToken c), ?c)"
    using assms(1,2) by (simp add: ValidToken_def sprun Let_def)
  then have "GetPlaylistTracks v pid c = playlistLoop v pid 0 [] ?c"
    by (simp add: GetPlaylistTracks_def sprun)
  then show ?thesis
    using playlistLoop_pages [of ?c 0 n v pid page "[]"] assms by (simp add: pagesOf_concat)
qed

definition demoPage :: "string \<Rightarrow> string \<Rightarrow> playlistPage" where
  "demoPage uri next = \<lparr>pg_Items = [\<lparr>st_URI = uri, st_Name = ''S'', st_DurationMs = 1, st_Artists = [''A''],
     st_Images = [], st_ReleaseDate = ''1999-05''\<rparr>], pg_Next = next\<rparr>"

definition demoSpotify :: spotifyEnv where
  "demoSpotify = \<lparr>sx_clientID = ''id'', sx_clientSecret = ''s'', sx_redirectURI = ''http://localhost'', sx_now = int,
     sx_net = (\<lambda>k r. Inr \<lparr>rs_status = (if k = 7 then 401 else 200), rs_retryAfter = '''', rs_body = replicate (k + 1) CHR ''.'', rs_readErr = None\<rparr>),
     sx_token = (\<lambda>b. Inr \<lparr>tk_AccessToken = ''T1'', tk_RefreshToken = '''', tk_ExpiresIn = 3600\<rparr>),
     sx_search = (\<lambda>b. Inr []),
     sx_page = (\<lambda>b. Inr (if length b = 1 then demoPage ''spotify:track:a'' ''more'' else demoPage '''' ''''))\<rparr>"

theorem playlist_complete_witness:
  "\<exists>c'. GetPlaylistTracks demoSpotify ''p'' (newSpotify\<lparr>sp_accessToken := ''T'', sp_expiresAt := 10 ^ 18\<rparr>) =
     Some (Inr [\<lparr>se_URI = ''spotify:track:a'', se_Artist = ''A'', se_Song = ''S'', se_AlbumArt = '''', se_DurationMs = 1,
       se_Year = 1999, se_Genre = ''''\<rparr>], c')"
proof -
  let ?c = "newSpotify\<lparr>sp_accessToken := ''T'', sp_expiresAt := 10 ^ 18\<rparr>"
  let ?page = "\<lambda>i. if i = 0 then demoPage ''spotify:track:a'' ''more'' else demoPage '''' ''''"
  have pages: "\<forall>i \<le> 1. pageAnswered demoSpotify (sp_accessToken ?c) ''p'' (length (wb_sent ?c) + i) (100 * int i) (?page i)"
    by (auto simp: le_Suc_eq pageAnswered_def demoSpotify_def newSpotify_def itoa_def digits.simps)
  have res: "concat (map (pageResults \<circ> ?page) [0..<1 + 1]) = [\<lparr>se_URI = ''spotify:track:a'', se_Artist = ''A'',
      se_Song = ''S'', se_AlbumArt = '''', se_DurationMs = 1, se_Year = 1999, se_Genre = ''''\<rparr>]"
    by code_simp
  show ?thesis
    using playlist_complete [of ?c demoSpotify 1 "''p''" ?page] pages unfolding res
    by (auto simp: demoSpotify_def newSpotify_def skew_def second_def demoPage_def)
qed

theorem unauthorized_retried_once_witness:
  "\<exists>c'. run_state (playerCommand demoSpotify ''pause'' None []) (newSpotify\<lparr>sp_accessToken := ''T'', sp_refreshToken := ''R'',
     wb_sent := replicate 7 (getRequest ''T'' '''')\<rparr>) = (Inr (), c') \<and> sp_accessToken c' = ''T1''"
proof -
  let ?c = "newSpotify\<lparr>sp_accessToken := ''T'', sp_refreshToken := ''R'', wb_sent := replicate 7 (getRequest ''T'' '''')\<rparr>"
  have net: "sx_net demoSpotify k r = Inr \<lparr>rs_status = (if k = 7 then 401 else 200), rs_retryAfter = '''',
      rs_body = replicate (k + 1) CHR ''.'', rs_readErr = None\<rparr>" for k r
    by (simp add: demoSpotify_def)
  have tok: "tokenAnswer demoSpotify (sx_net demoSpotify 8 g) =
      Inr \<lparr>tk_AccessToken = ''T1'', tk_RefreshToken = '''', tk_ExpiresIn = 3600\<rparr>" for g
    by (simp add: demoSpotify_def tokenAnswer_def readAll_def)
  have len: "length (wb_sent ?c) + 1 = 8" "length (wb_sent ?c) + 2 = 9" by simp_all
  have "fst (run_state (playerCommand demoSpotify ''pause'' None []) ?c) = Inr () \<and>
      sp_accessToken (snd (run_state (playerCommand demoSpotify ''pause'' None []) ?c)) = ''T1''"
    using unauthorized_retried_once [of ?c demoSpotify "''pause''" None "[]"] net
    unfolding len tok Let_def by (simp add: accepted_def)
  then show ?thesis by (metis prod.collapse)
qed

text \<open>A service that names a next page for ever keeps the import running for ever.\<close>

lemma playlist_unbounded:
  assumes "\<And>k offset. \<exists>page. pageAnswered v (sp_accessToken c) pid k offset page \<and> pg_Next page \<noteq> ''''"
    and "sp_accessToken c \<noteq> ''''" and "sx_now v (wb_clock c) < sp_expiresAt c - skew"
  shows "GetPlaylistTracks v pid c = None"
proof -
  let ?c = "c\<lparr>wb_clock := wb_clock c + 1\<rparr>"
  have "run_state (ValidToken v) c = (Inr (sp_accessToken c), ?c)"
    using assms(2,3) by (simp add: ValidToken_def sprun Let_def)
  then show ?thesis
    using playlistLoop_unbounded [of v "sp_accessToken c" pid ?c 0 "[]"] assms by (simp add: GetPlaylistTracks_def sprun)
qed

end
