(* ===== verification/Lrclib.thy ===== *)
theory Lrclib
  imports Http Lyrics
begin

section \<open>The LRCLIB client: the HTTP half of server/internal/lyrics/lyrics.go\<close>

text \<open>
  Lyrics are asked for with \<open>/api/get\<close>; a rate limit is waited out once; a clean "nothing
  found" is followed by one \<open>/api/search\<close> (again with one wait) whose results are searched
  for the submission nearest in duration. The client's state is the log of its requests
  and of its waits (in nanoseconds). \<open>lx_gone k\<close> says whether the k-th wait ended because the
  caller's context did. Durations of submissions are float64 values (rationals, with the
  rounding of Float64). \<open>lx_badURL\<close> is net/http's refusal of a URL: the base URL is
  configured; \<open>lx_get\<close> and \<open>lx_search\<close> are what encoding/json makes of the bodies.
\<close>

subsection \<open>Configuration, state, results\<close>

record lrclibResult =
  lb_Duration :: rat
  lb_SyncedLyrics :: string

record lrclibEnv =
  lx_base :: string
  lx_net :: net
  lx_badURL :: "string \<Rightarrow> string option"
  lx_get :: "string \<Rightarrow> string + string"
  lx_search :: "string \<Rightarrow> string + lrclibResult list"
  lx_gone :: "nat \<Rightarrow> bool"
  lx_ctxErr :: string

record lrclibClient = web +
  lc_waits :: "int list"

datatype lyricsErr = RateLimitError int | LyricsErr string

type_synonym 'a lrclib = "(lrclibClient, 'a) state"

definition milli :: int where "milli = 1000000"

definition userAgent :: string where
  "userAgent = ''yfitops/1.0 (+https://github.com/s45vprubg/yfitops)''"

definition maxLyricsBytes :: nat where "maxLyricsBytes = 1048576"

definition maxRetryWait :: int where "maxRetryWait = 10000 * milli"

definition fallbackProbeDelay :: int where "fallbackProbeDelay = 300 * milli"

definition lrclibDurationToleranceSec :: rat where "lrclibDurationToleranceSec = 1"

definition trimSlashes :: "string \<Rightarrow> string" where
  "trimSlashes s = rev (dropWhile (\<lambda>c. c = CHR ''/'') (rev s))"

subsection \<open>One request\<close>

definition parseRetryAfter :: "string \<Rightarrow> int" where
  "parseRetryAfter x =
     (case Atoi (trimSpace x) of
        None \<Rightarrow> 1000 * milli
      | Some secs \<Rightarrow> if secs < 0 \<or> 10 < secs then 1000 * milli else secs * (1000 * milli))"

definition lyricsRequest :: "string \<Rightarrow> httpReq" where
  "lyricsRequest endpoint = \<lparr>rq_method = ''GET'', rq_url = endpoint,
     rq_headers = [(''Accept'', ''application/json''), (''User-Agent'', userAgent)], rq_body = None\<rparr>"

definition searchEndpoint :: "lrclibEnv \<Rightarrow> string \<Rightarrow> string \<Rightarrow> string" where
  "searchEndpoint v artist song = trimSlashes (lx_base v) @ ''/api/search?'' @
     encodeValues (valSet ''track_name'' song (valSet ''artist_name'' artist []))"

definition getEndpoint :: "lrclibEnv \<Rightarrow> string \<Rightarrow> string \<Rightarrow> int \<Rightarrow> string" where
  "getEndpoint v artist song durationSec = trimSlashes (lx_base v) @ ''/api/get?'' @
     encodeValues (valSet ''duration'' (itoa durationSec)
       (valSet ''track_name'' song (valSet ''artist_name'' artist [])))"

text \<open>The three results of Go: the submissions, or a rate limit, or another error.\<close>

definition searchAnswer :: "lrclibEnv \<Rightarrow> string + httpResp \<Rightarrow> lyricsErr + lrclibResult list" where
  "searchAnswer v a = (case a of
     Inl e \<Rightarrow> Inl (LyricsErr e)
   | Inr resp \<Rightarrow>
       if rs_status resp = 429 \<or> rs_status resp = 503 then
         Inl (RateLimitError (parseRetryAfter (rs_retryAfter resp)))
       else if rs_status resp \<noteq> 200 then
         Inl (LyricsErr (''lyrics: search unexpected status '' @ itoa (rs_status resp)))
       else (case readLimited maxLyricsBytes resp of
           Inl e \<Rightarrow> Inl (LyricsErr e)
         | Inr body \<Rightarrow> (case lx_search v body of Inl e \<Rightarrow> Inl (LyricsErr e) | Inr rs \<Rightarrow> Inr rs)))"

definition searchOnce :: "lrclibEnv \<Rightarrow> string \<Rightarrow> string \<Rightarrow> (lyricsErr + lrclibResult list) lrclib" where
  "searchOnce v artist song =
     (let endpoint = searchEndpoint v artist song
      in case lx_badURL v endpoint of
           Some e \<Rightarrow> ret (Inl (LyricsErr e))
         | None \<Rightarrow> doRequest (lx_net v) (lyricsRequest endpoint) \<bind> (\<lambda>a. ret (searchAnswer v a)))"

text \<open>A probe that ends well is the text found, or \<open>None\<close>.\<close>

definition probeAnswer :: "lrclibEnv \<Rightarrow> string + httpResp \<Rightarrow> lyricsErr + string option" where
  "probeAnswer v a = (case a of
     Inl e \<Rightarrow> Inl (LyricsErr (''lyrics: request: '' @ e))
   | Inr resp \<Rightarrow>
       if rs_status resp = 404 then Inr None
       else if rs_status resp = 429 \<or> rs_status resp = 503 then
         Inl (RateLimitError (parseRetryAfter (rs_retryAfter resp)))
       else if rs_status resp \<noteq> 200 then
         Inl (LyricsErr (''lyrics: unexpected status '' @ itoa (rs_status resp)))
       else (case readLimited maxLyricsBytes resp of
           Inl e \<Rightarrow> Inl (LyricsErr (''lyrics: read body: '' @ e))
         | Inr body \<Rightarrow> (case lx_get v body of
               Inl e \<Rightarrow> Inl (LyricsErr (''lyrics: decode body: '' @ e))
             | Inr synced \<Rightarrow> Inr (if trimSpace synced = '''' then None else Some synced))))"

definition probeOnce :: "lrclibEnv \<Rightarrow> string \<Rightarrow> string \<Rightarrow> int \<Rightarrow> (lyricsErr + string option) lrclib" where
  "probeOnce v artist song durationSec =
     (let endpoint = getEndpoint v artist song durationSec
      in case lx_badURL v endpoint of
           Some e \<Rightarrow> ret (Inl (LyricsErr (''lyrics: build request: '' @ e)))
         | None \<Rightarrow> doRequest (lx_net v) (lyricsRequest endpoint) \<bind> (\<lambda>a. ret (probeAnswer v a)))"

subsection \<open>Waiting, retrying, falling back\<close>

text \<open>\<open>select { case <-time.After(d): case <-ctx.Done(): }\<close>; the value is whether the context ended.\<close>

definition waitFor :: "lrclibEnv \<Rightarrow> int \<Rightarrow> bool lrclib" where
  "waitFor v d = State (\<lambda>s. (lx_gone v (length (lc_waits s)), s\<lparr>lc_waits := lc_waits s @ [d]\<rparr>))"

definition cappedWait :: "int \<Rightarrow> int" where
  "cappedWait w = (if maxRetryWait < w then maxRetryWait else w)"

text \<open>The loop over the submissions, with the best text and difference so far.\<close>

definition durationDiff :: "int \<Rightarrow> lrclibResult \<Rightarrow> rat" where
  "durationDiff durationSec r =
     (let diff = f64 (lb_Duration r - f64 (of_int durationSec)) in if diff < 0 then - diff else diff)"

fun bestMatch :: "int \<Rightarrow> string \<times> rat \<times> bool \<Rightarrow> lrclibResult list \<Rightarrow> string \<times> rat \<times> bool" where
  "bestMatch dur (bestText, bestDiff, found) [] = (bestText, bestDiff, found)"
| "bestMatch dur (bestText, bestDiff, found) (r # rs) =
     (let text = trimSpace (lb_SyncedLyrics r)
      in if text = '''' then bestMatch dur (bestText, bestDiff, found) rs
         else if durationDiff dur r \<le> bestDiff then bestMatch dur (text, durationDiff dur r, True) rs
         else bestMatch dur (bestText, bestDiff, found) rs)"

definition searchForSyncedWithinTolerance ::
  "lrclibEnv \<Rightarrow> string \<Rightarrow> string \<Rightarrow> int \<Rightarrow> string option lrclib" where
  "searchForSyncedWithinTolerance v artist song durationSec = do {
     a \<leftarrow> searchOnce v artist song;
     a \<leftarrow> (case a of
        Inl (RateLimitError w) \<Rightarrow> do {
          gone \<leftarrow> waitFor v (cappedWait w);
          if gone then ret None else searchOnce v artist song \<bind> (\<lambda>a. ret (Some a))
        }
      | _ \<Rightarrow> ret (Some a));
     ret (case a of
        Some (Inr rs) \<Rightarrow>
          (case bestMatch durationSec ('''', lrclibDurationToleranceSec, False) rs of
             (text, _, found) \<Rightarrow> if found then Some text else None)
      | _ \<Rightarrow> None)
   }"

definition Probe :: "lrclibEnv \<Rightarrow> string \<Rightarrow> string \<Rightarrow> int \<Rightarrow> (lyricsErr + string option) lrclib" where
  "Probe v artist song durationSec = do {
     a \<leftarrow> probeOnce v artist song durationSec;
     a \<leftarrow> (case a of
        Inl (RateLimitError w) \<Rightarrow> do {
          gone \<leftarrow> waitFor v (cappedWait w);
          if gone then ret (Inl (LyricsErr (''lyrics: retry wait: '' @ lx_ctxErr v)))
          else probeOnce v artist song durationSec
        }
      | _ \<Rightarrow> ret a);
     (if a = Inr None then do {
        gone \<leftarrow> waitFor v fallbackProbeDelay;
        if gone then ret a
        else searchForSyncedWithinTolerance v artist song durationSec \<bind> (\<lambda>t. ret (Inr t))
      }
      else ret a)
   }"

definition Fetch :: "lrclibEnv \<Rightarrow> string \<Rightarrow> string \<Rightarrow> int \<Rightarrow> (lyricsErr + lyricLine list) lrclib" where
  "Fetch v artist title durationSec =
     Probe v artist title durationSec \<bind> (\<lambda>a. ret (case a of
       Inl e \<Rightarrow> Inl e | Inr None \<Rightarrow> Inr [] | Inr (Some text) \<Rightarrow> Inr (ParseLRC text)))"

end
