(* ===== verification/Lrclib_Rules.thy ===== *)
theory Lrclib_Rules
  imports Lrclib
begin

section \<open>What one lyrics probe asks, waits and answers\<close>

text \<open>
  \<open>asks n T m\<close>: the program \<open>m\<close> sends at most \<open>n\<close> requests and waits at most \<open>T\<close> nanoseconds
  in all. The bounds add up along a program, so the bounds of a probe follow its text.
\<close>

definition asks :: "nat \<Rightarrow> int \<Rightarrow> 'a lrclib \<Rightarrow> bool" where
  "asks n T m \<longleftrightarrow> (\<forall>s. \<exists>new ws. wb_sent (snd (run_state m s)) = wb_sent s @ new \<and> length new \<le> n \<and>
     lc_waits (snd (run_state m s)) = lc_waits s @ ws \<and> sum_list ws \<le> T)"

named_theorems asks_intros

lemma asks_ret [asks_intros]: "0 \<le> T \<Longrightarrow> asks n T (ret a)"
  by (simp add: asks_def)

lemma asks_bind:
  assumes "asks p A m" and "\<And>a. asks q B (k a)" and "p + q \<le> n" and "A + B \<le> T"
  shows "asks n T (m \<bind> k)"
  unfolding asks_def
proof
  fix s
  obtain a s1 where m: "run_state m s = (a, s1)" by fastforce
  obtain new1 ws1 where 1: "wb_sent s1 = wb_sent s @ new1" "length new1 \<le> p" "lc_waits s1 = lc_waits s @ ws1"
    "sum_list ws1 \<le> A"
    using assms(1) [unfolded asks_def, rule_format, of s] m by auto
  obtain new2 ws2 where 2: "wb_sent (snd (run_state (k a) s1)) = wb_sent s1 @ new2" "length new2 \<le> q"
    "lc_waits (snd (run_state (k a) s1)) = lc_waits s1 @ ws2" "sum_list ws2 \<le> B"
    using assms(2) [of a, unfolded asks_def, rule_format, of s1] by auto
  show "\<exists>new ws. wb_sent (snd (run_state (m \<bind> k) s)) = wb_sent s @ new \<and> length new \<le> n \<and>
      lc_waits (snd (run_state (m \<bind> k) s)) = lc_waits s @ ws \<and> sum_list ws \<le> T"
    using 1 2 assms(3,4) m by (intro exI [of _ "new1 @ new2"] exI [of _ "ws1 @ ws2"]) simp
qed

lemma asks_request: "0 \<le> T \<Longrightarrow> asks 1 T (doRequest net r)"
  by (simp add: asks_def doRequest_def)

lemma asks_wait [asks_intros]: "d \<le> T \<Longrightarrow> asks n T (waitFor v d)"
  by (simp add: asks_def waitFor_def)

lemma asks_probeOnce [asks_intros]: "asks (Suc 0) 0 (probeOnce v artist song dur)"
  by (auto simp: probeOnce_def Let_def intro!: asks_ret asks_bind [OF asks_request, where A = 0 and q = 0 and B = 0] split: option.split)

lemma asks_searchOnce [asks_intros]: "asks (Suc 0) 0 (searchOnce v artist song)"
  by (auto simp: searchOnce_def Let_def intro!: asks_ret asks_bind [OF asks_request, where A = 0 and q = 0 and B = 0] split: option.split)

lemma cappedWait_le: "cappedWait w \<le> maxRetryWait"
  by (simp add: cappedWait_def)

lemma asks_search: "asks 2 maxRetryWait (searchForSyncedWithinTolerance v artist song dur)"
proof -
  have retry: "asks 1 maxRetryWait (case a of
      Inl (RateLimitError w) \<Rightarrow> waitFor v (cappedWait w) \<bind>
        (\<lambda>gone. if gone then ret None else searchOnce v artist song \<bind> (\<lambda>a. ret (Some a)))
    | _ \<Rightarrow> ret (Some a))" for a
    by (auto simp: maxRetryWait_def milli_def split: sum.split lyricsErr.split
        intro!: asks_ret asks_bind [where p = 0 and A = maxRetryWait and q = 1 and B = 0] asks_wait cappedWait_le
          asks_bind [OF asks_searchOnce, where q = 0 and B = 0])
  show ?thesis
    unfolding searchForSyncedWithinTolerance_def
    by (rule asks_bind [OF asks_searchOnce, where q = 1 and B = maxRetryWait])
      (auto intro!: asks_bind [OF retry, where q = 0 and B = 0] asks_ret)
qed

lemma asks_Probe: "asks 4 (2 * maxRetryWait + fallbackProbeDelay) (Probe v artist song dur)"
proof -
  have retry: "asks 1 maxRetryWait (case a of
      Inl (RateLimitError w) \<Rightarrow> waitFor v (cappedWait w) \<bind>
        (\<lambda>gone. if gone then ret (Inl (LyricsErr (''lyrics: retry wait: '' @ lx_ctxErr v)))
                else probeOnce v artist song dur)
    | _ \<Rightarrow> ret a)" for a
    by (auto simp: maxRetryWait_def milli_def split: sum.split lyricsErr.split
        intro!: asks_ret asks_bind [where p = 0 and A = maxRetryWait and q = 1 and B = 0] asks_wait cappedWait_le
          asks_probeOnce)
  have fallback: "asks 2 (maxRetryWait + fallbackProbeDelay) (if a = Inr None then
      waitFor v fallbackProbeDelay \<bind> (\<lambda>gone. if gone then ret a
        else searchForSyncedWithinTolerance v artist song dur \<bind> (\<lambda>t. ret (Inr t)))
    else ret a)" for a
    by (auto simp: fallbackProbeDelay_def milli_def maxRetryWait_def
        intro!: asks_ret asks_bind [where p = 0 and A = fallbackProbeDelay and q = 2 and B = maxRetryWait] asks_wait
          asks_bind [OF asks_search, where q = 0 and B = 0])
  show ?thesis
    unfolding Probe_def
    by (rule asks_bind [OF asks_probeOnce, where q = 3 and B = "2 * maxRetryWait + fallbackProbeDelay"])
      (auto intro!: asks_bind [OF retry fallback])
qed

subsection \<open>The nearest submission\<close>

definition timed :: "lrclibResult \<Rightarrow> bool" where
  "timed r \<longleftrightarrow> trimSpace (lb_SyncedLyrics r) \<noteq> ''''"

text \<open>The submission the loop stands at: the best one of those seen, within the bound.\<close>

lemma bestMatch_nearest:
  "bestMatch dur (t0, d0, f0) rs = (text, d, found) \<Longrightarrow>
     (text, d, found) = (t0, d0, f0) \<and> (\<forall>r \<in> set rs. timed r \<longrightarrow> d0 < durationDiff dur r) \<or>
     found \<and> d \<le> d0 \<and> (\<exists>r \<in> set rs. timed r \<and> text = trimSpace (lb_SyncedLyrics r) \<and> d = durationDiff dur r) \<and>
       (\<forall>r \<in> set rs. timed r \<longrightarrow> d \<le> durationDiff dur r)"
proof (induction rs arbitrary: t0 d0 f0)
  case (Cons r rs)
  show ?case
  proof (cases "timed r \<and> durationDiff dur r \<le> d0")
    case True
    then have "bestMatch dur (trimSpace (lb_SyncedLyrics r), durationDiff dur r, True) rs = (text, d, found)"
      using Cons.prems by (simp add: timed_def Let_def)
    from Cons.IH [OF this] True show ?thesis by fastforce
  next
    case False
    then have "bestMatch dur (t0, d0, f0) rs = (text, d, found)"
      using Cons.prems by (auto simp: timed_def Let_def split: if_splits)
    from Cons.IH [OF this] False show ?thesis by fastforce
  qed
qed simp

definition nearest :: "int \<Rightarrow> lrclibResult list \<Rightarrow> string \<Rightarrow> bool" where
  "nearest dur rs text \<longleftrightarrow> (\<exists>r \<in> set rs. timed r \<and> text = trimSpace (lb_SyncedLyrics r) \<and>
     durationDiff dur r \<le> lrclibDurationToleranceSec \<and>
     (\<forall>r' \<in> set rs. timed r' \<longrightarrow> durationDiff dur r \<le> durationDiff dur r'))"

lemma bestMatch_found:
  "bestMatch dur ('''', lrclibDurationToleranceSec, False) rs = (text, d, True) \<Longrightarrow> nearest dur rs text"
  using bestMatch_nearest [of dur "''''" lrclibDurationToleranceSec False rs "text" d True] by (auto simp: nearest_def)

text \<open>What the service answered to one of the requests of a kind.\<close>

definition getAnswered :: "lrclibEnv \<Rightarrow> string \<Rightarrow> string \<Rightarrow> int \<Rightarrow> string option \<Rightarrow> bool" where
  "getAnswered v artist song dur a \<longleftrightarrow>
     (\<exists>k. probeAnswer v (lx_net v k (lyricsRequest (getEndpoint v artist song dur))) = Inr a)"

definition searchAnswered :: "lrclibEnv \<Rightarrow> string \<Rightarrow> string \<Rightarrow> lrclibResult list \<Rightarrow> bool" where
  "searchAnswered v artist song rs \<longleftrightarrow>
     (\<exists>k. searchAnswer v (lx_net v k (lyricsRequest (searchEndpoint v artist song))) = Inr rs)"

lemma probeOnce_answered: "run_state (probeOnce v artist song dur) s = (Inr a, s') \<Longrightarrow> getAnswered v artist song dur a"
  by (auto simp: probeOnce_def Let_def doRequest_def getAnswered_def split: option.splits)

lemma searchOnce_answered: "run_state (searchOnce v artist song) s = (Inr rs, s') \<Longrightarrow> searchAnswered v artist song rs"
  by (auto simp: searchOnce_def Let_def doRequest_def searchAnswered_def split: option.splits)

lemma search_found:
  assumes "run_state (searchForSyncedWithinTolerance v artist song dur) s = (Some text, s')"
  shows "\<exists>rs. searchAnswered v artist song rs \<and> nearest dur rs text"
  using assms
  by (auto simp: searchForSyncedWithinTolerance_def split: sum.splits lyricsErr.splits option.splits prod.splits if_splits
      dest!: searchOnce_answered bestMatch_found)

lemma probe_found:
  assumes "run_state (Probe v artist song dur) s = (Inr (Some text), s')"
  shows "getAnswered v artist song dur (Some text) \<or>
    getAnswered v artist song dur None \<and> (\<exists>rs. searchAnswered v artist song rs \<and> nearest dur rs text)"
  using assms
  by (auto simp: Probe_def split: sum.splits lyricsErr.splits prod.splits if_splits
      dest!: probeOnce_answered search_found)

lemma probe_nothing:
  assumes "run_state (Probe v artist song dur) s = (Inr None, s')"
  shows "getAnswered v artist song dur None"
  using assms
  by (auto simp: Probe_def split: sum.splits lyricsErr.splits prod.splits if_splits
      dest!: probeOnce_answered)

subsection \<open>Properties\<close>

text \<open>
  C34: a probe is bounded. Whatever the service answers, one probe of a song sends at most
  four requests and waits at most 20.3 seconds in all, so a misbehaving service cannot hang
  a rescan on one track.
\<close>

theorem probe_bounded:
  "\<exists>new ws. wb_sent (snd (run_state (Probe v artist song dur) c)) = wb_sent c @ new \<and> length new \<le> 4 \<and>
     lc_waits (snd (run_state (Probe v artist song dur) c)) = lc_waits c @ ws \<and> sum_list ws \<le> 20300 * milli"
  using asks_Probe [of v artist song dur, unfolded asks_def, rule_format, of c]
  by (simp add: maxRetryWait_def fallbackProbeDelay_def)

text \<open>
  What a probe returns is right. Lyrics are either what the direct query answered, or,
  after that query has cleanly found nothing, the text of a submission with synced lyrics
  whose duration differs by at most a second, and by no more than that of any other such
  submission of the search. A clean "none" is always one the direct query has confirmed.
\<close>

theorem probe_sound:
  assumes "run_state (Probe v artist song dur) c = (Inr a, c')"
  shows "case a of
      Some lrc \<Rightarrow> getAnswered v artist song dur (Some lrc) \<or>
        getAnswered v artist song dur None \<and> (\<exists>rs. searchAnswered v artist song rs \<and> nearest dur rs lrc)
    | None \<Rightarrow> getAnswered v artist song dur None"
  using probe_found [of v artist song dur c _ c'] probe_nothing [of v artist song dur c c'] assms
  by (cases a) simp_all

definition demoLrclib :: lrclibEnv where
  "demoLrclib = \<lparr>lx_base = ''https://lrclib.net/'', lx_net = (\<lambda>k r. Inr \<lparr>rs_status = 200, rs_retryAfter = '''',
     rs_body = ''{}'', rs_readErr = None\<rparr>), lx_badURL = (\<lambda>u. None), lx_get = (\<lambda>b. Inr ''''),
     lx_search = (\<lambda>b. Inr [\<lparr>lb_Duration = 201, lb_SyncedLyrics = ''far''\<rparr>,
       \<lparr>lb_Duration = 401 / 2, lb_SyncedLyrics = '' near ''\<rparr>, \<lparr>lb_Duration = 200, lb_SyncedLyrics = ''''\<rparr>]),
     lx_gone = (\<lambda>k. False), lx_ctxErr = ''context canceled''\<rparr>"

lemma demo_texts:
  "trimSpace '' near '' = ''near''" "trimSpace ''far'' = ''far''" "trimSpace '''' = ''''"
  by (simp_all add: trimSpace_def runes_ASCII isASCII_def isSpaceRune_def byte_def upt_rec)

lemma demo_diffs:
  "durationDiff 200 \<lparr>lb_Duration = 401 / 2, lb_SyncedLyrics = l\<rparr> = 1 / 2"
  "durationDiff 200 \<lparr>lb_Duration = 201, lb_SyncedLyrics = l\<rparr> = 1"
  by code_simp+

lemma demo_probe:
  "fst (run_state (Probe demoLrclib ''A'' ''S'' 200) \<lparr>wb_sent = [], wb_clock = 0, lc_waits = []\<rparr>) = Inr (Some ''near'')"
  by (simp add: Probe_def probeOnce_def probeAnswer_def searchForSyncedWithinTolerance_def searchOnce_def searchAnswer_def
      demoLrclib_def readLimited_def maxLyricsBytes_def readAll_def waitFor_def doRequest_def Let_def demo_texts demo_diffs
      lrclibDurationToleranceSec_def)

theorem probe_sound_witness:
  "\<exists>rs. searchAnswered demoLrclib ''A'' ''S'' rs \<and> nearest 200 rs ''near''"
proof -
  obtain c' where "run_state (Probe demoLrclib ''A'' ''S'' 200) \<lparr>wb_sent = [], wb_clock = 0, lc_waits = []\<rparr> =
      (Inr (Some ''near''), c')"
    using demo_probe by (metis prod.collapse)
  moreover have "\<not> getAnswered demoLrclib ''A'' ''S'' 200 (Some ''near'')"
    by (simp add: getAnswered_def probeAnswer_def demoLrclib_def readLimited_def maxLyricsBytes_def readAll_def demo_texts)
  ultimately show ?thesis
    using probe_sound [of demoLrclib "''A''" "''S''" 200 _ "Some ''near''"] by auto
qed

text \<open>
  The bound on a wait is already built into the reading of the header: a value above ten
  seconds is read as one second, so a longer demand of the service is not honoured but cut
  to one second, and the cap after it never acts.
\<close>

lemma long_wait_cut:
  "Atoi (trimSpace x) = Some n \<Longrightarrow> 10 < n \<Longrightarrow> parseRetryAfter x = 1000 * milli"
  "cappedWait (parseRetryAfter x) = parseRetryAfter x"
  by (auto simp: parseRetryAfter_def cappedWait_def maxRetryWait_def milli_def split: option.split)

end
