(* ===== verification/Redis_Lock.thy ===== *)
theory Redis_Lock
  imports Anticheat
begin

section \<open>The Redis buzz lock: server/internal/store/lock_redis.go\<close>

text \<open>
  The production lock of a buzz round: \<open>SET key player NX\<close> with a time to live. The Redis
  client is not part of the repository, so its calls are the record \<open>redisOps\<close> (every call may
  fail, and a failed call may have been carried out), and what the lock relies on is the
  locale \<open>redis\<close>: \<open>live r k\<close> is the value of a key that has not expired. While no key
  expires, the lock has at most one winner, whatever calls fail; when no call fails it is
  a lock in the sense of ports.go. A reference store with a clock shows that the laws can
  hold, and what happens when a round outlives the time to live.
\<close>

subsection \<open>The lock\<close>

record 'r redisOps =
  ro_Ping :: "'r \<Rightarrow> (string + unit) \<times> 'r"
  ro_SetNX :: "'r \<Rightarrow> string \<Rightarrow> string \<Rightarrow> int \<Rightarrow> (string + bool) \<times> 'r"
  ro_Del :: "'r \<Rightarrow> string \<Rightarrow> (string + unit) \<times> 'r"
  ro_Get :: "'r \<Rightarrow> string \<Rightarrow> (string + string option) \<times> 'r"

definition redisKeyPrefix :: string where "redisKeyPrefix = ''buzz:''"

text \<open>Five minutes, in milliseconds.\<close>

definition defaultLockTTL :: int where "defaultLockTTL = 300000"

definition NewRedisLock :: "'r redisOps \<Rightarrow> string \<Rightarrow> 'r \<Rightarrow> (string + unit) \<times> 'r" where
  "NewRedisLock ops addr r = (case ro_Ping ops r of
     (Inl e, r1) \<Rightarrow> (Inl (''store: redis ping '' @ addr @ '': '' @ e), r1)
   | (Inr u, r1) \<Rightarrow> (Inr (), r1))"

definition rl_key :: "string \<Rightarrow> string" where
  "rl_key roundKey = redisKeyPrefix @ roundKey"

definition rl_TryAcquire :: "'r redisOps \<Rightarrow> 'r \<Rightarrow> string \<Rightarrow> string \<Rightarrow> (string + bool) \<times> 'r" where
  "rl_TryAcquire ops r roundKey playerID =
     (case ro_SetNX ops r (rl_key roundKey) playerID defaultLockTTL of
        (Inl e, r1) \<Rightarrow> (Inl (''store: buzz SETNX '' @ roundKey @ '': '' @ e), r1)
      | (Inr won, r1) \<Rightarrow> (Inr won, r1))"

definition rl_Release :: "'r redisOps \<Rightarrow> 'r \<Rightarrow> string \<Rightarrow> (string + unit) \<times> 'r" where
  "rl_Release ops r roundKey =
     (case ro_Del ops r (rl_key roundKey) of
        (Inl e, r1) \<Rightarrow> (Inl (''store: buzz release '' @ roundKey @ '': '' @ e), r1)
      | (Inr u, r1) \<Rightarrow> (Inr (), r1))"

definition rl_Holder :: "'r redisOps \<Rightarrow> 'r \<Rightarrow> string \<Rightarrow> (string + string) \<times> 'r" where
  "rl_Holder ops r roundKey =
     (case ro_Get ops r (rl_key roundKey) of
        (Inl e, r1) \<Rightarrow> (Inl (''store: buzz holder '' @ roundKey @ '': '' @ e), r1)
      | (Inr None, r1) \<Rightarrow> (Inr '''', r1)
      | (Inr (Some x), r1) \<Rightarrow> (Inr x, r1))"

text \<open>A sequence of claims of one round, with the answers.\<close>

fun rl_claims :: "'r redisOps \<Rightarrow> 'r \<Rightarrow> string \<Rightarrow> string list \<Rightarrow> (string + bool) list" where
  "rl_claims ops r key [] = []"
| "rl_claims ops r key (p # ps) = (case rl_TryAcquire ops r key p of (a, r1) \<Rightarrow> a # rl_claims ops r1 key ps)"

subsection \<open>What the lock relies on\<close>

locale redis =
  fixes ops :: "'r redisOps"
    and live :: "'r \<Rightarrow> string \<Rightarrow> string option"
  assumes setnx_ok: "0 < ttl \<Longrightarrow> ro_SetNX ops r k x ttl = (Inr won, r1) \<Longrightarrow>
      (won \<longleftrightarrow> live r k = None) \<and> live r1 = (if won then (live r)(k \<mapsto> x) else live r)"
    and setnx_fails: "0 < ttl \<Longrightarrow> ro_SetNX ops r k x ttl = (Inl e, r1) \<Longrightarrow>
      live r1 = live r \<or> live r k = None \<and> live r1 = (live r)(k \<mapsto> x)"
    and del_ok: "ro_Del ops r k = (Inr u, r1) \<Longrightarrow> live r1 = (live r)(k := None)"
    and del_fails: "ro_Del ops r k = (Inl e, r1) \<Longrightarrow> live r1 = live r \<or> live r1 = (live r)(k := None)"
    and get_ok: "ro_Get ops r k = (Inr a, r1) \<Longrightarrow> a = live r k \<and> live r1 = live r"
    and get_fails: "ro_Get ops r k = (Inl e, r1) \<Longrightarrow> live r1 = live r"
begin

lemma setnx:
  "ro_SetNX ops r k x defaultLockTTL = (Inr won, r1) \<Longrightarrow>
     (won \<longleftrightarrow> live r k = None) \<and> live r1 = (if won then (live r)(k \<mapsto> x) else live r)"
  "ro_SetNX ops r k x defaultLockTTL = (Inl e, r1) \<Longrightarrow>
     live r1 = live r \<or> live r k = None \<and> live r1 = (live r)(k \<mapsto> x)"
  using setnx_ok [of defaultLockTTL] setnx_fails [of defaultLockTTL] by (simp_all add: defaultLockTTL_def)

lemma acquire_result:
  "rl_TryAcquire ops r key p = (a, r1) \<Longrightarrow>
     (a = Inr True \<longrightarrow> live r (rl_key key) = None) \<and>
     (live r (rl_key key) \<noteq> None \<longrightarrow> live r1 = live r) \<and>
     (a = Inr True \<longrightarrow> live r1 (rl_key key) = Some p)"
  by (auto simp: rl_TryAcquire_def dest!: setnx split: prod.splits sum.splits if_splits)

lemma taken_stays: "live r (rl_key key) \<noteq> None \<Longrightarrow> count_list (rl_claims ops r key ps) (Inr True) = 0"
proof (induction ps arbitrary: r)
  case (Cons p ps)
  obtain a r1 where a: "rl_TryAcquire ops r key p = (a, r1)" by fastforce
  from acquire_result [OF a] Cons.prems have "a \<noteq> Inr True" "live r1 = live r" by auto
  with Cons a show ?case by simp
qed simp

lemma at_most_one: "count_list (rl_claims ops r key ps) (Inr True) \<le> 1"
proof (induction ps arbitrary: r)
  case (Cons p ps)
  obtain a r1 where a: "rl_TryAcquire ops r key p = (a, r1)" by fastforce
  show ?case
  proof (cases "a = Inr True")
    case True
    with acquire_result [OF a] have "live r1 (rl_key key) \<noteq> None" by simp
    with taken_stays a True show ?thesis by simp
  next
    case False
    with Cons a show ?thesis by simp
  qed
qed simp

lemma holder_truthful: "rl_Holder ops r key = (Inr x, r1) \<Longrightarrow> x = (case live r (rl_key key) of None \<Rightarrow> '''' | Some p \<Rightarrow> p)"
  by (auto simp: rl_Holder_def dest!: get_ok split: prod.splits sum.splits option.splits)

text \<open>A release that fails may leave the round taken, and then nobody can claim it.\<close>

lemma failed_release_blocks:
  assumes "rl_Release ops r key = (a, r1)" and "live r1 = live r" and "live r (rl_key key) \<noteq> None"
  shows "count_list (rl_claims ops r1 key ps) (Inr True) = 0"
  using assms taken_stays by simp

end

text \<open>When the server answers every call, the lock is a lock of ports.go.\<close>

locale redis_up = redis +
  assumes setnx_answers: "\<exists>won r1. ro_SetNX ops r k x ttl = (Inr won, r1)"
    and del_answers: "\<exists>u r1. ro_Del ops r k = (Inr u, r1)"
begin

lemma acquire_up:
  "fst (rl_TryAcquire ops r key p) = Inr (live r (rl_key key) = None)"
  "live (snd (rl_TryAcquire ops r key p)) =
     (if live r (rl_key key) = None then (live r)(rl_key key \<mapsto> p) else live r)"
proof -
  obtain won r1 where x: "ro_SetNX ops r (rl_key key) p defaultLockTTL = (Inr won, r1)" using setnx_answers by blast
  with setnx(1) [OF x] show "fst (rl_TryAcquire ops r key p) = Inr (live r (rl_key key) = None)"
    "live (snd (rl_TryAcquire ops r key p)) =
       (if live r (rl_key key) = None then (live r)(rl_key key \<mapsto> p) else live r)"
    by (simp_all add: rl_TryAcquire_def)
qed

lemma release_up: "live (snd (rl_Release ops r key)) = (live r)(rl_key key := None)"
proof -
  obtain u r1 where x: "ro_Del ops r (rl_key key) = (Inr u, r1)" using del_answers by blast
  with del_ok [OF x] show ?thesis by (simp add: rl_Release_def)
qed

end

lemma rl_key_inject [simp]: "rl_key a = rl_key b \<longleftrightarrow> a = b"
  by (simp add: rl_key_def)

sublocale redis_up \<subseteq> up: buzz_lock
  "\<lambda>r key p. (fst (rl_TryAcquire ops r key p) = Inr True, snd (rl_TryAcquire ops r key p))"
  "\<lambda>r key. snd (rl_Release ops r key)" "\<lambda>r key. live r (rl_key key)"
  by unfold_locales (simp_all add: acquire_up release_up)

subsection \<open>A reference store\<close>

text \<open>Keys with their deadlines under a clock; every call is answered.\<close>

record refRedis =
  rr_now :: int
  rr_keys :: "(string \<times> string \<times> int) list"

definition refLive :: "refRedis \<Rightarrow> string \<Rightarrow> string option" where
  "refLive r k = (case map_of (rr_keys r) k of None \<Rightarrow> None
     | Some (x, deadline) \<Rightarrow> if rr_now r < deadline then Some x else None)"

definition refOps :: "refRedis redisOps" where
  "refOps = \<lparr>ro_Ping = (\<lambda>r. (Inr (), r)),
     ro_SetNX = (\<lambda>r k x ttl. if refLive r k = None
        then (Inr True, r\<lparr>rr_keys := AList.update k (x, rr_now r + ttl) (rr_keys r)\<rparr>) else (Inr False, r)),
     ro_Del = (\<lambda>r k. (Inr (), r\<lparr>rr_keys := AList.delete k (rr_keys r)\<rparr>)),
     ro_Get = (\<lambda>r k. (Inr (refLive r k), r))\<rparr>"

interpretation ref: redis_up refOps refLive
  by unfold_locales (auto simp: refOps_def refLive_def fun_eq_iff split: if_splits option.splits)

text \<open>
  The same store behind a connection on which every answer to a write is lost: the claim is
  carried out, but nobody is told.
\<close>

definition lostOps :: "refRedis redisOps" where
  "lostOps = refOps\<lparr>ro_SetNX := (\<lambda>r k x ttl. (Inl ''i/o timeout'', snd (ro_SetNX refOps r k x ttl))),
     ro_Del := (\<lambda>r k. (Inl ''i/o timeout'', r))\<rparr>"

interpretation lost: redis lostOps refLive
  by unfold_locales (auto simp: lostOps_def refOps_def refLive_def fun_eq_iff split: if_splits option.splits)

subsection \<open>Properties\<close>



text \<open>A lost answer to the only claim leaves the round without a winner and without a way to get one.\<close>

lemma lost_claim_blocks:
  "rl_claims lostOps \<lparr>rr_now = 0, rr_keys = []\<rparr> ''r1'' [''p1'', ''p2''] =
     replicate 2 (Inl ''store: buzz SETNX r1: i/o timeout'')"
  "refLive (snd (rl_TryAcquire lostOps \<lparr>rr_now = 0, rr_keys = []\<rparr> ''r1'' ''p1'')) (rl_key ''r1'') = Some ''p1''"
  by code_simp+

text \<open>Within the time to live nobody else wins; after it the round can be won a second time.\<close>

lemma lock_expires:
  assumes "rl_TryAcquire refOps r key p = (Inr True, r1)" and "0 \<le> d"
  shows "fst (rl_TryAcquire refOps (r1\<lparr>rr_now := rr_now r1 + d\<rparr>) key q) = Inr (defaultLockTTL \<le> d)"
  using assms by (auto simp: rl_TryAcquire_def refOps_def refLive_def defaultLockTTL_def split: if_splits)

end
