(* ===== verification/Mem_Repo.thy ===== *)
theory Mem_Repo
  imports Admin_Api
begin

section \<open>The in-memory repository and the sample board: server/internal/store/repo\_mem.go\<close>

text \<open>
  What the server runs on when Postgres cannot be reached. The maps of \<open>MemRepo\<close> are
  association lists; boards are pointers, so marking a track as played changes the object in
  the store (\<open>heap\<close>) that every holder of the board sees. An event's detail map is the text it
  is logged as. The order of \<open>Leaderboard\<close> among equal scores depends on Go's map iteration and
  its unstable sort; the argument \<open>arrange\<close> stands for both.
\<close>

subsection \<open>The repository\<close>

record memEvent =
  me_SessionID :: string
  me_Kind :: string
  me_Detail :: string
  me_CreatedAt :: int

record memRepo =
  mr_sessions :: "(string \<times> session) list"
  mr_boards :: "(string \<times> board) list"
  mr_scores :: "(string \<times> (playerID \<times> scoreEntry) list) list"
  mr_events :: "memEvent list"

definition NewMemRepo :: memRepo where
  "NewMemRepo = \<lparr>mr_sessions = [], mr_boards = [], mr_scores = [], mr_events = []\<rparr>"

definition mr_CreateSession :: "session \<Rightarrow> memRepo \<Rightarrow> (string + unit) \<times> memRepo" where
  "mr_CreateSession s r = (case map_of (mr_sessions r) (ss_ID s) of
     Some _ \<Rightarrow> (Inl (''store: session '' @ ss_ID s @ '' already exists''), r)
   | None \<Rightarrow> (Inr (), r\<lparr>mr_sessions := AList.update (ss_ID s) s (mr_sessions r)\<rparr>))"

definition mr_SaveScore :: "string \<Rightarrow> playerID \<Rightarrow> string \<Rightarrow> int \<Rightarrow> memRepo \<Rightarrow> memRepo" where
  "mr_SaveScore sid pid handle score r = r\<lparr>mr_scores := AList.update sid
     (AList.update pid \<lparr>se_ID = pid, se_Handle = handle, se_Score = score\<rparr> (get_or [] (mr_scores r) sid)) (mr_scores r)\<rparr>"

definition mr_LogEvent :: "int \<Rightarrow> string \<Rightarrow> string \<Rightarrow> string \<Rightarrow> memRepo \<Rightarrow> memRepo" where
  "mr_LogEvent now sid kind detail r = r\<lparr>mr_events := mr_events r @
     [\<lparr>me_SessionID = sid, me_Kind = kind, me_Detail = detail, me_CreatedAt = now\<rparr>]\<rparr>"

definition mr_LoadBoard :: "string \<Rightarrow> memRepo \<Rightarrow> string + board" where
  "mr_LoadBoard sid r = (case map_of (mr_boards r) sid of
     None \<Rightarrow> Inl (''store: no board for session '' @ sid) | Some b \<Rightarrow> Inr b)"

definition mr_Leaderboard :: "(scoreEntry list \<Rightarrow> scoreEntry list) \<Rightarrow> int \<Rightarrow> memRepo \<Rightarrow> scoreEntry list" where
  "mr_Leaderboard arrange limit r =
     (let limit = (if limit \<le> 0 then 10 else limit);
          all = arrange (concat (map (\<lambda>(s, ps). map snd ps) (mr_scores r)))
      in if limit < int (length all) then take (nat limit) all else all)"

text \<open>The tracks of the cells of a board, in the order of the two loops.\<close>

definition boardTracks :: "board \<Rightarrow> heap \<Rightarrow> taddr list" where
  "boardTracks b h = concat (map (\<lambda>c. cTracks (hCell h c)) (cellsOf b))"

definition mr_MarkTrackPlayed :: "string \<Rightarrow> string \<Rightarrow> memRepo \<Rightarrow> heap \<Rightarrow> heap" where
  "mr_MarkTrackPlayed sid trackID r h = (case map_of (mr_boards r) sid of
     None \<Rightarrow> h
   | Some b \<Rightarrow> fold (\<lambda>t h. if tID (hTrack h t) = trackID then updTrack t (\<lambda>x. x\<lparr>tPlayed := True\<rparr>) h else h)
       (boardTracks b h) h)"

definition mr_ClearPlayed :: "string \<Rightarrow> memRepo \<Rightarrow> heap \<Rightarrow> heap" where
  "mr_ClearPlayed sid r h = (case map_of (mr_boards r) sid of
     None \<Rightarrow> h
   | Some b \<Rightarrow> fold (\<lambda>t. updTrack t (\<lambda>x. x\<lparr>tPlayed := False\<rparr>)) (boardTracks b h) h)"

definition mr_SetBoard :: "string \<Rightarrow> board \<Rightarrow> memRepo \<Rightarrow> memRepo" where
  "mr_SetBoard sid b r = r\<lparr>mr_boards := AList.update sid b (mr_boards r)\<rparr>"

subsection \<open>The sample board\<close>

definition sampleID :: "string \<Rightarrow> int list \<Rightarrow> string" where
  "sampleID p ns = p @ concat (map (\<lambda>n. ''-'' @ itoa n) ns)"

definition sampleTrackOf :: "string \<Rightarrow> string \<Rightarrow> string \<Rightarrow> track" where
  "sampleTrackOf i artist song = \<lparr>tID = i, tSpotifyURI = ''spotify:track:'' @ i, tArtist = artist, tSong = song,
     tAlbumArt = '''', tDurationMs = 180000, tPlayed = False, tPlayable = True, tYear = 0, tGenre = ''''\<rparr>"

definition sampleCategories :: "string list" where
  "sampleCategories = [''80s Anthems'', ''One-Hit Wonders'', ''Movie Themes'', ''Hip-Hop'', ''Karaoke Classics'']"

definition dashed :: "int list \<Rightarrow> string" where
  "dashed ns = tl (concat (map (\<lambda>n. ''-'' @ itoa n) ns))"

definition sampleCellAt :: "int \<Rightarrow> int \<Rightarrow> string \<Rightarrow> gameCell" where
  "sampleCellAt row col category = \<lparr>gc_row = row, gc_col = col, gc_category = category, gc_dd = False,
     gc_tracks = map (\<lambda>k. sampleTrackOf (sampleID ''t'' [row, col, int k])
         (''Artist '' @ dashed [row, col, int k]) (''Song '' @ dashed [row, col, int k]))
       [0..<nat (4 + (row + col) mod 3)]\<rparr>"

definition SampleBoard :: gameBoard where
  "SampleBoard = \<lparr>gb_rows = 5, gb_cols = 5,
     gb_cells = map (\<lambda>ri. map (\<lambda>ci. sampleCellAt (int ri + 1) (int ci + 1) (sampleCategories ! ci)) [0..<5]) [0..<5],
     gb_ddCount = 2,
     gb_bucket = map (\<lambda>i. sampleTrackOf (sampleID ''dd-bucket'' [int i])
       (''Daily Double Artist '' @ itoa (int i)) (''Daily Double Song '' @ itoa (int i))) [0..<5]\<rparr>"

text \<open>Every call of \<open>SampleBoard\<close> allocates new objects.\<close>

definition SeedSampleBoard :: "string \<Rightarrow> memRepo \<Rightarrow> heap \<Rightarrow> board \<times> memRepo \<times> heap" where
  "SeedSampleBoard sid r h = (case allocBoard SampleBoard h of (b, h1) \<Rightarrow> (b, mr_SetBoard sid b r, h1))"

subsection \<open>What holds of it\<close>

lemma fold_updTrack_played:
  "tPlayed (hTrack (fold (\<lambda>t. updTrack t (\<lambda>x. x\<lparr>tPlayed := p\<rparr>)) ts h) u) =
     (if u \<in> set ts then p else tPlayed (hTrack h u))"
  by (induction ts arbitrary: h) (auto simp: updTrack_def)

lemma fold_mark_played:
  "tPlayed (hTrack (fold (\<lambda>t h. if tID (hTrack h t) = i then updTrack t (\<lambda>x. x\<lparr>tPlayed := True\<rparr>) h else h) ts h) u) =
     (u \<in> set ts \<and> tID (hTrack h u) = i \<or> tPlayed (hTrack h u)) \<and>
   tID (hTrack (fold (\<lambda>t h. if tID (hTrack h t) = i then updTrack t (\<lambda>x. x\<lparr>tPlayed := True\<rparr>) h else h) ts h) u) =
     tID (hTrack h u)"
  by (induction ts arbitrary: h) (auto simp: updTrack_def)

text \<open>Marking plays exactly the tracks of the session's board with that id; clearing unplays them all.\<close>

lemma mark_played:
  "map_of (mr_boards r) sid = Some b \<Longrightarrow> tPlayed (hTrack (mr_MarkTrackPlayed sid i r h) u) =
     (u \<in> set (boardTracks b h) \<and> tID (hTrack h u) = i \<or> tPlayed (hTrack h u))"
  by (simp add: mr_MarkTrackPlayed_def fold_mark_played)

lemma clear_played:
  "map_of (mr_boards r) sid = Some b \<Longrightarrow> tPlayed (hTrack (mr_ClearPlayed sid r h) u) =
     (u \<notin> set (boardTracks b h) \<and> tPlayed (hTrack h u))"
  by (simp add: mr_ClearPlayed_def fold_updTrack_played)

text \<open>
  The leaderboard holds the highest scores: whoever is left out has no more than anyone
  listed, however Go orders equal scores.
\<close>

lemma leaderboard_top:
  assumes "\<And>xs. mset (arrange xs) = mset xs" and "\<And>xs. sorted_wrt (\<lambda>a b. se_Score b \<le> se_Score a) (arrange xs)"
  shows "\<exists>rest. mset (mr_Leaderboard arrange limit r @ rest) = mset (concat (map (\<lambda>(s, ps). map snd ps) (mr_scores r))) \<and>
    (\<forall>a \<in> set (mr_Leaderboard arrange limit r). \<forall>b \<in> set rest. se_Score b \<le> se_Score a)"
proof -
  let ?all = "arrange (concat (map (\<lambda>(s, ps). map snd ps) (mr_scores r)))"
  let ?n = "length (mr_Leaderboard arrange limit r)"
  have split: "?all = mr_Leaderboard arrange limit r @ drop ?n ?all"
    by (auto simp: mr_Leaderboard_def Let_def)
  then have "sorted_wrt (\<lambda>a b. se_Score b \<le> se_Score a) (mr_Leaderboard arrange limit r @ drop ?n ?all)"
    using assms(2) by metis
  then have "\<forall>a \<in> set (mr_Leaderboard arrange limit r). \<forall>b \<in> set (drop ?n ?all). se_Score b \<le> se_Score a"
    by (simp add: sorted_wrt_append)
  moreover have "mset (mr_Leaderboard arrange limit r @ drop ?n ?all) = mset (concat (map (\<lambda>(s, ps). map snd ps) (mr_scores r)))"
    unfolding split [symmetric] by (rule assms(1))
  ultimately show ?thesis by blast
qed

text \<open>Every cell of the sample board has four to six playable tracks, and the bucket covers its Daily Doubles.\<close>

lemma sample_board_shape:
  "length (gb_cells SampleBoard) = 5"
  "list_all (\<lambda>row. length row = 5 \<and> list_all (\<lambda>c. 4 \<le> length (gc_tracks c) \<and> length (gc_tracks c) \<le> 6 \<and>
     list_all (\<lambda>t. tPlayable t \<and> \<not> tPlayed t) (gc_tracks c)) row) (gb_cells SampleBoard)"
  "gb_ddCount SampleBoard < int (length (gb_bucket SampleBoard))"
  by (auto simp: SampleBoard_def sampleCellAt_def sampleTrackOf_def list_all_iff)

end
