(* ===== verification/Startup_Rules.thy ===== *)
theory Startup_Rules
  imports Startup Attach_Rules Spotify_Rules
begin

section \<open>What a started process can be relied on for\<close>

text \<open>
  The boot guard and the optional routes, the fallbacks when nothing around the server can
  be reached, and the OAuth callback.
\<close>

subsection \<open>Reading off a start\<close>

lemma mainStart_Inr:
  assumes "mainStart v = Inr p"
  shows "sv_cfg p = LoadConfig (be_getenv v) \<and> sv_mode p = modeName (be_lower v) (be_getenv v ''YFI_ENV'') \<and>
    (defaultedSecrets (sv_cfg p) = [] \<or> isDevEnv (be_lower v) (be_getenv v ''YFI_ENV'')) \<and>
    sv_routes p = bootRoutes v (sv_cfg p) (sv_repo p = PostgresGameRepo)
      (decideWS (be_getenv v ''YFI_DEV_WS'') (be_getenv v ''YFI_INSECURE_TRANSPORT'')
         (isProdEnv (be_lower v) (be_getenv v ''YFI_ENV''))) \<and>
    (\<exists>h. (sv_repo p, h) = chooseRepo v (sv_cfg p) \<and> sv_engine p = firstEngine v (sv_cfg p) (sv_repo p = PostgresGameRepo)
      (restoredToken v (tokenFile (be_getenv v) (sv_cfg p)) \<noteq> '''') h) \<and>
    sv_audio p = RestoreRefreshToken (restoredToken v (tokenFile (be_getenv v) (sv_cfg p))) newSpotify \<and>
    sv_lock p = (case be_redis v (sc_RedisAddr (sv_cfg p)) of Inr _ \<Rightarrow> RedisBuzzLock | Inl _ \<Rightarrow> MemBuzzLock)"
  using assms by (auto simp: mainStart_def Let_def split: if_splits prod.splits option.splits)

lemma prod_not_dev: "isProdEnv low x \<Longrightarrow> \<not> isDevEnv low x"
  by (auto simp: isProdEnv_def isDevEnv_def)

lemma modeName_cases: "(modeName low x = ''prod'' \<longleftrightarrow> isProdEnv low x) \<and> (modeName low x = ''dev'' \<longleftrightarrow> isDevEnv low x)"
  using prod_not_dev [of low x] by (auto simp: modeName_def)

lemma SetBoard_fields: "e_board (SetBoard b e) = b \<and> e_heap (SetBoard b e) = e_heap e \<and> e_cfg (SetBoard b e) = e_cfg e"
  by (simp add: SetBoard_def snapshotDDBucket_def split: option.split)

lemma NewEngine_fields: "e_heap (NewEngine c rng h) = h \<and> e_board (NewEngine c rng h) = None \<and>
    cf_AdminSecret (e_cfg (NewEngine c rng h)) = cf_AdminSecret c \<and>
    cf_hasLyricsStore (e_cfg (NewEngine c rng h)) = cf_hasLyricsStore c \<and>
    cf_hasDropPointStore (e_cfg (NewEngine c rng h)) = cf_hasDropPointStore c"
  by (simp add: NewEngine_def Let_def)

lemma firstEngine_cfg: "cf_AdminSecret (e_cfg (firstEngine v cfg pg restored h)) = sc_AdminSecret cfg"
  by (simp add: firstEngine_def Let_def MarkSpotifyAuthed_def SetBoard_fields NewEngine_fields engineConfig_def
      split: prod.split)

lemma firstEngine_sample:
  "\<exists>b. e_board (firstEngine v cfg False restored h) = Some b \<and>
     readBoard (e_heap (firstEngine v cfg False restored h)) b = SampleBoard"
proof -
  obtain b h1 where al: "allocBoard SampleBoard h = (b, h1)" by fastforce
  with allocBoard_spec [OF al] show ?thesis
    by (simp add: firstEngine_def Let_def MarkSpotifyAuthed_def SetBoard_fields NewEngine_fields)
qed

subsection \<open>Properties\<close>

text \<open>
  C4: the boot guard. A process that starts outside dev runs on no published secret, so the
  engine's admin secret is not the one in the example configuration; the certificate hash is
  never served in production; and the cleartext WebSocket route exists exactly when both
  acknowledgements are set, in production as elsewhere.
\<close>

theorem boot_guard:
  assumes "mainStart v = Inr p"
  shows "(sv_mode p \<noteq> ''dev'' \<longrightarrow> cf_AdminSecret (e_cfg (sv_engine p)) \<noteq> ''changeme-admin'' \<and>
       sc_NonceSecret (sv_cfg p) \<noteq> ''dev-nonce-secret'' \<and> sc_JoinSecret (sv_cfg p) \<noteq> ''dev-join-secret'') \<and>
    (sv_mode p = ''prod'' \<longrightarrow> ''/cert-hash'' \<notin> set (sv_routes p)) \<and>
    (''/ws'' \<in> set (sv_routes p) \<longleftrightarrow>
       be_getenv v ''YFI_DEV_WS'' = ''1'' \<and> be_getenv v ''YFI_INSECURE_TRANSPORT'' = ''1'')"
  using mainStart_Inr [OF assms] modeName_cases [of "be_lower v" "be_getenv v ''YFI_ENV''"]
  by (auto simp: defaultedSecrets_def bootRoutes_def decideWS_def firstEngine_cfg split: if_splits)

text \<open>
  C38: the server starts on its own. In dev, with neither Redis nor Postgres in reach, the
  process still starts as soon as the transport does: with the in-memory lock, and with the
  whole sample board on the engine, so a game can be played.
\<close>

theorem boot_fallback:
  assumes "isDevEnv (be_lower v) (be_getenv v ''YFI_ENV'')" and "\<And>cfg. be_newServer v cfg = None"
    and "\<And>dsn. isl (be_postgres v dsn)" and "\<And>addr. isl (be_redis v addr)"
  shows "\<exists>p. mainStart v = Inr p \<and> sv_lock p = MemBuzzLock \<and>
    (\<exists>b. e_board (sv_engine p) = Some b \<and> readBoard (e_heap (sv_engine p)) b = SampleBoard)"
proof -
  have "\<exists>p. mainStart v = Inr p"
    using assms(1,2) by (cases "chooseRepo v (LoadConfig (be_getenv v))") (simp add: mainStart_def Let_def)
  then obtain p where p: "mainStart v = Inr p" by blast
  obtain h where h: "(sv_repo p, h) = chooseRepo v (sv_cfg p)"
    and e: "sv_engine p = firstEngine v (sv_cfg p) (sv_repo p = PostgresGameRepo)
      (restoredToken v (tokenFile (be_getenv v) (sv_cfg p)) \<noteq> '''') h"
    using mainStart_Inr [OF p] by blast
  have "sv_repo p \<noteq> PostgresGameRepo"
    using h assms(3) [of "sc_PostgresDSN (sv_cfg p)"] by (auto simp: chooseRepo_def isl_def split: prod.splits)
  moreover have "sv_lock p = MemBuzzLock"
    using mainStart_Inr [OF p] assms(4) [of "sc_RedisAddr (sv_cfg p)"] by (auto simp: isl_def)
  ultimately show ?thesis using p e firstEngine_sample by (metis (full_types))
qed

text \<open>
  The OAuth callback cannot be forged or replayed. A callback changes anything only when it
  brings back the non-empty state of the browser's own cookie, which is gone afterwards, so that
  the same request is refused from then on; the tokens change only with a code, and the engine and
  the token file only when Spotify accepts the code.
\<close>

theorem callback_needs_state:
  assumes "authCallback v canWrite got code s = (r, s')" and "s' \<noteq> s"
  shows "got \<noteq> '''' \<and> os_cookie s = Some got \<and>
    authCallback v canWrite got code s' = ((400, ''invalid OAuth state''), s') \<and>
    (code \<noteq> '''' \<or> os_audio s' = os_audio s) \<and>
    (fst r = 200 \<or> os_engine s' = os_engine s \<and> os_file s' = os_file s) \<and>
    (fst r = 200 \<longrightarrow> (\<exists>token. fst (run_state (ExchangeToken v code) (os_audio s)) = Inr token \<and>
       os_engine s' = PushSpotifyToken token (os_engine s)))"
proof -
  have "got \<noteq> ''''" and "os_cookie s = Some got" and n: "os_cookie s' = None"
    using assms by (auto simp: authCallback_def Let_def split: if_splits prod.splits sum.splits)
  moreover from n have "authCallback v canWrite got code s' = ((400, ''invalid OAuth state''), s')"
    by (simp add: authCallback_def)
  moreover have "(code \<noteq> '''' \<or> os_audio s' = os_audio s) \<and>
    (fst r = 200 \<or> os_engine s' = os_engine s \<and> os_file s' = os_file s)"
    using assms(1) by (auto simp: authCallback_def Let_def split: if_splits prod.splits sum.splits)
  moreover have "fst r = 200 \<longrightarrow> (\<exists>token. fst (run_state (ExchangeToken v code) (os_audio s)) = Inr token \<and>
       os_engine s' = PushSpotifyToken token (os_engine s))"
    using assms(1) by (auto simp: authCallback_def Let_def split: if_splits prod.splits sum.splits)
  ultimately show ?thesis by blast
qed

subsection \<open>Examples\<close>

text \<open>A production environment with its own secrets, the fallback acknowledged, and nothing in reach.\<close>

definition demoVars :: "string \<Rightarrow> getenv" where
  "demoVars mode k = (if k = ''YFI_ENV'' then mode else if k = ''ADMIN_SECRET'' then ''s3cret''
     else if k = ''YFI_NONCE_SECRET'' then ''n'' else if k = ''YFI_JOIN_SECRET'' then ''j''
     else if k = ''YFI_DEV_WS'' \<or> k = ''YFI_INSECURE_TRANSPORT'' then ''1'' else '''')"

definition demoBoot :: "string \<Rightarrow> bootEnv" where
  "demoBoot mode = \<lparr>be_getenv = demoVars mode, be_lower = id, be_redis = (\<lambda>a. Inl ''connection refused''),
     be_postgres = (\<lambda>a. Inl ''connection refused''), be_readFile = (\<lambda>p. None), be_newServer = (\<lambda>c. None),
     be_certSHA256 = (\<lambda>p. Some ''hash''), be_heap = sampleHeap, be_rng = id, be_unicode = asciiTables,
     be_prng = (\<lambda>s n. 0)\<rparr>"

lemma demo_modes: "normEnv id '' Prod '' = ''prod''" "normEnv id '''' = ''''"
  by (simp_all add: normEnv_def trimSpace_def toLower_def runes_ASCII isASCII_def isSpaceRune_def byte_def upt_rec
      runesToString_def runeLower_def encodeRune_def char_of_def bit_0)

lemma demo_starts: "\<exists>p. mainStart (demoBoot mode) = Inr p"
  by (cases "chooseRepo (demoBoot mode) (LoadConfig (be_getenv (demoBoot mode)))")
    (simp add: mainStart_def Let_def demoBoot_def demoVars_def LoadConfig_def env_var_def defaultedSecrets_def)

theorem boot_guard_witness:
  "\<exists>p. mainStart (demoBoot '' Prod '') = Inr p \<and> ''/ws'' \<in> set (sv_routes p) \<and> ''/cert-hash'' \<notin> set (sv_routes p) \<and>
     cf_AdminSecret (e_cfg (sv_engine p)) \<noteq> ''changeme-admin''"
proof -
  obtain p where p: "mainStart (demoBoot '' Prod '') = Inr p" using demo_starts by blast
  have "sv_mode p = ''prod''"
    using mainStart_Inr [OF p] by (simp add: demoBoot_def demoVars_def modeName_def isProdEnv_def demo_modes)
  with boot_guard [OF p] p show ?thesis by (simp add: demoBoot_def demoVars_def)
qed

theorem boot_fallback_witness:
  "\<exists>p. mainStart (demoBoot '''') = Inr p \<and> sv_lock p = MemBuzzLock"
  using boot_fallback [of "demoBoot ''''"] by (auto simp: demoBoot_def demoVars_def isDevEnv_def demo_modes)

definition demoSite :: oauthSite where
  "demoSite = \<lparr>os_audio = newSpotify, os_engine = game0, os_file = None, os_cookie = Some ''st''\<rparr>"

theorem callback_needs_state_witness:
  "\<exists>token. os_engine (snd (authCallback demoSpotify True ''st'' ''code'' demoSite)) =
     PushSpotifyToken token (os_engine demoSite)"
proof -
  let ?out = "authCallback demoSpotify True ''st'' ''code'' demoSite"
  have run: "fst (run_state (ExchangeToken demoSpotify ''code'') newSpotify) = Inr ''T1''"
    "sp_accessToken (snd (run_state (ExchangeToken demoSpotify ''code'') newSpotify)) = ''T1''"
    by (simp_all add: ExchangeToken_def sprun demoSpotify_def newSpotify_def tokenAnswer_def readAll_def)
  obtain c where c: "run_state (ExchangeToken demoSpotify ''code'') newSpotify = (Inr ''T1'', c)"
    using run(1) by (metis prod.collapse)
  have out: "fst (fst ?out) = 200" "sp_accessToken (os_audio (snd ?out)) = ''T1''"
    using run(2) by (simp_all add: authCallback_def demoSite_def c)
  then have "snd ?out \<noteq> demoSite" by (auto simp: demoSite_def newSpotify_def)
  then show ?thesis
    using callback_needs_state [of demoSpotify True "''st''" "''code''" demoSite "fst ?out" "snd ?out"] out(1)
    by simp blast
qed

end
