(* ===== verification/Ws_Stream.thy ===== *)
theory Ws_Stream
  imports Transport
begin

section \<open>The WebSocket as a byte stream, and the peer's address: transport/ws.go, server.go\<close>

text \<open>
  The fallback transport reuses the framing of the WebTransport stream: \<open>wsReadWriter\<close> makes a
  stream of a WebSocket's messages. The WebSocket library is not part of the repository: a
  message is what its reader answers to one \<open>Read\<close> after the other, bytes with an error or
  none (after the last answer, the end of the file), and the connection is the messages
  still to come with the error that ends it.
\<close>

subsection \<open>wsReadWriter\<close>

type_synonym wsReader = "(bytes \<times> read_error option) list"

record wsReadWriter =
  rw_reader :: "wsReader option"
  rw_msgs :: "wsReader list"
  rw_end :: read_error

definition newWSReadWriter :: "wsReader list \<Rightarrow> read_error \<Rightarrow> wsReadWriter" where
  "newWSReadWriter ms fin = \<lparr>rw_reader = None, rw_msgs = ms, rw_end = fin\<rparr>"

primrec readerRead :: "wsReader \<Rightarrow> (bytes \<times> read_error option) \<times> wsReader" where
  "readerRead [] = (([], Some EOF), [])"
| "readerRead (a # as) = (a, as)"

text \<open>\<open>Read\<close>: the loop over messages, until there is something to return.\<close>

function rw_Read :: "wsReadWriter \<Rightarrow> (bytes \<times> read_error option) \<times> wsReadWriter" where
  "rw_Read w = (case rw_reader w of
     Some r \<Rightarrow> (case readerRead r of
         ((bs, Some EOF), r1) \<Rightarrow>
           (let w1 = w\<lparr>rw_reader := None\<rparr> in if bs \<noteq> [] then ((bs, None), w1) else rw_Read w1)
       | ((bs, err), r1) \<Rightarrow> ((bs, err), w\<lparr>rw_reader := Some r1\<rparr>))
   | None \<Rightarrow> (case rw_msgs w of
         [] \<Rightarrow> (([], Some (rw_end w)), w)
       | m # ms \<Rightarrow> rw_Read (w\<lparr>rw_reader := Some m, rw_msgs := ms\<rparr>)))"
  by pat_completeness auto
termination
  by (relation "measure (\<lambda>w. 2 * length (rw_msgs w) + (if rw_reader w = None then 0 else 1))") auto

declare rw_Read.simps [simp del]

text \<open>\<open>Write\<close>: one binary message a frame; the idle timer is reset only when it has gone out.\<close>

definition rw_Write :: "(bytes \<Rightarrow> string option) \<Rightarrow> bytes \<Rightarrow> bytes list \<Rightarrow> (string + nat) \<times> bool \<times> bytes list" where
  "rw_Write werr p sent = (case werr p of
     Some e \<Rightarrow> (Inl e, False, sent)
   | None \<Rightarrow> (Inr (length p), True, sent @ [p]))"

subsection \<open>What the frame reader gets\<close>

definition rwWeight :: "wsReadWriter \<Rightarrow> nat" where
  "rwWeight w = (case rw_reader w of None \<Rightarrow> 0 | Some r \<Rightarrow> length r + 1) + sum_list (map (\<lambda>m. length m + 1) (rw_msgs w))"

lemma rw_Read_cases:
  "rw_reader w = None \<Longrightarrow> rw_msgs w = [] \<Longrightarrow> rw_Read w = (([], Some (rw_end w)), w)"
  "rw_reader w = None \<Longrightarrow> rw_msgs w = m # ms \<Longrightarrow> rw_Read w = rw_Read (w\<lparr>rw_reader := Some m, rw_msgs := ms\<rparr>)"
  "rw_reader w = Some [] \<Longrightarrow> rw_Read w = rw_Read (w\<lparr>rw_reader := None\<rparr>)"
  "rw_reader w = Some ((cs, None) # as) \<Longrightarrow> rw_Read w = ((cs, None), w\<lparr>rw_reader := Some as\<rparr>)"
  "rw_reader w = Some ((cs, Some EOF) # as) \<Longrightarrow>
     rw_Read w = (if cs \<noteq> [] then ((cs, None), w\<lparr>rw_reader := None\<rparr>) else rw_Read (w\<lparr>rw_reader := None\<rparr>))"
  "rw_reader w = Some ((cs, Some e) # as) \<Longrightarrow> e \<noteq> EOF \<Longrightarrow> rw_Read w = ((cs, Some e), w\<lparr>rw_reader := Some as\<rparr>)"
  by (subst rw_Read.simps, simp add: Let_def split: read_error.split)+

lemma rw_induct [case_names none message reader]:
  assumes "\<And>w. rw_reader w = None \<Longrightarrow> rw_msgs w = [] \<Longrightarrow> P w"
    and "\<And>w m ms. rw_reader w = None \<Longrightarrow> rw_msgs w = m # ms \<Longrightarrow> P (w\<lparr>rw_reader := Some m, rw_msgs := ms\<rparr>) \<Longrightarrow> P w"
    and "\<And>w r. rw_reader w = Some r \<Longrightarrow> P (w\<lparr>rw_reader := None\<rparr>) \<Longrightarrow> P w"
  shows "P w"
proof (induction w rule: measure_induct_rule [where f = "\<lambda>w. 2 * length (rw_msgs w) + (if rw_reader w = None then 0 else 1)"])
  case (less w)
  show ?case
  proof (cases "rw_reader w")
    case None
    then show ?thesis using assms(1,2) [of w] less by (cases "rw_msgs w") simp_all
  next
    case (Some r)
    then show ?thesis using assms(3) [of w r] less by simp
  qed
qed

text \<open>The answers of a reader, by what \<open>Read\<close> makes of them.\<close>

lemma answer_cases:
  obtains "r = []" | cs as where "r = (cs, None) # as" | cs as where "r = (cs, Some EOF) # as"
    | cs e as where "r = (cs, Some e) # as" and "e \<noteq> EOF"
proof (cases r)
  case (Cons a as)
  then show ?thesis using that by (cases a; cases "snd a"; cases "the (snd a) = EOF") auto
qed

lemma rw_Read_progress: "rw_Read w = ((bs, None), w1) \<Longrightarrow> rwWeight w1 < rwWeight w"
proof (induction w rule: rw_induct)
  case (reader w r)
  show ?case
  proof (cases r rule: answer_cases)
    case 1
    with reader(1) have "rw_Read w = rw_Read (w\<lparr>rw_reader := None\<rparr>)" by (simp add: rw_Read_cases)
    with reader(2,3) have "rwWeight w1 < rwWeight (w\<lparr>rw_reader := None\<rparr>)" by simp
    with reader(1) show ?thesis by (simp add: rwWeight_def)
  next
    case (2 cs as)
    with reader(1,3) show ?thesis by (auto simp: rw_Read_cases rwWeight_def)
  next
    case (3 cs as)
    then show ?thesis
    proof (cases "cs = []")
      case True
      with 3 reader(1) have "rw_Read w = rw_Read (w\<lparr>rw_reader := None\<rparr>)" by (simp add: rw_Read_cases)
      with reader(2,3) have "rwWeight w1 < rwWeight (w\<lparr>rw_reader := None\<rparr>)" by simp
      with reader(1) show ?thesis by (simp add: rwWeight_def)
    next
      case False
      with 3 reader(1,3) show ?thesis by (auto simp: rw_Read_cases rwWeight_def)
    qed
  next
    case (4 cs e as)
    with reader(1,3) show ?thesis by (simp add: rw_Read_cases)
  qed
qed (auto simp: rw_Read_cases rwWeight_def)

text \<open>All the reads up to the first error: the chunks and the error, as \<open>ReadFrame\<close> takes them.\<close>

function wsChunks :: "wsReadWriter \<Rightarrow> bytes list \<times> read_error" where
  "wsChunks w = (case rw_Read w of
     ((bs, Some e), w1) \<Rightarrow> ([bs], e)
   | ((bs, None), w1) \<Rightarrow> (case wsChunks w1 of (cs, e) \<Rightarrow> (bs # cs, e)))"
  by pat_completeness auto
termination
  by (relation "measure rwWeight") (auto dest: rw_Read_progress rw_Read_progress [OF sym])

declare wsChunks.simps [simp del]

text \<open>
  A whole message: its reader gives the bytes in pieces, and an end of the file only with
  or after the last one.
\<close>

fun whole :: "wsReader \<Rightarrow> bool" where
  "whole [] = True"
| "whole [(bs, err)] = (err = None \<or> err = Some EOF)"
| "whole ((bs, err) # as) = (err = None \<and> whole as)"

definition contentOf :: "wsReader \<Rightarrow> bytes" where
  "contentOf r = concat (map fst r)"

definition streamOf :: "wsReadWriter \<Rightarrow> bytes" where
  "streamOf w = (case rw_reader w of None \<Rightarrow> [] | Some r \<Rightarrow> contentOf r) @ concat (map contentOf (rw_msgs w))"

definition wholeMessages :: "wsReadWriter \<Rightarrow> bool" where
  "wholeMessages w \<longleftrightarrow> (\<forall>r. rw_reader w = Some r \<longrightarrow> whole r) \<and> list_all whole (rw_msgs w)"

lemma whole_Cons:
  "whole ((cs, None) # as) \<longleftrightarrow> whole as" "whole ((cs, Some e) # as) \<longleftrightarrow> e = EOF \<and> as = []"
  by (cases as; auto)+

lemma rw_Read_stream:
  "wholeMessages w \<Longrightarrow> rw_Read w = ((bs, err), w1) \<Longrightarrow>
     streamOf w = bs @ streamOf w1 \<and> rw_end w1 = rw_end w \<and> wholeMessages w1 \<and>
     (err = None \<or> err = Some (rw_end w) \<and> bs = [] \<and> streamOf w = [])"
proof (induction w rule: rw_induct)
  case none
  then show ?case by (auto simp: rw_Read_cases streamOf_def)
next
  case (message w m ms)
  let ?w = "w\<lparr>rw_reader := Some m, rw_msgs := ms\<rparr>"
  have "streamOf ?w = streamOf w" and "wholeMessages ?w"
    using message(1,2,4) by (simp_all add: streamOf_def wholeMessages_def)
  with message(3,5) rw_Read_cases(2) [OF message(1,2)] show ?case by auto
next
  case (reader w r)
  note d = streamOf_def contentOf_def wholeMessages_def
  let ?w = "w\<lparr>rw_reader := None\<rparr>"
  have ms: "wholeMessages ?w" and r: "whole r" using reader(1,3) by (simp_all add: wholeMessages_def)
  have skip: ?case if "rw_Read w = rw_Read ?w" and "contentOf r = []"
  proof -
    have "streamOf ?w = streamOf w" using reader(1) that(2) by (simp add: streamOf_def)
    with reader(2) [OF ms] reader(4) that(1) show ?thesis by auto
  qed
  show ?case
  proof (cases r rule: answer_cases)
    case 1
    with reader(1) show ?thesis by (intro skip) (simp_all add: rw_Read_cases contentOf_def)
  next
    case (2 cs as)
    with reader(1,3,4) r show ?thesis by (auto simp: rw_Read_cases d whole_Cons)
  next
    case (3 cs as)
    show ?thesis
    proof (cases "cs = []")
      case True
      with 3 reader(1) r show ?thesis by (intro skip) (simp_all add: rw_Read_cases contentOf_def whole_Cons)
    next
      case False
      with 3 reader(1,3,4) r show ?thesis by (auto simp: rw_Read_cases d whole_Cons)
    qed
  next
    case (4 cs e as)
    with r show ?thesis by (simp add: whole_Cons)
  qed
qed

lemma wsChunks_stream:
  "wholeMessages w \<Longrightarrow> concat (fst (wsChunks w)) = streamOf w \<and> snd (wsChunks w) = rw_end w"
proof (induction w rule: wsChunks.induct)
  case (1 w)
  obtain bs err w1 where r: "rw_Read w = ((bs, err), w1)" by (metis prod.collapse)
  note s = rw_Read_stream [OF 1(2) r]
  show ?case
  proof (cases err)
    case None
    with 1(1) [OF r [symmetric], of bs err] r s show ?thesis
      by (auto simp: wsChunks.simps [of w] split: prod.splits)
  next
    case (Some e)
    with r s show ?thesis by (auto simp: wsChunks.simps [of w])
  qed
qed


text \<open>Two frames over four messages, one of them empty, one with its end told with its bytes.\<close>

definition demoMessages :: "wsReader list" where
  "demoMessages = [[([0, 0], None), ([0, 2, 7], Some EOF)], [], [([8, 0], None), ([], Some EOF)], [([0, 0, 1], None), ([9], None)]]"


subsection \<open>clientIP\<close>

text \<open>\<open>net.SplitHostPort\<close>: the host, or None for an error.\<close>

definition splitHost :: "string \<Rightarrow> string option" where
  "splitHost s =
     (let host = rev (tl (dropWhile (\<lambda>c. c \<noteq> CHR '':'') (rev s)))
      in if CHR '':'' \<notin> set s then None
         else if hd s = CHR ''['' then
           (let inside = takeWhile (\<lambda>c. c \<noteq> CHR '']'') (tl s)
            in if CHR '']'' \<notin> set s \<or> host \<noteq> CHR ''['' # inside @ [CHR '']'']
                 \<or> CHR ''['' \<in> set (tl s) \<or> CHR '']'' \<in> set (drop (length host) s) then None
               else Some inside)
         else if CHR '':'' \<in> set host \<or> CHR ''['' \<in> set s \<or> CHR '']'' \<in> set s then None
         else Some host)"

definition clientIP :: "string \<Rightarrow> string" where
  "clientIP remoteAddr = (case splitHost remoteAddr of Some host \<Rightarrow> host | None \<Rightarrow> remoteAddr)"

lemma last_colon:
  assumes "CHR '':'' \<notin> set port"
  shows "rev (tl (dropWhile (\<lambda>c. c \<noteq> CHR '':'') (rev (host @ CHR '':'' # port)))) = host"
proof -
  have "dropWhile (\<lambda>c. c \<noteq> CHR '':'') (rev port @ CHR '':'' # rev host) = CHR '':'' # rev host"
    using assms by (subst dropWhile_append2) auto
  then show ?thesis by simp
qed

text \<open>The limiter counts hosts: the port of the peer, new for every connection, is cut off.\<close>

lemma clientIP_ipv4:
  assumes "set (host @ port) \<inter> {CHR '':'', CHR ''['', CHR '']''} = {}"
  shows "clientIP (host @ '':'' @ port) = host"
proof -
  have "CHR '':'' \<notin> set port" using assms by auto
  with assms last_colon [OF this, of host] show ?thesis
    by (cases host) (auto simp: clientIP_def splitHost_def Let_def)
qed

lemma clientIP_ipv6:
  assumes "set host \<inter> {CHR ''['', CHR '']''} = {}" and "set port \<inter> {CHR '':'', CHR ''['', CHR '']''} = {}"
  shows "clientIP (''['' @ host @ '']:'' @ port) = host"
proof -
  have "CHR '':'' \<notin> set port" using assms(2) by auto
  from last_colon [OF this, of "''['' @ host @ '']''"]
  have h: "rev (tl (dropWhile (\<lambda>c. c \<noteq> CHR '':'') (rev (''['' @ host @ '']:'' @ port)))) = ''['' @ host @ '']''"
    by simp
  have "takeWhile (\<lambda>c. c \<noteq> CHR '']'') (host @ '']:'' @ port) = host"
    using assms(1) by (subst takeWhile_append2) auto
  with assms h show ?thesis by (auto simp: clientIP_def splitHost_def Let_def)
qed

end
