(* ===== verification/Idle_Timer.thy ===== *)
theory Idle_Timer
  imports Prelude
begin

section \<open>The idle reaper of a WebSocket connection: transport/ws.go\<close>

text \<open>
  A connection is closed after a period without traffic. Go's \<open>Timer.Stop\<close> does not take
  back a callback that has begun, so \<open>idleTimer\<close> numbers its timers: a callback is given the
  generation of its timer and does nothing when the generation has moved on. The state
  below has the armed timer with its deadline, and the callbacks that have begun and not yet
  looked (\<open>it_running\<close>); \<open>it_calls\<close> counts the callbacks that have decided to call \<open>onExpire\<close>,
  which they do after they have given back the mutex. Each step happens at a time of the
  clock; the methods and the callback's check hold the mutex and are single steps.
\<close>

subsection \<open>The timer and its methods\<close>

record idleTimer =
  it_d :: int
  it_stopped :: bool
  it_gen :: u64
  it_armed :: "(u64 \<times> int) option"
  it_running :: "u64 list"
  it_calls :: nat

definition wsIdleTimeout :: int where "wsIdleTimeout = 30000"

definition newIdleTimer :: "int \<Rightarrow> int \<Rightarrow> idleTimer" where
  "newIdleTimer d now = \<lparr>it_d = d, it_stopped = False, it_gen = 0, it_armed = Some (0, now + d), it_running = [],
     it_calls = 0\<rparr>"

definition it_reset :: "int \<Rightarrow> idleTimer \<Rightarrow> idleTimer" where
  "it_reset now i = (if it_stopped i then i
     else i\<lparr>it_gen := it_gen i + 1, it_armed := Some (it_gen i + 1, now + it_d i)\<rparr>)"

definition it_stop :: "idleTimer \<Rightarrow> idleTimer" where
  "it_stop i = i\<lparr>it_stopped := True, it_armed := None\<rparr>"

text \<open>The runtime starts the callback of an armed timer whose time has come.\<close>

definition it_elapse :: "int \<Rightarrow> idleTimer \<Rightarrow> idleTimer" where
  "it_elapse now i = (case it_armed i of
     Some (g, deadline) \<Rightarrow> if deadline \<le> now then i\<lparr>it_armed := None, it_running := it_running i @ [g]\<rparr> else i
   | None \<Rightarrow> i)"

text \<open>The body of the oldest callback under way.\<close>

definition fireFunc :: "idleTimer \<Rightarrow> idleTimer" where
  "fireFunc i = (case it_running i of
     [] \<Rightarrow> i
   | g # gs \<Rightarrow> i\<lparr>it_running := gs, it_calls := (if \<not> it_stopped i \<and> it_gen i = g then it_calls i + 1 else it_calls i)\<rparr>)"

subsection \<open>Histories\<close>

datatype timer_event = Reset int | Stop | Elapse int | Fire

primrec timerStep :: "timer_event \<Rightarrow> idleTimer \<Rightarrow> idleTimer" where
  "timerStep (Reset now) i = it_reset now i"
| "timerStep Stop i = it_stop i"
| "timerStep (Elapse now) i = it_elapse now i"
| "timerStep Fire i = fireFunc i"

primrec eventTime :: "timer_event \<Rightarrow> int \<Rightarrow> int" where
  "eventTime (Reset now) prev = now"
| "eventTime Stop prev = prev"
| "eventTime (Elapse now) prev = now"
| "eventTime Fire prev = prev"

text \<open>The clock does not run backwards; \<open>prev\<close> is the time of the event before.\<close>

fun timely :: "int \<Rightarrow> timer_event list \<Rightarrow> bool" where
  "timely prev [] = True"
| "timely prev (e # es) = (prev \<le> eventTime e prev \<and> timely (eventTime e prev) es)"

definition clockAfter :: "int \<Rightarrow> timer_event list \<Rightarrow> int" where
  "clockAfter start es = fold eventTime es start"

text \<open>Since when the connection has been quiet: the last reset before a stop.\<close>

primrec quietStep :: "timer_event \<Rightarrow> int \<times> bool \<Rightarrow> int \<times> bool" where
  "quietStep (Reset now) s = (if snd s then now else fst s, snd s)"
| "quietStep Stop s = (fst s, False)"
| "quietStep (Elapse now) s = s"
| "quietStep Fire s = s"

definition quietSince :: "int \<Rightarrow> timer_event list \<Rightarrow> int" where
  "quietSince start es = fst (fold quietStep es (start, True))"

definition runTimer :: "timer_event list \<Rightarrow> idleTimer \<Rightarrow> idleTimer" where
  "runTimer es i = fold timerStep es i"

subsection \<open>The generations\<close>

definition timerInv :: "int \<Rightarrow> nat \<Rightarrow> int \<times> bool \<Rightarrow> int \<Rightarrow> idleTimer \<Rightarrow> bool" where
  "timerInv d n quiet now i \<longleftrightarrow> it_d i = d \<and> it_gen i = of_nat n \<and> snd quiet = (\<not> it_stopped i) \<and>
     (\<forall>g deadline. it_armed i = Some (g, deadline) \<longrightarrow> g = it_gen i \<and> deadline = fst quiet + d) \<and>
     set (it_running i) \<subseteq> of_nat ` {..n} \<and>
     (it_gen i \<in> set (it_running i) \<longrightarrow> \<not> it_stopped i \<longrightarrow> fst quiet + d \<le> now)"

lemma fresh_generation: "n + 1 < 2 ^ 64 \<Longrightarrow> (of_nat (n + 1) :: u64) \<notin> of_nat ` {..n}"
proof
  assume n: "n + 1 < 2 ^ 64" and "(of_nat (n + 1) :: u64) \<in> of_nat ` {..n}"
  then obtain m where m: "m \<le> n" "(of_nat (n + 1) :: u64) = of_nat m" by auto
  have "unat (of_nat k :: u64) = k" if "k \<le> n + 1" for k
    using n that by (simp only: unat_of_nat take_bit_nat_eq_self_iff) (simp add: mod_less)
  from this [of "n + 1"] this [of m] m show False by simp
qed

lemma timerInv_step:
  assumes "timerInv d n quiet now i" and "n + 1 < 2 ^ 64" and "now \<le> eventTime e now"
  shows "\<exists>n' \<le> n + 1. timerInv d n' (quietStep e quiet) (eventTime e now) (timerStep e i)"
proof (cases e)
  case (Reset t)
  show ?thesis
  proof (cases "it_stopped i")
    case True
    with assms(1) Reset show ?thesis by (intro exI [of _ n]) (auto simp: timerInv_def it_reset_def)
  next
    case False
    have sub: "set (it_running i) \<subseteq> of_nat ` {..n}" and g: "it_gen i = of_nat n" using assms(1) by (auto simp: timerInv_def)
    have "it_gen i + 1 \<notin> set (it_running i)"
      using fresh_generation [OF assms(2)] sub g by (auto simp: add.commute)
    moreover have "set (it_running i) \<subseteq> of_nat ` {..n + 1}" using sub by fastforce
    ultimately show ?thesis
      using assms(1) Reset False by (intro exI [of _ "n + 1"]) (auto simp: timerInv_def it_reset_def add.commute)
  qed
next
  case Stop
  with assms(1) show ?thesis by (intro exI [of _ n]) (auto simp: timerInv_def it_stop_def)
next
  case (Elapse t)
  with assms show ?thesis
    by (intro exI [of _ n]) (auto simp: timerInv_def it_elapse_def split: option.split)
next
  case Fire
  with assms(1) show ?thesis
    by (intro exI [of _ n]) (auto simp: timerInv_def fireFunc_def split: list.split)
qed

lemma timerInv_run:
  assumes "timely start es" and "length es < 2 ^ 64"
  shows "\<exists>n \<le> length es. timerInv d n (fold quietStep es (start, True)) (clockAfter start es)
    (runTimer es (newIdleTimer d start))"
  using assms
proof (induction es rule: rev_induct)
  case Nil
  show ?case by (simp add: timerInv_def newIdleTimer_def runTimer_def clockAfter_def)
next
  case (snoc e es)
  have app: "timely start (es @ [e]) \<longleftrightarrow> timely start es \<and> clockAfter start es \<le> eventTime e (clockAfter start es)"
    unfolding clockAfter_def by (induction es arbitrary: start) simp_all
  then obtain n where n: "n \<le> length es" and inv: "timerInv d n (fold quietStep es (start, True)) (clockAfter start es)
      (runTimer es (newIdleTimer d start))"
    using snoc by auto
  have "n + 1 < 2 ^ 64" using n snoc.prems(2) by simp
  from timerInv_step [OF inv this, of e] app snoc.prems(1)
  obtain n' where "n' \<le> n + 1" "timerInv d n' (quietStep e (fold quietStep es (start, True)))
      (eventTime e (clockAfter start es)) (timerStep e (runTimer es (newIdleTimer d start)))"
    by auto
  with n show ?case by (intro exI [of _ n']) (simp add: runTimer_def clockAfter_def)
qed

lemma quiet_live: "snd (fold quietStep es (t, b)) \<longleftrightarrow> b \<and> Stop \<notin> set es"
proof (induction es arbitrary: t b)
  case (Cons e es)
  then show ?case by (cases e) auto
qed simp

subsection \<open>Properties\<close>

text \<open>
  C35: only silence closes a connection. Whatever way resets, expiries and late callbacks
  interleave, when a callback decides to call \<open>onExpire\<close>, the connection has not been torn down,
  and a full idle period has passed since the last traffic; a callback that a reset has
  overtaken does nothing.
\<close>

theorem only_silence_expires:
  assumes "timely start (es @ [Fire])" and "length es < 2 ^ 64"
    and "it_calls (runTimer (es @ [Fire]) (newIdleTimer d start)) \<noteq> it_calls (runTimer es (newIdleTimer d start))"
  shows "Stop \<notin> set es \<and> quietSince start es + d \<le> clockAfter start es"
proof -
  let ?i = "runTimer es (newIdleTimer d start)"
  have "timely start es" using assms(1) by (induction es arbitrary: start) auto
  then obtain n where inv: "timerInv d n (fold quietStep es (start, True)) (clockAfter start es) ?i"
    using timerInv_run [of start es d] assms(2) by blast
  have "\<not> it_stopped ?i" "it_gen ?i \<in> set (it_running ?i)"
    using assms(3) by (auto simp: runTimer_def fireFunc_def split: list.splits if_splits)
  with inv show ?thesis
    using quiet_live [of es start True] by (simp add: timerInv_def quietSince_def)
qed

text \<open>A reset overtakes the first callback; the second is due half a minute later.\<close>

definition demoTraffic :: "timer_event list" where
  "demoTraffic = [Elapse 30000, Reset 30001, Fire, Elapse 60001]"

theorem only_silence_expires_witness: "quietSince 0 demoTraffic + 30000 \<le> clockAfter 0 demoTraffic"
proof -
  have "it_calls (runTimer (demoTraffic @ [Fire]) (newIdleTimer 30000 0)) \<noteq> it_calls (runTimer demoTraffic (newIdleTimer 30000 0))"
    by (simp add: demoTraffic_def runTimer_def newIdleTimer_def it_elapse_def it_reset_def fireFunc_def)
  from only_silence_expires [OF _ _ this] show ?thesis by (simp add: demoTraffic_def)
qed

end
