(* ===== verification/Ws_Session.thy ===== *)
theory Ws_Session
  imports System Ws_Stream Idle_Timer
begin

section \<open>The second door: sessions over the WebSocket, transport/ws.go\<close>

text \<open>
  \<open>ServeHTTP\<close> serves a phone over the fallback transport, on the limiter, the hub and the engine
  of the WebTransport server. It is written out here step by step as ws.go has it, with an
  idle timer for every connection, beside the model of server.go in \<open>System\<close>; the theorem is
  that the shared server cannot tell the two doors apart, so that what is proved of \<open>System\<close>
  holds of both.
\<close>

subsection \<open>ServeHTTP\<close>

record wsServer =
  ws_sys :: system
  ws_idle :: "(connID \<times> idleTimer) list"
  ws_localClose :: "connID list"

text \<open>Up to the read loop: the answer, if one is given, and the new state.\<close>

definition ServeHTTP :: "int \<Rightarrow> string \<Rightarrow> bool \<Rightarrow> wsServer \<Rightarrow> (int \<times> string) option \<times> wsServer" where
  "ServeHTTP now remoteAddr accepted w =
     (let ip = clientIP remoteAddr; s = ws_sys w
      in case acquire ip (sy_limiter s) of
           (False, l) \<Rightarrow> (Some (503, ''too many connections''), w\<lparr>ws_sys := s\<lparr>sy_limiter := l\<rparr>\<rparr>)
         | (True, l) \<Rightarrow>
             if \<not> accepted then (None, w\<lparr>ws_sys := s\<lparr>sy_limiter := release ip l\<rparr>\<rparr>)
             else
               let idle = newIdleTimer wsIdleTimeout now;
                   n = sy_connSeq s + 1; cid = ''c'' @ itoa (int n);
                   s1 = s\<lparr>sy_limiter := l, sy_connSeq := n\<rparr>;
                   s2 = s1\<lparr>sy_hub := hub_add cid (sy_hub s1), sy_sessions := sy_sessions s1 @ [(cid, ip)]\<rparr>
               in (None, w\<lparr>ws_idle := AList.update cid idle (ws_idle w), ws_sys := submit (Connect cid ip) s2\<rparr>))"

definition onTimer :: "connID \<Rightarrow> (idleTimer \<Rightarrow> idleTimer) \<Rightarrow> wsServer \<Rightarrow> wsServer" where
  "onTimer cid f w = w\<lparr>ws_idle := map (\<lambda>(k, i). (k, if k = cid then f i else i)) (ws_idle w)\<rparr>"

text \<open>One turn of the read loop: the frame is traffic also when it does not decode.\<close>

definition wsFrame :: "int \<Rightarrow> connID \<Rightarrow> clientEnvelope option \<Rightarrow> int \<Rightarrow> wsServer \<Rightarrow> wsServer" where
  "wsFrame now cid decoded arrivalMs w =
     (let w = onTimer cid (it_reset now) w
      in case decoded of
           None \<Rightarrow> w
         | Some m \<Rightarrow> w\<lparr>ws_sys := submit (Message cid (roleOf cid (sy_hub (ws_sys w))) m arrivalMs) (ws_sys w)\<rparr>)"

text \<open>The deferred calls, in the order they run.\<close>

definition wsReturn :: "connID \<Rightarrow> string \<Rightarrow> wsServer \<Rightarrow> wsServer" where
  "wsReturn cid ip w =
     (let w = w\<lparr>ws_sys := submit (Disconnect cid) (ws_sys w)\<rparr>;
          w = w\<lparr>ws_sys := (ws_sys w)\<lparr>sy_hub := hub_remove cid (sy_hub (ws_sys w))\<rparr>\<rparr>;
          w = onTimer cid it_stop w
      in w\<lparr>ws_sys := (ws_sys w)\<lparr>sy_sessions := AList.delete cid (sy_sessions (ws_sys w)),
            sy_limiter := release ip (sy_limiter (ws_sys w))\<rparr>\<rparr>)"

text \<open>The reaper: \<open>onExpire\<close> marks the close as one of our own.\<close>

definition wsExpire :: "connID \<Rightarrow> wsServer \<Rightarrow> wsServer" where
  "wsExpire cid w = (case map_of (ws_idle w) cid of
     None \<Rightarrow> w
   | Some i \<Rightarrow> (onTimer cid fireFunc w)
       \<lparr>ws_localClose := (if it_calls (fireFunc i) \<noteq> it_calls i then cid # ws_localClose w else ws_localClose w)\<rparr>)"

text \<open>A turn of the hub's writer: a frame that has gone out is traffic.\<close>

definition wireAt :: "connID \<Rightarrow> hub \<Rightarrow> bytes option" where
  "wireAt cid h = map_option hc_wire (map_of h cid)"

definition wsWriter :: "(serverEnvelope \<Rightarrow> bytes option) \<Rightarrow> int \<Rightarrow> connID \<Rightarrow> bool \<Rightarrow> bool \<Rightarrow> wsServer \<Rightarrow> wsServer" where
  "wsWriter marshal now cid werr pick w =
     (let h = sy_hub (ws_sys w); h1 = updConn cid (writeStep marshal werr pick) h;
          w1 = w\<lparr>ws_sys := (ws_sys w)\<lparr>sy_hub := h1\<rparr>\<rparr>
      in if wireAt cid h1 \<noteq> wireAt cid h then onTimer cid (it_reset now) w1 else w1)"

subsection \<open>Both doors\<close>

text \<open>\<open>Shared\<close> is any event of the WebTransport side, the loop or the timers of the engine.\<close>

datatype ws_event =
    WsArrives int string bool
  | WsFrame int connID "clientEnvelope option" int
  | WsEnds connID
  | WsElapse int connID
  | WsFire connID
  | WsWriter int connID bool bool
  | Shared sys_event

fun wsStep :: "(serverEnvelope \<Rightarrow> bytes option) \<Rightarrow> ws_event \<Rightarrow> wsServer \<Rightarrow> wsServer" where
  "wsStep marshal (WsArrives now addr accepted) w =
     (if length (sy_cmds (ws_sys w)) < cmdsDepth then snd (ServeHTTP now addr accepted w) else w)"
| "wsStep marshal (WsFrame now cid decoded ms) w =
     (if map_of (sy_sessions (ws_sys w)) cid \<noteq> None \<and> length (sy_cmds (ws_sys w)) < cmdsDepth
      then wsFrame now cid decoded ms w else w)"
| "wsStep marshal (WsEnds cid) w =
     (case map_of (sy_sessions (ws_sys w)) cid of None \<Rightarrow> w
      | Some ip \<Rightarrow> if length (sy_cmds (ws_sys w)) < cmdsDepth then wsReturn cid ip w else w)"
| "wsStep marshal (WsElapse now cid) w = onTimer cid (it_elapse now) w"
| "wsStep marshal (WsFire cid) w = wsExpire cid w"
| "wsStep marshal (WsWriter now cid werr pick) w = wsWriter marshal now cid werr pick w"
| "wsStep marshal (Shared ev) w = w\<lparr>ws_sys := sysStep marshal ev (ws_sys w)\<rparr>"

text \<open>What the WebTransport server would have done.\<close>

fun asSys :: "ws_event \<Rightarrow> sys_event list" where
  "asSys (WsArrives now addr accepted) = [SessionArrives (clientIP addr) accepted]"
| "asSys (WsFrame now cid decoded ms) = [FrameArrives cid decoded ms]"
| "asSys (WsEnds cid) = [SessionEnds cid]"
| "asSys (WsElapse now cid) = []"
| "asSys (WsFire cid) = []"
| "asSys (WsWriter now cid werr pick) = [WriterTurn cid werr pick]"
| "asSys (Shared ev) = [ev]"

lemma onTimer_sys [simp]: "ws_sys (onTimer cid f w) = ws_sys w"
  by (simp add: onTimer_def)

lemma ServeHTTP_sys: "ws_sys (snd (ServeHTTP now addr accepted w)) = handleSession (clientIP addr) accepted (ws_sys w)"
  by (simp add: ServeHTTP_def handleSession_def serveOpen_def submit_def Let_def split: prod.split bool.split)

lemma wsReturn_sys: "ws_sys (wsReturn cid ip w) = serveClose cid ip (ws_sys w)"
  by (simp add: wsReturn_def serveClose_def submit_def Let_def)

lemma wsStep_sys: "ws_sys (wsStep marshal ev w) = fold (sysStep marshal) (asSys ev) (ws_sys w)"
  by (cases ev) (auto simp: ServeHTTP_sys wsReturn_sys wsFrame_def serveFrame_def wsExpire_def wsWriter_def Let_def
      split: option.split)

text \<open>
  C2: the second door is no other door. Whatever comes over WebSockets and WebTransport, in
  any mixture, the limiter, the hub, the sessions, the commands and the engine are at every
  moment those of a server that got everything over WebTransport; and a phone over the limit
  is told so before the upgrade, and a session that ends leaves no timer that could fire.
\<close>

theorem websocket_refines:
  "ws_sys (fold (wsStep marshal) evs w) = fold (sysStep marshal) (concat (map asSys evs)) (ws_sys w) \<and>
   (fst (ServeHTTP now addr accepted w) = Some (503, ''too many connections'') \<longleftrightarrow>
      \<not> fst (acquire (clientIP addr) (sy_limiter (ws_sys w)))) \<and>
   list_all (\<lambda>(k, i). it_stopped i \<and> it_armed i = None) (filter (\<lambda>x. fst x = cid) (ws_idle (wsReturn cid ip w)))"
proof (intro conjI)
  show "ws_sys (fold (wsStep marshal) evs w) = fold (sysStep marshal) (concat (map asSys evs)) (ws_sys w)"
    by (induction evs arbitrary: w) (simp_all add: wsStep_sys)
qed (auto simp: ServeHTTP_def wsReturn_def onTimer_def it_stop_def list_all_iff Let_def split: prod.split bool.split)

end
