(* ===== verification/Certs.thy ===== *)
theory Certs
  imports Startup
begin

section \<open>The certificate of the transport: transport/certgen.go, server.go\<close>

text \<open>
  WebTransport needs TLS. Without a certificate the server makes a self-signed pair that the
  browsers accept by its hash, which they do for certificates of at most two weeks; so it
  has to be made anew when it has expired. The cryptography, PEM and the file system's
  errors are \<open>certEnv\<close>; the files are a map from paths to contents. Times are in seconds.
\<close>

subsection \<open>certgen.go\<close>

record certEnv =
  cv_now :: int
  cv_genKey :: "string + string"
  cv_create :: "int \<Rightarrow> int \<Rightarrow> string \<Rightarrow> string + string"
  cv_marshalKey :: "string \<Rightarrow> string + string"
  cv_mkdir :: "string \<Rightarrow> string option"
  cv_write :: "string \<Rightarrow> string option"
  cv_pemEncode :: "string \<Rightarrow> string \<Rightarrow> string"
  cv_pemDecode :: "string \<Rightarrow> (string \<times> string) option"
  cv_notAfter :: "string \<Rightarrow> int option"
  cv_sha256 :: "string \<Rightarrow> string"
  cv_base64 :: "string \<Rightarrow> string"

type_synonym files = "string \<Rightarrow> string option"

text \<open>One \<open>if err != nil { return ... }\<close> after the other; the files written so far stay.\<close>

definition writeFile :: "certEnv \<Rightarrow> string \<Rightarrow> string \<Rightarrow> string \<Rightarrow> files \<Rightarrow> (string + unit) \<times> files" where
  "writeFile v what path content fs = (case cv_write v path of
     Some e \<Rightarrow> (Inl (''transport: write '' @ what @ '': '' @ e), fs)
   | None \<Rightarrow> (Inr (), fs(path \<mapsto> content)))"

definition certType :: string where "certType = ''CERTIFICATE''"

definition GenerateSelfSigned :: "certEnv \<Rightarrow> string \<Rightarrow> string \<Rightarrow> files \<Rightarrow> (string + unit) \<times> files" where
  "GenerateSelfSigned v certPath keyPath fs =
     (case cv_genKey v of
        Inl e \<Rightarrow> (Inl (''transport: generate key: '' @ e), fs)
      | Inr key \<Rightarrow> (case cv_create v (cv_now v - 3600) (cv_now v + 13 * 24 * 3600) key of
          Inl e \<Rightarrow> (Inl (''transport: create certificate: '' @ e), fs)
        | Inr der \<Rightarrow> (case cv_marshalKey v key of
            Inl e \<Rightarrow> (Inl (''transport: marshal key: '' @ e), fs)
          | Inr keyDER \<Rightarrow> (case cv_mkdir v (pathDir certPath) of
              Some e \<Rightarrow> (Inl (''transport: mkdir cert dir: '' @ e), fs)
            | None \<Rightarrow> (case cv_mkdir v (pathDir keyPath) of
                Some e \<Rightarrow> (Inl (''transport: mkdir key dir: '' @ e), fs)
              | None \<Rightarrow> (case writeFile v ''cert'' certPath (cv_pemEncode v certType der) fs of
                  (Inl e, fs1) \<Rightarrow> (Inl e, fs1)
                | (Inr u, fs1) \<Rightarrow> writeFile v ''key'' keyPath (cv_pemEncode v ''EC PRIVATE KEY'' keyDER) fs1))))))"

definition leafDER :: "certEnv \<Rightarrow> string \<Rightarrow> string option" where
  "leafDER v pem = (case cv_pemDecode v pem of
     Some (typ, der) \<Rightarrow> if typ = certType then Some der else None
   | None \<Rightarrow> None)"

definition CertSHA256 :: "certEnv \<Rightarrow> files \<Rightarrow> string \<Rightarrow> string + (string \<times> string)" where
  "CertSHA256 v fs certPath = (case fs certPath of
     None \<Rightarrow> Inl ''transport: read cert''
   | Some pem \<Rightarrow> (case leafDER v pem of
       None \<Rightarrow> Inl (''transport: '' @ certPath @ '' does not contain a PEM certificate'')
     | Some der \<Rightarrow> Inr (cv_sha256 v der, cv_base64 v (cv_sha256 v der))))"

definition fileExists :: "files \<Rightarrow> string \<Rightarrow> bool" where
  "fileExists fs p \<longleftrightarrow> fs p \<noteq> None"

definition certExpired :: "certEnv \<Rightarrow> files \<Rightarrow> string \<Rightarrow> bool" where
  "certExpired v fs certPath = (case fs certPath of
     None \<Rightarrow> True
   | Some pem \<Rightarrow> (case leafDER v pem of
       None \<Rightarrow> True
     | Some der \<Rightarrow> (case cv_notAfter v der of None \<Rightarrow> True | Some t \<Rightarrow> t < cv_now v)))"

text \<open>\<open>tls.LoadX509KeyPair\<close> on the two files is the argument \<open>load\<close>.\<close>

definition loadOrGenerateCert ::
  "certEnv \<Rightarrow> (string option \<Rightarrow> string option \<Rightarrow> string + 'c) \<Rightarrow> string \<Rightarrow> string \<Rightarrow> files \<Rightarrow> (string + 'c) \<times> files" where
  "loadOrGenerateCert v load certPath keyPath fs =
     (if \<not> fileExists fs certPath \<or> \<not> fileExists fs keyPath \<or> certExpired v fs certPath then
        (case GenerateSelfSigned v certPath keyPath fs of
           (Inl e, fs1) \<Rightarrow> (Inl e, fs1)
         | (Inr u, fs1) \<Rightarrow> (load (fs1 certPath) (fs1 keyPath), fs1))
      else (load (fs certPath) (fs keyPath), fs))"

subsection \<open>What the server presents\<close>

text \<open>
  What the library promises: the PEM block of a certificate is read back, and a certificate made for a period
  ends with it.
\<close>

definition certLaws :: "certEnv \<Rightarrow> bool" where
  "certLaws v \<longleftrightarrow> (\<forall>der. cv_pemDecode v (cv_pemEncode v certType der) = Some (certType, der)) \<and>
     (\<forall>a b key der. cv_create v a b key = Inr der \<longrightarrow> cv_notAfter v der = Some b)"

lemma GenerateSelfSigned_ok:
  assumes "GenerateSelfSigned v certPath keyPath fs = (Inr u, fs1)" and "certPath \<noteq> keyPath"
  obtains key der keyDER where "cv_genKey v = Inr key"
    and "cv_create v (cv_now v - 3600) (cv_now v + 13 * 24 * 3600) key = Inr der"
    and "fs1 = fs(certPath \<mapsto> cv_pemEncode v certType der, keyPath \<mapsto> cv_pemEncode v ''EC PRIVATE KEY'' keyDER)"
  using assms by (auto simp: GenerateSelfSigned_def writeFile_def split: sum.splits option.splits)

text \<open>
  C5: the server never presents an expired certificate. When loading succeeds, the
  certificate file is one that has not expired; a pair that was good is left as it was, and
  one that was made ends thirteen days from now, so the browsers take it by its hash. Files
  other than the two are not touched.
\<close>

theorem certificate_is_live:
  assumes "certLaws v" and "certPath \<noteq> keyPath"
    and "loadOrGenerateCert v load certPath keyPath fs = (Inr c, fs1)"
  shows "\<not> certExpired v fs1 certPath \<and> load (fs1 certPath) (fs1 keyPath) = Inr c \<and>
    (fs1 = fs \<or> (\<exists>pem der. fs1 certPath = Some pem \<and> leafDER v pem = Some der \<and>
       cv_notAfter v der = Some (cv_now v + 13 * 86400))) \<and>
    (\<forall>p. p \<noteq> certPath \<and> p \<noteq> keyPath \<longrightarrow> fs1 p = fs p) \<and>
    (fileExists fs certPath \<and> fileExists fs keyPath \<and> \<not> certExpired v fs certPath \<longrightarrow> fs1 = fs)"
proof (cases "\<not> fileExists fs certPath \<or> \<not> fileExists fs keyPath \<or> certExpired v fs certPath")
  case False
  then show ?thesis using assms(3) by (auto simp: loadOrGenerateCert_def)
next
  case True
  then have gen: "GenerateSelfSigned v certPath keyPath fs = (Inr (), fs1)" and ld: "load (fs1 certPath) (fs1 keyPath) = Inr c"
    using assms(3) by (auto simp: loadOrGenerateCert_def split: prod.splits sum.splits)
  obtain key der keyDER where k: "cv_create v (cv_now v - 3600) (cv_now v + 13 * 24 * 3600) key = Inr der"
    and fs1: "fs1 = fs(certPath \<mapsto> cv_pemEncode v certType der, keyPath \<mapsto> cv_pemEncode v ''EC PRIVATE KEY'' keyDER)"
    by (rule GenerateSelfSigned_ok [OF gen assms(2)])
  have "leafDER v (cv_pemEncode v certType der) = Some der" and "cv_notAfter v der = Some (cv_now v + 13 * 86400)"
    using assms(1) k by (auto simp: certLaws_def leafDER_def)
  then show ?thesis using ld True assms(2) by (auto simp: fs1 certExpired_def)
qed

text \<open>
  A toy library: a certificate is the end of its period in unary, PEM a prefix. The stored
  certificate ended at second 5; now it is second 100.
\<close>

definition demoTime :: "int \<Rightarrow> string" where
  "demoTime t = (if t < 0 then CHR ''-'' # replicate (nat (- t)) (CHR ''1'') else replicate (nat t) (CHR ''1''))"

definition timeOf :: "string \<Rightarrow> int" where
  "timeOf s = (if s \<noteq> [] \<and> hd s = CHR ''-'' then - int (length (tl s)) else int (length s))"

lemma timeOf_demoTime: "timeOf (demoTime t) = t"
  by (auto simp: timeOf_def demoTime_def hd_replicate)

definition demoCerts :: certEnv where
  "demoCerts = \<lparr>cv_now = 100, cv_genKey = Inr ''k'', cv_create = (\<lambda>a b key. Inr (demoTime b)),
     cv_marshalKey = Inr, cv_mkdir = (\<lambda>p. None), cv_write = (\<lambda>p. None),
     cv_pemEncode = (\<lambda>typ der. typ @ ''|'' @ der),
     cv_pemDecode = (\<lambda>s. Some (takeWhile (\<lambda>c. c \<noteq> CHR ''|'') s, tl (dropWhile (\<lambda>c. c \<noteq> CHR ''|'') s))),
     cv_notAfter = (\<lambda>der. Some (timeOf der)), cv_sha256 = id, cv_base64 = id\<rparr>"

lemma demoCerts_laws: "certLaws demoCerts"
  by (simp add: certLaws_def demoCerts_def certType_def timeOf_demoTime)

definition demoFiles :: files where
  "demoFiles = [''certs/cert.pem'' \<mapsto> ''CERTIFICATE|'' @ demoTime 5, ''certs/key.pem'' \<mapsto> ''k'']"

theorem certificate_is_live_witness:
  "certExpired demoCerts demoFiles ''certs/cert.pem'' \<and>
   \<not> certExpired demoCerts (snd (loadOrGenerateCert demoCerts (\<lambda>c k. Inr (c, k)) ''certs/cert.pem'' ''certs/key.pem'' demoFiles))
       ''certs/cert.pem''"
proof -
  let ?run = "loadOrGenerateCert demoCerts (\<lambda>c k. Inr (c, k)) ''certs/cert.pem'' ''certs/key.pem'' demoFiles"
  have expired: "certExpired demoCerts demoFiles ''certs/cert.pem''"
    by (simp add: certExpired_def demoFiles_def leafDER_def certType_def timeOf_demoTime demoCerts_def)
  then obtain r where "fst ?run = Inr r"
    by (simp add: loadOrGenerateCert_def GenerateSelfSigned_def writeFile_def demoCerts_def)
  then have "?run = (Inr r, snd ?run)" by (metis prod.collapse)
  from certificate_is_live [OF demoCerts_laws _ this] expired show ?thesis by simp
qed

end
