(* ===== verification/Edge.thy ===== *)
theory Edge
  imports Cache_Rules Layout_Rules Lrclib_Rules Spotify_Rules
begin

section \<open>Where the parts meet: probes of the admin API, the token route, CORS, the nonce's token\<close>

text \<open>
  The handlers of the admin API take the outside as functions (\<open>apiEnv\<close>). Here two of them
  are the modelled clients: the LRCLIB client as the prober, so that what a probe leaves in
  the lyrics cache can be traced to what LRCLIB answered, and the Spotify client behind the
  token route. Then the CORS wrapper around all routes (handler.go) and the nonce's token
  (nonce.go).
\<close>

subsection \<open>The LRCLIB client as the prober\<close>

text \<open>\<open>err.Error()\<close>; a Retry-After is a whole number of seconds.\<close>

definition lyricsErrText :: "lyricsErr \<Rightarrow> string" where
  "lyricsErrText e = (case e of
     RateLimitError w \<Rightarrow> ''lyrics: rate limited, retry after '' @ itoa (w div (1000 * milli)) @ ''s''
   | LyricsErr s \<Rightarrow> s)"

definition probeResultOf :: "lyricsErr + string option \<Rightarrow> probeResult" where
  "probeResultOf a = (case a of
     Inl e \<Rightarrow> ProbeErr (lyricsErrText e) | Inr None \<Rightarrow> ProbeNone | Inr (Some lrc) \<Rightarrow> ProbeText lrc)"

text \<open>\<open>cs k\<close> is the state of the client at the k-th probe.\<close>

definition proberOf :: "lrclibEnv \<Rightarrow> (nat \<Rightarrow> lrclibClient) \<Rightarrow> nat \<Rightarrow> string \<Rightarrow> string \<Rightarrow> int \<Rightarrow> probeResult" where
  "proberOf v cs k artist song dur = probeResultOf (fst (run_state (Probe v artist song dur) (cs k)))"

definition probeWrite :: "string \<Rightarrow> probeResult \<Rightarrow> unit store" where
  "probeWrite uri p = (case p of
     ProbeErr msg \<Rightarrow> UpsertLyricsError uri msg
   | ProbeNone \<Rightarrow> UpsertLyricsNotFound uri
   | ProbeText text \<Rightarrow> UpsertLyricsResolved uri text ''lrclib'')"

lemma run_probeOne:
  assumes "xe_probe v = Some f"
  shows "\<exists>r d. run_state (probeWrite uri (f (ap_probes s) artist song dur)) (ap_db s) = (r, d) \<and>
    tabOf (snd (run_state (probeOne v uri artist song dur) s)) = d_tab d"
  using assms
  by (cases "run_state (probeWrite uri (f (ap_probes s) artist song dur)) (ap_db s)")
    (auto simp: probeOne_def probeWrite_def liftDb_def split: probeResult.splits)

text \<open>A statement takes effect or leaves the tables alone.\<close>

lemma wrapped_effect:
  "run_state (wrapped msg (stmt f)) d = (r, d') \<Longrightarrow> d_tab d' = d_tab d \<or> (\<exists>a. f (d_tab d) = Inr (a, d_tab d'))"
  by (auto simp: wrapped_def stmt_def Let_def split: if_splits sum.splits prod.splits)

definition genuine :: "lrclibEnv \<Rightarrow> string \<Rightarrow> string \<Rightarrow> int \<Rightarrow> string \<Rightarrow> bool" where
  "genuine v artist song dur lrc \<longleftrightarrow> getAnswered v artist song dur (Some lrc) \<or>
     getAnswered v artist song dur None \<and> (\<exists>rs. searchAnswered v artist song rs \<and> nearest dur rs lrc)"

lemma probe_text_genuine:
  assumes "proberOf v cs k artist song dur = ProbeText lrc"
  shows "genuine v artist song dur lrc"
proof -
  obtain a c' where r: "run_state (Probe v artist song dur) (cs k) = (a, c')" by fastforce
  with assms have "a = Inr (Some lrc)"
    by (auto simp: proberOf_def probeResultOf_def split: sum.splits option.splits)
  with r show ?thesis using probe_found [of v artist song dur "cs k" lrc c'] by (simp add: genuine_def)
qed

lemma probe_none_confirmed:
  assumes "proberOf v cs k artist song dur = ProbeNone"
  shows "getAnswered v artist song dur None"
proof -
  obtain a c' where r: "run_state (Probe v artist song dur) (cs k) = (a, c')" by fastforce
  with assms have "a = Inr None"
    by (auto simp: proberOf_def probeResultOf_def split: sum.splits option.splits)
  with r show ?thesis using probe_nothing [of v artist song dur "cs k" c'] by simp
qed

definition rowOf :: "string \<Rightarrow> api \<Rightarrow> lyricsRow option" where
  "rowOf uri s = findLyrics uri (tabOf s)"

text \<open>
  C11: what a probe leaves in the lyrics cache comes from LRCLIB. Whatever the network and the
  database do, one probe changes no other song's row; a new text is one LRCLIB answered for
  this song, directly or as the nearest submission after a direct "none"; a song is newly
  marked as having no lyrics only after a direct "none"; and a row typed in by an admin keeps
  its text.
\<close>

theorem probe_writes_genuine:
  fixes v :: apiEnv and s :: api and uri artist song :: string and dur :: int
  defines "s' \<equiv> snd (run_state (probeOne v uri artist song dur) s)"
  assumes "xe_probe v = Some (proberOf lv cs)"
  shows "(\<forall>u. u \<noteq> uri \<longrightarrow> rowOf u s' = rowOf u s) \<and>
    (\<forall>row'. rowOf uri s' = Some row' \<and> rowOf uri s \<noteq> Some row' \<longrightarrow>
      (case rowOf uri s of Some row \<Rightarrow> ly_text row' = ly_text row | None \<Rightarrow> ly_text row' = None) \<or>
      (\<exists>lrc. ly_text row' = Some lrc \<and> genuine lv artist song dur lrc \<and> ly_source row' = Some ''lrclib'' \<and>
         (\<forall>row. rowOf uri s = Some row \<longrightarrow> ly_source row \<noteq> Some ''manual''))) \<and>
    (\<forall>row'. rowOf uri s' = Some row' \<and> ly_status row' = ''not_found'' \<and>
         (\<forall>row. rowOf uri s = Some row \<longrightarrow> ly_status row \<noteq> ''not_found'') \<longrightarrow>
      getAnswered lv artist song dur None)"
proof -
  let ?p = "proberOf lv cs (ap_probes s) artist song dur"
  obtain r d where run: "run_state (probeWrite uri ?p) (ap_db s) = (r, d)" and tab: "tabOf s' = d_tab d"
    using run_probeOne [OF assms(2), of uri s artist song dur] unfolding s'_def by blast
  show ?thesis
  proof (cases "d_tab d = tabOf s")
    case True
    then show ?thesis using tab by (auto simp: rowOf_def)
  next
    case False
    show ?thesis
    proof (cases ?p)
      case (ProbeErr msg)
      then obtain a where "upsertLyrics \<lparr>ly_uri = uri, ly_text = None, ly_status = ''pending'', ly_source = None, ly_error = Some msg\<rparr>
         (\<lambda>r. r\<lparr>ly_status := (if ly_status r \<in> {''resolved'', ''not_found''} then ly_status r else ''pending''),
             ly_error := (if ly_status r \<in> {''resolved'', ''not_found''} then ly_error r else Some msg)\<rparr>) (tabOf s) = Inr (a, d_tab d)"
        using wrapped_effect [OF run [unfolded probeWrite_def ProbeErr probeResult.case UpsertLyricsError_def]] False by auto
      note f = upsertLyrics_find [OF this, simplified]
      show ?thesis by (auto simp: rowOf_def tab f split: option.splits if_splits)
    next
      case ProbeNone
      then obtain a where "upsertLyrics \<lparr>ly_uri = uri, ly_text = None, ly_status = ''not_found'', ly_source = None, ly_error = None\<rparr>
         (\<lambda>r. r\<lparr>ly_status := (if ly_status r = ''resolved'' then ly_status r else ''not_found''),
             ly_error := (if ly_status r = ''resolved'' then ly_error r else None)\<rparr>) (tabOf s) = Inr (a, d_tab d)"
        using wrapped_effect [OF run [unfolded probeWrite_def ProbeNone probeResult.case UpsertLyricsNotFound_def]] False by auto
      note f = upsertLyrics_find [OF this, simplified]
      show ?thesis using probe_none_confirmed [OF ProbeNone]
        by (auto simp: rowOf_def tab f split: option.splits if_splits)
    next
      case (ProbeText lrc)
      then obtain a where "upsertLyrics \<lparr>ly_uri = uri, ly_text = Some lrc, ly_status = ''resolved'', ly_source = Some ''lrclib'', ly_error = None\<rparr>
         (\<lambda>r. if ''lrclib'' = ''manual'' \<or> ly_source r \<noteq> Some ''manual''
            then r\<lparr>ly_text := Some lrc, ly_status := ''resolved'', ly_source := Some ''lrclib'', ly_error := None\<rparr>
            else r) (tabOf s) = Inr (a, d_tab d)"
        using wrapped_effect [OF run [unfolded probeWrite_def ProbeText probeResult.case UpsertLyricsResolved_def]] False by auto
      note f = upsertLyrics_find [OF this, simplified]
      show ?thesis using probe_text_genuine [OF ProbeText]
        by (auto simp: rowOf_def tab f split: option.splits if_splits)
    qed
  qed
qed

text \<open>The search finds the text of the nearest submission, and the empty cache gets it.\<close>

definition demoProbed :: apiEnv where
  "demoProbed = demoEnv\<lparr>xe_probe := Some (proberOf demoLrclib (\<lambda>k. \<lparr>wb_sent = [], wb_clock = 0, lc_waits = []\<rparr>))\<rparr>"

lemma demo_row:
  "rowOf ''u'' (snd (run_state (probeOne demoProbed ''u'' ''A'' ''S'' 200) (startApi [] e))) =
     Some \<lparr>ly_uri = ''u'', ly_text = Some ''near'', ly_status = ''resolved'', ly_source = Some ''lrclib'', ly_error = None\<rparr>"
  "rowOf ''u'' (startApi [] e) = None"
  by (simp_all add: rowOf_def probeOne_def demoProbed_def proberOf_def probeResultOf_def demo_probe liftDb_def
      UpsertLyricsResolved_def wrapped_def stmt_def netHead_def upsertLyrics_def findLyrics_def startApi_def emptyTables_def)

theorem probe_writes_genuine_witness: "genuine demoLrclib ''A'' ''S'' 200 ''near''"
  using probe_writes_genuine [of demoProbed demoLrclib "\<lambda>k. \<lparr>wb_sent = [], wb_clock = 0, lc_waits = []\<rparr>" "''u''" "''A''" "''S''" 200
      "startApi [] game0"]
  by (simp add: demo_row) (simp add: demoProbed_def)

subsection \<open>The token route, CORS and the nonce's token\<close>

text \<open>
  \<open>RegisterSpotifyToken\<close> mounts one route, with or without a database, on the Spotify client.
  \<open>tokenRequestState\<close> is the client's state when the request arrives.
\<close>

definition RegisterSpotifyToken :: "spotifyEnv \<Rightarrow> spotifyClient \<Rightarrow> apiEnv \<Rightarrow> string \<Rightarrow> handler" where
  "RegisterSpotifyToken sv tokenRequestState v auth =
     AdminAuth v (spotifyToken (v\<lparr>xe_search := Some (\<lambda>q n. None),
       xe_token := (case fst (run_state (ValidToken sv) tokenRequestState) of Inl e \<Rightarrow> None | Inr t \<Rightarrow> Some t)\<rparr>)) auth"

definition corsHeaders :: "(string \<times> string) list" where
  "corsHeaders = [(''Access-Control-Allow-Origin'', ''*''),
     (''Access-Control-Allow-Methods'', ''GET, POST, PUT, PATCH, DELETE, OPTIONS''),
     (''Access-Control-Allow-Headers'', ''Authorization, Content-Type'')]"

definition CORSHandler :: "(string \<Rightarrow> handler) \<Rightarrow> string \<Rightarrow> (api, (string \<times> string) list \<times> resp) state" where
  "CORSHandler next m = (if m = ''OPTIONS'' then ret (corsHeaders, NoContent)
     else next m \<bind> (\<lambda>r. ret (corsHeaders, r)))"

text \<open>A preflight request is answered without a token and has no effect.\<close>

lemma preflight_harmless: "run_state (CORSHandler next ''OPTIONS'') s = ((corsHeaders, NoContent), s)"
  by (simp add: CORSHandler_def)

text \<open>\<open>hmac\<close> is HMAC-SHA256: the key, the message.\<close>

definition bigEndian64 :: "u64 \<Rightarrow> nat list" where
  "bigEndian64 n = map (\<lambda>i. unat n div 256 ^ (7 - i) mod 256) [0..<8]"

definition sign :: "(nat list \<Rightarrow> nat list \<Rightarrow> nat list) \<Rightarrow> nat list \<Rightarrow> u64 \<Rightarrow> string" where
  "sign hmac secret n = concat (map hexByte (hmac secret (bigEndian64 n)))"

definition gate_Token :: "(nat list \<Rightarrow> nat list \<Rightarrow> nat list) \<Rightarrow> nat list \<Rightarrow> nonce_gate \<Rightarrow> string" where
  "gate_Token hmac secret g = sign hmac secret (gate_Current g)"

end
