(* ===== verification/Spec2Isabelle.thy ===== *)
theory Spec2Isabelle
  imports System Lobby_Rules Reveal_Rules Wire_Rules Lyrics_Rules Cache_Rules Order_Rules Rebuild_Rules Attach_Rules
    Spotify_Flight Spotify_Rules Lrclib_Rules Redis_Lock Startup_Rules Gemini Ws_Session Certs Edge
begin

text \<open>
  A model of the yfitops game server (Go, src/server) and proofs about it.

  The program. Players buzz in on phones, a stage screen plays the music, an admin drives
  the game. One process holds the game engine (internal/game), a single-threaded command loop
  that owns all game state; the transport (internal/transport) that carries framed JSON
  messages between the engine and the clients; the stores (internal/store) on PostgreSQL; the
  admin REST API (internal/admin) that edits boards, tracks, lyrics and the Solo Karaoke
  playlist and hands loaded boards to the engine; and clients of foreign services (LRCLIB,
  Spotify, an AI categorizer).

  The theories, in the order of the code.
  \<^item> Prelude, Utf8, Float64: shared lemmas; Go strings as byte lists with their runes; Go's
    float64 as correctly rounded rationals (locale \<open>float_rounding\<close>).
  \<^item> Scoring (scoring.go), Board (model.go, board.go: tracks and cells live in an explicit heap
    because the engine shares them by pointer), Registry (player.go), Reveal (reveal.go),
    Protocol (internal/protocol), Lyrics (ParseLRC of lyrics.go), Anticheat (nonce.go, latency.go
    and the lock of lock\_mem.go; the lock interface of ports.go is the locale \<open>buzz_lock\<close>).
  \<^item> Engine\_State, Engine\_Reveal, Engine\_Solo, Engine\_Round, Engine\_DailyDouble,
    Engine\_Buzz, Engine\_Admin: engine.go and solo\_karaoke.go. The record \<open>engine\<close> is the
    struct Engine; one function per method; \<open>runCommand\<close> executes one command of the loop and
    \<open>Run\<close> a list of them. Timers and goroutines are entries of \<open>e_tasks\<close> that a command may fire
    at any later point; effects (frames, audio calls, repository calls) are appended to
    \<open>e_out\<close>.
  \<^item> Transport (limiter.go, framing.go, hub.go) and System (the sessions of server.go around
    them): \<open>sys_reachable\<close> interleaves sessions, hub and command loop in any order.
  \<^item> Db (deploy/migrations and the pgx calls): tables as lists of rows, a statement as a function
    on them with the constraints of the migrations as its errors. Store: the methods of
    admin\_store.go, repo\_postgres.go and solo\_karaoke\_store.go as programs in a state monad.
    Mem\_Repo: the repository of repo\_mem.go and its sample board. Redis\_Lock: lock\_redis.go on a
    Redis client whose documented laws are the locale \<open>redis\<close>.
  \<^item> Admin\_Api, Admin\_Tracks, Admin\_Server: the handlers of internal/admin, the routing table
    and AdminAuth; \<open>serve\<close> answers one request.
  \<^item> Http (requests, answers, URL and JSON encoding), Spotify (spotify.go, search.go and the
    adapter of the admin API), Lrclib (the client of lyrics.go), Gemini (gemini.go and its adapter in
    main.go): the clients of foreign services as state monads that log the requests they send.
    Spotify\_Flight is the token refresh under concurrent callers, as a step relation between the
    sections that hold \<open>refreshMu\<close> and \<open>mu\<close>.
  \<^item> Ws\_Stream, Idle\_Timer, Ws\_Session: the WebSocket fallback of ws.go, as a byte stream, its
    reaper of silent connections, and its sessions beside those of System. Certs: certgen.go.
  \<^item> Startup: config.go and main.go, from the environment to the process that serves, and the
    OAuth handlers. Edge: the admin API on the modelled clients, CORS, the nonce's token.

  What the lemmas show.
  \<^item> Engine\_Inv and Engine\_Closure state the invariant of the live engine as the locale
    \<open>command_inv\<close> and show that every operation keeps it; Engine\_Props, Safety, Frames and
    System derive what holds in every reachable state: no command panics, the device volume is
    in range, answers are never sent to players before they may see them, and only a
    connection that presented the secret has a trusted role.
  \<^item> Buzz\_Rules, Round\_Rules, DailyDouble\_Rules, Lobby\_Rules, Solo\_Rules, Reveal\_Rules give the
    behaviour of the operations on every branch; Sample holds the small game their examples
    run on. Wire\_Rules and Lyrics\_Rules prove order of delivery and round trips.
  \<^item> Spotify\_Flight: the refresh is single-flight and a stampede of rejected callers costs one
    grant, and two interleavings that go wrong. Spotify\_Rules: the retry after a 401 and the pages
    of a playlist. Lrclib\_Rules: what a probe may cost and what it may return; Edge carries this
    to the lyrics cache. Redis\_Lock: one winner whatever calls fail, what a lost reply does and
    what an expiry does. Ws\_Session: WebSocket sessions do to the server what WebTransport
    sessions do, so the theorems of System hold of both. Startup\_Rules: the boot guard, the
    fallbacks, and the OAuth state. Certs: what the server presents has not expired.
  \<^item> Store\_Inv and Admin\_Inv show once that a relation on the tables which the SQL statements
    keep is kept by every store method and every handler (locales \<open>sql_stable\<close>,
    \<open>sql_stable_bucket\<close>, \<open>sql_stable_api\<close>); Store\_Ok and Cache\_Rules interpret them with the
    integrity of the schema and the promises of the lyrics cache. The relations hold for each
    statement, so they also hold when requests interleave.
  \<^item> Layout\_Rules, Rebuild\_Rules, Order\_Rules, Attach\_Rules compare single requests with
    descriptions that do not follow the code: moving a track, rebuilding a layout, reordering a
    playlist, loading a board into the engine's heap.

  Conventions. Go ints are \<open>int\<close>; where wrap-around or a range matters it is written out
  (\<open>word\<close> in the PRNG and the hash, \<open>int4\<close> for INT columns, the range test in \<open>Atoi\<close>). An error
  return is \<open>Inl\<close> or \<open>None\<close>; a panic of the engine is the effect \<open>Panicked\<close>. Loops are
  structural recursion, except the shuffle of Solo Karaoke, whose rejection loop may not end: it
  is a \<open>partial_function\<close>, None is not returning, and \<open>shuffle_plays_another\<close> says when it
  returns, and except the pages of a Spotify playlist, which may go on for ever: likewise a
  \<open>partial_function\<close>, with \<open>playlist_complete\<close> for when it returns. No definition takes fuel.

  Parameters. What lies outside src/ or outside the process is an argument: the clock, the
  random source and the generator of math/rand, the Unicode tables, the audio device and the
  lock backend failing or not, the bytes of crypto/rand, SHA-256 and HMAC, and, for the
  database, \<open>d_net\<close>: for each statement whether its reply arrives, it is not sent, or it runs and
  the reply is lost. The clients of foreign services take the answer to each request as a function
  of its number and the request, and the decoding of response bodies; the handlers of the admin
  API take what these clients return. The boot takes the environment variables, the files and
  whether Redis and Postgres answer (\<open>bootEnv\<close>), the certificates take the cryptography and
  PEM (\<open>certEnv\<close>, laws \<open>certLaws\<close>).

  Not modelled. The JSON text of messages and request bodies, which are data here, and the
  decoding of responses, which is a parameter; the set-up and the accept loops of the QUIC, HTTP/3,
  WebTransport and WebSocket libraries, the HTTP listener and the signal handling of main; the
  opening and closing of connection pools; logging; deps.go, which only pins imports; test
  helpers; the web front end. One request at a time is run by the admin API; the statement-level
  relations do not depend on this, the theorems on single requests do. A client of a foreign
  service is one sequence of requests, except for the token refresh. When the idle timer has
  decided to close, the close itself and the read error it causes are separate events.
\<close>

end
